(* ===== verification/Js_Base.thy ===== *)
theory Js_Base
  imports Complex_Main "HOL-Library.AList" "HOL-Library.Word"
begin

text \<open>
  The values of the language the client is written in, as far as the modelled code uses
  them, and the string operations of its standard library. A value (\<open>jv\<close>) is undefined,
  null, a boolean, a number, NaN, a string, an array, an object or an \<open>ArrayBuffer\<close> of bytes. An object keeps its
  members in insertion order, as \<open>Object.keys\<close> lists them (keys that look like array
  indices, which the language sorts first, do not occur in the modelled objects).

  Numbers are exact rationals: ids, roles, counts and timestamps are integers far below
  \<open>2 ^ 53\<close>, where binary64 is exact; rounding, the infinities and the negative zero are not
  modelled. Characters are code units up to 255; the user-interface literals of the source,
  which are Chinese i18n keys, are written by an English rendering of the text.
\<close>

section \<open>Collections of rules\<close>

named_theorems js_simps \<open>evaluation of values, strings and property access\<close>

section \<open>Strings\<close>

definition starts_with :: "'a list \<Rightarrow> 'a list \<Rightarrow> bool" where
  "starts_with p s = (take (length p) s = p)"

definition ends_with :: "'a list \<Rightarrow> 'a list \<Rightarrow> bool" where
  "ends_with p s = (length p \<le> length s \<and> drop (length s - length p) s = p)"

text \<open>\<open>s.indexOf(p)\<close>: the first position, \<open>None\<close> for the -1 of the source.\<close>

fun index_of :: "'a list \<Rightarrow> 'a list \<Rightarrow> nat option" where
  "index_of p [] = (if p = [] then Some 0 else None)"
| "index_of p (x # xs) =
     (if starts_with p (x # xs) then Some 0 else map_option Suc (index_of p xs))"

text \<open>\<open>s.lastIndexOf(p)\<close>.\<close>

fun last_index_of :: "'a list \<Rightarrow> 'a list \<Rightarrow> nat option" where
  "last_index_of p [] = (if p = [] then Some 0 else None)"
| "last_index_of p (x # xs) =
     (case last_index_of p xs of
        Some i \<Rightarrow> Some (Suc i)
      | None \<Rightarrow> if starts_with p (x # xs) then Some 0 else None)"

definition str_includes :: "'a list \<Rightarrow> 'a list \<Rightarrow> bool" where
  "str_includes s p = (index_of p s \<noteq> None)"

text \<open>White space removed by \<open>trim\<close>, restricted to code units up to 255.\<close>

definition is_ws :: "char \<Rightarrow> bool" where
  "is_ws c = (let n = (of_char c :: nat) in (9 \<le> n \<and> n \<le> 13) \<or> n = 32 \<or> n = 160)"

definition trim :: "string \<Rightarrow> string" where
  "trim s = rev (dropWhile is_ws (rev (dropWhile is_ws s)))"

definition lower_char :: "char \<Rightarrow> char" where
  "lower_char c = (let n = (of_char c :: nat) in
     if (65 \<le> n \<and> n \<le> 90) \<or> (192 \<le> n \<and> n \<le> 222 \<and> n \<noteq> 215) then char_of (n + 32) else c)"

definition to_lower :: "string \<Rightarrow> string" where
  "to_lower = List.map lower_char"

fun join_with :: "'a list \<Rightarrow> 'a list list \<Rightarrow> 'a list" where
  "join_with sep [] = []"
| "join_with sep [x] = x"
| "join_with sep (x # y # ys) = x @ sep @ join_with sep (y # ys)"

text \<open>\<open>s.split(c)\<close> for a one-character separator.\<close>

fun split_on :: "'a \<Rightarrow> 'a list \<Rightarrow> 'a list list" where
  "split_on c [] = [[]]"
| "split_on c (x # xs) =
     (if x = c then [] # split_on c xs
      else (case split_on c xs of [] \<Rightarrow> [[x]] | w # ws \<Rightarrow> (x # w) # ws))"

definition replace_char :: "'a \<Rightarrow> 'a \<Rightarrow> 'a list \<Rightarrow> 'a list" where
  "replace_char a b = List.map (\<lambda>c. if c = a then b else c)"

lemma starts_with_Nil [simp]: "starts_with [] s"
  by (simp add: starts_with_def)

lemma starts_with_Cons_Nil [simp]: "\<not> starts_with (x # p) []"
  by (simp add: starts_with_def)

lemma starts_with_Cons [simp]: "starts_with (x # p) (y # s) = (x = y \<and> starts_with p s)"
  by (auto simp: starts_with_def)

lemma starts_with_append [simp]: "starts_with p (p @ s)"
  by (simp add: starts_with_def)

lemma starts_with_iff: "starts_with p s \<longleftrightarrow> (\<exists>t. s = p @ t)"
  by (metis append_take_drop_id starts_with_append starts_with_def)

lemma starts_with_length: "starts_with p s \<Longrightarrow> length p \<le> length s"
  by (auto simp: starts_with_iff)

lemma index_of_Some: "index_of p s = Some i \<Longrightarrow> starts_with p (drop i s)"
  by (induction s arbitrary: i) (auto split: if_splits)

lemma index_of_bound: "index_of p s = Some i \<Longrightarrow> i + length p \<le> length s"
proof (induction s arbitrary: i)
  case Nil
  then show ?case by (auto split: if_splits)
next
  case (Cons x xs)
  then show ?case by (auto dest: starts_with_length split: if_splits)
qed

lemma index_of_split: "index_of p s = Some i \<Longrightarrow> s = take i s @ p @ drop (i + length p) s"
  by (metis add.commute append_take_drop_id drop_drop index_of_Some starts_with_def)

lemma split_on_not_Nil [simp]: "split_on c s \<noteq> []"
  by (induction s) (auto split: list.splits)

lemma join_split_on: "join_with [c] (split_on c s) = s"
proof (induction s)
  case Nil
  then show ?case by simp
next
  case (Cons x s)
  obtain w ws where "split_on c s = w # ws" by (meson neq_Nil_conv split_on_not_Nil)
  with Cons show ?case by (cases ws) auto
qed

section \<open>Values\<close>

datatype jv =
    JUndef | JNull | JBool bool | JNum rat | JNaN | JStr string
  | JArr "jv list" | JObj "(string \<times> jv) list" | JBuf "8 word list"

text \<open>\<open>Boolean(v)\<close>: the value as a condition.\<close>

fun truthy :: "jv \<Rightarrow> bool" where
  "truthy JUndef = False"
| "truthy JNull = False"
| "truthy (JBool b) = b"
| "truthy (JNum n) = (n \<noteq> 0)"
| "truthy JNaN = False"
| "truthy (JStr s) = (s \<noteq> [])"
| "truthy (JArr _) = True"
| "truthy (JObj _) = True"
| "truthy (JBuf _) = True"

fun type_of :: "jv \<Rightarrow> string" where
  "type_of JUndef = ''undefined''"
| "type_of JNull = ''object''"
| "type_of (JBool _) = ''boolean''"
| "type_of (JNum _) = ''number''"
| "type_of JNaN = ''number''"
| "type_of (JStr _) = ''string''"
| "type_of (JArr _) = ''object''"
| "type_of (JObj _) = ''object''"
| "type_of (JBuf _) = ''object''"

definition nullish :: "jv \<Rightarrow> bool" where
  "nullish v = (v = JUndef \<or> v = JNull)"

definition is_array :: "jv \<Rightarrow> bool" where
  "is_array v = (case v of JArr _ \<Rightarrow> True | _ \<Rightarrow> False)"

text \<open>\<open>a || b\<close>, \<open>a && b\<close> and \<open>a ?? b\<close> on values.\<close>

definition jor :: "jv \<Rightarrow> jv \<Rightarrow> jv" where
  "jor a b = (if truthy a then a else b)"

definition jand :: "jv \<Rightarrow> jv \<Rightarrow> jv" where
  "jand a b = (if truthy a then b else a)"

definition jcoalesce :: "jv \<Rightarrow> jv \<Rightarrow> jv" where
  "jcoalesce a b = (if nullish a then b else a)"

text \<open>
  \<open>a === b\<close> where neither side is an array, object or buffer (those compare by identity, which
  values here do not have); NaN differs from itself.
\<close>

fun strict_eq :: "jv \<Rightarrow> jv \<Rightarrow> bool" where
  "strict_eq JNaN JNaN = False"
| "strict_eq (JArr _) _ = False"
| "strict_eq (JObj _) _ = False"
| "strict_eq (JBuf _) _ = False"
| "strict_eq a b = (a = b)"

section \<open>Members of objects\<close>

definition members :: "jv \<Rightarrow> (string \<times> jv) list" where
  "members v = (case v of JObj ms \<Rightarrow> ms | _ \<Rightarrow> [])"

definition obj_keys :: "jv \<Rightarrow> string list" where
  "obj_keys v = List.map fst (members v)"

text \<open>\<open>v?.k\<close>: undefined on undefined, null, a missing member and a value without members.\<close>

definition opt_get :: "jv \<Rightarrow> string \<Rightarrow> jv" where
  "opt_get v k = (case map_of (members v) k of Some x \<Rightarrow> x | None \<Rightarrow> JUndef)"

text \<open>\<open>{...v, k: x}\<close> and the assignment \<open>v[k] = x\<close> on an object.\<close>

definition obj_set :: "jv \<Rightarrow> string \<Rightarrow> jv \<Rightarrow> jv" where
  "obj_set v k x = JObj (AList.update k x (members v))"

text \<open>\<open>{...a, ...b}\<close>.\<close>

definition obj_spread :: "jv \<Rightarrow> (string \<times> jv) list \<Rightarrow> jv" where
  "obj_spread v kvs = fold (\<lambda>(k, x) o'. obj_set o' k x) kvs (JObj (members v))"

definition obj_delete :: "jv \<Rightarrow> string \<Rightarrow> jv" where
  "obj_delete v k = JObj (AList.delete k (members v))"

lemma members_simps [simp]:
  "members (JObj ms) = ms" "members JUndef = []" "members JNull = []"
  "members (JStr s) = []" "members (JNum n) = []" "members (JBool b) = []"
  "members (JArr vs) = []" "members JNaN = []" "members (JBuf bs) = []"
  by (simp_all add: members_def)

lemma opt_get_simps [simp]:
  "opt_get JUndef k = JUndef" "opt_get JNull k = JUndef" "opt_get (JStr s) k = JUndef"
  "opt_get (JNum n) k = JUndef" "opt_get (JBool b) k = JUndef" "opt_get (JArr vs) k = JUndef"
  "opt_get (JBuf bs) k = JUndef" "opt_get JNaN k = JUndef"
  "opt_get (JObj []) k = JUndef"
  "opt_get (JObj ((k', x) # ms)) k = (if k = k' then x else opt_get (JObj ms) k)"
  by (simp_all add: opt_get_def)

lemma opt_get_obj_set: "opt_get (obj_set v k x) j = (if j = k then x else opt_get v j)"
  by (simp add: opt_get_def obj_set_def update_conv')

lemma obj_set_simps [simp]:
  "obj_set (JObj []) k x = JObj [(k, x)]"
  "obj_set JUndef k x = JObj [(k, x)]"
  "obj_set (JObj ((j, y) # ms)) k x =
     (if j = k then JObj ((k, x) # ms) else JObj ((j, y) # members (obj_set (JObj ms) k x)))"
  by (simp_all add: obj_set_def)

lemma opt_get_obj_delete:
  "opt_get (obj_delete v k) j = (if j = k then JUndef else opt_get v j)"
  by (auto simp: opt_get_def obj_delete_def delete_conv' split: option.splits)

lemma nullish_simps [simp]:
  "nullish JUndef" "nullish JNull" "\<not> nullish (JBool b)" "\<not> nullish (JNum n)"
  "\<not> nullish (JStr s)" "\<not> nullish (JArr vs)" "\<not> nullish (JObj ms)" "\<not> nullish JNaN" "\<not> nullish (JBuf bs)"
  by (simp_all add: nullish_def)

lemma is_array_simps [simp]:
  "is_array (JArr vs)" "\<not> is_array JUndef" "\<not> is_array JNull" "\<not> is_array (JStr s)"
  "\<not> is_array (JObj ms)" "\<not> is_array (JNum n)" "\<not> is_array (JBool b)"
  by (simp_all add: is_array_def)

lemma truthy_jor [simp]: "truthy (jor a b) = (truthy a \<or> truthy b)"
  by (simp add: jor_def)

lemma truthy_jand [simp]: "truthy (jand a b) = (truthy a \<and> truthy b)"
  by (simp add: jand_def)

lemma truthy_not_nullish: "truthy v \<Longrightarrow> \<not> nullish v"
  by (cases v) auto

section \<open>Conversion to strings\<close>

definition digit_char :: "nat \<Rightarrow> char" where
  "digit_char d = char_of (48 + d)"

fun nat_digits :: "nat \<Rightarrow> string" where
  "nat_digits n = (if n < 10 then [digit_char n] else nat_digits (n div 10) @ [digit_char (n mod 10)])"

declare nat_digits.simps [simp del]

definition int_str :: "int \<Rightarrow> string" where
  "int_str i = (if i < 0 then CHR ''-'' # nat_digits (nat (- i)) else nat_digits (nat i))"

text \<open>
  The fraction digits of a decimal: \<open>fuel\<close> bounds their number. Integers, the only numbers
  the theorems convert, need none.
\<close>

fun frac_digits :: "nat \<Rightarrow> rat \<Rightarrow> string" where
  "frac_digits 0 x = []"
| "frac_digits (Suc fuel) x =
     (if x = 0 then []
      else digit_char (nat \<lfloor>10 * x\<rfloor>) # frac_digits fuel (10 * x - of_int \<lfloor>10 * x\<rfloor>))"

definition num_str :: "rat \<Rightarrow> string" where
  "num_str r = (if r = of_int \<lfloor>r\<rfloor> then int_str \<lfloor>r\<rfloor>
     else (if r < 0 then ''-'' else []) @ int_str \<lfloor>\<bar>r\<bar>\<rfloor> @ ''.''
        @ frac_digits 17 (\<bar>r\<bar> - of_int \<lfloor>\<bar>r\<bar>\<rfloor>))"

text \<open>\<open>String(v)\<close>, the conversion of template literals and of \<open>localStorage.setItem\<close>.\<close>

fun to_str :: "jv \<Rightarrow> string" and elem_strs :: "jv list \<Rightarrow> string list" where
  "to_str JUndef = ''undefined''"
| "to_str JNull = ''null''"
| "to_str (JBool b) = (if b then ''true'' else ''false'')"
| "to_str (JNum r) = num_str r"
| "to_str JNaN = ''NaN''"
| "to_str (JStr s) = s"
| "to_str (JArr vs) = join_with '','' (elem_strs vs)"
| "to_str (JObj _) = ''[object Object]''"
| "to_str (JBuf _) = ''[object ArrayBuffer]''"
| "elem_strs [] = []"
| "elem_strs (v # vs) = (if nullish v then [] else to_str v) # elem_strs vs"

lemma num_str_of_int [simp]: "num_str (of_int i) = int_str i"
  by (simp add: num_str_def)

lemma nat_digits_not_Nil [simp]: "nat_digits n \<noteq> []"
  by (subst nat_digits.simps) simp


section \<open>Interfaces shared by the components\<close>

text \<open>An encoding with a decoder that inverts it on the values it is used for.\<close>

locale codec =
  fixes enc :: "'a \<Rightarrow> 'b" and dec :: "'b \<Rightarrow> 'a option" and good :: "'a \<Rightarrow> bool"
  assumes dec_enc: "good x \<Longrightarrow> dec (enc x) = Some x"
begin

lemma enc_inject:
  assumes "good x" and "good y" and "enc x = enc y"
  shows "x = y"
  by (metis assms dec_enc option.inject)

end

text \<open>
  A keyed store: what a read gives after a write. Members of objects and \<open>localStorage\<close>
  are both of this kind.
\<close>

locale keyed_store =
  fixes lookup :: "'s \<Rightarrow> 'k \<Rightarrow> 'v" and put :: "'k \<Rightarrow> 'v \<Rightarrow> 's \<Rightarrow> 's"
  assumes lookup_put: "lookup (put k v s) j = (if j = k then v else lookup s j)"
begin

definition put_all :: "('k \<times> 'v) list \<Rightarrow> 's \<Rightarrow> 's" where
  "put_all kvs s = fold (\<lambda>(k, v). put k v) kvs s"

lemma lookup_put_all_other: "j \<notin> fst ` set kvs \<Longrightarrow> lookup (put_all kvs s) j = lookup s j"
  by (induction kvs arbitrary: s) (auto simp: put_all_def lookup_put)

lemma lookup_put_all:
  "distinct (List.map fst kvs) \<Longrightarrow> (j, v) \<in> set kvs \<Longrightarrow> lookup (put_all kvs s) j = v"
proof (induction kvs arbitrary: s)
  case Nil
  then show ?case by simp
next
  case (Cons kv kvs)
  obtain k x where kv: "kv = (k, x)" by (cases kv)
  have step: "put_all (kv # kvs) s = put_all kvs (put k x s)" by (simp add: put_all_def kv)
  show ?case
  proof (cases "j = k")
    case True
    then have "j \<notin> fst ` set kvs" "v = x"
      using Cons.prems kv by (auto simp: image_iff)
    then show ?thesis using lookup_put_all_other step True by (simp add: lookup_put)
  next
    case False
    then show ?thesis using Cons step kv by auto
  qed
qed

end

interpretation members: keyed_store opt_get "\<lambda>k x v. obj_set v k x"
  by unfold_locales (rule opt_get_obj_set)

lemma obj_spread_put_all: "obj_spread v kvs = members.put_all kvs (JObj (members v))"
  by (simp add: obj_spread_def members.put_all_def)

text \<open>What a spread leaves of the base and what it takes from the new members.\<close>

lemma opt_get_JObj_members [simp]: "opt_get (JObj (members v)) k = opt_get v k"
  by (simp add: opt_get_def)

lemma opt_get_obj_spread_other: "k \<notin> fst ` set kvs \<Longrightarrow> opt_get (obj_spread v kvs) k = opt_get v k"
  by (simp add: obj_spread_put_all members.lookup_put_all_other)

lemma opt_get_obj_spread:
  "distinct (List.map fst kvs) \<Longrightarrow> (k, x) \<in> set kvs \<Longrightarrow> opt_get (obj_spread v kvs) k = x"
  by (simp add: obj_spread_put_all members.lookup_put_all)

text \<open>An object built by one assignment per key, as the loops over \<open>Object.keys\<close> do.\<close>

lemma opt_get_fold_set:
  "opt_get (fold (\<lambda>k v. if P k then obj_set v k (f k) else v) ks v0) j =
     (if j \<in> set ks \<and> P j then f j else opt_get v0 j)"
  by (induction ks arbitrary: v0) (auto simp: opt_get_obj_set)

lemma opt_get_fold_set_all:
  "opt_get (fold (\<lambda>k v. obj_set v k (f k)) ks v0) j = (if j \<in> set ks then f j else opt_get v0 j)"
  using opt_get_fold_set[of "\<lambda>_. True"] by simp

lemma opt_get_no_key: "k \<notin> set (obj_keys v) \<Longrightarrow> opt_get v k = JUndef"
  by (auto simp: opt_get_def obj_keys_def map_of_eq_None_iff split: option.split)
     (metis domI domIff map_of_eq_None_iff)

end
