(* ===== verification/Json.thy ===== *)
theory Json
  imports Js_Base
begin

text \<open>
  \<open>JSON.stringify\<close> and \<open>JSON.parse\<close>, the two library functions through which the client
  keeps values in \<open>localStorage\<close> and reads module configurations. The parser is recursive
  descent; its fuel is the length of the text plus one, and every nested call is made after at
  least one character, so it never runs out (\<open>json_roundtrip\<close>).
\<close>

section \<open>Printing\<close>

definition hex_digit :: "nat \<Rightarrow> char" where
  "hex_digit d = (if d < 10 then char_of (48 + d) else char_of (87 + d))"

definition esc_char :: "char \<Rightarrow> string" where
  "esc_char c = (let n = (of_char c :: nat) in
     if n = 34 \<or> n = 92 then [CHR 0x5C, c]
     else if n = 8 then [CHR 0x5C, CHR ''b''] else if n = 12 then [CHR 0x5C, CHR ''f'']
     else if n = 10 then [CHR 0x5C, CHR ''n''] else if n = 13 then [CHR 0x5C, CHR ''r'']
     else if n = 9 then [CHR 0x5C, CHR ''t'']
     else if n < 32 then [CHR 0x5C, CHR ''u'', CHR ''0'', CHR ''0'', hex_digit (n div 16), hex_digit (n mod 16)]
     else [c])"

definition json_quote :: "string \<Rightarrow> string" where
  "json_quote s = CHR 0x22 # concat (List.map esc_char s) @ [CHR 0x22]"

text \<open>
  The text of a value inside a container: undefined is null in an array and is left out of
  an object, NaN is null.
\<close>

fun js_text :: "jv \<Rightarrow> string" and js_elems :: "jv list \<Rightarrow> string list"
  and js_members :: "(string \<times> jv) list \<Rightarrow> string list" where
  "js_text JUndef = ''null''"
| "js_text JNull = ''null''"
| "js_text (JBool b) = (if b then ''true'' else ''false'')"
| "js_text (JNum r) = num_str r"
| "js_text JNaN = ''null''"
| "js_text (JStr s) = json_quote s"
| "js_text (JArr vs) = CHR ''['' # join_with '','' (js_elems vs) @ '']''"
| "js_text (JObj ms) = CHR ''{'' # join_with '','' (js_members ms) @ ''}''"
| "js_text (JBuf _) = ''{}''"
| "js_elems [] = []"
| "js_elems (v # vs) = js_text v # js_elems vs"
| "js_members [] = []"
| "js_members ((k, v) # ms) =
     (if v = JUndef then js_members ms else (json_quote k @ '':'' @ js_text v) # js_members ms)"

text \<open>\<open>JSON.stringify(v)\<close>: undefined itself gives undefined.\<close>

definition json_stringify :: "jv \<Rightarrow> jv" where
  "json_stringify v = (if v = JUndef then JUndef else JStr (js_text v))"

section \<open>Parsing\<close>

definition json_ws :: "char \<Rightarrow> bool" where
  "json_ws c = (of_char c \<in> {9, 10, 13, 32 :: nat})"

definition skip_ws :: "string \<Rightarrow> string" where
  "skip_ws = dropWhile json_ws"

definition is_digit :: "char \<Rightarrow> bool" where
  "is_digit c = (48 \<le> (of_char c :: nat) \<and> (of_char c :: nat) \<le> 57)"

definition digits_val :: "string \<Rightarrow> nat" where
  "digits_val ds = foldl (\<lambda>n c. 10 * n + (of_char c - 48)) 0 ds"

definition hex_val :: "char \<Rightarrow> nat option" where
  "hex_val c = (let n = (of_char c :: nat) in
     if 48 \<le> n \<and> n \<le> 57 then Some (n - 48)
     else if 97 \<le> n \<and> n \<le> 102 then Some (n - 87)
     else if 65 \<le> n \<and> n \<le> 70 then Some (n - 55) else None)"

definition p_frac :: "string \<Rightarrow> (rat \<times> string) option" where
  "p_frac s = (case s of [] \<Rightarrow> Some (0, s)
     | c # t \<Rightarrow> if c \<noteq> CHR ''.'' then Some (0, s)
        else (let ds = takeWhile is_digit t in
          if ds = [] then None
          else Some (of_nat (digits_val ds) / 10 ^ length ds, dropWhile is_digit t)))"

definition p_exp :: "string \<Rightarrow> (rat \<times> string) option" where
  "p_exp s = (case s of [] \<Rightarrow> Some (1, s)
     | c # t \<Rightarrow> if c \<noteq> CHR ''e'' \<and> c \<noteq> CHR ''E'' then Some (1, s)
        else (let neg = (t \<noteq> [] \<and> hd t = CHR ''-'');
                  t' = (if t \<noteq> [] \<and> (hd t = CHR ''-'' \<or> hd t = CHR ''+'') then tl t else t);
                  ds = takeWhile is_digit t' in
          if ds = [] then None
          else Some (if neg then 1 / 10 ^ digits_val ds else 10 ^ digits_val ds, dropWhile is_digit t')))"

definition p_number :: "string \<Rightarrow> (jv \<times> string) option" where
  "p_number s =
     (let neg = (s \<noteq> [] \<and> hd s = CHR ''-''); s1 = (if neg then tl s else s);
          ds = takeWhile is_digit s1; s2 = dropWhile is_digit s1 in
      if ds = [] \<or> (hd ds = CHR ''0'' \<and> 1 < length ds) then None
      else case p_frac s2 of None \<Rightarrow> None
      | Some (f, s3) \<Rightarrow> (case p_exp s3 of None \<Rightarrow> None
        | Some (e, s4) \<Rightarrow> Some (JNum ((if neg then -1 else 1) * (of_nat (digits_val ds) + f) * e), s4)))"

text \<open>The rest of a string literal after its opening quote.\<close>

fun p_chars :: "string \<Rightarrow> (string \<times> string) option" where
  "p_chars [] = None"
| "p_chars (c # s) =
     (if c = CHR 0x22 then Some ([], s)
      else if c = CHR 0x5C then
        (case s of [] \<Rightarrow> None
         | e # t \<Rightarrow>
            if e = CHR ''u'' then
              (case t of h1 # h2 # h3 # h4 # t' \<Rightarrow>
                 (case (hex_val h1, hex_val h2, hex_val h3, hex_val h4) of
                    (Some a, Some b, Some d, Some f) \<Rightarrow>
                      if a = 0 \<and> b = 0 then map_option (\<lambda>(cs, r). (char_of (16 * d + f) # cs, r)) (p_chars t')
                      else None
                  | _ \<Rightarrow> None)
               | _ \<Rightarrow> None)
            else
              (case map_of [(CHR 0x22, CHR 0x22), (CHR 0x5C, CHR 0x5C), (CHR ''/'', CHR ''/''),
                   (CHR ''b'', CHR 0x08), (CHR ''f'', CHR 0x0C), (CHR ''n'', CHR 0x0A),
                   (CHR ''r'', CHR 0x0D), (CHR ''t'', CHR 0x09)] e of
                 None \<Rightarrow> None
               | Some x \<Rightarrow> map_option (\<lambda>(cs, r). (x # cs, r)) (p_chars t)))
      else if (of_char c :: nat) < 32 then None
      else map_option (\<lambda>(cs, r). (c # cs, r)) (p_chars s))"

definition p_lit :: "string \<Rightarrow> jv \<Rightarrow> string \<Rightarrow> (jv \<times> string) option" where
  "p_lit w v s = (if starts_with w s then Some (v, drop (length w) s) else None)"

fun p_value :: "nat \<Rightarrow> string \<Rightarrow> (jv \<times> string) option"
  and p_elems :: "nat \<Rightarrow> string \<Rightarrow> (jv list \<times> string) option"
  and p_members :: "nat \<Rightarrow> string \<Rightarrow> (string \<times> jv) list \<Rightarrow> ((string \<times> jv) list \<times> string) option" where
  "p_value 0 s = None"
| "p_value (Suc f) s = (case skip_ws s of [] \<Rightarrow> None
     | c # t \<Rightarrow>
        if c = CHR 0x22 then map_option (\<lambda>(cs, r). (JStr cs, r)) (p_chars t)
        else if c = CHR ''['' then
          (if skip_ws t \<noteq> [] \<and> hd (skip_ws t) = CHR '']'' then Some (JArr [], tl (skip_ws t))
           else map_option (\<lambda>(vs, r). (JArr vs, r)) (p_elems f t))
        else if c = CHR ''{'' then
          (if skip_ws t \<noteq> [] \<and> hd (skip_ws t) = CHR ''}'' then Some (JObj [], tl (skip_ws t))
           else map_option (\<lambda>(ms, r). (JObj ms, r)) (p_members f t []))
        else if c = CHR ''t'' then p_lit ''true'' (JBool True) (c # t)
        else if c = CHR ''f'' then p_lit ''false'' (JBool False) (c # t)
        else if c = CHR ''n'' then p_lit ''null'' JNull (c # t)
        else p_number (c # t))"
| "p_elems 0 s = None"
| "p_elems (Suc f) s = (case p_value f s of None \<Rightarrow> None
     | Some (v, r) \<Rightarrow> (case skip_ws r of [] \<Rightarrow> None
        | c # t \<Rightarrow> if c = CHR '','' then map_option (\<lambda>(vs, r'). (v # vs, r')) (p_elems f t)
                  else if c = CHR '']'' then Some ([v], t) else None))"
| "p_members 0 s acc = None"
| "p_members (Suc f) s acc = (case skip_ws s of [] \<Rightarrow> None
     | q # t0 \<Rightarrow> if q \<noteq> CHR 0x22 then None else
        (case p_chars t0 of None \<Rightarrow> None
         | Some (k, r0) \<Rightarrow> (case skip_ws r0 of [] \<Rightarrow> None
            | c0 # t1 \<Rightarrow> if c0 \<noteq> CHR '':'' then None else
               (case p_value f t1 of None \<Rightarrow> None
                | Some (v, r) \<Rightarrow> (case skip_ws r of [] \<Rightarrow> None
                   | c # t \<Rightarrow> if c = CHR '','' then p_members f t (AList.update k v acc)
                             else if c = CHR ''}'' then Some (AList.update k v acc, t) else None)))))"

text \<open>\<open>JSON.parse(s)\<close>: \<open>None\<close> is the SyntaxError.\<close>

definition json_parse :: "string \<Rightarrow> jv option" where
  "json_parse s = (case p_value (Suc (length s)) s of
     Some (v, r) \<Rightarrow> if skip_ws r = [] then Some v else None
   | None \<Rightarrow> None)"

section \<open>Round trip\<close>

text \<open>The values the round trip is about: what a reply body or a stored record can be.\<close>

fun json_ok :: "jv \<Rightarrow> bool" where
  "json_ok JUndef = False"
| "json_ok JNull = True"
| "json_ok (JBool _) = True"
| "json_ok (JNum r) = (r = of_int \<lfloor>r\<rfloor>)"
| "json_ok JNaN = False"
| "json_ok (JStr _) = True"
| "json_ok (JArr vs) = (\<forall>v \<in> set vs. json_ok v)"
| "json_ok (JBuf _) = False"
| "json_ok (JObj ms) = (distinct (List.map fst ms) \<and> (\<forall>m \<in> set ms. json_ok (snd m)))"


lemma char_eq_of_char: "(of_char c :: nat) = n \<Longrightarrow> c = char_of n"
  by auto

lemma hex_val_digit: "d < 16 \<Longrightarrow> hex_val (hex_digit d) = Some d"
  by (auto simp: hex_val_def hex_digit_def Let_def)

lemma p_chars_plain:
  "c \<noteq> CHR 0x22 \<Longrightarrow> c \<noteq> CHR 0x5C \<Longrightarrow> 32 \<le> (of_char c :: nat) \<Longrightarrow>
   p_chars (c # t) = map_option (\<lambda>(cs, r). (c # cs, r)) (p_chars t)"
  by simp

lemma p_chars_u:
  assumes "(of_char c :: nat) < 32"
  shows "p_chars ([CHR 0x5C, CHR ''u'', CHR ''0'', CHR ''0'', hex_digit (of_char c div 16), hex_digit (of_char c mod 16)] @ t)
    = map_option (\<lambda>(cs, r). (c # cs, r)) (p_chars t)"
proof -
  have "hex_val (hex_digit (of_char c div 16)) = Some (of_char c div 16)"
    and "hex_val (hex_digit (of_char c mod 16)) = Some (of_char c mod 16)"
    using assms by (auto intro!: hex_val_digit)
  moreover have "hex_val CHR ''0'' = Some 0" by (simp add: hex_val_def)
  ultimately show ?thesis by simp
qed

lemma p_chars_esc: "p_chars (esc_char c @ t) = map_option (\<lambda>(cs, r). (c # cs, r)) (p_chars t)"
proof -
  define n where "n = (of_char c :: nat)"
  have c: "c = char_of n" by (simp add: n_def)
  consider "n \<in> {34, 92, 8, 12, 10, 13, 9}" | "n < 32" "n \<notin> {8, 12, 10, 13, 9}" | "32 \<le> n" "n \<noteq> 34" "n \<noteq> 92"
    by fastforce
  then show ?thesis
  proof cases
    case 1
    then have "c \<in> {CHR 0x22, CHR 0x5C, CHR 0x08, CHR 0x0C, CHR 0x0A, CHR 0x0D, CHR 0x09}"
      unfolding c by (auto simp: char_of_eq_iff)
    then show ?thesis by (elim insertE emptyE) (simp_all add: esc_char_def)
  next
    case 2
    then have "esc_char c = [CHR 0x5C, CHR ''u'', CHR ''0'', CHR ''0'', hex_digit (of_char c div 16), hex_digit (of_char c mod 16)]"
      unfolding esc_char_def n_def[symmetric] Let_def by auto
    moreover have "(of_char c :: nat) < 32" using 2 n_def by simp
    ultimately show ?thesis using p_chars_u[of c t] by simp
  next
    case 3
    then have "esc_char c = [c]" unfolding esc_char_def n_def[symmetric] Let_def by auto
    moreover have "c \<noteq> CHR 0x22" "c \<noteq> CHR 0x5C" using 3 n_def by auto
    ultimately show ?thesis using 3 n_def by simp
  qed
qed

lemma p_chars_quote: "p_chars (concat (List.map esc_char s) @ CHR 0x22 # r) = Some (s, r)"
proof (induction s)
  case Nil
  then show ?case by simp
next
  case (Cons c s)
  have "p_chars (esc_char c @ concat (List.map esc_char s) @ CHR 0x22 # r) = Some (c # s, r)"
    unfolding p_chars_esc Cons.IH by simp
  then show ?case by simp
qed

lemma is_digit_digit_char: "d < 10 \<Longrightarrow> is_digit (digit_char d)"
  by (simp add: is_digit_def digit_char_def)

lemma digits_val_snoc: "digits_val (ds @ [c]) = 10 * digits_val ds + (of_char c - 48)"
  by (simp add: digits_val_def)

lemma nat_digits_digits: "\<forall>c \<in> set (nat_digits n). is_digit c"
proof (induction n rule: nat_digits.induct)
  case (1 n)
  then show ?case by (subst nat_digits.simps) (auto simp: is_digit_digit_char)
qed

lemma digits_val_nat_digits: "digits_val (nat_digits n) = n"
proof (induction n rule: nat_digits.induct)
  case (1 n)
  show ?case
  proof (cases "n < 10")
    case True
    then show ?thesis by (subst nat_digits.simps) (simp add: digits_val_def digit_char_def)
  next
    case False
    with 1 show ?thesis
      by (subst nat_digits.simps) (simp add: digits_val_snoc digit_char_def)
  qed
qed

lemma nat_digits_hd: "0 < n \<Longrightarrow> hd (nat_digits n) \<noteq> CHR ''0''"
proof (induction n rule: nat_digits.induct)
  case (1 n)
  show ?case
  proof (cases "n < 10")
    case True
    then have "n \<in> {1,2,3,4,5,6,7,8,9}" using 1 by auto
    then show ?thesis by (subst nat_digits.simps) (auto simp: digit_char_def char_of_eq_iff)
  next
    case False
    then have "hd (nat_digits (n div 10)) \<noteq> CHR ''0''" using 1 by simp
    with False show ?thesis by (subst nat_digits.simps) simp
  qed
qed

lemma nat_digits_0: "nat_digits 0 = ''0''"
  by (simp add: nat_digits.simps digit_char_def char_of_eq_iff)

text \<open>A number is read up to a character that cannot continue it.\<close>

definition num_stop :: "string \<Rightarrow> bool" where
  "num_stop r = (r = [] \<or> hd r \<in> set (CHR 0x0A # '',]}''))"

lemma num_stop_simps [simp]:
  "num_stop []" "num_stop (CHR '','' # r)" "num_stop (CHR '']'' # r)" "num_stop (CHR ''}'' # r)"
  by (simp_all add: num_stop_def)

lemma span_digits:
  assumes "\<forall>c \<in> set ds. is_digit c" and "num_stop r"
  shows "takeWhile is_digit (ds @ r) = ds \<and> dropWhile is_digit (ds @ r) = r"
proof -
  have "r = [] \<or> \<not> is_digit (hd r)"
    using assms(2) by (auto simp: num_stop_def is_digit_def)
  then have "takeWhile is_digit r = [] \<and> dropWhile is_digit r = r" by (cases r) auto
  then show ?thesis using assms(1) by (simp add: takeWhile_append dropWhile_append)
qed

lemma p_tail_stop: "num_stop r \<Longrightarrow> p_frac r = Some (0, r) \<and> p_exp r = Some (1, r)"
  by (cases r) (auto simp: num_stop_def p_frac_def p_exp_def)

lemma nat_digits_no_zero: "\<not> (hd (nat_digits n) = CHR ''0'' \<and> 1 < length (nat_digits n))"
  by (cases "n = 0") (auto simp: nat_digits_0 nat_digits_hd)

lemma hd_nat_digits_digit: "is_digit (hd (nat_digits n))"
  using nat_digits_digits[of n] by simp

lemma p_number_nat:
  assumes "num_stop r"
  shows "p_number (nat_digits n @ r) = Some (JNum (of_nat n), r)"
    and "p_number (CHR ''-'' # nat_digits n @ r) = Some (JNum (- of_nat n), r)"
proof -
  have sp: "takeWhile is_digit (nat_digits n @ r) = nat_digits n"
    "dropWhile is_digit (nat_digits n @ r) = r"
    using span_digits[OF nat_digits_digits assms] by auto
  have "hd (nat_digits n @ r) \<noteq> CHR ''-''"
    using hd_nat_digits_digit[of n] by (auto simp: is_digit_def)
  then show "p_number (nat_digits n @ r) = Some (JNum (of_nat n), r)"
    using sp nat_digits_no_zero[of n] p_tail_stop[OF assms]
    by (simp add: p_number_def digits_val_nat_digits Let_def)
  show "p_number (CHR ''-'' # nat_digits n @ r) = Some (JNum (- of_nat n), r)"
    using sp nat_digits_no_zero[of n] p_tail_stop[OF assms]
    by (simp add: p_number_def digits_val_nat_digits Let_def)
qed

lemma p_number_int: "num_stop r \<Longrightarrow> p_number (int_str i @ r) = Some (JNum (of_int i), r)"
  using p_number_nat[of r "nat i"] p_number_nat[of r "nat (- i)"]
  by (auto simp: int_str_def of_nat_nat)

text \<open>The first character of a printed value selects the parser's branch.\<close>

lemma int_str_head: "\<exists>c t. int_str i = c # t \<and> (c = CHR ''-'' \<or> is_digit c)"
proof (cases "i < 0")
  case False
  have "int_str i = hd (nat_digits (nat i)) # tl (nat_digits (nat i))" using False by (simp add: int_str_def)
  then show ?thesis using hd_nat_digits_digit by blast
qed (simp add: int_str_def)

lemma p_value_number:
  assumes "c = CHR ''-'' \<or> is_digit c"
  shows "p_value (Suc f) (c # t) = p_number (c # t)"
proof -
  have "\<not> json_ws c" "c \<notin> set [CHR 0x22, CHR ''['', CHR ''{'', CHR ''t'', CHR ''f'', CHR ''n'']"
    using assms by (auto simp: is_digit_def json_ws_def)
  then show ?thesis by (simp add: skip_ws_def)
qed

lemma p_value_int: "num_stop r \<Longrightarrow> p_value (Suc f) (int_str i @ r) = Some (JNum (of_int i), r)"
  using int_str_head[of i] p_number_int[of r i] by (metis append_Cons p_value_number)

definition plain_head :: "string \<Rightarrow> bool" where
  "plain_head s = (s \<noteq> [] \<and> \<not> json_ws (hd s) \<and> hd s \<noteq> CHR '']'')"

lemma plain_head_int_str: "plain_head (int_str i)"
  using int_str_head[of i] by (auto simp: plain_head_def is_digit_def json_ws_def)

lemma js_text_head: "json_ok v \<Longrightarrow> plain_head (js_text v)"
proof (cases v)
  case (JNum r)
  moreover assume "json_ok v"
  ultimately have "js_text v = int_str \<lfloor>r\<rfloor>" using num_str_of_int[of "\<lfloor>r\<rfloor>"] by simp
  then show ?thesis by (simp add: plain_head_int_str)
qed (auto simp: plain_head_def json_ws_def json_quote_def)

lemma skip_ws_plain: "plain_head s \<Longrightarrow> skip_ws (s @ r) = s @ r"
  by (cases s) (auto simp: plain_head_def skip_ws_def)

lemma skip_ws_Cons: "\<not> json_ws c \<Longrightarrow> skip_ws (c # r) = c # r"
  by (simp add: skip_ws_def)

lemma json_ws_punct [simp]:
  "\<not> json_ws CHR 0x22" "\<not> json_ws CHR ''['' " "\<not> json_ws CHR ''{''" "\<not> json_ws CHR '']''"
  "\<not> json_ws CHR ''}''" "\<not> json_ws CHR '',''" "\<not> json_ws CHR '':''"
  by (simp_all add: json_ws_def)

lemma update_new: "k \<notin> fst ` set acc \<Longrightarrow> AList.update k v acc = acc @ [(k, v)]"
  by (induction acc) auto


lemma js_text_length: "json_ok v \<Longrightarrow> 0 < length (js_text v)"
  using js_text_head[of v] by (auto simp: plain_head_def)

lemma js_members_ok:
  "\<forall>m \<in> set ms. json_ok (snd m) \<Longrightarrow> js_members ms = List.map (\<lambda>(k, v). json_quote k @ '':'' @ js_text v) ms"
  by (induction ms) auto

lemma p_members_step:
  assumes "p_value f (t @ c # r) = Some (v, c # r)" and "plain_head t" and "c = CHR '','' \<or> c = CHR ''}''"
  shows "p_members (Suc f) ((json_quote k @ '':'' @ t) @ c # r) acc =
    (if c = CHR '','' then p_members f r (AList.update k v acc) else Some (AList.update k v acc, r))"
proof -
  have "p_chars (concat (List.map esc_char k) @ CHR 0x22 # (CHR '':'' # t @ c # r)) = Some (k, CHR '':'' # t @ c # r)"
    by (rule p_chars_quote)
  then show ?thesis using assms by (auto simp: json_quote_def skip_ws_Cons)
qed

lemma p_elems_step:
  assumes "p_value f (t @ c # r) = Some (v, c # r)" and "c = CHR '','' \<or> c = CHR '']''"
  shows "p_elems (Suc f) (t @ c # r) =
    (if c = CHR '','' then map_option (\<lambda>(vs, r'). (v # vs, r')) (p_elems f r) else Some ([v], r))"
  using assms by (auto simp: skip_ws_Cons)

lemma p_value_json_text:
  "json_ok v \<Longrightarrow> length (js_text v) < f \<Longrightarrow> num_stop r \<Longrightarrow> p_value f (js_text v @ r) = Some (v, r)"
  and "\<forall>v \<in> set vs. json_ok v \<Longrightarrow> vs \<noteq> [] \<Longrightarrow> length (join_with '','' (js_elems vs)) + 1 < f \<Longrightarrow>
    p_elems f (join_with '','' (js_elems vs) @ CHR '']'' # r) = Some (vs, r)"
  and "\<forall>m \<in> set ms. json_ok (snd m) \<Longrightarrow> ms \<noteq> [] \<Longrightarrow> length (join_with '','' (js_members ms)) + 1 < f \<Longrightarrow>
    distinct (List.map fst (acc @ ms)) \<Longrightarrow>
    p_members f (join_with '','' (js_members ms) @ CHR ''}'' # r) acc = Some (acc @ ms, r)"
proof (induction v and vs and ms arbitrary: f r and f r and f r acc rule: js_text_js_elems_js_members.induct)
  case (4 n)
  then obtain g where "f = Suc g" by (cases f) auto
  moreover have "num_str n = int_str \<lfloor>n\<rfloor>" using 4 num_str_of_int[of "\<lfloor>n\<rfloor>"] by simp
  ultimately show ?case using p_value_int[of r g "\<lfloor>n\<rfloor>"] 4 by simp
next
  case (6 s)
  then obtain g where "f = Suc g" by (cases f) auto
  then show ?case using p_chars_quote[of s r] by (simp add: json_quote_def skip_ws_Cons)
next
  case (7 vs)
  then obtain g where f: "f = Suc g" by (cases f) auto
  show ?case
  proof (cases vs)
    case Nil
    then show ?thesis by (simp add: f skip_ws_Cons)
  next
    case (Cons w ws)
    then have h: "plain_head (join_with '','' (js_elems vs))"
      using 7 js_text_head[of w] by (cases "js_elems ws") (auto simp: plain_head_def hd_append)
    have "p_elems g (join_with '','' (js_elems vs) @ CHR '']'' # r) = Some (vs, r)"
      using 7 f Cons by auto
    then show ?thesis using f h skip_ws_plain[OF h, of "CHR '']'' # r"]
      by (auto simp: skip_ws_Cons plain_head_def hd_append)
  qed
next
  case (8 ms)
  then obtain g where f: "f = Suc g" by (cases f) auto
  show ?case
  proof (cases ms)
    case Nil
    then show ?thesis by (simp add: f skip_ws_Cons)
  next
    case (Cons m ms')
    have mo: "\<forall>m \<in> set ms. json_ok (snd m)" using 8 by simp
    then have h: "skip_ws (join_with '','' (js_members ms) @ CHR ''}'' # r) = join_with '','' (js_members ms) @ CHR ''}'' # r"
      "hd (join_with '','' (js_members ms) @ CHR ''}'' # r) = CHR 0x22" "join_with '','' (js_members ms) \<noteq> []"
      using js_members_ok[OF mo] Cons
      by (cases m; cases ms'; auto simp: json_quote_def skip_ws_Cons)+
    have "p_members g (join_with '','' (js_members ms) @ CHR ''}'' # r) [] = Some ([] @ ms, r)"
      using 8 f Cons by (intro "8.IH") auto
    then show ?thesis using f h by (simp add: skip_ws_Cons)
  qed
next
  case (11 v vs)
  then obtain g where f: "f = Suc g" by (cases f) auto
  have ok: "json_ok v" using 11 by simp
  show ?case
  proof (cases vs)
    case Nil
    then have "p_value g (js_text v @ CHR '']'' # r) = Some (v, CHR '']'' # r)" using 11 f by simp
    then show ?thesis using p_elems_step[of g "js_text v" "CHR '']''" r v] Nil f by simp
  next
    case (Cons w ws)
    let ?t = "join_with '','' (js_elems vs) @ CHR '']'' # r"
    have j: "join_with '','' (js_elems (v # vs)) @ CHR '']'' # r = js_text v @ CHR '','' # ?t"
      using Cons by simp
    have len: "length (join_with '','' (js_elems (v # vs))) = length (js_text v) + 1 + length (join_with '','' (js_elems vs))"
      using Cons by simp
    have "p_value g (js_text v @ CHR '','' # ?t) = Some (v, CHR '','' # ?t)"
      using 11 f len by (intro "11.IH"(1)) auto
    moreover have "p_elems g ?t = Some (vs, r)"
      using 11 f len Cons js_text_length[OF ok] by (intro "11.IH"(2)) auto
    ultimately show ?thesis unfolding j f using p_elems_step[of g "js_text v" "CHR '',''" ?t v] by simp
  qed
next
  case (13 k v ms)
  then obtain g where f: "f = Suc g" by (cases f) auto
  have ok: "json_ok v" and vu: "v \<noteq> JUndef" using 13 by auto
  have ph: "plain_head (js_text v)" using ok by (rule js_text_head)
  have up: "AList.update k v acc = acc @ [(k, v)]" using 13 by (intro update_new) auto
  show ?case
  proof (cases ms)
    case Nil
    then have "p_value g (js_text v @ CHR ''}'' # r) = Some (v, CHR ''}'' # r)"
      using 13 f vu by (intro "13.IH") (auto simp: json_quote_def)
    then show ?thesis using p_members_step[of g "js_text v" "CHR ''}''" r v k acc] Nil f up vu ph by simp
  next
    case (Cons m ms')
    let ?t = "join_with '','' (js_members ms) @ CHR ''}'' # r"
    have ne: "\<exists>y ys. js_members ms = y # ys"
      using 13 Cons by (cases m) (auto simp: js_members_ok)
    then have j: "join_with '','' (js_members ((k, v) # ms)) @ CHR ''}'' # r = (json_quote k @ '':'' @ js_text v) @ CHR '','' # ?t"
      using vu by auto
    have len: "length (join_with '','' (js_members ((k, v) # ms))) =
      length (json_quote k) + 1 + length (js_text v) + 1 + length (join_with '','' (js_members ms))"
      using vu ne by auto
    have "p_value g (js_text v @ CHR '','' # ?t) = Some (v, CHR '','' # ?t)"
      using 13 f len vu by (intro "13.IH") auto
    moreover have "p_members g ?t (acc @ [(k, v)]) = Some ((acc @ [(k, v)]) @ ms, r)"
      using 13 f len Cons vu by (intro "13.IH") auto
    ultimately show ?thesis unfolding j f
      using p_members_step[of g "js_text v" "CHR '',''" ?t v k acc] ph up by simp
  qed
next
  case 2
  then obtain g where "f = Suc g" by (cases f) auto
  then show ?case by (simp add: p_lit_def skip_ws_def json_ws_def)
next
  case (3 b)
  then obtain g where "f = Suc g" by (cases f) auto
  then show ?case by (cases b) (simp_all add: p_lit_def skip_ws_def json_ws_def)
qed simp_all

theorem json_roundtrip: "json_ok v \<Longrightarrow> json_parse (js_text v) = Some v"
  using p_value_json_text(1)[of v "Suc (length (js_text v))" "[]"]
  by (simp add: json_parse_def skip_ws_def)

interpretation json: codec js_text json_parse json_ok
  by unfold_locales (rule json_roundtrip)

corollary json_stringify_parse:
  "json_ok v \<Longrightarrow> json_stringify v = JStr (js_text v) \<and> json_parse (js_text v) = Some v"
  using json_roundtrip[of v] by (cases v) (auto simp: json_stringify_def)


section \<open>Numbers from values\<close>

text \<open>
  \<open>Number(s)\<close> on decimal text (hexadecimal text and \<open>Infinity\<close> do not occur): \<open>None\<close> is NaN.
\<close>

definition str_num :: "string \<Rightarrow> rat option" where
  "str_num s0 =
     (let s = trim s0; neg = (s \<noteq> [] \<and> hd s = CHR ''-'');
          s1 = (if s \<noteq> [] \<and> (hd s = CHR ''-'' \<or> hd s = CHR ''+'') then tl s else s);
          ds = takeWhile is_digit s1 in
      if s = [] then Some 0
      else if ds = [] then None
      else case p_frac (dropWhile is_digit s1) of None \<Rightarrow> None
      | Some (f, s3) \<Rightarrow> (case p_exp s3 of None \<Rightarrow> None
        | Some (e, s4) \<Rightarrow>
            if s4 = [] then Some ((if neg then -1 else 1) * (of_nat (digits_val ds) + f) * e) else None))"

fun to_num :: "jv \<Rightarrow> rat option" where
  "to_num JUndef = None"
| "to_num JNull = Some 0"
| "to_num (JBool b) = Some (if b then 1 else 0)"
| "to_num (JNum r) = Some r"
| "to_num JNaN = None"
| "to_num (JStr s) = str_num s"
| "to_num (JArr vs) = str_num (to_str (JArr vs))"
| "to_num (JObj _) = None"
| "to_num (JBuf _) = None"

text \<open>\<open>v >= n\<close> and \<open>v > n\<close> for a number \<open>n\<close>: false when \<open>v\<close> is no number.\<close>

definition num_ge :: "jv \<Rightarrow> rat \<Rightarrow> bool" where
  "num_ge v n = (case to_num v of Some r \<Rightarrow> n \<le> r | None \<Rightarrow> False)"

definition num_gt :: "jv \<Rightarrow> rat \<Rightarrow> bool" where
  "num_gt v n = (case to_num v of Some r \<Rightarrow> n < r | None \<Rightarrow> False)"

lemma num_cmp_simps [simp]:
  "num_ge (JNum r) n = (n \<le> r)" "num_gt (JNum r) n = (n < r)"
  "\<not> num_ge JUndef n" "\<not> num_gt JUndef n"
  by (simp_all add: num_ge_def num_gt_def)

end
