(* ===== verification/Client.thy ===== *)
theory Client
  imports Json
begin

text \<open>
  The browser side of the client, shared by every component: \<open>localStorage\<close>, the user and
  status contexts, the axios instance, and the record of what the client has done to the
  outside (requests, toasts, navigation). Sources: \<open>helpers/utils.jsx\<close>, \<open>helpers/data.js\<close>,
  \<open>helpers/api.js\<close>, \<open>context/*/reducer.js\<close>.

  Code runs in \<open>act\<close>: it takes the state and returns the value or the thrown value (an
  \<open>Inl\<close>) and the new state. Everything outside the client (the backend, the WebAuthn
  authenticator, the clipboard) is the parameter \<open>env\<close>: it answers a request given the
  whole trace of what happened before, so it can keep any state of its own.
\<close>

section \<open>The outside\<close>

datatype toast_kind = TSuccess | TInfo | TWarning | TError | TNotice

datatype http_method = GET | POST | PUT | DELETE

text \<open>A request to the outside: HTTP with its URL and its params or body, or a browser service.\<close>

datatype request =
    Http http_method string jv
  | Credential_get jv
  | Credential_create jv
  | Clipboard_write string
  | Exec_copy string
  | Passkey_probe string

datatype reply = Ok jv | Rejected jv

datatype effect =
    Requested jv request
  | Toasted toast_kind jv
  | Navigated string
  | Location_set string
  | Opened string
  | Dialog string string
  | Timer nat string
  | Dispatched string jv

type_synonym env = "effect list \<Rightarrow> request \<Rightarrow> reply"

section \<open>The state\<close>

text \<open>An axios instance: the user id in its header, and whether the error interceptor is on it.\<close>

record api_inst =
  hdr_user :: jv
  intercepts :: bool

text \<open>\<open>user_ctx\<close> and \<open>status_ctx\<close> are the \<open>user\<close> and \<open>status\<close> fields of the two React contexts.\<close>

record browser =
  store :: "string \<rightharpoonup> string"
  api :: api_inst
  user_ctx :: jv
  status_ctx :: jv
  trace :: "effect list"

section \<open>Code that can throw\<close>

type_synonym ('s, 'a) act = "'s \<Rightarrow> (jv + 'a) \<times> 's"

named_theorems act_simps \<open>unfolding of the combinators\<close>

definition ret :: "'a \<Rightarrow> ('s, 'a) act" where
  [act_simps]: "ret x s = (Inr x, s)"

definition throw :: "jv \<Rightarrow> ('s, 'a) act" where
  [act_simps]: "throw e s = (Inl e, s)"

definition bnd :: "('s, 'a) act \<Rightarrow> ('a \<Rightarrow> ('s, 'b) act) \<Rightarrow> ('s, 'b) act" where
  [act_simps]: "bnd m f s = (case m s of (Inl e, s') \<Rightarrow> (Inl e, s') | (Inr x, s') \<Rightarrow> f x s')"

definition sq :: "('s, 'a) act \<Rightarrow> ('s, 'b) act \<Rightarrow> ('s, 'b) act" where
  [act_simps]: "sq m n s = (case m s of (Inl e, s') \<Rightarrow> (Inl e, s') | (Inr x, s') \<Rightarrow> n s')"

definition try_catch :: "('s, 'a) act \<Rightarrow> (jv \<Rightarrow> ('s, 'a) act) \<Rightarrow> ('s, 'a) act" where
  [act_simps]: "try_catch m h s = (case m s of (Inl e, s') \<Rightarrow> h e s' | (Inr x, s') \<Rightarrow> (Inr x, s'))"

definition try_finally :: "('s, 'a) act \<Rightarrow> ('s, unit) act \<Rightarrow> ('s, 'a) act" where
  [act_simps]: "try_finally m f s =
     (case m s of (r, s') \<Rightarrow> (case f s' of (Inl e, s'') \<Rightarrow> (Inl e, s'') | (Inr _, s'') \<Rightarrow> (r, s'')))"

definition gets :: "('s \<Rightarrow> 'a) \<Rightarrow> ('s, 'a) act" where
  [act_simps]: "gets f s = (Inr (f s), s)"

definition modify :: "('s \<Rightarrow> 's) \<Rightarrow> ('s, unit) act" where
  [act_simps]: "modify f s = (Inr (), f s)"

definition act_when :: "bool \<Rightarrow> ('s, unit) act \<Rightarrow> ('s, unit) act" where
  [act_simps]: "act_when b m = (if b then m else ret ())"

fun for_each :: "'a list \<Rightarrow> ('a \<Rightarrow> ('s, unit) act) \<Rightarrow> ('s, unit) act" where
  "for_each [] f = ret ()"
| "for_each (x # xs) f = sq (f x) (for_each xs f)"

fun map_each :: "('a \<Rightarrow> ('s, 'b) act) \<Rightarrow> 'a list \<Rightarrow> ('s, 'b list) act" where
  "map_each f [] = ret []"
| "map_each f (x # xs) = bnd (f x) (\<lambda>y. bnd (map_each f xs) (\<lambda>ys. ret (y # ys)))"

lemma map_each_ret:
  assumes "\<And>x s. x \<in> set xs \<Longrightarrow> f x s = (Inr (g x), s)"
  shows "map_each f xs s = (Inr (List.map g xs), s)"
  using assms by (induction xs) (simp_all add: ret_def bnd_def)

text \<open>Final state and thrown value of a run.\<close>

definition state_of :: "(jv + 'a) \<times> 's \<Rightarrow> 's" where
  "state_of = snd"

definition returns :: "(jv + 'a) \<times> 's \<Rightarrow> bool" where
  "returns r = (case fst r of Inl _ \<Rightarrow> False | Inr _ \<Rightarrow> True)"

lemma run_simps [simp]:
  "state_of (r, s) = s" "returns (Inl e, s) = False" "returns (Inr x, s) = True"
  by (simp_all add: state_of_def returns_def)

lemma bnd_ret [simp]: "bnd (ret x) f = f x"
  by (rule ext) (simp add: act_simps)

lemma bnd_assoc: "bnd (bnd m f) g = bnd m (\<lambda>x. bnd (f x) g)"
  by (rule ext) (simp add: act_simps split: prod.splits sum.splits)

lemma sq_ret_unit [simp]: "sq (ret x) m = m"
  by (rule ext) (simp add: act_simps)

section \<open>Thrown values\<close>

definition mk_error :: "string \<Rightarrow> string \<Rightarrow> jv" where
  "mk_error name msg = JObj [(''name'', JStr name), (''message'', JStr msg)]"

definition type_error :: jv where
  "type_error = mk_error ''TypeError'' ''cannot read properties of undefined''"

definition syntax_error :: jv where
  "syntax_error = mk_error ''SyntaxError'' ''Unexpected token''"

text \<open>An axios error with a response, and one without (the network failed).\<close>

definition axios_error :: "rat \<Rightarrow> jv \<Rightarrow> string \<Rightarrow> jv" where
  "axios_error status body msg = JObj [(''name'', JStr ''AxiosError''), (''message'', JStr msg),
     (''response'', JObj [(''status'', JNum status), (''data'', body)])]"

definition network_error :: "string \<Rightarrow> jv" where
  "network_error msg = JObj [(''name'', JStr ''AxiosError''), (''message'', JStr msg)]"

text \<open>\<open>v.k\<close>: a TypeError on undefined and null.\<close>

definition prop_get :: "jv \<Rightarrow> string \<Rightarrow> ('s, jv) act" where
  [act_simps]: "prop_get v k = (if nullish v then throw type_error else ret (opt_get v k))"

text \<open>\<open>'' + v\<close>: an Error object prints its name and message.\<close>

definition display_str :: "jv \<Rightarrow> string" where
  "display_str v = (case (opt_get v ''name'', opt_get v ''message'') of
     (JStr n, JStr m) \<Rightarrow> if m = [] then n else if n = [] then m else n @ '': '' @ m
   | _ \<Rightarrow> to_str v)"

section \<open>localStorage\<close>

definition get_item :: "'x browser_scheme \<Rightarrow> string \<Rightarrow> jv" where
  "get_item s k = (case store s k of Some v \<Rightarrow> JStr v | None \<Rightarrow> JNull)"

definition set_item :: "string \<Rightarrow> jv \<Rightarrow> ('x browser_scheme, unit) act" where
  [act_simps]: "set_item k v = modify (\<lambda>s. s\<lparr>store := (store s)(k \<mapsto> to_str v)\<rparr>)"

definition remove_item :: "string \<Rightarrow> ('x browser_scheme, unit) act" where
  [act_simps]: "remove_item k = modify (\<lambda>s. s\<lparr>store := (store s)(k := None)\<rparr>)"

definition parse_json :: "jv \<Rightarrow> ('s, jv) act" where
  [act_simps]: "parse_json v = (case json_parse (to_str v) of Some x \<Rightarrow> ret x | None \<Rightarrow> throw syntax_error)"

definition emit :: "effect \<Rightarrow> ('x browser_scheme, unit) act" where
  [act_simps]: "emit e = modify (\<lambda>s. s\<lparr>trace := trace s @ [e]\<rparr>)"

section \<open>Toasts (helpers/utils.jsx)\<close>

definition showError :: "jv \<Rightarrow> ('x browser_scheme, unit) act" where
  "showError error =
     (if nullish error then throw type_error
      else if truthy (opt_get error ''message'') then
        (let text = JStr (''Error: '' @ to_str (opt_get error ''message'')) in
         if opt_get error ''name'' = JStr ''AxiosError'' then
           bnd (prop_get (opt_get error ''response'') ''status'') (\<lambda>status.
             if status = JNum 401 then sq (remove_item ''user'') (emit (Location_set ''/login?expired=true''))
             else if status = JNum 429 then emit (Toasted TError (JStr ''Error: too many requests, try again later''))
             else if status = JNum 500 then emit (Toasted TError (JStr ''Error: internal server error, contact the administrator''))
             else if status = JNum 405 then emit (Toasted TInfo (JStr ''This site is for demonstration only''))
             else emit (Toasted TError text))
         else emit (Toasted TError text))
      else emit (Toasted TError (JStr (''Error: '' @ display_str error))))"

definition showWarning :: "jv \<Rightarrow> ('x browser_scheme, unit) act" where
  [act_simps]: "showWarning m = emit (Toasted TWarning m)"

definition showSuccess :: "jv \<Rightarrow> ('x browser_scheme, unit) act" where
  [act_simps]: "showSuccess m = emit (Toasted TSuccess m)"

definition showInfo :: "jv \<Rightarrow> ('x browser_scheme, unit) act" where
  [act_simps]: "showInfo m = emit (Toasted TInfo m)"

definition showNotice :: "jv \<Rightarrow> bool \<Rightarrow> ('x browser_scheme, unit) act" where
  [act_simps]: "showNotice m isHTML = (if isHTML then emit (Toasted TNotice m) else emit (Toasted TInfo m))"

text \<open>\<open>showError\<close> on a literal of the source.\<close>

definition showErr :: "string \<Rightarrow> ('x browser_scheme, unit) act" where
  "showErr m = showError (JStr m)"

lemma showError_JStr [act_simps]:
  "showError (JStr m) = emit (Toasted TError (JStr (''Error: '' @ m)))"
  by (simp add: showError_def display_str_def)

lemma showErr_eq [act_simps]: "showErr m = emit (Toasted TError (JStr (''Error: '' @ m)))"
  by (simp add: showErr_def showError_JStr)

section \<open>The signed-in user (helpers/utils.jsx)\<close>

text \<open>The number \<open>n\<close> stands for the role threshold of the check.\<close>

definition stored_user :: "('x browser_scheme, jv) act" where
  "stored_user = bnd (gets (\<lambda>s. get_item s ''user'')) parse_json"

definition isAdmin :: "('x browser_scheme, bool) act" where
  "isAdmin = bnd (gets (\<lambda>s. get_item s ''user'')) (\<lambda>user.
     if \<not> truthy user then ret False
     else bnd (parse_json user) (\<lambda>u. bnd (prop_get u ''role'') (\<lambda>r. ret (num_ge r 10))))"

definition isRoot :: "('x browser_scheme, bool) act" where
  "isRoot = bnd (gets (\<lambda>s. get_item s ''user'')) (\<lambda>user.
     if \<not> truthy user then ret False
     else bnd (parse_json user) (\<lambda>u. bnd (prop_get u ''role'') (\<lambda>r. ret (num_ge r 100))))"

definition getSystemName :: "'x browser_scheme \<Rightarrow> jv" where
  "getSystemName s = (let system_name = get_item s ''system_name'' in
     if \<not> truthy system_name then JStr ''Auth Gateway'' else system_name)"

definition getLogo :: "'x browser_scheme \<Rightarrow> jv" where
  "getLogo s = (let logo = get_item s ''logo'' in if \<not> truthy logo then JStr ''/logo.png'' else logo)"

definition getUserIdFromLocalStorage :: "('x browser_scheme, jv) act" where
  "getUserIdFromLocalStorage = bnd (gets (\<lambda>s. get_item s ''user'')) (\<lambda>user.
     if \<not> truthy user then ret (JNum (-1))
     else bnd (parse_json user) (\<lambda>u. prop_get u ''id''))"

definition getFooterHTML :: "'x browser_scheme \<Rightarrow> jv" where
  "getFooterHTML s = get_item s ''footer_html''"

section \<open>helpers/data.js\<close>

definition setUserData :: "jv \<Rightarrow> ('x browser_scheme, unit) act" where
  [act_simps]: "setUserData data = set_item ''user'' (json_stringify data)"

definition keep_or_drop_link :: "jv \<Rightarrow> string \<Rightarrow> bool \<Rightarrow> ('x browser_scheme, unit) act" where
  "keep_or_drop_link data k stored =
     (if truthy (opt_get data k) then act_when stored (set_item k (opt_get data k)) else remove_item k)"

definition setStatusData :: "jv \<Rightarrow> ('x browser_scheme, unit) act" where
  "setStatusData data =
     sq (set_item ''status'' (json_stringify data))
       (if nullish data then throw type_error else
        sq (set_item ''system_name'' (opt_get data ''system_name''))
       (sq (set_item ''logo'' (opt_get data ''logo''))
       (sq (set_item ''footer_html'' (opt_get data ''footer_html''))
       (sq (set_item ''quota_per_unit'' (opt_get data ''quota_per_unit''))
       (sq (set_item ''display_in_currency'' (opt_get data ''display_in_currency''))
       (sq (set_item ''quota_display_type'' (jor (opt_get data ''quota_display_type'') (JStr ''USD'')))
       (sq (set_item ''enable_drawing'' (opt_get data ''enable_drawing''))
       (sq (set_item ''enable_task'' (opt_get data ''enable_task''))
       (sq (set_item ''enable_data_export'' (opt_get data ''enable_data_export''))
       (sq (set_item ''chats'' (json_stringify (opt_get data ''chats'')))
       (sq (set_item ''data_export_default_time'' (opt_get data ''data_export_default_time''))
       (sq (set_item ''default_collapse_sidebar'' (opt_get data ''default_collapse_sidebar''))
       (sq (set_item ''mj_notify_enabled'' (opt_get data ''mj_notify_enabled''))
       (sq (keep_or_drop_link data ''chat_link'' False)
       (sq (keep_or_drop_link data ''chat_link2'' False)
           (keep_or_drop_link data ''docs_link'' True))))))))))))))))"

section \<open>Context reducers\<close>

fun user_reducer :: "jv \<Rightarrow> string \<Rightarrow> jv \<Rightarrow> jv" where
  "user_reducer user type payload =
     (if type = ''login'' then payload else if type = ''logout'' then JUndef else user)"

fun status_reducer :: "jv \<Rightarrow> string \<Rightarrow> jv \<Rightarrow> jv" where
  "status_reducer status type payload =
     (if type = ''set'' then payload else if type = ''unset'' then JUndef else status)"

definition userDispatch :: "string \<Rightarrow> jv \<Rightarrow> ('x browser_scheme, unit) act" where
  [act_simps]: "userDispatch type payload = modify (\<lambda>s. s\<lparr>user_ctx := user_reducer (user_ctx s) type payload\<rparr>)"

definition statusDispatch :: "string \<Rightarrow> jv \<Rightarrow> ('x browser_scheme, unit) act" where
  [act_simps]: "statusDispatch type payload = modify (\<lambda>s. s\<lparr>status_ctx := status_reducer (status_ctx s) type payload\<rparr>)"

definition navigate :: "string \<Rightarrow> ('x browser_scheme, unit) act" where
  [act_simps]: "navigate p = emit (Navigated p)"

section \<open>The API instance (helpers/api.js)\<close>

text \<open>
  A new instance reads the user id for its header. The error interceptor is installed once,
  on the instance created when the module loads; \<open>updateAPI\<close> replaces the instance.
\<close>

definition updateAPI :: "('x browser_scheme, unit) act" where
  "updateAPI = bnd getUserIdFromLocalStorage (\<lambda>uid.
     modify (\<lambda>s. s\<lparr>api := \<lparr>hdr_user = uid, intercepts = False\<rparr>\<rparr>))"

definition initAPI :: "('x browser_scheme, unit) act" where
  "initAPI = bnd getUserIdFromLocalStorage (\<lambda>uid.
     modify (\<lambda>s. s\<lparr>api := \<lparr>hdr_user = uid, intercepts = True\<rparr>\<rparr>))"

text \<open>The response interceptor's error branch; \<open>skip\<close> is \<open>config.skipErrorHandler\<close>.\<close>

definition on_rejected :: "bool \<Rightarrow> jv \<Rightarrow> ('x browser_scheme, jv) act" where
  "on_rejected skip error = (if skip then throw error else sq (showError error) (throw error))"

text \<open>One call of the current instance: the value is \<open>res.data\<close>.\<close>

definition api_call :: "env \<Rightarrow> bool \<Rightarrow> request \<Rightarrow> ('x browser_scheme, jv) act" where
  "api_call env skip r = bnd (gets (\<lambda>s. (api s, env (trace s) r))) (\<lambda>(inst, rep).
     sq (emit (Requested (hdr_user inst) r))
        (case rep of Ok d \<Rightarrow> ret d
         | Rejected e \<Rightarrow> if intercepts inst then on_rejected skip e else throw e))"

definition api_get :: "env \<Rightarrow> string \<Rightarrow> jv \<Rightarrow> ('x browser_scheme, jv) act" where
  [act_simps]: "api_get env url params = api_call env False (Http GET url params)"

definition api_post :: "env \<Rightarrow> string \<Rightarrow> jv \<Rightarrow> ('x browser_scheme, jv) act" where
  [act_simps]: "api_post env url body = api_call env False (Http POST url body)"

text \<open>A service of the browser that is no HTTP request.\<close>

definition browser_call :: "env \<Rightarrow> request \<Rightarrow> ('x browser_scheme, jv) act" where
  "browser_call env r = bnd (gets (\<lambda>s. env (trace s) r)) (\<lambda>rep.
     sq (emit (Requested JNull r)) (case rep of Ok d \<Rightarrow> ret d | Rejected e \<Rightarrow> throw e))"

text \<open>The four bodies of a call, which the handlers' proofs rewrite with.\<close>

lemma api_call_eq [act_simps]:
  "api_call env skip r s =
     (let s' = s\<lparr>trace := trace s @ [Requested (hdr_user (api s)) r]\<rparr> in
      case env (trace s) r of Ok d \<Rightarrow> (Inr d, s')
      | Rejected e \<Rightarrow> if intercepts (api s) then on_rejected skip e s' else (Inl e, s'))"
  by (simp add: api_call_def act_simps Let_def split: reply.split)

lemma bnd_api_Ok:
  "env (trace s) r = Ok d \<Longrightarrow>
   bnd (api_call env skip r) f s = f d (s\<lparr>trace := trace s @ [Requested (hdr_user (api s)) r]\<rparr>)"
  by (simp add: bnd_def api_call_eq Let_def)

text \<open>What a call gives once its answer is there: the call is the request followed by this.\<close>

definition reply_value :: "bool \<Rightarrow> bool \<Rightarrow> reply \<Rightarrow> ('x browser_scheme, jv) act" where
  "reply_value skip intercepted rep = (case rep of Ok d \<Rightarrow> ret d
     | Rejected e \<Rightarrow> if intercepted then on_rejected skip e else throw e)"

lemma bnd_api_reply:
  "bnd (api_call env skip r) f s = bnd (reply_value skip (intercepts (api s)) (env (trace s) r)) f
     (s\<lparr>trace := trace s @ [Requested (hdr_user (api s)) r]\<rparr>)"
  by (simp add: api_call_eq bnd_def reply_value_def ret_def throw_def Let_def split: reply.split)

lemma on_rejected_throws: "\<exists>e'. on_rejected skip e s = (Inl e', snd (on_rejected skip e s))"
  by (cases "showError e s"; cases "fst (showError e s)") (auto simp: on_rejected_def act_simps)

lemma api_call_Rejected:
  "env (trace s) r = Rejected e \<Longrightarrow> \<exists>e'. api_call env skip r s = (Inl e', snd (api_call env skip r s))"
  using on_rejected_throws by (auto simp: api_call_eq Let_def)

lemma bnd_api_Rejected:
  assumes "env (trace s) r = Rejected e"
  shows "\<exists>e'. bnd (api_call env skip r) f s = (Inl e', snd (api_call env skip r s))"
proof -
  obtain e' t where c: "api_call env skip r s = (Inl e', t)"
    using api_call_Rejected[of env s r e skip, OF assms] by (cases "api_call env skip r s") auto
  show ?thesis by (rule exI[of _ e']) (simp add: bnd_def c del: api_call_eq)
qed

lemma browser_call_eq [act_simps]:
  "browser_call env r s =
     (let s' = s\<lparr>trace := trace s @ [Requested JNull r]\<rparr> in
      case env (trace s) r of Ok d \<Rightarrow> (Inr d, s') | Rejected e \<Rightarrow> (Inl e, s'))"
  by (simp add: browser_call_def act_simps Let_def split: reply.split)

lemma get_item_eq [simp]:
  "store s k = None \<Longrightarrow> get_item s k = JNull"
  "store s k = Some v \<Longrightarrow> get_item s k = JStr v"
  by (simp_all add: get_item_def)


section \<open>Relations every run respects\<close>

text \<open>
  A reflexive and transitive relation between the state before and the state after (what was
  appended to the trace, which fields are untouched) is respected by a handler as soon as its
  leaves respect it: the rules follow the combinators, so such a claim is one \<open>intro\<close>.
\<close>

locale state_rel =
  fixes R :: "'s \<Rightarrow> 's \<Rightarrow> bool"
  assumes R_refl: "R s s" and R_trans: "R s t \<Longrightarrow> R t u \<Longrightarrow> R s u"
begin

definition obeys :: "('s, 'a) act \<Rightarrow> bool" where
  "obeys m = (\<forall>s. R s (snd (m s)))"

lemma obeysD: "obeys m \<Longrightarrow> m s = (r, t) \<Longrightarrow> R s t"
  unfolding obeys_def by (metis snd_conv)

lemma obeys_ret: "obeys (ret x)"
  by (simp add: obeys_def ret_def R_refl)

lemma obeys_throw: "obeys (throw x)"
  by (simp add: obeys_def throw_def R_refl)

lemma obeys_gets: "obeys (gets f)"
  by (simp add: obeys_def gets_def R_refl)

lemma obeys_modify: "(\<And>s. R s (f s)) \<Longrightarrow> obeys (modify f)"
  by (simp add: obeys_def modify_def)

lemma obeys_bnd:
  assumes "obeys m" and "\<And>x. obeys (f x)"
  shows "obeys (bnd m f)"
proof (unfold obeys_def, intro allI)
  fix s
  obtain r t where m: "m s = (r, t)" by (cases "m s")
  then have "R s t" by (rule obeysD[OF assms(1)])
  moreover have "R t (snd (f x t))" for x using assms(2) by (simp add: obeys_def)
  ultimately show "R s (snd (bnd m f s))"
    using m R_trans by (cases r) (auto simp: bnd_def)
qed

lemma obeys_sq:
  assumes "obeys m" and "obeys n"
  shows "obeys (sq m n)"
proof -
  have "sq m n = bnd m (\<lambda>_. n)" by (rule ext) (simp add: sq_def bnd_def)
  then show ?thesis using obeys_bnd[OF assms(1), of "\<lambda>_. n"] assms(2) by simp
qed

lemma obeys_try_catch:
  assumes "obeys m" and "\<And>e. obeys (h e)"
  shows "obeys (try_catch m h)"
proof (unfold obeys_def, intro allI)
  fix s
  obtain r t where m: "m s = (r, t)" by (cases "m s")
  then have "R s t" by (rule obeysD[OF assms(1)])
  moreover have "R t (snd (h e t))" for e using assms(2) by (simp add: obeys_def)
  ultimately show "R s (snd (try_catch m h s))"
    using m R_trans by (cases r) (auto simp: try_catch_def)
qed

lemma obeys_try_finally:
  assumes "obeys m" and "obeys f"
  shows "obeys (try_finally m f)"
proof (unfold obeys_def, intro allI)
  fix s
  obtain r t where m: "m s = (r, t)" by (cases "m s")
  then have "R s t" by (rule obeysD[OF assms(1)])
  moreover obtain r' u where f: "f t = (r', u)" by (cases "f t")
  then have "R t u" by (rule obeysD[OF assms(2)])
  ultimately show "R s (snd (try_finally m f s))"
    using m f R_trans by (cases r') (auto simp: try_finally_def)
qed

lemma obeys_if: "(b \<Longrightarrow> obeys m) \<Longrightarrow> (\<not> b \<Longrightarrow> obeys n) \<Longrightarrow> obeys (if b then m else n)"
  by simp

lemma obeys_act_when: "(b \<Longrightarrow> obeys m) \<Longrightarrow> obeys (act_when b m)"
  by (simp add: act_when_def obeys_ret)

lemma obeys_prod: "(\<And>a b. obeys (f a b)) \<Longrightarrow> obeys (case p of (a, b) \<Rightarrow> f a b)"
  by (cases p) simp

lemma obeys_option:
  "obeys m \<Longrightarrow> (\<And>x. obeys (f x)) \<Longrightarrow> obeys (case p of None \<Rightarrow> m | Some x \<Rightarrow> f x)"
  by (cases p) simp_all

lemma obeys_reply:
  "(\<And>x. obeys (f x)) \<Longrightarrow> (\<And>x. obeys (g x)) \<Longrightarrow> obeys (case p of Ok x \<Rightarrow> f x | Rejected x \<Rightarrow> g x)"
  by (cases p) simp_all

lemma obeys_for_each: "(\<And>x. obeys (f x)) \<Longrightarrow> obeys (for_each xs f)"
  by (induction xs) (simp_all add: obeys_ret obeys_sq)

lemma obeys_prop_get: "obeys (prop_get v k)"
  by (auto simp: prop_get_def obeys_throw obeys_ret)

lemma obeys_parse_json: "obeys (parse_json v)"
  by (auto simp: parse_json_def obeys_throw obeys_ret split: option.split)

lemmas obeys_intros =
  obeys_ret obeys_throw obeys_gets obeys_bnd obeys_sq obeys_try_catch obeys_try_finally
  obeys_if obeys_act_when obeys_prod obeys_option obeys_reply obeys_for_each
  obeys_prop_get obeys_parse_json

end

subsection \<open>What a run appends to the trace\<close>

definition emitted :: "(effect \<Rightarrow> bool) \<Rightarrow> 'x browser_scheme \<Rightarrow> 'x browser_scheme \<Rightarrow> bool" where
  "emitted P s t = (\<exists>es. trace t = trace s @ es \<and> list_all P es)"

interpretation emitted: state_rel "emitted P" for P
proof
  show "emitted P s s" for s :: "'b browser_scheme" by (simp add: emitted_def)
  show "emitted P s t \<Longrightarrow> emitted P t u \<Longrightarrow> emitted P s u" for s t u :: "'b browser_scheme"
    by (fastforce simp: emitted_def)
qed

abbreviation emits :: "(effect \<Rightarrow> bool) \<Rightarrow> ('x browser_scheme, 'a) act \<Rightarrow> bool" where
  "emits P \<equiv> emitted.obeys P"

named_theorems emits_intros

lemmas [emits_intros] = emitted.obeys_intros

lemma emitsD: "emits P m \<Longrightarrow> m s = (r, t) \<Longrightarrow> \<exists>es. trace t = trace s @ es \<and> list_all P es"
  using emitted.obeysD[of P m s r t] by (simp add: emitted_def)

lemma emits_modify [emits_intros]: "(\<And>s. trace (f s) = trace s) \<Longrightarrow> emits P (modify f)"
  by (rule emitted.obeys_modify) (simp add: emitted_def)

lemma emits_emit [emits_intros]: "P e \<Longrightarrow> emits P (emit e)"
  unfolding emit_def by (rule emitted.obeys_modify) (simp add: emitted_def)

lemma emits_set_item [emits_intros]: "emits P (set_item k v)"
  unfolding set_item_def by (rule emits_modify) simp

lemma emits_remove_item [emits_intros]: "emits P (remove_item k)"
  unfolding remove_item_def by (rule emits_modify) simp

lemma emits_showError [emits_intros]:
  "(\<And>k v. P (Toasted k v)) \<Longrightarrow> (\<And>u. P (Location_set u)) \<Longrightarrow> emits P (showError e)"
  unfolding showError_def Let_def by (intro emits_intros)

lemma emits_showErr [emits_intros]: "(\<And>k v. P (Toasted k v)) \<Longrightarrow> emits P (showErr e)"
  by (simp add: showErr_eq emits_emit)

lemma emits_getUserId [emits_intros]: "emits P getUserIdFromLocalStorage"
  unfolding getUserIdFromLocalStorage_def by (intro emits_intros)

lemma emits_updateAPI [emits_intros]: "emits P updateAPI"
  unfolding updateAPI_def by (intro emits_intros) simp

lemma emits_api_call [emits_intros]:
  "(\<And>u. P (Requested u r)) \<Longrightarrow> (\<And>k v. P (Toasted k v)) \<Longrightarrow> (\<And>u. P (Location_set u)) \<Longrightarrow> emits P (api_call env skip r)"
  unfolding api_call_def on_rejected_def by (intro emits_intros)

lemma emits_browser_call [emits_intros]: "P (Requested JNull r) \<Longrightarrow> emits P (browser_call env r)"
  unfolding browser_call_def by (intro emits_intros)

subsection \<open>What a run leaves alone\<close>

text \<open>The shared operations do not touch the fields a component adds to the browser's.\<close>

interpretation framed: state_rel "\<lambda>s t. browser.more t = browser.more s"
  by unfold_locales simp_all

abbreviation frames :: "('x browser_scheme, 'a) act \<Rightarrow> bool" where
  "frames \<equiv> framed.obeys"

named_theorems frames_intros

lemmas [frames_intros] = framed.obeys_intros

lemma frames_modify [frames_intros]: "(\<And>s. browser.more (f s) = browser.more s) \<Longrightarrow> frames (modify f)"
  by (rule framed.obeys_modify)

lemma framesD: "frames m \<Longrightarrow> m s = (r, t) \<Longrightarrow> browser.more t = browser.more s"
  by (rule framed.obeysD)

lemma frames_leaves [frames_intros]:
  "frames (emit e)" "frames (set_item k v)" "frames (remove_item k)" "frames (showInfo m)" "frames (showSuccess m)"
  "frames (showWarning m)" "frames (navigate p)" "frames (userDispatch ty pl)" "frames (setUserData d)"
  by (simp_all add: emit_def set_item_def remove_item_def showInfo_def showSuccess_def showWarning_def
      navigate_def userDispatch_def setUserData_def frames_modify)

lemma frames_showError [frames_intros]: "frames (showError e)"
  unfolding showError_def Let_def by (intro frames_intros)

lemma frames_showErr [frames_intros]: "frames (showErr e)"
  unfolding showErr_def by (rule frames_showError)

lemma frames_updateAPI [frames_intros]: "frames updateAPI"
  unfolding updateAPI_def getUserIdFromLocalStorage_def by (intro frames_intros) simp

lemma frames_api_call [frames_intros]: "frames (api_call env skip r)"
  unfolding api_call_def on_rejected_def by (intro frames_intros)

lemma frames_api_get [frames_intros]: "frames (api_get env u p)" "frames (api_post env u p)"
  unfolding api_get_def api_post_def by (intro frames_intros)+

lemma frames_browser_call [frames_intros]: "frames (browser_call env r)"
  unfolding browser_call_def by (intro frames_intros)

subsection \<open>What a run posts\<close>

definition is_post :: "effect \<Rightarrow> bool" where
  "is_post e = (case e of Requested u (Http POST url body) \<Rightarrow> True | _ \<Rightarrow> False)"

definition posts :: "('x browser_scheme, 'a) act \<Rightarrow> 'x browser_scheme \<Rightarrow> effect list" where
  "posts m s = filter is_post (drop (length (trace s)) (trace (snd (m s))))"

lemma is_post_simps [simp]:
  "is_post (Requested u (Http POST url b))" "\<not> is_post (Requested u (Http GET url b))"
  "\<not> is_post (Toasted k v)" "\<not> is_post (Location_set l)" "\<not> is_post (Timer n t)"
  by (simp_all add: is_post_def)

lemma posts_simps:
  "posts (bnd (gets f) g) s = posts (g (f s)) s"
  "posts (showWarning m) s = []" "posts (showErr e) s = []" "posts (ret x) s = []"
  by (simp_all add: posts_def act_simps showErr_eq)

definition requests :: "('x browser_scheme, 'a) act \<Rightarrow> 'x browser_scheme \<Rightarrow> effect list" where
  "requests m s = filter (\<lambda>e. case e of Requested u q \<Rightarrow> True | _ \<Rightarrow> False) (drop (length (trace s)) (trace (snd (m s))))"

lemma requests_simps:
  "requests (bnd (gets f) g) s = requests (g (f s)) s"
  "requests (showWarning m) s = []" "requests (showErr e) s = []" "requests (ret x) s = []"
  by (simp_all add: requests_def act_simps showErr_eq)

text \<open>A call whose answer is dealt with without another request.\<close>

lemma requests_call:
  assumes "\<And>x. emits (\<lambda>e. case e of Requested u q \<Rightarrow> False | _ \<Rightarrow> True) (f x)"
  shows "requests (bnd (api_call env skip r) f) s = [Requested (hdr_user (api s)) r]"
proof -
  let ?s = "s\<lparr>trace := trace s @ [Requested (hdr_user (api s)) r]\<rparr>"
  let ?m = "bnd (reply_value skip (intercepts (api s)) (env (trace s) r)) f"
  have "emits (\<lambda>e. case e of Requested u q \<Rightarrow> False | _ \<Rightarrow> True) ?m"
    unfolding reply_value_def on_rejected_def by (intro emits_intros assms) simp_all
  from emitsD[OF this, of ?s "fst (?m ?s)" "snd (?m ?s)"]
  obtain es where "trace (snd (?m ?s)) = trace ?s @ es" "list_all (\<lambda>e. case e of Requested u q \<Rightarrow> False | _ \<Rightarrow> True) es" by auto
  then show ?thesis
    by (induction es rule: rev_induct) (auto simp: requests_def bnd_api_reply list_all_iff filter_empty_conv split: effect.splits)
qed

lemma posts_one:
  "trace (snd (m s)) = (trace s @ [e]) @ es \<Longrightarrow> is_post e \<Longrightarrow> list_all (\<lambda>e. \<not> is_post e) es \<Longrightarrow> posts m s = [e]"
  by (simp add: posts_def list_all_iff)

section \<open>An initial browser for the examples\<close>

definition blank_browser :: browser where
  "blank_browser = \<lparr>store = Map.empty, api = \<lparr>hdr_user = JNum (-1), intercepts = True\<rparr>,
     user_ctx = JUndef, status_ctx = JUndef, trace = []\<rparr>"

lemma blank_browser_simps [simp]:
  "store blank_browser = Map.empty" "trace blank_browser = []" "user_ctx blank_browser = JUndef"
  "status_ctx blank_browser = JUndef" "intercepts (api blank_browser)" "hdr_user (api blank_browser) = JNum (-1)"
  by (simp_all add: blank_browser_def)

end
