(* ===== verification/Session.thy ===== *)
theory Session
  imports Client
begin

text \<open>
  Who is signed in and which pages they reach: \<open>helpers/auth.jsx\<close> (the route guards),
  \<open>App.jsx\<close> (the route table), \<open>SetupCheck.js\<close>, the loading of user and status in
  \<open>PageLayout.jsx\<close> and the logout of \<open>useHeaderBar.js\<close>.
\<close>

section \<open>Guards (helpers/auth.jsx)\<close>

datatype route_result = Children | Redirect string

definition authHeader :: "('x browser_scheme, jv) act" where
  "authHeader = bnd (gets (\<lambda>s. get_item s ''user'')) (\<lambda>raw.
     bnd (parse_json raw) (\<lambda>user.
       if truthy user \<and> truthy (opt_get user ''token'')
       then ret (JObj [(''Authorization'', JStr (''Bearer '' @ to_str (opt_get user ''token'')))])
       else ret (JObj [])))"

definition AuthRedirect :: "'x browser_scheme \<Rightarrow> route_result" where
  "AuthRedirect s = (if truthy (get_item s ''user'') then Redirect ''/console'' else Children)"

definition PrivateRoute :: "'x browser_scheme \<Rightarrow> route_result" where
  "PrivateRoute s = (if \<not> truthy (get_item s ''user'') then Redirect ''/login'' else Children)"

text \<open>The parse error of the \<open>try\<close> falls through to the forbidden page.\<close>

definition AdminRoute :: "'x browser_scheme \<Rightarrow> route_result" where
  "AdminRoute s =
     (let raw = get_item s ''user'' in
      if \<not> truthy raw then Redirect ''/login''
      else case json_parse (to_str raw) of
        None \<Rightarrow> Redirect ''/forbidden''
      | Some user \<Rightarrow>
          if truthy user \<and> type_of (opt_get user ''role'') = ''number'' \<and> num_ge (opt_get user ''role'') 10
          then Children else Redirect ''/forbidden'')"

section \<open>Routes (App.jsx)\<close>

datatype page =
    Home | Setup | Forbidden | User | PasswordResetConfirm | LoginForm | RegisterForm | PasswordResetForm
  | OAuth2Callback string | Setting | PersonalSetting | Dashboard | About | UserAgreement | PrivacyPolicy
  | NotFound

datatype guard = Open | AuthOnly | Private | Admin

definition routes :: "(string \<times> guard \<times> page) list" where
  "routes =
    [(''/'', Open, Home),
     (''/setup'', Open, Setup),
     (''/forbidden'', Open, Forbidden),
     (''/console/user'', Admin, User),
     (''/user/reset'', Open, PasswordResetConfirm),
     (''/login'', AuthOnly, LoginForm),
     (''/register'', AuthOnly, RegisterForm),
     (''/reset'', Open, PasswordResetForm),
     (''/oauth/github'', Open, OAuth2Callback ''github''),
     (''/oauth/discord'', Open, OAuth2Callback ''discord''),
     (''/oauth/oidc'', Open, OAuth2Callback ''oidc''),
     (''/oauth/linuxdo'', Open, OAuth2Callback ''linuxdo''),
     (''/console/setting'', Admin, Setting),
     (''/console/personal'', Private, PersonalSetting),
     (''/console'', Private, Dashboard),
     (''/about'', Open, About),
     (''/user-agreement'', Open, UserAgreement),
     (''/privacy-policy'', Open, PrivacyPolicy)]"

text \<open>The element of \<open>path='*'\<close> is shown when no other route matches.\<close>

definition route_of :: "string \<Rightarrow> guard \<times> page" where
  "route_of path = (case map_of routes path of Some r \<Rightarrow> r | None \<Rightarrow> (Open, NotFound))"

datatype shown = Page page | GoTo string

definition guard_result :: "guard \<Rightarrow> 'x browser_scheme \<Rightarrow> route_result" where
  "guard_result g s = (case g of Open \<Rightarrow> Children | AuthOnly \<Rightarrow> AuthRedirect s
     | Private \<Rightarrow> PrivateRoute s | Admin \<Rightarrow> AdminRoute s)"

definition App :: "string \<Rightarrow> 'x browser_scheme \<Rightarrow> shown" where
  "App path s = (case route_of path of (g, p) \<Rightarrow>
     (case guard_result g s of Children \<Rightarrow> Page p | Redirect q \<Rightarrow> GoTo q))"

text \<open>Following redirects: at most two are needed (\<open>visit_settles\<close>).\<close>

fun visit :: "nat \<Rightarrow> string \<Rightarrow> 'x browser_scheme \<Rightarrow> page option" where
  "visit 0 path s = None"
| "visit (Suc n) path s = (case App path s of Page p \<Rightarrow> Some p | GoTo q \<Rightarrow> visit n q s)"

definition SetupCheck :: "string \<Rightarrow> ('x browser_scheme, unit) act" where
  "SetupCheck pathname = bnd (gets status_ctx) (\<lambda>st.
     act_when (opt_get st ''setup'' = JBool False \<and> pathname \<noteq> ''/setup'') (emit (Location_set ''/setup'')))"

section \<open>Start-up and logout\<close>

definition loadUser :: "('x browser_scheme, unit) act" where
  "loadUser = bnd (gets (\<lambda>s. get_item s ''user'')) (\<lambda>user.
     act_when (truthy user) (bnd (parse_json user) (\<lambda>data. userDispatch ''login'' data)))"

definition loadStatus :: "env \<Rightarrow> ('x browser_scheme, unit) act" where
  "loadStatus env = try_catch
     (bnd (api_get env ''/api/status'' JUndef) (\<lambda>res.
       if nullish res then throw type_error
       else if truthy (opt_get res ''success'')
       then sq (statusDispatch ''set'' (opt_get res ''data'')) (setStatusData (opt_get res ''data''))
       else showErr ''Unable to connect to server''))
     (\<lambda>e. showErr ''Failed to load status'')"

definition logout :: "env \<Rightarrow> ('x browser_scheme, unit) act" where
  "logout env = bnd (api_get env ''/api/user/logout'' JUndef) (\<lambda>_.
     sq (showSuccess (JStr ''Logout successful!''))
     (sq (userDispatch ''logout'' JUndef)
     (sq (remove_item ''user'')
         (navigate ''/login''))))"

section \<open>Lemmas\<close>

text \<open>What \<open>setUserData\<close> stores is what the readers parse.\<close>

lemma truthy_js_text: "json_ok u \<Longrightarrow> js_text u \<noteq> []"
  using js_text_length[of u] by simp

lemma setUserData_run:
  "json_ok u \<Longrightarrow> setUserData u s = (Inr (), s\<lparr>store := (store s)(''user'' \<mapsto> js_text u)\<rparr>)"
  using json_stringify_parse[of u] by (simp add: act_simps)

lemma stored_parse:
  "json_ok u \<Longrightarrow> store s ''user'' = Some (js_text u) \<Longrightarrow>
   truthy (get_item s ''user'') \<and> json_parse (to_str (get_item s ''user'')) = Some u"
  by (simp add: json_roundtrip truthy_js_text)

lemma AdminRoute_stored:
  assumes "json_ok u" and "store s ''user'' = Some (js_text u)"
  shows "AdminRoute s = (if truthy u \<and> type_of (opt_get u ''role'') = ''number'' \<and> num_ge (opt_get u ''role'') 10
     then Children else Redirect ''/forbidden'')"
  using stored_parse[OF assms] by (simp add: AdminRoute_def Let_def)

lemma json_ok_member: "json_ok u \<Longrightarrow> opt_get u k \<noteq> JNaN"
  by (cases u) (auto simp: opt_get_def dest!: map_of_SomeD split: option.splits)

lemma isAdmin_stored:
  assumes "json_ok u" and "store s ''user'' = Some (js_text u)" and "\<not> nullish u"
  shows "isAdmin s = (Inr (num_ge (opt_get u ''role'') 10), s)"
  using stored_parse[OF assms(1,2)] assms(3) by (simp add: isAdmin_def act_simps)

lemma isRoot_stored:
  assumes "json_ok u" and "store s ''user'' = Some (js_text u)" and "\<not> nullish u"
  shows "isRoot s = (Inr (num_ge (opt_get u ''role'') 100), s)"
  using stored_parse[OF assms(1,2)] assms(3) by (simp add: isRoot_def act_simps)

lemma getUserId_stored:
  assumes "json_ok u" and "store s ''user'' = Some (js_text u)" and "\<not> nullish u"
  shows "getUserIdFromLocalStorage s = (Inr (opt_get u ''id''), s)"
  using stored_parse[OF assms(1,2)] assms(3) by (simp add: getUserIdFromLocalStorage_def act_simps)

text \<open>The instance made after a sign-in carries the user's id.\<close>

lemma updateAPI_stored:
  assumes "json_ok u" and "store s ''user'' = Some (js_text u)" and "\<not> nullish u"
  shows "updateAPI s = (Inr (), s\<lparr>api := \<lparr>hdr_user = opt_get u ''id'', intercepts = False\<rparr>\<rparr>)"
  by (simp add: updateAPI_def bnd_def getUserId_stored[OF assms] modify_def)

lemma no_user_guards:
  assumes "store s ''user'' = None"
  shows "PrivateRoute s = Redirect ''/login''" "AdminRoute s = Redirect ''/login''" "AuthRedirect s = Children"
  using assms by (simp_all add: PrivateRoute_def AdminRoute_def AuthRedirect_def)

lemma console_guarded:
  "starts_with ''/console'' path \<Longrightarrow> route_of path = (g, p) \<Longrightarrow> g = Private \<or> g = Admin \<or> p = NotFound"
  by (auto simp: route_of_def routes_def split: if_splits)

lemma route_open_pages:
  "route_of ''/login'' = (AuthOnly, LoginForm)" "route_of ''/forbidden'' = (Open, Forbidden)"
  "route_of ''/console'' = (Private, Dashboard)"
  by (simp_all add: route_of_def routes_def)

section \<open>Properties\<close>

text \<open>Without a stored user no page under \<open>/console\<close> is rendered: every such path
  either has no route or redirects to the login page.\<close>

lemma console_needs_user:
  assumes "store s ''user'' = None" and "starts_with ''/console'' path"
  shows "App path s = GoTo ''/login'' \<or> App path s = Page NotFound"
proof -
  obtain g p where r: "route_of path = (g, p)" by (cases "route_of path")
  consider "g = Private" | "g = Admin" | "p = NotFound" "g = Open"
    using console_guarded[OF assms(2) r] r
    by (auto simp: route_of_def routes_def split: if_splits)
  then show ?thesis
    using no_user_guards[OF assms(1)] by cases (auto simp: App_def r guard_result_def)
qed

lemma console_needs_user_example:
  "App ''/console/user'' \<lparr>store = Map.empty, api = \<lparr>hdr_user = JNum (-1), intercepts = True\<rparr>,
     user_ctx = JUndef, status_ctx = JUndef, trace = []\<rparr> = GoTo ''/login''"
  using console_needs_user[of "\<lparr>store = Map.empty, api = \<lparr>hdr_user = JNum (-1), intercepts = True\<rparr>,
     user_ctx = JUndef, status_ctx = JUndef, trace = []\<rparr>" "''/console/user''"]
  by (auto simp: App_def route_of_def routes_def guard_result_def AdminRoute_def)

text \<open>After \<open>setUserData\<close> stores a user, the admin pages open exactly for a numeric role
  of at least 10, and \<open>isAdmin\<close> and \<open>isRoot\<close> answer by the thresholds 10 and 100: the user
  survives the JSON text in \<open>localStorage\<close>.\<close>

lemma stored_role_decides:
  assumes "json_ok (JObj u)" and "opt_get (JObj u) ''role'' = JNum r"
  shows "AdminRoute (state_of (setUserData (JObj u) s)) = (if 10 \<le> r then Children else Redirect ''/forbidden'')
    \<and> fst (isAdmin (state_of (setUserData (JObj u) s))) = Inr (10 \<le> r)
    \<and> fst (isRoot (state_of (setUserData (JObj u) s))) = Inr (100 \<le> r)
    \<and> PrivateRoute (state_of (setUserData (JObj u) s)) = Children"
proof -
  let ?t = "state_of (setUserData (JObj u) s)"
  have st: "store ?t ''user'' = Some (js_text (JObj u))"
    using setUserData_run[OF assms(1), of s] by simp
  show ?thesis
    using AdminRoute_stored[OF assms(1) st] isAdmin_stored[OF assms(1) st] isRoot_stored[OF assms(1) st]
      stored_parse[OF assms(1) st] assms(2)
    by (simp add: PrivateRoute_def)
qed

lemma stored_role_decides_example:
  "AdminRoute (state_of (setUserData (JObj [(''id'', JNum 7), (''role'', JNum 10)]) \<lparr>store = Map.empty,
     api = \<lparr>hdr_user = JNum (-1), intercepts = True\<rparr>, user_ctx = JUndef, status_ctx = JUndef, trace = []\<rparr>)) = Children"
  using stored_role_decides[of "[(''id'', JNum 7), (''role'', JNum 10)]" 10
    "\<lparr>store = Map.empty, api = \<lparr>hdr_user = JNum (-1), intercepts = True\<rparr>, user_ctx = JUndef,
      status_ctx = JUndef, trace = []\<rparr>"] by simp

text \<open>Following redirects always ends, after at most three pages, at a page: the guards
  never send the visitor in a circle.\<close>

lemma visit_settles: "\<exists>p. visit 3 path s = Some p"
proof -
  have three: "(3::nat) = Suc (Suc (Suc 0))" by simp
  show ?thesis
  proof (cases "truthy (get_item s ''user'')")
    case True
    then have "PrivateRoute s = Children" "AuthRedirect s = Redirect ''/console''"
      "AdminRoute s = Children \<or> AdminRoute s = Redirect ''/forbidden''"
      by (auto simp: PrivateRoute_def AuthRedirect_def AdminRoute_def Let_def split: option.splits)
    then show ?thesis unfolding three
      by (cases "route_of path"; cases "fst (route_of path)") (auto simp: App_def guard_result_def route_open_pages)
  next
    case False
    then have "PrivateRoute s = Redirect ''/login''" "AuthRedirect s = Children" "AdminRoute s = Redirect ''/login''"
      by (auto simp: PrivateRoute_def AuthRedirect_def AdminRoute_def)
    then show ?thesis unfolding three
      by (cases "route_of path"; cases "fst (route_of path)") (auto simp: App_def guard_result_def route_open_pages)
  qed
qed

text \<open>A logout the backend answers removes the stored user and the user of the context,
  and leads to the login page; afterwards the guards treat the visitor as signed out.\<close>

lemma logout_signs_out:
  assumes "env (trace s) (Http GET ''/api/user/logout'' JUndef) = Ok d"
  shows "let t = state_of (logout env s) in store t ''user'' = None \<and> user_ctx t = JUndef
    \<and> last (trace t) = Navigated ''/login'' \<and> PrivateRoute t = Redirect ''/login'' \<and> AdminRoute t = Redirect ''/login''"
  using assms by (simp add: logout_def act_simps Let_def no_user_guards)

lemma logout_signs_out_example:
  "store (state_of (logout (\<lambda>_ _. Ok JNull) \<lparr>store = [''user'' \<mapsto> ''{}''], api = \<lparr>hdr_user = JNum 7, intercepts = True\<rparr>,
     user_ctx = JObj [], status_ctx = JUndef, trace = []\<rparr>)) ''user'' = None"
  using logout_signs_out[of "\<lambda>_ _. Ok JNull" "\<lparr>store = [''user'' \<mapsto> ''{}''], api = \<lparr>hdr_user = JNum 7, intercepts = True\<rparr>,
     user_ctx = JObj [], status_ctx = JUndef, trace = []\<rparr>"] by (simp add: Let_def)

text \<open>An expired session: when the instance that carries the interceptor gets a 401, the
  stored user is dropped and the page is sent to the login form, and the caller still sees the
  error.\<close>

lemma interceptor_401_signs_out:
  assumes "intercepts (api s)" and "env (trace s) (Http m url b) = Rejected (axios_error 401 body (c # msg))"
  shows "let (r, t) = api_call env False (Http m url b) s in
    r = Inl (axios_error 401 body (c # msg)) \<and> store t ''user'' = None
    \<and> last (trace t) = Location_set ''/login?expired=true'' \<and> PrivateRoute t = Redirect ''/login''"
  using assms by (simp add: act_simps on_rejected_def showError_def axios_error_def Let_def no_user_guards)

lemma interceptor_401_signs_out_example:
  "store (snd (api_call (\<lambda>_ _. Rejected (axios_error 401 JNull ''x'')) False (Http GET ''/api/user/self'' JUndef)
     \<lparr>store = [''user'' \<mapsto> ''{}''], api = \<lparr>hdr_user = JNum 7, intercepts = True\<rparr>,
     user_ctx = JObj [], status_ctx = JUndef, trace = []\<rparr>)) ''user'' = None"
  using interceptor_401_signs_out[of "\<lparr>store = [''user'' \<mapsto> ''{}''], api = \<lparr>hdr_user = JNum 7, intercepts = True\<rparr>,
     user_ctx = JObj [], status_ctx = JUndef, trace = []\<rparr>" "\<lambda>_ _. Rejected (axios_error 401 JNull ''x'')" GET
     "''/api/user/self''" JUndef JNull "CHR ''x''" "[]"] by (simp add: Let_def split: prod.splits)

text \<open>The instance that \<open>updateAPI\<close> makes has no interceptor: after any sign-in, until the
  page is reloaded, a rejected call of that instance changes nothing but the trace; an expired
  session then leaves the stale user in place and shows nothing.\<close>

lemma updateAPI_drops_interceptor:
  assumes "updateAPI s = (Inr (), t)" and "env (trace t) r = Rejected e"
  shows "api_call env skip r t = (Inl e, t\<lparr>trace := trace s @ [Requested (hdr_user (api t)) r]\<rparr>)
    \<and> store t = store s"
proof -
  have "trace t = trace s" "store t = store s" "\<not> intercepts (api t)"
    using assms(1)
    by (auto simp: updateAPI_def getUserIdFromLocalStorage_def act_simps split: if_splits option.splits)
  then show ?thesis using assms(2) by (simp add: act_simps Let_def)
qed

lemma updateAPI_drops_interceptor_example:
  "let s = \<lparr>store = Map.empty, api = \<lparr>hdr_user = JNum 7, intercepts = True\<rparr>,
     user_ctx = JObj [], status_ctx = JUndef, trace = []\<rparr>;
       t = s\<lparr>api := \<lparr>hdr_user = JNum (-1), intercepts = False\<rparr>\<rparr> in
   api_call (\<lambda>_ _. Rejected (axios_error 401 JNull ''x'')) False (Http GET ''/a'' JUndef) t
   = (Inl (axios_error 401 JNull ''x''), t\<lparr>trace := [Requested (JNum (-1)) (Http GET ''/a'' JUndef)]\<rparr>)"
proof -
  let ?s = "\<lparr>store = Map.empty, api = \<lparr>hdr_user = JNum 7, intercepts = True\<rparr>,
     user_ctx = JObj [], status_ctx = JUndef, trace = []\<rparr> :: browser"
  let ?t = "?s\<lparr>api := \<lparr>hdr_user = JNum (-1), intercepts = False\<rparr>\<rparr>"
  have "updateAPI ?s = (Inr (), ?t)"
    by (simp add: updateAPI_def getUserIdFromLocalStorage_def act_simps)
  from updateAPI_drops_interceptor[OF this, of "\<lambda>_ _. Rejected (axios_error 401 JNull ''x'')" "Http GET ''/a'' JUndef"
      "axios_error 401 JNull ''x''" False]
  show ?thesis by simp
qed

text \<open>A request that fails without a response (the network is down) makes the interceptor
  itself throw: \<open>showError\<close> reads the status of a missing response, so the caller gets a
  TypeError instead of the network error, and no toast is shown.\<close>

lemma network_failure_masked:
  assumes "intercepts (api s)" and "env (trace s) r = Rejected (network_error (c # msg))"
  shows "api_call env False r s = (Inl type_error, s\<lparr>trace := trace s @ [Requested (hdr_user (api s)) r]\<rparr>)"
  using assms by (simp add: act_simps on_rejected_def showError_def network_error_def Let_def)

lemma network_failure_masked_example:
  "fst (api_call (\<lambda>_ _. Rejected (network_error ''Network Error'')) False (Http GET ''/a'' JUndef)
     \<lparr>store = Map.empty, api = \<lparr>hdr_user = JNum 7, intercepts = True\<rparr>,
     user_ctx = JObj [], status_ctx = JUndef, trace = []\<rparr>) = Inl type_error"
  using network_failure_masked[of "\<lparr>store = Map.empty, api = \<lparr>hdr_user = JNum 7, intercepts = True\<rparr>,
     user_ctx = JObj [], status_ctx = JUndef, trace = []\<rparr>" "\<lambda>_ _. Rejected (network_error ''Network Error'')"
     "Http GET ''/a'' JUndef" "CHR ''N''" "''etwork Error''"] by simp

end
