(* ===== verification/Api.thy ===== *)
theory Api
  imports Client
begin

text \<open>
  \<open>helpers/api.js\<close>: the sharing of identical GET requests in flight (\<open>patchAPIInstance\<close>), the
  start of the OAuth flows, and the pure preparation of playground requests. The sharing
  is a state machine, since calls and settlements interleave: a promise is a number, and the
  environment settles pending promises in any order.
\<close>

section \<open>Sharing GET requests in flight\<close>

text \<open>
  \<open>in_flight\<close> is the Map; \<open>pending\<close> lists the requests on the wire, with the key that the
  \<open>finally\<close> callback will delete (none for a call with \<open>disableDuplicate\<close>).
\<close>

record dedup =
  in_flight :: "(string \<times> nat) list"
  pending :: "(nat \<times> string option) list"
  next_promise :: nat

definition genKey :: "string \<Rightarrow> jv \<Rightarrow> string" where
  "genKey url config =
     (let params = (if truthy (opt_get config ''params'') then to_str (json_stringify (opt_get config ''params'')) else ''{}'')
      in url @ ''?'' @ params)"

definition originalGet :: "string option \<Rightarrow> dedup \<Rightarrow> nat \<times> dedup" where
  "originalGet k d = (next_promise d,
     d\<lparr>pending := pending d @ [(next_promise d, k)], next_promise := Suc (next_promise d)\<rparr>)"

text \<open>\<open>instance.get\<close>: the promise the caller gets.\<close>

definition instance_get :: "string \<Rightarrow> jv \<Rightarrow> dedup \<Rightarrow> nat \<times> dedup" where
  "instance_get url config d =
     (if truthy (opt_get config ''disableDuplicate'') then originalGet None d
      else (let key = genKey url config in
        case map_of (in_flight d) key of
          Some p \<Rightarrow> (p, d)
        | None \<Rightarrow> (case originalGet (Some key) d of (p, d') \<Rightarrow>
            (p, d'\<lparr>in_flight := AList.update key p (in_flight d')\<rparr>))))"

text \<open>A pending request settles: \<open>finally\<close> deletes its key from the Map.\<close>

definition settle :: "nat \<Rightarrow> dedup \<Rightarrow> dedup" where
  "settle p d =
     (let d' = d\<lparr>pending := filter (\<lambda>q. fst q \<noteq> p) (pending d)\<rparr> in
      case map_of (pending d) p of
        Some (Some key) \<Rightarrow> d'\<lparr>in_flight := AList.delete key (in_flight d')\<rparr>
      | _ \<Rightarrow> d')"

definition empty_dedup :: dedup where
  "empty_dedup = \<lparr>in_flight = [], pending = [], next_promise = 0\<rparr>"

inductive dedup_step :: "dedup \<Rightarrow> dedup \<Rightarrow> bool" where
  call: "instance_get url config d = (p, d') \<Longrightarrow> dedup_step d d'"
| settled: "p \<in> fst ` set (pending d) \<Longrightarrow> dedup_step d (settle p d)"

inductive_cases dedup_stepE: "dedup_step d d'"

inductive dedup_reachable :: "dedup \<Rightarrow> bool" where
  start: "dedup_reachable empty_dedup"
| step: "dedup_reachable d \<Longrightarrow> dedup_step d d' \<Longrightarrow> dedup_reachable d'"

text \<open>
  The Map lists exactly the tracked requests that are on the wire, once per key, and
  promises are not reused.
\<close>

definition dedup_inv :: "dedup \<Rightarrow> bool" where
  "dedup_inv d \<longleftrightarrow>
     distinct (List.map fst (in_flight d)) \<and> distinct (List.map fst (pending d))
     \<and> (\<forall>p k. (p, Some k) \<in> set (pending d) \<longleftrightarrow> map_of (in_flight d) k = Some p)
     \<and> (\<forall>p \<in> fst ` set (pending d). p < next_promise d)"

lemma dedup_inv_empty: "dedup_inv empty_dedup"
  by (simp add: dedup_inv_def empty_dedup_def)

lemma distinct_update_keys:
  "distinct (List.map fst xs) \<Longrightarrow> distinct (List.map fst (AList.update k v xs))"
  by (rule distinct_update)

lemma dedup_inv_untracked:
  assumes "dedup_inv d"
  shows "dedup_inv (d\<lparr>pending := pending d @ [(next_promise d, None)], next_promise := Suc (next_promise d)\<rparr>)"
  using assms by (fastforce simp: dedup_inv_def less_Suc_eq)

lemma dedup_inv_tracked:
  assumes "dedup_inv d" and "map_of (in_flight d) k = None"
  shows "dedup_inv (d\<lparr>pending := pending d @ [(next_promise d, Some k)], next_promise := Suc (next_promise d),
    in_flight := AList.update k (next_promise d) (in_flight d)\<rparr>)"
proof -
  have fresh: "next_promise d \<notin> fst ` set (pending d)" using assms(1) by (fastforce simp: dedup_inv_def)
  have eq: "(p, Some j) \<in> set (pending d @ [(next_promise d, Some k)])
      \<longleftrightarrow> map_of (AList.update k (next_promise d) (in_flight d)) j = Some p" for p j
    using assms by (auto simp: update_conv' dedup_inv_def)
  show ?thesis
    using assms(1) fresh eq
    by (auto simp: dedup_inv_def distinct_update less_Suc_eq)
qed

lemma dedup_inv_get:
  assumes "dedup_inv d" and "instance_get url config d = (p, d')"
  shows "dedup_inv d'"
proof (cases "truthy (opt_get config ''disableDuplicate'')")
  case True
  then show ?thesis
    using assms dedup_inv_untracked[OF assms(1)] by (auto simp: instance_get_def originalGet_def)
next
  case False
  show ?thesis
  proof (cases "map_of (in_flight d) (genKey url config)")
    case None
    then show ?thesis
      using assms False dedup_inv_tracked[OF assms(1) None]
      by (auto simp: instance_get_def originalGet_def Let_def)
  next
    case (Some q)
    then show ?thesis using assms False by (auto simp: instance_get_def Let_def)
  qed
qed

lemma dedup_inv_settle:
  assumes "dedup_inv d"
  shows "dedup_inv (settle p d)"
proof -
  have dp: "distinct (List.map fst (pending d))" and di: "distinct (List.map fst (in_flight d))"
    and iff: "\<And>q k. (q, Some k) \<in> set (pending d) \<longleftrightarrow> map_of (in_flight d) k = Some q"
    using assms by (auto simp: dedup_inv_def)
  have df: "distinct (List.map fst (filter P (pending d)))" for P
    using dp by (simp add: distinct_map_filter)
  show ?thesis
  proof (cases "\<exists>k. map_of (pending d) p = Some (Some k)")
    case True
    then obtain k where k: "map_of (pending d) p = Some (Some k)" by blast
    then have pk: "map_of (in_flight d) k = Some p" using iff map_of_SomeD by metis
    have uniq: "(p, Some j) \<in> set (pending d) \<Longrightarrow> j = k" for j
      using k dp by (metis map_of_is_SomeI option.inject)
    have "(q, Some j) \<in> set (filter (\<lambda>q. fst q \<noteq> p) (pending d)) \<longleftrightarrow> map_of (AList.delete k (in_flight d)) j = Some q" for q j
    proof -
      have "(q, Some j) \<in> set (filter (\<lambda>q. fst q \<noteq> p) (pending d)) \<longleftrightarrow> q \<noteq> p \<and> map_of (in_flight d) j = Some q"
        by (auto simp: iff)
      also have "\<dots> \<longleftrightarrow> j \<noteq> k \<and> map_of (in_flight d) j = Some q"
        using pk uniq[of j] unfolding iff by (metis option.inject)
      finally show ?thesis by (simp add: delete_conv')
    qed
    moreover have "settle p d = d\<lparr>pending := filter (\<lambda>q. fst q \<noteq> p) (pending d), in_flight := AList.delete k (in_flight d)\<rparr>"
      using k by (simp add: settle_def Let_def)
    moreover have "\<forall>q \<in> fst ` set (filter (\<lambda>q. fst q \<noteq> p) (pending d)). q < next_promise d"
      using assms by (auto simp: dedup_inv_def)
    ultimately show ?thesis
      using df distinct_delete[OF di] unfolding dedup_inv_def by simp
  next
    case False
    then have "\<And>k. (p, Some k) \<notin> set (pending d)" using dp by (metis map_of_is_SomeI)
    then have "(q, Some j) \<in> set (filter (\<lambda>q. fst q \<noteq> p) (pending d)) \<longleftrightarrow> map_of (in_flight d) j = Some q" for q j
      using iff[of q j] by auto
    moreover have "settle p d = d\<lparr>pending := filter (\<lambda>q. fst q \<noteq> p) (pending d)\<rparr>"
      using False by (auto simp: settle_def Let_def split: option.splits)
    moreover have "\<forall>q \<in> fst ` set (filter (\<lambda>q. fst q \<noteq> p) (pending d)). q < next_promise d"
      using assms by (auto simp: dedup_inv_def)
    ultimately show ?thesis using df di unfolding dedup_inv_def by simp
  qed
qed

lemma dedup_reachable_inv: "dedup_reachable d \<Longrightarrow> dedup_inv d"
proof (induction rule: dedup_reachable.induct)
  case start
  show ?case by (rule dedup_inv_empty)
next
  case (step d d')
  from step.hyps(2) step.IH show ?case
    by (cases rule: dedup_step.cases) (auto intro: dedup_inv_get dedup_inv_settle)
qed

lemma instance_get_new:
  assumes "\<not> truthy (opt_get config ''disableDuplicate'')" and "map_of (in_flight d) (genKey url config) = None"
  shows "instance_get url config d = (next_promise d,
    d\<lparr>pending := pending d @ [(next_promise d, Some (genKey url config))], next_promise := Suc (next_promise d),
      in_flight := AList.update (genKey url config) (next_promise d) (in_flight d)\<rparr>)"
  using assms by (simp add: instance_get_def originalGet_def Let_def)

lemma instance_get_shared:
  assumes "\<not> truthy (opt_get config ''disableDuplicate'')" and "map_of (in_flight d) (genKey url config) = Some p"
  shows "instance_get url config d = (p, d)"
  using assms by (simp add: instance_get_def Let_def)

text \<open>C8: In every reachable state of the request table, at most one tracked request per key is
  on the wire, and the Map holds exactly those.\<close>

theorem dedup_one_in_flight:
  assumes "dedup_reachable d" and "(p, Some k) \<in> set (pending d)" and "(q, Some k) \<in> set (pending d)"
  shows "p = q \<and> map_of (in_flight d) k = Some p"
  using dedup_reachable_inv[OF assms(1)] assms(2,3) by (metis dedup_inv_def option.inject)

lemma dedup_example: "dedup_reachable (snd (instance_get ''/a'' JUndef empty_dedup))"
  by (rule dedup_reachable.step[OF dedup_reachable.start])
    (rule dedup_step.call[of "''/a''" JUndef _ 0], simp add: instance_get_def empty_dedup_def originalGet_def Let_def)

theorem dedup_one_in_flight_witness:
  "(0::nat) = 0 \<and> map_of (in_flight (snd (instance_get ''/a'' JUndef empty_dedup))) ''/a?{}'' = Some 0"
  using dedup_one_in_flight[OF dedup_example, of 0 "''/a?{}''" 0]
  by (simp add: instance_get_def empty_dedup_def originalGet_def genKey_def Let_def)

text \<open>A second identical GET while the first is on the wire gets the first one's promise and
  sends nothing; once the first has settled, a further GET is a new request, so no answer is
  ever served twice from the table.\<close>

lemma dedup_share_then_refresh:
  assumes "dedup_reachable d" and "\<not> truthy (opt_get config ''disableDuplicate'')"
    and "instance_get url config d = (p, d1)"
  shows "instance_get url config d1 = (p, d1)
    \<and> (let (q, d2) = instance_get url config (settle p d1) in
        q = next_promise d1 \<and> p < q \<and> map_of (in_flight d2) (genKey url config) = Some q)"
proof -
  let ?k = "genKey url config"
  have inv1: "dedup_inv d1"
    using dedup_inv_get[OF dedup_reachable_inv[OF assms(1)] assms(3)] .
  have m1: "map_of (in_flight d1) ?k = Some p"
    using assms(2,3) instance_get_new[OF assms(2), of d url] instance_get_shared[OF assms(2), of d url]
    by (cases "map_of (in_flight d) ?k") (auto simp: update_conv')
  then have pk: "(p, Some ?k) \<in> set (pending d1)" and lt: "p < next_promise d1"
    using inv1 by (force simp: dedup_inv_def)+
  then have "map_of (pending d1) p = Some (Some ?k)"
    using inv1 by (simp add: dedup_inv_def)
  then have st: "in_flight (settle p d1) = AList.delete ?k (in_flight d1)" "next_promise (settle p d1) = next_promise d1"
    by (simp_all add: settle_def Let_def)
  then have none: "map_of (in_flight (settle p d1)) ?k = None" by (simp add: delete_conv')
  show ?thesis
    unfolding instance_get_shared[OF assms(2) m1] instance_get_new[OF assms(2) none]
    using lt st(2) by (simp add: update_conv')
qed

lemma dedup_share_then_refresh_example:
  "fst (instance_get ''/a'' JUndef (settle 0 (snd (instance_get ''/a'' JUndef empty_dedup)))) = 1"
  using dedup_share_then_refresh[OF dedup_reachable.start, of JUndef "''/a''" 0
    "snd (instance_get ''/a'' JUndef empty_dedup)"]
  by (simp add: instance_get_def empty_dedup_def originalGet_def genKey_def settle_def Let_def)

text \<open>Two calls of the same URL share a key only when their params are the same (or one has
  none and the other the empty object): the key does not confuse requests.\<close>

lemma genKey_separates_params:
  assumes "json_ok p" and "json_ok q" and "truthy p" and "truthy q"
    and "genKey url (obj_set c ''params'' p) = genKey url (obj_set c' ''params'' q)"
  shows "p = q"
proof -
  have "js_text p = js_text q"
    using assms(3-5) json_stringify_parse[OF assms(1), THEN conjunct1] json_stringify_parse[OF assms(2), THEN conjunct1]
    by (simp add: genKey_def opt_get_obj_set Let_def)
  then show ?thesis using json.enc_inject assms(1,2) by blast
qed

lemma genKey_separates_params_example:
  "genKey ''/a'' (obj_set JUndef ''params'' (JNum 1)) \<noteq> genKey ''/a'' (obj_set JUndef ''params'' (JStr ''1''))"
  using genKey_separates_params[of "JNum 1" "JStr ''1''" "''/a''" JUndef JUndef] by auto

section \<open>OAuth\<close>

text \<open>\<open>const { success, message, data } = res.data\<close>.\<close>

definition destruct :: "jv \<Rightarrow> ('s, jv \<times> jv \<times> jv) act" where
  [act_simps]: "destruct v = (if nullish v then throw type_error
     else ret (opt_get v ''success'', opt_get v ''message'', opt_get v ''data''))"

definition getOAuthState :: "env \<Rightarrow> ('x browser_scheme, jv) act" where
  "getOAuthState env = bnd (gets (\<lambda>s. get_item s ''aff'')) (\<lambda>affCode.
     let path = ''/api/oauth/state'' @ (if truthy affCode then ''?aff='' @ to_str affCode else []) in
     bnd (bnd (api_get env path JUndef) destruct) (\<lambda>(success, message, data).
       if truthy success then ret data else sq (showError message) (ret (JStr []))))"

definition prepareOAuthState :: "env \<Rightarrow> bool \<Rightarrow> ('x browser_scheme, jv) act" where
  "prepareOAuthState env shouldLogout =
     sq (act_when shouldLogout
          (sq (try_catch (bnd (api_call env True (Http GET ''/api/user/logout'' JUndef)) (\<lambda>_. ret ()))
                (\<lambda>_. ret ()))
          (sq (remove_item ''user'') updateAPI)))
       (getOAuthState env)"

definition onDiscordOAuthClicked :: "env \<Rightarrow> string \<Rightarrow> jv \<Rightarrow> bool \<Rightarrow> ('x browser_scheme, unit) act" where
  "onDiscordOAuthClicked env origin client_id shouldLogout = bnd (prepareOAuthState env shouldLogout) (\<lambda>st.
     act_when (truthy st) (emit (Opened (''https://discord.com/oauth2/authorize?client_id='' @ to_str client_id
       @ ''&redirect_uri='' @ origin @ ''/oauth/discord'' @ ''&response_type=code''
       @ ''&scope=identify+openid'' @ ''&state='' @ to_str st))))"

definition onGitHubOAuthClicked :: "env \<Rightarrow> jv \<Rightarrow> bool \<Rightarrow> ('x browser_scheme, unit) act" where
  "onGitHubOAuthClicked env github_client_id shouldLogout = bnd (prepareOAuthState env shouldLogout) (\<lambda>st.
     act_when (truthy st) (emit (Opened (''https://github.com/login/oauth/authorize?client_id='' @ to_str github_client_id
       @ ''&state='' @ to_str st @ ''&scope=user:email''))))"

definition onLinuxDOOAuthClicked :: "env \<Rightarrow> jv \<Rightarrow> bool \<Rightarrow> ('x browser_scheme, unit) act" where
  "onLinuxDOOAuthClicked env linuxdo_client_id shouldLogout = bnd (prepareOAuthState env shouldLogout) (\<lambda>st.
     act_when (truthy st) (emit (Opened (''https://connect.linux.do/oauth2/authorize?response_type=code&client_id=''
       @ to_str linuxdo_client_id @ ''&state='' @ to_str st))))"

text \<open>
  The browser's \<open>URL\<close> class is the parameter \<open>url_with\<close>: the URL with the given search
  parameters set, or \<open>None\<close> where its constructor throws.
\<close>

definition onOIDCClicked ::
  "env \<Rightarrow> (string \<Rightarrow> (string \<times> string) list \<Rightarrow> string option) \<Rightarrow> string \<Rightarrow> jv \<Rightarrow> jv \<Rightarrow> bool \<Rightarrow> bool
    \<Rightarrow> ('x browser_scheme, unit) act" where
  "onOIDCClicked env url_with origin auth_url client_id openInNewTab shouldLogout =
     bnd (prepareOAuthState env shouldLogout) (\<lambda>st.
       if \<not> truthy st then ret ()
       else case url_with (to_str auth_url)
           [(''client_id'', to_str client_id), (''redirect_uri'', origin @ ''/oauth/oidc''),
            (''response_type'', ''code''), (''scope'', ''openid profile email''), (''state'', to_str st)] of
         None \<Rightarrow> throw type_error
       | Some url \<Rightarrow> if openInNewTab then emit (Opened url) else emit (Location_set url))"

lemma updateAPI_no_user:
  "store s ''user'' = None \<Longrightarrow> updateAPI s = (Inr (), s\<lparr>api := \<lparr>hdr_user = JNum (-1), intercepts = False\<rparr>\<rparr>)"
  by (simp add: updateAPI_def getUserIdFromLocalStorage_def act_simps)

text \<open>Only the last step of a flow opens a window.\<close>

fun is_open :: "effect \<Rightarrow> bool" where
  "is_open (Opened _) = True"
| "is_open _ = False"

lemma emits_destruct [emits_intros]: "emits P (destruct v)"
  unfolding destruct_def by (intro emits_intros)

lemma emits_getOAuthState [emits_intros]: "emits (\<lambda>e. \<not> is_open e) (getOAuthState env)"
  unfolding getOAuthState_def Let_def api_get_def by (intro emits_intros) simp_all

lemma emits_prepareOAuthState: "emits (\<lambda>e. \<not> is_open e) (prepareOAuthState env b)"
  unfolding prepareOAuthState_def by (intro emits_intros) simp_all

lemma showError_keeps_signed_out:
  "store s ''user'' = None \<Longrightarrow> store (snd (showError e s)) ''user'' = None"
  by (simp add: showError_def act_simps Let_def)

text \<open>A state that a flow may use was issued by the backend.\<close>

definition issued_state :: "env \<Rightarrow> jv \<Rightarrow> bool" where
  "issued_state env st = (\<exists>h path d. env h (Http GET path JUndef) = Ok d \<and> starts_with ''/api/oauth/state'' path
     \<and> truthy (opt_get d ''success'') \<and> st = opt_get d ''data'')"

lemma getOAuthState_issued:
  assumes "getOAuthState env s = (r, t)" and "store s ''user'' = None"
  shows "store t ''user'' = None \<and> (\<forall>st. r = Inr st \<and> truthy st \<longrightarrow> issued_state env st)"
proof -
  let ?p = "''/api/oauth/state'' @ (if truthy (get_item s ''aff'') then ''?aff='' @ to_str (get_item s ''aff'') else [])"
  let ?q = "Http GET ?p JUndef"
  let ?s = "s\<lparr>trace := trace s @ [Requested (hdr_user (api s)) ?q]\<rparr>"
  have g: "getOAuthState env s = bnd (bnd (api_call env False ?q) destruct) (\<lambda>(success, message, data).
       if truthy success then ret data else sq (showError message) (ret (JStr []))) s"
    by (simp add: getOAuthState_def bnd_def gets_def api_get_def Let_def)
  show ?thesis
  proof (cases "env (trace s) ?q")
    case (Ok d)
    have isd: "truthy (opt_get d ''success'') \<Longrightarrow> issued_state env (opt_get d ''data'')"
      unfolding issued_state_def using Ok by (intro exI[of _ "trace s"] exI[of _ ?p] exI[of _ d]) simp
    show ?thesis
      using assms g Ok isd showError_keeps_signed_out[of ?s "opt_get d ''message''"]
      by (cases "showError (opt_get d ''message'') ?s") (auto simp: act_simps Let_def split: if_splits sum.splits)
  next
    case (Rejected e)
    then show ?thesis
      using assms g showError_keeps_signed_out[of ?s e]
      by (cases "showError e ?s") (auto simp: act_simps Let_def on_rejected_def split: if_splits sum.splits)
  qed
qed


lemma prepare_signs_out:
  "\<exists>t. store t ''user'' = None \<and> prepareOAuthState env True s = getOAuthState env t"
proof -
  let ?m = "try_catch (bnd (api_call env True (Http GET ''/api/user/logout'' JUndef)) (\<lambda>_. ret ())) (\<lambda>_. ret ())"
  obtain s1 where s1: "?m s = (Inr (), s1)"
    by (cases "env (trace s) (Http GET ''/api/user/logout'' JUndef)") (auto simp: act_simps on_rejected_def Let_def)
  define s2 where "s2 = s1\<lparr>store := (store s1)(''user'' := None)\<rparr>"
  have "updateAPI s2 = (Inr (), s2\<lparr>api := \<lparr>hdr_user = JNum (-1), intercepts = False\<rparr>\<rparr>)"
    by (rule updateAPI_no_user) (simp add: s2_def)
  then have "prepareOAuthState env True s = getOAuthState env (s2\<lparr>api := \<lparr>hdr_user = JNum (-1), intercepts = False\<rparr>\<rparr>)"
    by (simp add: prepareOAuthState_def act_when_def sq_def s1 remove_item_def modify_def s2_def[symmetric])
  then show ?thesis by (intro exI[of _ "s2\<lparr>api := \<lparr>hdr_user = JNum (-1), intercepts = False\<rparr>\<rparr>"]) (simp add: s2_def)
qed

lemma prepare_issued:
  assumes "prepareOAuthState env True s = (r, t)"
  shows "store t ''user'' = None \<and> (\<forall>st. r = Inr st \<and> truthy st \<longrightarrow> issued_state env st)"
  using prepare_signs_out[of env s] getOAuthState_issued assms by metis

text \<open>What a flow that opens \<open>url st\<close> at its end leaves behind.\<close>

lemma oauth_flow_opens:
  assumes "bnd (prepareOAuthState env True) (\<lambda>st. act_when (truthy st) (emit (Opened (url st)))) s = (r, t)"
  shows "store t ''user'' = None
    \<and> (\<exists>es. trace t = trace s @ es \<and> (filter is_open es = [] \<or>
         (\<exists>st. truthy st \<and> issued_state env st \<and> filter is_open es = [Opened (url st)])))"
proof -
  obtain q u where p: "prepareOAuthState env True s = (q, u)" by (cases "prepareOAuthState env True s")
  obtain es where es: "trace u = trace s @ es" "list_all (\<lambda>e. \<not> is_open e) es"
    using emitsD[OF emits_prepareOAuthState p] by blast
  have no: "filter is_open es = []" using es(2) by (simp add: filter_empty_conv list_all_iff)
  have iss: "store u ''user'' = None" "\<And>st. q = Inr st \<Longrightarrow> truthy st \<Longrightarrow> issued_state env st"
    using prepare_issued[OF p] by auto
  show ?thesis
  proof (cases q)
    case (Inl e)
    then show ?thesis using assms p es no iss(1) by (auto simp: bnd_def)
  next
    case (Inr st)
    then show ?thesis
      using assms p es no iss by (cases "truthy st") (auto simp: bnd_def act_simps)
  qed
qed


definition oauth_example_env :: env where
  "oauth_example_env h r = (if r = Http GET ''/api/oauth/state'' JUndef
     then Ok (JObj [(''success'', JBool True), (''data'', JStr ''s1'')]) else Rejected type_error)"

lemma oauth_example_run:
  "onGitHubOAuthClicked oauth_example_env (JStr ''cid'') True blank_browser
   = (Inr (), snd (onGitHubOAuthClicked oauth_example_env (JStr ''cid'') True blank_browser))"
  by (simp add: onGitHubOAuthClicked_def prepareOAuthState_def getOAuthState_def act_simps Let_def
      updateAPI_def getUserIdFromLocalStorage_def oauth_example_env_def on_rejected_def)


end
