(* ===== verification/Passkey.thy ===== *)
theory Passkey
  imports Client
begin

text \<open>
  \<open>helpers/passkey.js\<close>: the base64url codec between the JSON the backend speaks and the
  buffers WebAuthn speaks, and the preparation of options and results around the browser's
  credential calls. \<open>btoa\<close> and \<open>atob\<close> are the browser's (forgiving) base64.
\<close>

section \<open>Base64\<close>

definition b64_char :: "nat \<Rightarrow> char" where
  "b64_char n = char_of (if n < 26 then 65 + n else if n < 52 then 71 + n else if n < 62 then n - 4
     else if n = 62 then 43 else 47)"

definition b64_val :: "char \<Rightarrow> nat option" where
  "b64_val c = (let n = (of_char c :: nat) in
     if 65 \<le> n \<and> n \<le> 90 then Some (n - 65)
     else if 97 \<le> n \<and> n \<le> 122 then Some (n - 71)
     else if 48 \<le> n \<and> n \<le> 57 then Some (n + 4)
     else if n = 43 then Some 62 else if n = 47 then Some 63 else None)"

text \<open>Bytes in groups of three as groups of four sextets; a last group of one or two is shorter.\<close>

fun to_sextets :: "nat list \<Rightarrow> nat list" where
  "to_sextets [] = []"
| "to_sextets [a] = [a div 4, a mod 4 * 16]"
| "to_sextets [a, b] = [a div 4, a mod 4 * 16 + b div 16, b mod 16 * 4]"
| "to_sextets (a # b # c # r) =
     a div 4 # (a mod 4 * 16 + b div 16) # (b mod 16 * 4 + c div 64) # (c mod 64) # to_sextets r"

fun from_sextets :: "nat list \<Rightarrow> nat list" where
  "from_sextets (a # b # c # d # r) =
     (a * 4 + b div 16) # (b mod 16 * 16 + c div 4) # (c mod 4 * 64 + d) # from_sextets r"
| "from_sextets [a, b, c] = [a * 4 + b div 16, b mod 16 * 16 + c div 4]"
| "from_sextets [a, b] = [a * 4 + b div 16]"
| "from_sextets _ = []"

definition btoa :: "string \<Rightarrow> string" where
  "btoa s = (let x = List.map b64_char (to_sextets (List.map of_char s))
     in x @ replicate ((4 - length x mod 4) mod 4) (CHR ''=''))"

definition ascii_ws :: "char \<Rightarrow> bool" where
  "ascii_ws c = (of_char c \<in> {9, 10, 12, 13, 32 :: nat})"

text \<open>With a length divisible by four, one or two padding characters are dropped.\<close>

definition drop_padding :: "string \<Rightarrow> string" where
  "drop_padding s =
     (if length s mod 4 = 0 \<and> s \<noteq> [] \<and> last s = CHR ''='' then
        (let t = butlast s in if t \<noteq> [] \<and> last t = CHR ''='' then butlast t else t)
      else s)"

definition atob :: "string \<Rightarrow> string option" where
  "atob s0 = (let s = drop_padding (filter (\<lambda>c. \<not> ascii_ws c) s0) in
     if length s mod 4 = 1 then None
     else if list_all (\<lambda>c. b64_val c \<noteq> None) s
       then Some (List.map char_of (from_sextets (List.map (\<lambda>c. the (b64_val c)) s)))
       else None)"

definition invalid_character_error :: jv where
  "invalid_character_error = mk_error ''InvalidCharacterError'' ''The string to be decoded is not correctly encoded.''"

section \<open>The codec (helpers/passkey.js)\<close>

text \<open>The string part: padding, the URL alphabet, \<open>atob\<close>, and the bytes of the result.\<close>

definition b64url_decode :: "string \<Rightarrow> 8 word list option" where
  "b64url_decode s =
     (let base64 = replace_char (CHR ''_'') (CHR ''/'') (replace_char (CHR ''-'') (CHR ''+'')
        (s @ replicate ((4 - length s mod 4) mod 4) (CHR ''='')))
      in map_option (List.map (\<lambda>c. of_nat (of_char c))) (atob base64))"

definition b64url_encode :: "8 word list \<Rightarrow> string" where
  "b64url_encode bs =
     (let binary = List.map (\<lambda>w. char_of (unat w)) bs;
          t = replace_char (CHR ''/'') (CHR ''_'') (replace_char (CHR ''+'') (CHR ''-'') (btoa binary))
      in rev (dropWhile (\<lambda>c. c = CHR ''='') (rev t)))"

text \<open>A value that is neither a string nor falsy has no length here: it is decoded without padding.\<close>

definition base64UrlToBuffer :: "jv \<Rightarrow> ('s, jv) act" where
  "base64UrlToBuffer v =
     (if \<not> truthy v then ret (JBuf [])
      else case (case v of JStr s \<Rightarrow> b64url_decode s
                 | _ \<Rightarrow> map_option (List.map (\<lambda>c. of_nat (of_char c))) (atob (replace_char (CHR ''_'') (CHR ''/'')
                     (replace_char (CHR ''-'') (CHR ''+'') (to_str v))))) of
        Some bs \<Rightarrow> ret (JBuf bs)
      | None \<Rightarrow> throw invalid_character_error)"

definition bufferToBase64Url :: "jv \<Rightarrow> jv" where
  "bufferToBase64Url buffer = (case buffer of JBuf bs \<Rightarrow> JStr (b64url_encode bs) | _ \<Rightarrow> JStr [])"

section \<open>Options and results\<close>

definition public_key_of :: "jv \<Rightarrow> jv" where
  "public_key_of payload = jor (opt_get payload ''publicKey'') (jor (opt_get payload ''PublicKey'')
     (jor (opt_get payload ''response'') (opt_get payload ''Response'')))"

text \<open>\<open>item => ({ ...item, id: base64UrlToBuffer(item.id) })\<close> over a list, in order.\<close>

fun decode_ids :: "jv list \<Rightarrow> ('s, jv list) act" where
  "decode_ids [] = ret []"
| "decode_ids (item # items) =
     bnd (prop_get item ''id'') (\<lambda>i. bnd (base64UrlToBuffer i) (\<lambda>b.
     bnd (decode_ids items) (\<lambda>rest. ret (obj_spread item [(''id'', b)] # rest))))"

definition decode_list_member :: "jv \<Rightarrow> string \<Rightarrow> jv \<Rightarrow> ('s, jv) act" where
  "decode_list_member options k publicKey =
     (case opt_get options k of
        JArr items \<Rightarrow> bnd (decode_ids items) (\<lambda>ids. ret (obj_set publicKey k (JArr ids)))
      | _ \<Rightarrow> ret publicKey)"

definition prepareCredentialCreationOptions :: "jv \<Rightarrow> ('s, jv) act" where
  "prepareCredentialCreationOptions payload =
     (let options = public_key_of payload in
      if \<not> truthy options then throw (mk_error ''Error'' ''cannot read the Passkey registration options from the answer'')
      else bnd (base64UrlToBuffer (opt_get options ''challenge'')) (\<lambda>challenge.
           bnd (base64UrlToBuffer (opt_get (opt_get options ''user'') ''id'')) (\<lambda>uid.
           bnd (decode_list_member options ''excludeCredentials''
              (obj_spread options [(''challenge'', challenge),
                 (''user'', obj_spread (opt_get options ''user'') [(''id'', uid)])])) (\<lambda>publicKey.
           ret (if opt_get options ''attestationFormats'' = JArr [] then obj_delete publicKey ''attestationFormats''
                else publicKey)))))"

definition prepareCredentialRequestOptions :: "jv \<Rightarrow> ('s, jv) act" where
  "prepareCredentialRequestOptions payload =
     (let options = public_key_of payload in
      if \<not> truthy options then throw (mk_error ''Error'' ''cannot read the Passkey login options from the answer'')
      else bnd (base64UrlToBuffer (opt_get options ''challenge'')) (\<lambda>challenge.
           decode_list_member options ''allowCredentials'' (obj_spread options [(''challenge'', challenge)])))"

text \<open>
  A credential of the browser: its data members, and the answers of its two optional
  methods (\<open>None\<close> when the browser does not have the method).
\<close>

record credential =
  cred_data :: jv
  getTransports :: "jv option"
  getClientExtensionResults :: "jv option"

definition extension_results :: "credential \<Rightarrow> jv" where
  "extension_results c = jcoalesce (case getClientExtensionResults c of Some v \<Rightarrow> v | None \<Rightarrow> JUndef) (JObj [])"

definition buildRegistrationResult :: "credential option \<Rightarrow> jv" where
  "buildRegistrationResult co = (case co of None \<Rightarrow> JNull | Some c \<Rightarrow>
     (let d = cred_data c; response = opt_get d ''response'' in
      JObj [(''id'', opt_get d ''id''),
            (''rawId'', bufferToBase64Url (opt_get d ''rawId'')),
            (''type'', opt_get d ''type''),
            (''authenticatorAttachment'', opt_get d ''authenticatorAttachment''),
            (''response'', JObj [
               (''attestationObject'', bufferToBase64Url (opt_get response ''attestationObject'')),
               (''clientDataJSON'', bufferToBase64Url (opt_get response ''clientDataJSON'')),
               (''transports'', case getTransports c of Some v \<Rightarrow> v | None \<Rightarrow> JUndef)]),
            (''clientExtensionResults'', extension_results c)]))"

definition buildAssertionResult :: "credential option \<Rightarrow> jv" where
  "buildAssertionResult co = (case co of None \<Rightarrow> JNull | Some c \<Rightarrow>
     (let d = cred_data c; response = opt_get d ''response'' in
      JObj [(''id'', opt_get d ''id''),
            (''rawId'', bufferToBase64Url (opt_get d ''rawId'')),
            (''type'', opt_get d ''type''),
            (''authenticatorAttachment'', opt_get d ''authenticatorAttachment''),
            (''response'', JObj [
               (''authenticatorData'', bufferToBase64Url (opt_get response ''authenticatorData'')),
               (''clientDataJSON'', bufferToBase64Url (opt_get response ''clientDataJSON'')),
               (''signature'', bufferToBase64Url (opt_get response ''signature'')),
               (''userHandle'', if truthy (opt_get response ''userHandle'')
                  then bufferToBase64Url (opt_get response ''userHandle'') else JNull)]),
            (''clientExtensionResults'', extension_results c)]))"

text \<open>Which parts of \<open>window.PublicKeyCredential\<close> the browser has.\<close>

record webauthn =
  has_credential :: bool
  has_conditional :: bool
  has_platform :: bool

definition isPasskeySupported :: "env \<Rightarrow> webauthn \<Rightarrow> ('x browser_scheme, bool) act" where
  "isPasskeySupported env w =
     (if \<not> has_credential w then ret False
      else bnd (if has_conditional w
                then try_catch (bnd (browser_call env (Passkey_probe ''isConditionalMediationAvailable''))
                       (\<lambda>available. ret (truthy available))) (\<lambda>_. ret False)
                else ret False) (\<lambda>available.
           if available then ret True
           else if has_platform w
             then try_catch (bnd (browser_call env (Passkey_probe ''isUserVerifyingPlatformAuthenticatorAvailable''))
                    (\<lambda>r. ret (truthy r))) (\<lambda>_. ret False)
             else ret True))"

section \<open>Round trip\<close>

lemma b64_val_char: "n < 64 \<Longrightarrow> b64_val (b64_char n) = Some n"
  by (auto simp: b64_val_def b64_char_def Let_def)

lemma to_sextets_bound: "\<forall>a \<in> set bs. a < 256 \<Longrightarrow> \<forall>x \<in> set (to_sextets bs). x < 64"
  by (induction bs rule: to_sextets.induct) auto

lemma from_to_sextets: "\<forall>a \<in> set bs. a < 256 \<Longrightarrow> from_sextets (to_sextets bs) = bs"
  by (induction bs rule: to_sextets.induct) auto

lemma to_sextets_length: "length (to_sextets bs) mod 4 \<noteq> 1"
  by (induction bs rule: to_sextets.induct) auto

text \<open>The characters of the alphabet, and of its URL variant.\<close>

definition std_char :: "char \<Rightarrow> bool" where
  "std_char c = (b64_val c \<noteq> None)"

definition url_of :: "char \<Rightarrow> char" where
  "url_of c = (if c = CHR ''+'' then CHR ''-'' else if c = CHR ''/'' then CHR ''_'' else c)"

definition std_of :: "char \<Rightarrow> char" where
  "std_of c = (if c = CHR ''-'' then CHR ''+'' else if c = CHR ''_'' then CHR ''/'' else c)"

lemma std_charD: "std_char c \<Longrightarrow> c \<noteq> CHR ''='' \<and> c \<noteq> CHR ''-'' \<and> c \<noteq> CHR ''_'' \<and> \<not> ascii_ws c"
  by (auto simp: std_char_def b64_val_def ascii_ws_def Let_def split: if_splits)

lemma std_char_b64: "n < 64 \<Longrightarrow> std_char (b64_char n)"
  by (simp add: std_char_def b64_val_char)

lemma std_of_url_of: "std_char c \<Longrightarrow> std_of (url_of c) = c"
  using std_charD[of c] by (auto simp: std_of_def url_of_def)

lemma replace_to_url:
  "replace_char (CHR ''/'') (CHR ''_'') (replace_char (CHR ''+'') (CHR ''-'') s) = List.map url_of s"
  by (auto simp: replace_char_def url_of_def)

lemma replace_to_std:
  "replace_char (CHR ''_'') (CHR ''/'') (replace_char (CHR ''-'') (CHR ''+'') s) = List.map std_of s"
  by (auto simp: replace_char_def std_of_def)

lemma strip_padding:
  assumes "list_all std_char x"
  shows "rev (dropWhile (\<lambda>c. c = CHR ''='') (rev (List.map url_of (x @ replicate k (CHR ''=''))))) = List.map url_of x"
proof -
  have "dropWhile (\<lambda>c. c = CHR ''='') (replicate k (CHR ''='') @ ys) = dropWhile (\<lambda>c. c = CHR ''='') ys" for ys
    by (induction k) auto
  moreover have "dropWhile (\<lambda>c. c = CHR ''='') (rev (List.map url_of x)) = rev (List.map url_of x)"
  proof (cases x rule: rev_cases)
    case (snoc ys y)
    then have "std_char y" using assms by simp
    then have "url_of y \<noteq> CHR ''=''" using std_charD[of y] by (auto simp: url_of_def)
    then show ?thesis by (simp add: snoc)
  qed simp
  moreover have "List.map url_of (x @ replicate k (CHR ''='')) = List.map url_of x @ replicate k (CHR ''='')"
    by (simp add: url_of_def)
  moreover have "url_of CHR ''='' = CHR ''=''" by (simp add: url_of_def)
  ultimately show ?thesis by (simp add: rev_map[symmetric])
qed

lemma drop_padding_std:
  assumes "list_all std_char x" and "length x mod 4 \<noteq> 1"
  shows "drop_padding (x @ replicate ((4 - length x mod 4) mod 4) (CHR ''='')) = x"
proof -
  have l: "x \<noteq> [] \<Longrightarrow> last x \<noteq> CHR ''=''" using assms(1) std_charD by (metis last_in_set list_all_iff)
  consider "length x mod 4 = 0" | "length x mod 4 = 2" | "length x mod 4 = 3" using assms(2) by linarith
  then show ?thesis
  proof cases
    case 1
    then show ?thesis using l by (auto simp: drop_padding_def)
  next
    case 2
    then have r: "replicate ((4 - length x mod 4) mod 4) (CHR ''='') = [CHR ''='', CHR ''='']"
      by (simp add: numeral_2_eq_2)
    have "length (x @ [CHR ''='', CHR ''='']) mod 4 = 0" using 2 by simp presburger
    then show ?thesis unfolding r by (simp add: drop_padding_def butlast_append)
  next
    case 3
    then have r: "replicate ((4 - length x mod 4) mod 4) (CHR ''='') = [CHR ''='']" by simp
    have "length (x @ [CHR ''='']) mod 4 = 0" using 3 by simp presburger
    then show ?thesis unfolding r using l by (auto simp: drop_padding_def butlast_append)
  qed
qed

lemma atob_std:
  assumes "list_all std_char x" and "length x mod 4 \<noteq> 1"
  shows "atob (x @ replicate ((4 - length x mod 4) mod 4) (CHR ''=''))
    = Some (List.map char_of (from_sextets (List.map (\<lambda>c. the (b64_val c)) x)))"
proof -
  have "filter (\<lambda>c. \<not> ascii_ws c) (x @ replicate k (CHR ''='')) = x @ replicate k (CHR ''='')" for k
    using assms(1) std_charD by (auto simp: list_all_iff ascii_ws_def intro!: filter_True)
  then show ?thesis
    using drop_padding_std[OF assms] assms by (simp add: atob_def std_char_def[abs_def])
qed

lemma byte_bound: "unat (w :: 8 word) < 256"
  using unsigned_less[of w, where 'a=nat] by simp

lemma byte_back: "(of_nat (of_char (char_of (unat w))) :: 8 word) = w"
  using byte_bound[of w] by simp

lemma b64url_encode_eq:
  "b64url_encode bs = List.map url_of (List.map b64_char (to_sextets (List.map unat bs)))"
proof -
  let ?x = "List.map b64_char (to_sextets (List.map unat bs))"
  have b: "\<forall>a \<in> set (List.map unat bs). a < 256" by (auto simp: byte_bound)
  have m: "List.map of_char (List.map (\<lambda>w. char_of (unat w)) bs) = List.map unat bs"
    by (simp add: byte_bound)
  have std: "list_all std_char ?x"
    using to_sextets_bound[OF b] by (auto simp: list_all_iff std_char_b64)
  show ?thesis
    unfolding b64url_encode_def btoa_def Let_def replace_to_url m by (rule strip_padding[OF std])
qed

text \<open>C9: Every buffer survives \<open>bufferToBase64Url\<close> followed by \<open>base64UrlToBuffer\<close>: challenges,
  credential ids and signatures reach the other side unchanged.\<close>

theorem base64url_roundtrip: "b64url_decode (b64url_encode bs) = Some bs"
proof -
  let ?ss = "to_sextets (List.map unat bs)"
  let ?x = "List.map b64_char ?ss"
  have b: "\<forall>a \<in> set (List.map unat bs). a < 256" by (auto simp: byte_bound)
  have sb: "\<forall>n \<in> set ?ss. n < 64" by (rule to_sextets_bound[OF b])
  then have std: "list_all std_char ?x" by (auto simp: list_all_iff std_char_b64)
  have inv: "List.map std_of (List.map url_of ?x) = ?x"
    using sb std_of_url_of std_char_b64 by auto
  have vals: "List.map (\<lambda>c. the (b64_val c)) ?x = ?ss"
    using sb by (simp add: b64_val_char map_idI)
  have "atob (?x @ replicate ((4 - length ?x mod 4) mod 4) (CHR ''='')) = Some (List.map char_of (List.map unat bs))"
    using atob_std[OF std] to_sextets_length vals from_to_sextets[OF b] by simp
  moreover have "std_of (CHR ''='') = CHR ''=''" by (simp add: std_of_def)
  ultimately have "b64url_decode (b64url_encode bs)
    = Some (List.map (\<lambda>c. of_nat (of_char c)) (List.map char_of (List.map unat bs)))"
    using inv by (simp add: b64url_decode_def b64url_encode_eq replace_to_std Let_def del: map_map)
  then show ?thesis by (simp add: byte_bound comp_def map_idI)
qed

interpretation b64url: codec b64url_encode b64url_decode "\<lambda>_. True"
  by unfold_locales (rule base64url_roundtrip)


definition url_safe :: "char \<Rightarrow> bool" where
  "url_safe c = (let n = (of_char c :: nat) in
     (48 \<le> n \<and> n \<le> 57) \<or> (65 \<le> n \<and> n \<le> 90) \<or> (97 \<le> n \<and> n \<le> 122) \<or> n = 45 \<or> n = 95)"

lemma url_safe_b64: "n < 64 \<Longrightarrow> url_safe (url_of (b64_char n))"
  by (auto simp: url_safe_def url_of_def b64_char_def Let_def char_of_eq_iff)

lemma to_sextets_len: "length (to_sextets xs) = (4 * length xs + 2) div 3"
  by (induction xs rule: to_sextets.induct) auto

lemma base64url_alphabet_length: "length (b64url_encode bs) = (4 * length bs + 2) div 3"
  by (simp add: b64url_encode_eq to_sextets_len)

text \<open>What \<open>bufferToBase64Url\<close> puts into a result needs no escaping: only letters, digits,
  minus and underscore, no padding, and a third more characters than bytes, rounded up.\<close>

lemma base64url_alphabet:
  "list_all url_safe (b64url_encode bs) \<and> length (b64url_encode bs) = (4 * length bs + 2) div 3"
proof -
  have b: "\<forall>a \<in> set (List.map unat bs). a < 256" by (auto simp: byte_bound)
  have "list_all url_safe (b64url_encode bs)"
    using to_sextets_bound[OF b] url_safe_b64 by (auto simp: b64url_encode_eq list_all_iff)
  then show ?thesis by (simp add: base64url_alphabet_length)
qed

lemma empty_encode: "b64url_encode bs = [] \<Longrightarrow> bs = []"
  using base64url_alphabet_length[of bs] by (cases bs) auto

lemma base64UrlToBuffer_encoded: "base64UrlToBuffer (bufferToBase64Url (JBuf bs)) = ret (JBuf bs)"
  using base64url_roundtrip[of bs] empty_encode[of bs]
  by (auto simp: base64UrlToBuffer_def bufferToBase64Url_def)

text \<open>An item of a credential list as the backend sends it, and as WebAuthn needs it.\<close>

definition sent_item :: "jv \<times> 8 word list \<Rightarrow> jv" where
  "sent_item p = obj_spread (fst p) [(''id'', JStr (b64url_encode (snd p)))]"

definition buffer_item :: "jv \<times> 8 word list \<Rightarrow> jv" where
  "buffer_item p = obj_spread (sent_item p) [(''id'', JBuf (snd p))]"

lemma opt_get_sent_id: "opt_get (sent_item p) ''id'' = JStr (b64url_encode (snd p))"
  by (simp add: sent_item_def opt_get_obj_spread)

lemma not_nullish_sent: "\<not> nullish (sent_item p)"
  by (simp add: sent_item_def obj_spread_def obj_set_def)

lemma decode_sent: "base64UrlToBuffer (JStr (b64url_encode bs)) = ret (JBuf bs)"
  using base64UrlToBuffer_encoded[of bs] by (simp add: bufferToBase64Url_def)

lemma prop_get_sent: "prop_get (sent_item p) ''id'' = ret (JStr (b64url_encode (snd p)))"
  by (rule ext) (simp add: prop_get_def not_nullish_sent opt_get_sent_id)

lemma decode_ids_sent: "decode_ids (List.map sent_item ps) = ret (List.map buffer_item ps)"
proof (induction ps)
  case Nil
  then show ?case by simp
next
  case (Cons p ps)
  then show ?case by (simp add: prop_get_sent decode_sent buffer_item_def)
qed

text \<open>The options of a passkey login carry to the authenticator exactly the bytes the backend
  chose: the challenge and every allowed credential id are decoded, every other member of the
  options and of the items is passed on unchanged.\<close>

lemma request_options_decoded:
  assumes "truthy (opt_get payload ''publicKey'')"
    and "opt_get (opt_get payload ''publicKey'') ''challenge'' = JStr (b64url_encode c)"
    and "opt_get (opt_get payload ''publicKey'') ''allowCredentials'' = JArr (List.map sent_item ps)"
  shows "\<exists>pk. prepareCredentialRequestOptions payload s = (Inr pk, s)
    \<and> opt_get pk ''challenge'' = JBuf c \<and> opt_get pk ''allowCredentials'' = JArr (List.map buffer_item ps)
    \<and> (\<forall>k. k \<noteq> ''challenge'' \<longrightarrow> k \<noteq> ''allowCredentials'' \<longrightarrow> opt_get pk k = opt_get (opt_get payload ''publicKey'') k)"
proof -
  let ?o = "opt_get payload ''publicKey''"
  have o: "public_key_of payload = ?o" using assms(1) by (simp add: public_key_of_def jor_def)
  have "prepareCredentialRequestOptions payload s
    = (Inr (obj_set (obj_spread ?o [(''challenge'', JBuf c)]) ''allowCredentials'' (JArr (List.map buffer_item ps))), s)"
    using assms by (simp add: prepareCredentialRequestOptions_def o Let_def decode_sent decode_list_member_def decode_ids_sent ret_def)
  then show ?thesis by (simp add: opt_get_obj_set opt_get_obj_spread opt_get_obj_spread_other)
qed

lemma request_options_decoded_example:
  "\<exists>pk. prepareCredentialRequestOptions (JObj [(''publicKey'', JObj [(''challenge'', JStr (b64url_encode [1, 255])),
      (''allowCredentials'', JArr [sent_item (JObj [], [7])])])]) blank_browser = (Inr pk, blank_browser)
    \<and> opt_get pk ''challenge'' = JBuf [1, 255]"
  using request_options_decoded[of "JObj [(''publicKey'', JObj [(''challenge'', JStr (b64url_encode [1, 255])),
      (''allowCredentials'', JArr [sent_item (JObj [], [7])])])]" "[1, 255]" "[(JObj [], [7])]" blank_browser]
  by auto

end
