(* ===== verification/Secure_Verify.thy ===== *)
theory Secure_Verify
  imports Passkey
begin

text \<open>
  Step-up verification before a sensitive call: \<open>helpers/secureApiCall.js\<close> (recognising the
  backend's demand), \<open>services/secureVerification.js\<close> (the 2FA and passkey dialogues with the
  backend) and \<open>hooks/common/useSecureVerification.jsx\<close> (the modal and its state).
\<close>

section \<open>helpers/secureApiCall.js\<close>

definition isVerificationRequiredError :: "jv \<Rightarrow> bool" where
  "isVerificationRequiredError error =
     (let response = opt_get error ''response''; data = opt_get response ''data'' in
      if \<not> truthy response then False
      else if opt_get response ''status'' = JNum 403 \<and> truthy data
        then opt_get data ''code'' \<in> set [JStr ''VERIFICATION_REQUIRED'', JStr ''VERIFICATION_EXPIRED'', JStr ''VERIFICATION_INVALID'']
        else False)"

definition extractVerificationInfo :: "jv \<Rightarrow> jv" where
  "extractVerificationInfo error =
     (let data = jor (opt_get (opt_get error ''response'') ''data'') (JObj []) in
      JObj [(''code'', opt_get data ''code''),
            (''message'', jor (opt_get data ''message'') (JStr ''security verification required'')),
            (''required'', JBool True)])"

section \<open>services/secureVerification.js\<close>

record methods =
  has2FA :: bool
  hasPasskey :: bool
  passkeySupported :: bool

definition no_methods :: methods where
  "no_methods = \<lparr>has2FA = False, hasPasskey = False, passkeySupported = False\<rparr>"

text \<open>A member of \<open>Promise.all\<close>: started whatever the others do, its outcome kept.\<close>

definition attempt :: "('s, 'a) act \<Rightarrow> ('s, jv + 'a) act" where
  [act_simps]: "attempt m s = (case m s of (r, s') \<Rightarrow> (Inr r, s'))"

definition enabled_in :: "jv \<Rightarrow> bool" where
  "enabled_in body = (truthy (opt_get body ''success'') \<and> opt_get (opt_get body ''data'') ''enabled'' = JBool True)"

definition checkAvailableVerificationMethods :: "env \<Rightarrow> webauthn \<Rightarrow> ('x browser_scheme, methods) act" where
  "checkAvailableVerificationMethods env w =
     bnd (attempt (api_get env ''/api/user/2fa/status'' JUndef)) (\<lambda>a.
     bnd (attempt (api_get env ''/api/user/passkey'' JUndef)) (\<lambda>b.
     bnd (attempt (isPasskeySupported env w)) (\<lambda>c.
       ret (case (a, b, c) of
              (Inr twoFA, Inr passkey, Inr supported) \<Rightarrow>
                \<lparr>has2FA = enabled_in twoFA, hasPasskey = enabled_in passkey, passkeySupported = supported\<rparr>
            | _ \<Rightarrow> no_methods))))"

text \<open>\<open>throw new Error(data?.message || fallback)\<close>.\<close>

definition fail_with :: "jv \<Rightarrow> string \<Rightarrow> ('s, 'a) act" where
  "fail_with body fallback = throw (mk_error ''Error'' (to_str (jor (opt_get body ''message'') (JStr fallback))))"

definition verify2FA :: "env \<Rightarrow> string \<Rightarrow> ('x browser_scheme, unit) act" where
  "verify2FA env code =
     (if trim code = [] then throw (mk_error ''Error'' ''enter the verification code or backup code'')
      else bnd (api_post env ''/api/verify'' (JObj [(''method'', JStr ''2fa''), (''code'', JStr (trim code))])) (\<lambda>body.
        if \<not> truthy (opt_get body ''success'') then fail_with body ''verification failed'' else ret ()))"

text \<open>The browser's answer to a credential request: null, or the credential's members, with the
  answer of its extension method.\<close>

definition credential_of :: "jv \<Rightarrow> credential option" where
  "credential_of v = (if truthy v then Some \<lparr>cred_data = v, getTransports = None,
     getClientExtensionResults = Some (opt_get v ''getClientExtensionResults()'')\<rparr> else None)"

definition passkey_dialogue :: "env \<Rightarrow> ('x browser_scheme, unit) act" where
  "passkey_dialogue env =
     bnd (api_post env ''/api/user/passkey/verify/begin'' JUndef) (\<lambda>begin_body.
       if \<not> truthy (opt_get begin_body ''success'') then fail_with begin_body ''could not start the verification''
       else bnd (prop_get (opt_get begin_body ''data'') ''options'') (\<lambda>options.
            bnd (prepareCredentialRequestOptions options) (\<lambda>publicKey.
            bnd (browser_call env (Credential_get publicKey)) (\<lambda>credential.
              if \<not> truthy credential then throw (mk_error ''Error'' ''Passkey verification was cancelled'')
              else bnd (api_post env ''/api/user/passkey/verify/finish'' (buildAssertionResult (credential_of credential))) (\<lambda>finish.
                if \<not> truthy (opt_get finish ''success'') then fail_with finish ''verification failed''
                else bnd (api_post env ''/api/verify'' (JObj [(''method'', JStr ''passkey'')])) (\<lambda>body.
                  if \<not> truthy (opt_get body ''success'') then fail_with body ''verification failed'' else ret ()))))))"

definition verifyPasskey :: "env \<Rightarrow> ('x browser_scheme, unit) act" where
  "verifyPasskey env = try_catch (passkey_dialogue env) (\<lambda>error.
     if opt_get error ''name'' = JStr ''NotAllowedError'' then throw (mk_error ''Error'' ''Passkey verification was cancelled or timed out'')
     else if opt_get error ''name'' = JStr ''InvalidStateError'' then throw (mk_error ''Error'' ''invalid Passkey verification state'')
     else throw error)"

definition verify_with :: "env \<Rightarrow> jv \<Rightarrow> string \<Rightarrow> ('x browser_scheme, unit) act" where
  "verify_with env m code =
     (if m = JStr ''2fa'' then verify2FA env code
      else if m = JStr ''passkey'' then verifyPasskey env
      else throw (mk_error ''Error'' (''unsupported verification method: '' @ to_str m)))"

text \<open>The API calls the factory makes, as data: a call is run by \<open>run_call\<close>.\<close>

datatype api_thunk = ViewChannelKey jv | Custom string string jv

definition upper_char :: "char \<Rightarrow> char" where
  "upper_char c = (let n = (of_char c :: nat) in if 97 \<le> n \<and> n \<le> 122 then char_of (n - 32) else c)"

fun run_call :: "env \<Rightarrow> api_thunk \<Rightarrow> ('x browser_scheme, jv) act" where
  "run_call env (ViewChannelKey channelId) =
     api_post env (''/api/channel/'' @ to_str channelId @ ''/key'') (JObj [])"
| "run_call env (Custom url meth data) =
     (let m = List.map upper_char meth in
      if m = ''GET'' then api_get env url data
      else if m = ''POST'' then api_post env url data
      else if m = ''PUT'' then api_call env False (Http PUT url data)
      else if m = ''DELETE'' then api_call env False (Http DELETE url (JObj [(''data'', data)]))
      else throw (mk_error ''Error'' (''unsupported HTTP method: '' @ meth)))"

section \<open>hooks/common/useSecureVerification.jsx\<close>

record verification = browser +
  verificationMethods :: methods
  isModalVisible :: bool
  v_method :: jv
  v_loading :: bool
  v_code :: string
  v_apiCall :: "api_thunk option"

text \<open>The options of the hook: the two callbacks, the success message and \<open>autoReset\<close>.\<close>

record 's hook_options =
  onSuccess :: "jv \<Rightarrow> jv \<Rightarrow> ('s, unit) act"
  onError :: "jv \<Rightarrow> ('s, unit) act"
  successMessage :: jv
  autoReset :: bool

definition checkVerificationMethods :: "env \<Rightarrow> webauthn \<Rightarrow> (verification, methods) act" where
  "checkVerificationMethods env w = bnd (checkAvailableVerificationMethods env w) (\<lambda>ms.
     sq (modify (\<lambda>s. s\<lparr>verificationMethods := ms\<rparr>)) (ret ms))"

definition resetState :: "(verification, unit) act" where
  "resetState = modify (\<lambda>s. s\<lparr>v_method := JNull, v_loading := False, v_code := [], v_apiCall := None,
     isModalVisible := False\<rparr>)"

definition startVerification ::
  "env \<Rightarrow> webauthn \<Rightarrow> verification hook_options \<Rightarrow> api_thunk \<Rightarrow> jv \<Rightarrow> (verification, bool) act" where
  "startVerification env w opts apiCall preferredMethod =
     bnd (checkVerificationMethods env w) (\<lambda>ms.
       if \<not> has2FA ms \<and> \<not> hasPasskey ms
       then sq (showErr ''enable two-factor authentication or Passkey first'')
           (sq (onError opts (mk_error ''Error'' ''enable two-factor authentication or Passkey first'')) (ret False))
       else let defaultMethod =
              (if \<not> truthy preferredMethod then
                 if hasPasskey ms \<and> passkeySupported ms then JStr ''passkey''
                 else if has2FA ms then JStr ''2fa'' else preferredMethod
               else preferredMethod) in
            sq (modify (\<lambda>s. s\<lparr>v_method := defaultMethod, v_apiCall := Some apiCall, isModalVisible := True\<rparr>))
               (ret True))"

definition executeVerification ::
  "env \<Rightarrow> verification hook_options \<Rightarrow> jv \<Rightarrow> string \<Rightarrow> (verification, jv) act" where
  "executeVerification env opts m code =
     bnd (gets v_apiCall) (\<lambda>apiCall. case apiCall of
       None \<Rightarrow> sq (showErr ''verification is misconfigured'') (ret JUndef)
     | Some call \<Rightarrow>
         sq (modify (\<lambda>s. s\<lparr>v_loading := True\<rparr>))
           (try_finally
             (try_catch
               (sq (verify_with env m code)
                 (bnd (run_call env call) (\<lambda>result.
                   sq (act_when (truthy (successMessage opts)) (showSuccess (successMessage opts)))
                   (sq (onSuccess opts result m)
                   (sq (act_when (autoReset opts) resetState)
                       (ret result))))))
               (\<lambda>error. sq (showError (jor (opt_get error ''message'') (JStr ''verification failed, please retry'')))
                 (sq (onError opts error) (throw error))))
             (modify (\<lambda>s. s\<lparr>v_loading := False\<rparr>))))"

definition setVerificationCode :: "string \<Rightarrow> (verification, unit) act" where
  "setVerificationCode code = modify (\<lambda>s. s\<lparr>v_code := code\<rparr>)"

definition switchVerificationMethod :: "jv \<Rightarrow> (verification, unit) act" where
  "switchVerificationMethod m = modify (\<lambda>s. s\<lparr>v_method := m, v_code := []\<rparr>)"

definition cancelVerification :: "(verification, unit) act" where
  "cancelVerification = resetState"

definition canUseMethod :: "verification \<Rightarrow> jv \<Rightarrow> bool" where
  "canUseMethod s m =
     (if m = JStr ''2fa'' then has2FA (verificationMethods s)
      else if m = JStr ''passkey'' then hasPasskey (verificationMethods s) \<and> passkeySupported (verificationMethods s)
      else False)"

definition getRecommendedMethod :: "verification \<Rightarrow> jv" where
  "getRecommendedMethod s =
     (let ms = verificationMethods s in
      if hasPasskey ms \<and> passkeySupported ms then JStr ''passkey''
      else if has2FA ms then JStr ''2fa'' else JNull)"

definition withVerification ::
  "env \<Rightarrow> webauthn \<Rightarrow> verification hook_options \<Rightarrow> api_thunk \<Rightarrow> jv \<Rightarrow> (verification, jv) act" where
  "withVerification env w opts apiCall preferredMethod =
     try_catch (run_call env apiCall) (\<lambda>error.
       if isVerificationRequiredError error
       then bnd (startVerification env w opts apiCall preferredMethod) (\<lambda>_. ret JNull)
       else throw error)"


section \<open>Lemmas\<close>

text \<open>The dialogues leave the state of the modal alone.\<close>

lemma frames_b64 [frames_intros]: "frames (base64UrlToBuffer v)"
  by (auto simp: base64UrlToBuffer_def intro!: frames_intros split: option.split jv.split)

lemma frames_decode_ids [frames_intros]: "frames (decode_ids items)"
  by (induction items) (auto intro!: frames_intros)

lemma frames_decode_list_member [frames_intros]: "frames (decode_list_member options k pk)"
  by (auto simp: decode_list_member_def intro!: frames_intros split: jv.split)

lemma frames_prepare [frames_intros]: "frames (prepareCredentialRequestOptions p)"
  unfolding prepareCredentialRequestOptions_def Let_def by (intro frames_intros)

lemma frames_fail_with [frames_intros]: "frames (fail_with b f)"
  unfolding fail_with_def by (intro frames_intros)

lemma frames_passkey_supported [frames_intros]: "frames (isPasskeySupported env w)"
  unfolding isPasskeySupported_def by (intro frames_intros)

lemma frames_attempt [frames_intros]: "frames m \<Longrightarrow> frames (attempt m)"
  by (auto simp: framed.obeys_def attempt_def split: prod.split) (metis snd_conv)

lemma frames_verify2FA [frames_intros]: "frames (verify2FA env code)"
  unfolding verify2FA_def by (intro frames_intros)

lemma frames_verifyPasskey [frames_intros]: "frames (verifyPasskey env)"
  unfolding verifyPasskey_def passkey_dialogue_def by (intro frames_intros)

lemma frames_verify_with [frames_intros]: "frames (verify_with env m code)"
  unfolding verify_with_def by (intro frames_intros)

lemma frames_check [frames_intros]: "frames (checkAvailableVerificationMethods env w)"
  unfolding checkAvailableVerificationMethods_def by (intro frames_intros)

lemma frames_run_call [frames_intros]: "frames (run_call env call)"
  by (cases call) (auto simp: Let_def intro!: frames_intros)

lemma verification_fields:
  fixes s t :: verification
  assumes "browser.more t = browser.more s"
  shows "v_apiCall t = v_apiCall s" "isModalVisible t = isModalVisible s" "v_method t = v_method s"
    "v_loading t = v_loading s" "v_code t = v_code s" "verificationMethods t = verificationMethods s"
  using assms by (cases s; cases t; simp)+

text \<open>A start that finds a method opens the modal for the given call.\<close>

lemma start_opens:
  assumes "checkAvailableVerificationMethods env w s = (Inr ms, t)" and "has2FA ms \<or> hasPasskey ms"
  shows "startVerification env w opts call pm s = (Inr True, t\<lparr>verificationMethods := ms,
    v_method := (if truthy pm then pm else if hasPasskey ms \<and> passkeySupported ms then JStr ''passkey''
       else if has2FA ms then JStr ''2fa'' else pm),
    v_apiCall := Some call, isModalVisible := True\<rparr>)"
  using assms by (auto simp: startVerification_def checkVerificationMethods_def act_simps Let_def)

lemma execute_loading_done: "v_loading s = False \<Longrightarrow> v_loading (snd (executeVerification env opts m code s)) = False"
proof (cases "v_apiCall s")
  case None
  moreover assume "v_loading s = False"
  ultimately show ?thesis by (simp add: executeVerification_def act_simps)
qed (simp add: executeVerification_def bnd_def gets_def sq_def modify_def try_finally_def split: prod.split)

section \<open>Properties\<close>

text \<open>C1: The verified call is made only after the verification succeeded: when the dialogue with
  the backend fails, \<open>executeVerification\<close> passes the error on, adds nothing but a toast to what
  the dialogue did, and keeps the modal and the pending call for another try.\<close>

theorem failed_verification_blocks_call:
  assumes "v_apiCall s = Some call" and "verify_with env m code (s\<lparr>v_loading := True\<rparr>) = (Inl e, t)"
    and "opt_get e ''message'' = JStr msg" and "onError opts = (\<lambda>_. ret ())"
  shows "\<exists>text u. executeVerification env opts m code s = (Inl e, u)
    \<and> trace u = trace t @ [Toasted TError text] \<and> v_apiCall u = Some call
    \<and> isModalVisible u = isModalVisible s \<and> \<not> v_loading u"
proof -
  have fr: "browser.more t = browser.more (s\<lparr>v_loading := True\<rparr>)"
    using framesD[OF frames_verify_with assms(2)] .
  let ?text = "if msg = [] then JStr ''verification failed, please retry'' else JStr msg"
  have "executeVerification env opts m code s
    = (Inl e, t\<lparr>trace := trace t @ [Toasted TError (JStr (''Error: '' @ to_str ?text))], v_loading := False\<rparr>)"
    using assms by (auto simp: executeVerification_def act_simps jor_def)
  then show ?thesis using verification_fields[OF fr] assms(1) by simp
qed

definition quiet_options :: "verification hook_options" where
  "quiet_options = \<lparr>onSuccess = (\<lambda>_ _. ret ()), onError = (\<lambda>_. ret ()), successMessage = JUndef, autoReset = True\<rparr>"

definition verification_example :: verification where
  "verification_example = browser.extend blank_browser \<lparr>verificationMethods = no_methods, isModalVisible = True,
     v_method = JStr ''2fa'', v_loading = False, v_code = [], v_apiCall = Some (ViewChannelKey (JNum 1)), \<dots> = ()\<rparr>"

theorem failed_verification_blocks_call_witness:
  "v_apiCall (snd (executeVerification (\<lambda>_ _. Rejected JNull) quiet_options (JStr ''2fa'') [] verification_example))
   = Some (ViewChannelKey (JNum 1))"
proof -
  have "\<exists>text u. executeVerification (\<lambda>_ _. Rejected JNull) quiet_options (JStr ''2fa'') [] verification_example
      = (Inl (mk_error ''Error'' ''enter the verification code or backup code''), u)
    \<and> trace u = trace (verification_example\<lparr>v_loading := True\<rparr>) @ [Toasted TError text] \<and> v_apiCall u = Some (ViewChannelKey (JNum 1))
    \<and> isModalVisible u = isModalVisible verification_example \<and> \<not> v_loading u"
    by (rule failed_verification_blocks_call[of _ _ _ _ _ _ _ "''enter the verification code or backup code''"])
      (simp_all add: verification_example_def browser.defs verify_with_def verify2FA_def trim_def throw_def mk_error_def quiet_options_def)
  then show ?thesis by auto
qed

text \<open>When the backend demands verification and the user has a usable method,
  \<open>withVerification\<close> swallows the error, returns null, opens the modal for exactly the call that
  was refused, and preselects the recommended method, which can be used.\<close>

lemma refused_call_is_kept:
  assumes "run_call env call s = (Inl e, t)" and "isVerificationRequiredError e"
    and "checkAvailableVerificationMethods env w t = (Inr ms, u)"
    and "has2FA ms \<or> (hasPasskey ms \<and> passkeySupported ms)"
  shows "\<exists>v. withVerification env w opts call JUndef s = (Inr JNull, v)
    \<and> isModalVisible v \<and> v_apiCall v = Some call \<and> v_method v = getRecommendedMethod v
    \<and> canUseMethod v (v_method v)"
proof -
  have st: "startVerification env w opts call JUndef t = (Inr True, u\<lparr>verificationMethods := ms,
    v_method := (if truthy JUndef then JUndef else if hasPasskey ms \<and> passkeySupported ms then JStr ''passkey''
       else if has2FA ms then JStr ''2fa'' else JUndef),
    v_apiCall := Some call, isModalVisible := True\<rparr>)"
    using start_opens[OF assms(3)] assms(4) by auto
  show ?thesis
    using assms(1,2,4) st
    by (auto simp: withVerification_def try_catch_def bnd_def ret_def getRecommendedMethod_def canUseMethod_def Let_def)
qed

definition refusing_env :: env where
  "refusing_env h r = (if r = Http POST ''/api/channel/1/key'' (JObj [])
     then Rejected (axios_error 403 (JObj [(''code'', JStr ''VERIFICATION_REQUIRED'')]) ''refused'')
     else Ok (JObj [(''success'', JBool True), (''data'', JObj [(''enabled'', JBool True)])]))"

lemma refused_call_is_kept_example:
  "\<exists>v. withVerification refusing_env \<lparr>has_credential = False, has_conditional = False, has_platform = False\<rparr>
      quiet_options (ViewChannelKey (JNum 1)) JUndef verification_example = (Inr JNull, v) \<and> isModalVisible v"
proof -
  let ?w = "\<lparr>has_credential = False, has_conditional = False, has_platform = False\<rparr>"
  let ?r = "run_call refusing_env (ViewChannelKey (JNum 1)) verification_example"
  have one: "num_str 1 = ''1''" by (simp add: num_str_def int_str_def nat_digits.simps digit_char_def char_of_eq_iff)
  have r: "?r = (Inl (axios_error 403 (JObj [(''code'', JStr ''VERIFICATION_REQUIRED'')]) ''refused''), snd ?r)"
    by (simp add: act_simps refusing_env_def one verification_example_def browser.defs on_rejected_def showError_def axios_error_def Let_def)
  have c: "checkAvailableVerificationMethods refusing_env ?w t
    = (Inr \<lparr>has2FA = True, hasPasskey = True, passkeySupported = False\<rparr>, snd (checkAvailableVerificationMethods refusing_env ?w t))"
    for t :: verification
    by (simp add: checkAvailableVerificationMethods_def act_simps refusing_env_def enabled_in_def isPasskeySupported_def Let_def)
  show ?thesis
    using refused_call_is_kept[OF r _ c, of quiet_options]
    by (auto simp: isVerificationRequiredError_def axios_error_def Let_def)
qed

text \<open>A user whose only method is a passkey, in a browser that has no passkey support, gets a
  modal that cannot be completed: it opens with an undefined method, no method can be used, and
  executing it fails without any dialogue.\<close>

lemma passkey_only_unsupported_is_stuck:
  assumes "checkAvailableVerificationMethods env w s = (Inr \<lparr>has2FA = False, hasPasskey = True, passkeySupported = False\<rparr>, t)"
  shows "\<exists>u. startVerification env w opts call JUndef s = (Inr True, u) \<and> isModalVisible u \<and> v_method u = JUndef
    \<and> (\<forall>m. \<not> canUseMethod u m)
    \<and> verify_with env (v_method u) code u = (Inl (mk_error ''Error'' ''unsupported verification method: undefined''), u)"
  using start_opens[OF assms] by (simp add: canUseMethod_def verify_with_def throw_def)

definition passkey_only_env :: env where
  "passkey_only_env h r = (if r = Http GET ''/api/user/passkey'' JUndef
     then Ok (JObj [(''success'', JBool True), (''data'', JObj [(''enabled'', JBool True)])])
     else Ok (JObj [(''success'', JBool False)]))"

lemma passkey_only_unsupported_is_stuck_example:
  "\<exists>u. startVerification passkey_only_env \<lparr>has_credential = False, has_conditional = False, has_platform = False\<rparr>
      quiet_options (ViewChannelKey (JNum 1)) JUndef verification_example = (Inr True, u) \<and> v_method u = JUndef"
proof -
  let ?w = "\<lparr>has_credential = False, has_conditional = False, has_platform = False\<rparr>"
  have c: "checkAvailableVerificationMethods passkey_only_env ?w verification_example
    = (Inr \<lparr>has2FA = False, hasPasskey = True, passkeySupported = False\<rparr>,
       snd (checkAvailableVerificationMethods passkey_only_env ?w verification_example))"
    by (simp add: checkAvailableVerificationMethods_def act_simps passkey_only_env_def enabled_in_def isPasskeySupported_def Let_def)
  show ?thesis using passkey_only_unsupported_is_stuck[OF c, of quiet_options] by blast
qed

end
