(* ===== verification/Login.thy ===== *)
theory Login
  imports Api Session Passkey
begin

text \<open>
  Signing in: \<open>components/auth/LoginForm.jsx\<close>, \<open>TwoFAVerification.jsx\<close> and
  \<open>OAuth2Callback.jsx\<close>. A handler runs from the click to its last continuation, the answers
  coming from \<open>env\<close>; an OAuth flow that the handler starts without awaiting it runs after the
  handler's synchronous part, its outcome unobserved (\<open>detach\<close>).
\<close>

section \<open>State\<close>

record login_form = browser +
  username :: string
  password :: string
  wechat_code :: string
  submitted :: bool
  turnstileEnabled :: bool
  turnstileSiteKey :: jv
  turnstileToken :: string
  showWeChatLoginModal :: bool
  showEmailLogin :: bool
  wechatLoading :: bool
  githubLoading :: bool
  discordLoading :: bool
  oidcLoading :: bool
  linuxdoLoading :: bool
  emailLoginLoading :: bool
  loginLoading :: bool
  resetPasswordLoading :: bool
  otherLoginOptionsLoading :: bool
  wechatCodeSubmitLoading :: bool
  showTwoFA :: bool
  passkeyAvailable :: bool
  passkeyLoading :: bool
  agreedToTerms :: bool
  hasUserAgreement :: bool
  hasPrivacyPolicy :: bool
  githubButtonText :: string
  githubButtonDisabled :: bool
  githubTimeout :: bool
  status :: jv

type_synonym 'a login_act = "(login_form, 'a) act"

text \<open>The status effect: the flags of the saved status that the form uses.\<close>

definition apply_status :: "unit login_act" where
  "apply_status = bnd (gets status) (\<lambda>st.
     if nullish st then throw type_error else
     sq (act_when (truthy (opt_get st ''turnstile_check''))
          (modify (\<lambda>s. s\<lparr>turnstileEnabled := True, turnstileSiteKey := opt_get st ''turnstile_site_key''\<rparr>)))
        (modify (\<lambda>s. s\<lparr>hasUserAgreement := truthy (opt_get st ''user_agreement_enabled''),
           hasPrivacyPolicy := truthy (opt_get st ''privacy_policy_enabled'')\<rparr>)))"

definition detach :: "('s, 'a) act \<Rightarrow> ('s, unit) act" where
  [act_simps]: "detach m = try_catch (bnd m (\<lambda>_. ret ())) (\<lambda>_. ret ())"

text \<open>The two guards at the head of the handlers: the consent, and the Turnstile token.\<close>

definition terms_missing :: "login_form \<Rightarrow> bool" where
  "terms_missing s = ((hasUserAgreement s \<or> hasPrivacyPolicy s) \<and> \<not> agreedToTerms s)"

definition terms_text :: jv where
  "terms_text = JStr ''please read and agree to the user agreement and privacy policy first''"

definition turnstile_text :: jv where
  "turnstile_text = JStr ''please retry in a few seconds, Turnstile is checking the user environment''"

definition turnstile_missing :: "login_form \<Rightarrow> bool" where
  "turnstile_missing s = (turnstileEnabled s \<and> turnstileToken s = [])"

section \<open>Handlers of LoginForm.jsx\<close>

definition onWeChatLoginClicked :: "unit login_act" where
  "onWeChatLoginClicked = bnd (gets terms_missing) (\<lambda>missing.
     if missing then showInfo terms_text
     else sq (modify (\<lambda>s. s\<lparr>wechatLoading := True\<rparr>))
         (sq (modify (\<lambda>s. s\<lparr>showWeChatLoginModal := True\<rparr>))
             (modify (\<lambda>s. s\<lparr>wechatLoading := False\<rparr>))))"

definition onSubmitWeChatVerificationCode :: "env \<Rightarrow> unit login_act" where
  "onSubmitWeChatVerificationCode env = bnd (gets (\<lambda>s. s)) (\<lambda>s0.
     if turnstile_missing s0 then showInfo turnstile_text
     else sq (modify (\<lambda>s. s\<lparr>wechatCodeSubmitLoading := True\<rparr>))
       (try_finally
         (try_catch
           (bnd (bnd (api_get env (''/api/oauth/wechat?code='' @ wechat_code s0) JUndef) destruct) (\<lambda>(success, message, data).
              if truthy success
              then sq (userDispatch ''login'' data)
                  (sq (set_item ''user'' (json_stringify data))
                  (sq (setUserData data)
                  (sq updateAPI
                  (sq (navigate ''/'')
                  (sq (showSuccess (JStr ''Login successful!''))
                      (modify (\<lambda>s. s\<lparr>showWeChatLoginModal := False\<rparr>)))))))
              else showError message))
           (\<lambda>_. showErr ''login failed, please retry''))
         (modify (\<lambda>s. s\<lparr>wechatCodeSubmitLoading := False\<rparr>))))"

fun handleChange :: "string \<Rightarrow> string \<Rightarrow> login_form \<Rightarrow> login_form" where
  "handleChange name value s =
     (if name = ''username'' then s\<lparr>username := value\<rparr>
      else if name = ''password'' then s\<lparr>password := value\<rparr>
      else if name = ''wechat_verification_code'' then s\<lparr>wechat_code := value\<rparr> else s)"

definition login_url :: "login_form \<Rightarrow> string" where
  "login_url s = ''/api/user/login?turnstile='' @ turnstileToken s"

definition login_body :: "login_form \<Rightarrow> jv" where
  "login_body s = JObj [(''username'', JStr (username s)), (''password'', JStr (password s))]"

text \<open>The successful end of the password and passkey sign-ins and of the second factor.\<close>

definition handle2FASuccess :: "jv \<Rightarrow> ('x browser_scheme, unit) act" where
  "handle2FASuccess data =
     sq (userDispatch ''login'' data)
    (sq (setUserData data)
    (sq updateAPI
    (sq (showSuccess (JStr ''Login successful!''))
        (navigate ''/console''))))"

definition handleSubmit :: "env \<Rightarrow> unit login_act" where
  "handleSubmit env = bnd (gets (\<lambda>s. s)) (\<lambda>s0.
     if terms_missing s0 then showInfo terms_text
     else if turnstile_missing s0 then showInfo turnstile_text
     else sq (modify (\<lambda>s. s\<lparr>submitted := True, loginLoading := True\<rparr>))
       (try_finally
         (try_catch
           (if username s0 \<noteq> [] \<and> password s0 \<noteq> [] then
              bnd (bnd (api_post env (login_url s0) (login_body s0)) destruct) (\<lambda>(success, message, data).
                if truthy success then
                  (if truthy data \<and> truthy (opt_get data ''require_2fa'')
                   then modify (\<lambda>s. s\<lparr>showTwoFA := True, loginLoading := False\<rparr>)
                   else sq (userDispatch ''login'' data)
                       (sq (setUserData data)
                       (sq updateAPI
                       (sq (showSuccess (JStr ''Login successful!''))
                       (sq (act_when (username s0 = ''root'' \<and> password s0 = ''123456'')
                             (emit (Dialog ''You are using the default password!'' ''Change it now!'')))
                           (navigate ''/console''))))))
                else showError message)
            else showErr ''please enter your username and password'')
           (\<lambda>_. showErr ''login failed, please retry''))
         (modify (\<lambda>s. s\<lparr>loginLoading := False\<rparr>))))"

definition telegram_fields :: "string list" where
  "telegram_fields = [''id'', ''first_name'', ''last_name'', ''username'', ''photo_url'', ''auth_date'', ''hash'', ''lang'']"

definition telegram_params :: "jv \<Rightarrow> jv" where
  "telegram_params response =
     fold (\<lambda>f params. if truthy (opt_get response f) then obj_set params f (opt_get response f) else params)
       telegram_fields (JObj [])"

definition telegram_login :: "env \<Rightarrow> jv \<Rightarrow> ('x browser_scheme, unit) act" where
  "telegram_login env response =
     (try_catch
       (bnd (bnd (api_get env ''/api/oauth/telegram/login'' (telegram_params response)) destruct) (\<lambda>(success, message, data).
          if truthy success
          then sq (userDispatch ''login'' data)
              (sq (set_item ''user'' (json_stringify data))
              (sq (showSuccess (JStr ''Login successful!''))
              (sq (setUserData data)
              (sq updateAPI
                  (navigate ''/'')))))
          else showError message))
       (\<lambda>_. showErr ''login failed, please retry''))"

definition onTelegramLoginClicked :: "env \<Rightarrow> jv \<Rightarrow> unit login_act" where
  "onTelegramLoginClicked env response = bnd (gets terms_missing) (\<lambda>missing.
     if missing then showInfo terms_text else telegram_login env response)"

definition handleGitHubClick :: "env \<Rightarrow> unit login_act" where
  "handleGitHubClick env = bnd (gets (\<lambda>s. s)) (\<lambda>s0.
     if terms_missing s0 then showInfo terms_text
     else if githubButtonDisabled s0 then ret ()
     else sq (modify (\<lambda>s. s\<lparr>githubLoading := True, githubButtonDisabled := True,
            githubButtonText := ''Redirecting to GitHub...'', githubTimeout := True\<rparr>))
         (sq (emit (Timer 20000 ''github_timeout''))
         (sq (emit (Timer 3000 ''github_loading_off''))
             (detach (onGitHubOAuthClicked env (opt_get (status s0) ''github_client_id'') True)))))"

text \<open>The two timers of the GitHub button.\<close>

definition github_timeout_fires :: "login_form \<Rightarrow> login_form" where
  "github_timeout_fires s = s\<lparr>githubLoading := False,
     githubButtonText := ''request timed out, refresh the page to start the GitHub login again'',
     githubButtonDisabled := True\<rparr>"

definition github_loading_off :: "login_form \<Rightarrow> login_form" where
  "github_loading_off s = s\<lparr>githubLoading := False\<rparr>"

definition handleDiscordClick :: "env \<Rightarrow> string \<Rightarrow> unit login_act" where
  "handleDiscordClick env origin = bnd (gets (\<lambda>s. s)) (\<lambda>s0.
     if terms_missing s0 then showInfo terms_text
     else sq (modify (\<lambda>s. s\<lparr>discordLoading := True\<rparr>))
         (sq (emit (Timer 3000 ''discord_loading_off''))
             (detach (onDiscordOAuthClicked env origin (opt_get (status s0) ''discord_client_id'') True))))"

definition handleOIDCClick ::
  "env \<Rightarrow> (string \<Rightarrow> (string \<times> string) list \<Rightarrow> string option) \<Rightarrow> string \<Rightarrow> unit login_act" where
  "handleOIDCClick env url_with origin = bnd (gets (\<lambda>s. s)) (\<lambda>s0.
     if terms_missing s0 then showInfo terms_text
     else sq (modify (\<lambda>s. s\<lparr>oidcLoading := True\<rparr>))
         (sq (emit (Timer 3000 ''oidc_loading_off''))
             (detach (onOIDCClicked env url_with origin (opt_get (status s0) ''oidc_authorization_endpoint'')
                (opt_get (status s0) ''oidc_client_id'') False True))))"

definition handleLinuxDOClick :: "env \<Rightarrow> unit login_act" where
  "handleLinuxDOClick env = bnd (gets (\<lambda>s. s)) (\<lambda>s0.
     if terms_missing s0 then showInfo terms_text
     else sq (modify (\<lambda>s. s\<lparr>linuxdoLoading := True\<rparr>))
         (sq (emit (Timer 3000 ''linuxdo_loading_off''))
             (detach (onLinuxDOOAuthClicked env (opt_get (status s0) ''linuxdo_client_id'') True))))"

definition handleEmailLoginClick :: "login_form \<Rightarrow> login_form" where
  "handleEmailLoginClick s = s\<lparr>showEmailLogin := True, emailLoginLoading := False\<rparr>"

definition handlePasskeyLogin :: "env \<Rightarrow> bool \<Rightarrow> unit login_act" where
  "handlePasskeyLogin env hasPublicKeyCredential = bnd (gets (\<lambda>s. s)) (\<lambda>s0.
     if terms_missing s0 then showInfo terms_text
     else if \<not> passkeyAvailable s0 then showInfo (JStr ''Passkey login is not available in this environment'')
     else if \<not> hasPublicKeyCredential then showInfo (JStr ''this browser does not support Passkey'')
     else sq (modify (\<lambda>s. s\<lparr>passkeyLoading := True\<rparr>))
       (try_finally
         (try_catch
           (bnd (bnd (api_post env ''/api/user/passkey/login/begin'' JUndef) destruct) (\<lambda>(success, message, data).
              if \<not> truthy success then showError (jor message (JStr ''could not start the Passkey login''))
              else bnd (prepareCredentialRequestOptions
                      (jor (opt_get data ''options'') (jor (opt_get data ''publicKey'') data))) (\<lambda>publicKeyOptions.
                   bnd (browser_call env (Credential_get publicKeyOptions)) (\<lambda>assertion.
                   let payload = buildAssertionResult (if truthy assertion
                         then Some \<lparr>cred_data = assertion, getTransports = None,
                           getClientExtensionResults = Some (opt_get assertion ''getClientExtensionResults()'')\<rparr> else None) in
                   if \<not> truthy payload then showErr ''Passkey verification failed, please retry''
                   else bnd (api_post env ''/api/user/passkey/login/finish'' payload) (\<lambda>finish.
                     if nullish finish then throw type_error
                     else if truthy (opt_get finish ''success'') then handle2FASuccess (opt_get finish ''data'')
                     else showError (jor (opt_get finish ''message'') (JStr ''Passkey login failed, please retry'')))))))
           (\<lambda>error. if opt_get error ''name'' = JStr ''AbortError'' then showInfo (JStr ''Passkey login cancelled'')
              else showErr ''Passkey login failed, please retry''))
         (modify (\<lambda>s. s\<lparr>passkeyLoading := False\<rparr>))))"

definition handleResetPasswordClick :: "unit login_act" where
  "handleResetPasswordClick =
     sq (modify (\<lambda>s. s\<lparr>resetPasswordLoading := True\<rparr>))
    (sq (navigate ''/reset'')
        (modify (\<lambda>s. s\<lparr>resetPasswordLoading := False\<rparr>)))"

definition handleOtherLoginOptionsClick :: "login_form \<Rightarrow> login_form" where
  "handleOtherLoginOptionsClick s = s\<lparr>showEmailLogin := False, otherLoginOptionsLoading := False\<rparr>"

definition handleBackToLogin :: "login_form \<Rightarrow> login_form" where
  "handleBackToLogin s = s\<lparr>showTwoFA := False, username := [], password := [], wechat_code := []\<rparr>"

section \<open>TwoFAVerification.jsx\<close>

record twofa_form = browser +
  tf_loading :: bool
  useBackupCode :: bool
  verificationCode :: string

text \<open>The regular expression of six digits.\<close>

definition six_digits :: "string \<Rightarrow> bool" where
  "six_digits s = (length s = 6 \<and> list_all is_digit s)"

definition twofa_handleSubmit :: "env \<Rightarrow> (jv \<Rightarrow> (twofa_form, unit) act) option \<Rightarrow> (twofa_form, unit) act" where
  "twofa_handleSubmit env on_success = bnd (gets (\<lambda>s. s)) (\<lambda>s0.
     if verificationCode s0 = [] then showErr ''please enter the verification code''
     else if useBackupCode s0 \<and> length (verificationCode s0) \<noteq> 8 then showErr ''the backup code must have 8 characters''
     else if \<not> useBackupCode s0 \<and> \<not> six_digits (verificationCode s0) then showErr ''the verification code must be 6 digits''
     else sq (modify (\<lambda>s. s\<lparr>tf_loading := True\<rparr>))
       (try_finally
         (try_catch
           (bnd (api_post env ''/api/user/login/2fa'' (JObj [(''code'', JStr (verificationCode s0))])) (\<lambda>body.
              if nullish body then throw type_error
              else if truthy (opt_get body ''success'')
              then sq (showSuccess (JStr ''Login successful''))
                  (sq (set_item ''user'' (json_stringify (opt_get body ''data'')))
                      (case on_success of None \<Rightarrow> ret () | Some f \<Rightarrow> f (opt_get body ''data'')))
              else showError (opt_get body ''message'')))
           (\<lambda>_. showErr ''verification failed, please retry''))
         (modify (\<lambda>s. s\<lparr>tf_loading := False\<rparr>))))"

definition toggleBackupCode :: "twofa_form \<Rightarrow> twofa_form" where
  "toggleBackupCode s = s\<lparr>useBackupCode := \<not> useBackupCode s, verificationCode := []\<rparr>"

section \<open>OAuth2Callback.jsx\<close>

definition MAX_RETRIES :: nat where
  "MAX_RETRIES = 3"

definition callback_url :: "string \<Rightarrow> jv \<Rightarrow> jv \<Rightarrow> string" where
  "callback_url type code st = ''/api/oauth/'' @ type @ ''?code='' @ to_str code @ ''&state='' @ to_str st"

text \<open>The body of the \<open>try\<close>.\<close>

definition send_once :: "env \<Rightarrow> string \<Rightarrow> jv \<Rightarrow> jv \<Rightarrow> ('x browser_scheme, unit) act" where
  "send_once env type code st =
     bnd (bnd (api_get env (callback_url type code st) JUndef) destruct) (\<lambda>(success, message, data).
       if \<not> truthy success
       then throw (mk_error ''Error'' (to_str (jor message (JStr ''OAuth2 callback error''))))
       else if message = JStr ''bind''
       then sq (showSuccess (JStr ''Bound successfully!'')) (navigate ''/console/personal'')
       else sq (userDispatch ''login'' data)
           (sq (set_item ''user'' (json_stringify data))
           (sq (setUserData data)
           (sq updateAPI
           (sq (showSuccess (JStr ''Login successful!''))
               (navigate ''/console/token''))))))"

function sendCode :: "env \<Rightarrow> string \<Rightarrow> jv \<Rightarrow> jv \<Rightarrow> nat \<Rightarrow> ('x browser_scheme, unit) act" where
  "sendCode env type code st retry = try_catch (send_once env type code st) (\<lambda>error.
     if retry < MAX_RETRIES
     then sq (emit (Timer ((retry + 1) * 2000) ''retry'')) (sendCode env type code st (Suc retry))
     else sq (showError (jor (opt_get error ''message'') (JStr ''authorization failed'')))
             (navigate ''/console/personal''))"
  by pat_completeness auto
termination
  by (relation "measure (\<lambda>(env, type, code, st, retry). MAX_RETRIES - retry)") auto

declare sendCode.simps [simp del]

definition OAuth2Callback_effect :: "env \<Rightarrow> string \<Rightarrow> jv \<Rightarrow> jv \<Rightarrow> ('x browser_scheme, unit) act" where
  "OAuth2Callback_effect env type code st =
     (if \<not> truthy code then sq (showErr ''no authorization code received'') (navigate ''/console/personal'')
      else sendCode env type code st 0)"


section \<open>Lemmas\<close>

text \<open>What the shared tail of a sign-in does with a user the backend sent.\<close>

lemma handle2FASuccess_run:
  assumes "json_ok (JObj u)"
  shows "handle2FASuccess (JObj u) s = (Inr (), s\<lparr>user_ctx := JObj u, store := (store s)(''user'' \<mapsto> js_text (JObj u)),
    api := \<lparr>hdr_user = opt_get (JObj u) ''id'', intercepts = False\<rparr>,
    trace := trace s @ [Toasted TSuccess (JStr ''Login successful!''), Navigated ''/console'']\<rparr>)"
proof -
  let ?s = "s\<lparr>user_ctx := JObj u, store := (store s)(''user'' \<mapsto> js_text (JObj u))\<rparr>"
  have "updateAPI ?s = (Inr (), ?s\<lparr>api := \<lparr>hdr_user = opt_get (JObj u) ''id'', intercepts = False\<rparr>\<rparr>)"
    by (rule updateAPI_stored[OF assms]) simp_all
  then show ?thesis
    by (simp add: handle2FASuccess_def act_simps json_stringify_def del: js_text.simps)
qed

lemma terms_gate_each:
  assumes "terms_missing s"
  shows "bnd (gets (\<lambda>s. s)) (\<lambda>s0. if terms_missing s0 then showInfo terms_text else m s0) s
    = (Inr (), s\<lparr>trace := trace s @ [Toasted TInfo terms_text]\<rparr>)"
  using assms by (simp add: act_simps)

lemma send_once_refused:
  assumes "env (trace s) (Http GET (callback_url type code st) JUndef) = Ok body" and "\<not> nullish body"
    and "\<not> truthy (opt_get body ''success'')"
  shows "send_once env type code st s = (Inl (mk_error ''Error'' (to_str (jor (opt_get body ''message'') (JStr ''OAuth2 callback error'')))),
    s\<lparr>trace := trace s @ [Requested (hdr_user (api s)) (Http GET (callback_url type code st) JUndef)]\<rparr>)"
  using assms by (simp add: send_once_def act_simps Let_def)

fun is_request :: "effect \<Rightarrow> bool" where
  "is_request (Requested _ _) = True"
| "is_request _ = False"

definition sent :: "effect list \<Rightarrow> nat" where
  "sent es = length (filter is_request es)"

lemma sent_simps [simp]:
  "sent [] = 0" "sent (es @ fs) = sent es + sent fs" "sent (e # es) = (if is_request e then 1 else 0) + sent es"
  by (simp_all add: sent_def)

lemma emits_no_request:
  "emits (\<lambda>e. \<not> is_request e) m \<Longrightarrow> sent (trace (snd (m s))) = sent (trace s)"
  unfolding emitted.obeys_def emitted_def sent_def
  by (metis append_Nil2 filter_append filter_empty_conv list_all_iff)

text \<open>One attempt sends one request.\<close>

lemma after_reply_sends_nothing:
  "emits (\<lambda>e. \<not> is_request e) (bnd (destruct d) (\<lambda>(success, message, data).
       if \<not> truthy success
       then throw (mk_error ''Error'' (to_str (jor message (JStr ''OAuth2 callback error''))))
       else if message = JStr ''bind''
       then sq (showSuccess (JStr ''Bound successfully!'')) (navigate ''/console/personal'')
       else sq (userDispatch ''login'' data)
           (sq (set_item ''user'' (json_stringify data))
           (sq (setUserData data)
           (sq updateAPI
           (sq (showSuccess (JStr ''Login successful!''))
               (navigate ''/console/token'')))))))"
  unfolding showSuccess_def navigate_def userDispatch_def setUserData_def
  by (intro emits_intros emits_destruct) simp_all

lemma send_once_sent: "sent (trace (snd (send_once env type code st s))) = sent (trace s) + 1"
proof -
  let ?q = "Http GET (callback_url type code st) JUndef"
  let ?s = "s\<lparr>trace := trace s @ [Requested (hdr_user (api s)) ?q]\<rparr>"
  show ?thesis
  proof (cases "env (trace s) ?q")
    case (Ok d)
    then show ?thesis
      using emits_no_request[OF after_reply_sends_nothing, of d ?s]
      by (simp add: send_once_def bnd_assoc api_get_def bnd_api_Ok)
  next
    case (Rejected e)
    have quiet: "emits (\<lambda>e. \<not> is_request e) (on_rejected False e)"
      unfolding on_rejected_def by (intro emits_intros) simp_all
    have "sent (trace (snd (api_call env False ?q s))) = sent (trace s) + 1"
      using emits_no_request[OF quiet, of ?s] Rejected by (simp add: api_call_eq Let_def)
    moreover obtain e' where "send_once env type code st s = (Inl e', snd (api_call env False ?q s))"
      using bnd_api_Rejected[of env s ?q e False, OF Rejected] unfolding send_once_def bnd_assoc api_get_def by blast
    ultimately show ?thesis by simp
  qed
qed

lemma sendCode_sent:
  "retry \<le> MAX_RETRIES \<Longrightarrow>
   sent (trace (snd (sendCode env type code st retry s))) \<le> sent (trace s) + (MAX_RETRIES - retry) + 1"
proof (induction env type code st retry arbitrary: s rule: sendCode.induct)
  case (1 env type code st retry)
  obtain r t where o: "send_once env type code st s = (r, t)" by (cases "send_once env type code st s")
  then have sent_t: "sent (trace t) = sent (trace s) + 1" using send_once_sent[of env type code st s] by simp
  show ?case
  proof (cases r)
    case (Inr x)
    then show ?thesis using o sent_t by (subst sendCode.simps) (simp add: try_catch_def)
  next
    case (Inl e)
    show ?thesis
    proof (cases "retry < MAX_RETRIES")
      case True
      let ?t = "t\<lparr>trace := trace t @ [Timer ((retry + 1) * 2000) ''retry'']\<rparr>"
      have "sent (trace (snd (sendCode env type code st (Suc retry) ?t))) \<le> sent (trace ?t) + (MAX_RETRIES - Suc retry) + 1"
        by (rule "1.IH"[OF True]) (use True in simp)
      then show ?thesis using o Inl True sent_t
        by (subst sendCode.simps) (simp add: try_catch_def act_simps)
    next
      case False
      have "emits (\<lambda>e. \<not> is_request e) (sq (showError (jor (opt_get e ''message'') (JStr ''authorization failed''))) (navigate ''/console/personal''))"
        unfolding navigate_def by (intro emits_intros) simp_all
      from emits_no_request[OF this, of t] show ?thesis using o Inl False sent_t
        by (subst sendCode.simps) (simp add: try_catch_def)
    qed
  qed
qed

section \<open>Properties\<close>


definition login_example :: login_form where
  "login_example = browser.extend blank_browser \<lparr>username = ''ada'', password = ''secret12'', wechat_code = [], submitted = False,
     turnstileEnabled = False, turnstileSiteKey = JUndef, turnstileToken = [], showWeChatLoginModal = False, showEmailLogin = True,
     wechatLoading = False, githubLoading = False, discordLoading = False, oidcLoading = False, linuxdoLoading = False,
     emailLoginLoading = False, loginLoading = False, resetPasswordLoading = False, otherLoginOptionsLoading = False,
     wechatCodeSubmitLoading = False, showTwoFA = False, passkeyAvailable = True, passkeyLoading = False, agreedToTerms = False,
     hasUserAgreement = False, hasPrivacyPolicy = False, githubButtonText = ''Continue with GitHub'', githubButtonDisabled = False,
     githubTimeout = False, status = JObj [], \<dots> = ()\<rparr>"


text \<open>C2: A password the backend accepts signs in: the user is in \<open>localStorage\<close> and in the context,
  later requests carry their id, the form is no longer loading, and the console is reachable.\<close>

theorem password_login_signs_in:
  assumes "\<not> terms_missing s" and "\<not> turnstile_missing s" and "username s \<noteq> []" and "password s \<noteq> []"
    and "env (trace s) (Http POST (login_url s) (login_body s)) = Ok body"
    and "truthy (opt_get body ''success'')" and "opt_get body ''data'' = JObj u" and "json_ok (JObj u)"
    and "\<not> truthy (opt_get (JObj u) ''require_2fa'')"
  shows "\<exists>t. handleSubmit env s = (Inr (), t) \<and> store t ''user'' = Some (js_text (JObj u)) \<and> user_ctx t = JObj u
    \<and> hdr_user (api t) = opt_get (JObj u) ''id'' \<and> \<not> loginLoading t \<and> last (trace t) = Navigated ''/console''
    \<and> App ''/console'' t = Page Dashboard"
proof -
  have nn: "\<not> nullish body" using assms(6) by (cases body) auto
  let ?s = "s\<lparr>submitted := True, loginLoading := True, trace := trace s @ [Requested (hdr_user (api s)) (Http POST (login_url s) (login_body s))],
    user_ctx := JObj u, store := (store s)(''user'' \<mapsto> js_text (JObj u))\<rparr>"
  have up: "updateAPI ?s = (Inr (), ?s\<lparr>api := \<lparr>hdr_user = opt_get (JObj u) ''id'', intercepts = False\<rparr>\<rparr>)"
    by (rule updateAPI_stored[OF assms(8)]) simp_all
  have req: "env (trace (s\<lparr>submitted := True, loginLoading := True\<rparr>)) (Http POST (login_url s) (login_body s)) = Ok body"
    using assms(5) by simp
  let ?es = "Toasted TSuccess (JStr ''Login successful!'') # (if username s = ''root'' \<and> password s = ''123456''
      then [Dialog ''You are using the default password!'' ''Change it now!''] else [])"
  have "handleSubmit env s = (Inr (), ?s\<lparr>api := \<lparr>hdr_user = opt_get (JObj u) ''id'', intercepts = False\<rparr>,
      trace := trace ?s @ ?es @ [Navigated ''/console''], loginLoading := False\<rparr>)"
    using assms(1-4,6-9) nn up req
    by (simp add: handleSubmit_def act_simps Let_def json_stringify_def del: js_text.simps json_ok.simps)
  then show ?thesis
    using truthy_js_text[OF assms(8)]
    by (simp add: App_def route_open_pages guard_result_def PrivateRoute_def del: js_text.simps)
qed

definition login_env :: "jv \<Rightarrow> env" where
  "login_env data h r = Ok (JObj [(''success'', JBool True), (''data'', data)])"

theorem password_login_signs_in_witness:
  "\<exists>t. handleSubmit (login_env (JObj [(''id'', JNum 7)])) login_example = (Inr (), t) \<and> hdr_user (api t) = JNum 7"
  using password_login_signs_in[of login_example "login_env (JObj [(''id'', JNum 7)])"
    "JObj [(''success'', JBool True), (''data'', JObj [(''id'', JNum 7)])]" "[(''id'', JNum 7)]"]
  by (auto simp: terms_missing_def turnstile_missing_def login_example_def browser.defs login_env_def)

text \<open>When the backend asks for the second factor, the password step signs nobody in: it opens
  the 2FA dialogue and leaves storage, context and API instance as they were.\<close>

lemma password_login_needs_2fa:
  assumes "\<not> terms_missing s" and "\<not> turnstile_missing s" and "username s \<noteq> []" and "password s \<noteq> []"
    and "env (trace s) (Http POST (login_url s) (login_body s)) = Ok body"
    and "truthy (opt_get body ''success'')" and "truthy (opt_get (opt_get body ''data'') ''require_2fa'')"
  shows "\<exists>t. handleSubmit env s = (Inr (), t) \<and> showTwoFA t \<and> \<not> loginLoading t \<and> store t = store s
    \<and> user_ctx t = user_ctx s \<and> api t = api s"
proof -
  have nn: "\<not> nullish body" using assms(6) by (cases body) auto
  have d: "truthy (opt_get body ''data'')" using assms(7) by (cases "opt_get body ''data''") auto
  show ?thesis using assms nn d by (simp add: handleSubmit_def act_simps Let_def)
qed

lemma password_login_needs_2fa_example:
  "\<exists>t. handleSubmit (login_env (JObj [(''require_2fa'', JBool True)])) login_example = (Inr (), t) \<and> showTwoFA t"
  using password_login_needs_2fa[of login_example "login_env (JObj [(''require_2fa'', JBool True)])"
    "JObj [(''success'', JBool True), (''data'', JObj [(''require_2fa'', JBool True)])]"]
  by (auto simp: terms_missing_def turnstile_missing_def login_example_def browser.defs login_env_def)

text \<open>A code that does not have the form of the chosen factor is never sent: six digits for
  the authenticator, eight characters for a backup code.\<close>

lemma twofa_sends_only_well_formed:
  "sent (trace (snd (twofa_handleSubmit env None s))) =
     sent (trace s) + (if (useBackupCode s \<and> length (verificationCode s) = 8) \<or> (\<not> useBackupCode s \<and> six_digits (verificationCode s))
       then 1 else 0)"
proof -
  let ?q = "Http POST ''/api/user/login/2fa'' (JObj [(''code'', JStr (verificationCode s))])"
  let ?s = "s\<lparr>tf_loading := True, trace := trace s @ [Requested (hdr_user (api s)) ?q]\<rparr>"
  have nr: "sent (trace (snd (showError v t))) = sent (trace t)" for v and t :: twofa_form
    by (rule emits_no_request) (intro emits_intros; simp)
  show ?thesis
  proof (cases "verificationCode s = [] \<or> (useBackupCode s \<and> length (verificationCode s) \<noteq> 8)
      \<or> (\<not> useBackupCode s \<and> \<not> six_digits (verificationCode s))")
    case True
    then show ?thesis by (auto simp: twofa_handleSubmit_def act_simps six_digits_def)
  next
    case ok: False
    show ?thesis
    proof (cases "env (trace s) ?q")
      case (Ok b)
      then show ?thesis
        using ok nr[of "opt_get b ''message''" ?s]
        by (cases "showError (opt_get b ''message'') ?s")
          (auto simp: twofa_handleSubmit_def act_simps Let_def split: sum.splits)
    next
      case (Rejected e)
      then show ?thesis
        using ok nr[of e ?s]
        by (cases "showError e ?s")
          (auto simp: twofa_handleSubmit_def act_simps Let_def on_rejected_def split: sum.splits)
    qed
  qed
qed

text \<open>The OAuth callback gives up after three retries: whatever the backend answers, at most
  four requests are sent (and the recursion always ends).\<close>

lemma oauth_callback_bounded:
  "sent (trace (snd (OAuth2Callback_effect env type code st s))) \<le> sent (trace s) + 4"
proof (cases "truthy code")
  case True
  then show ?thesis
    using sendCode_sent[of 0 env type code st s] by (simp add: OAuth2Callback_effect_def MAX_RETRIES_def)
next
  case False
  then show ?thesis by (simp add: OAuth2Callback_effect_def act_simps)
qed

text \<open>An OAuth sign-in that succeeds navigates to \<open>/console/token\<close>, for which the route table
  has no entry any more: the freshly signed-in user sees the not-found page.\<close>

lemma oauth_login_lands_on_not_found:
  assumes "env (trace s) (Http GET (callback_url type code st) JUndef) = Ok body"
    and "truthy code" and "truthy (opt_get body ''success'')" and "opt_get body ''message'' \<noteq> JStr ''bind''"
    and "opt_get body ''data'' = JObj u" and "json_ok (JObj u)"
  shows "\<exists>t. OAuth2Callback_effect env type code st s = (Inr (), t) \<and> store t ''user'' = Some (js_text (JObj u))
    \<and> last (trace t) = Navigated ''/console/token'' \<and> App ''/console/token'' t = Page NotFound"
proof -
  have nn: "\<not> nullish body" using assms(3) by (cases body) auto
  let ?s = "s\<lparr>trace := trace s @ [Requested (hdr_user (api s)) (Http GET (callback_url type code st) JUndef)],
    user_ctx := JObj u, store := (store s)(''user'' \<mapsto> js_text (JObj u))\<rparr>"
  have up: "updateAPI ?s = (Inr (), ?s\<lparr>api := \<lparr>hdr_user = opt_get (JObj u) ''id'', intercepts = False\<rparr>\<rparr>)"
    by (rule updateAPI_stored[OF assms(6)]) simp_all
  have "send_once env type code st s = (Inr (), ?s\<lparr>api := \<lparr>hdr_user = opt_get (JObj u) ''id'', intercepts = False\<rparr>,
      trace := trace ?s @ [Toasted TSuccess (JStr ''Login successful!''), Navigated ''/console/token'']\<rparr>)"
    using assms nn up by (simp add: send_once_def act_simps Let_def json_stringify_def del: js_text.simps)
  then show ?thesis
    using assms(2)
    by (simp add: OAuth2Callback_effect_def sendCode.simps[of _ _ _ _ 0] try_catch_def App_def route_of_def routes_def
        guard_result_def del: js_text.simps)
qed

lemma oauth_login_lands_on_not_found_example:
  "\<exists>t. OAuth2Callback_effect (login_env (JObj [(''id'', JNum 7)])) ''github'' (JStr ''c'') (JStr ''s'') blank_browser = (Inr (), t)
    \<and> App ''/console/token'' t = Page NotFound"
  using oauth_login_lands_on_not_found[of "login_env (JObj [(''id'', JNum 7)])" blank_browser "''github''" "JStr ''c''" "JStr ''s''"
    "JObj [(''success'', JBool True), (''data'', JObj [(''id'', JNum 7)])]" "[(''id'', JNum 7)]"]
  by (auto simp: login_env_def)

end
