(* ===== verification/Account.thy ===== *)
theory Account
  imports Login
begin

text \<open>
  Creating an account and resetting a password: \<open>components/auth/RegisterForm.jsx\<close>,
  \<open>PasswordResetForm.jsx\<close> and \<open>PasswordResetConfirm.jsx\<close>, with \<open>copy\<close> of \<open>helpers/utils.jsx\<close>. The three forms share the
  resend countdown: its state is the pair of \<open>disableButton\<close> and \<open>countdown\<close>.
\<close>

section \<open>The resend countdown\<close>

text \<open>One run of the effect: the state after it, and whether its interval is running.\<close>

definition countdown_effect :: "bool \<times> int \<Rightarrow> (bool \<times> int) \<times> bool" where
  "countdown_effect dc = (case dc of (disableButton, countdown) \<Rightarrow>
     if disableButton \<and> countdown > 0 then ((disableButton, countdown), True)
     else if countdown = 0 then ((False, 30), False)
     else ((disableButton, countdown), False))"

text \<open>A second passes: the interval counts down by one, and the change runs the effect again.\<close>

definition second_passes :: "bool \<times> int \<Rightarrow> bool \<times> int" where
  "second_passes dc = (let (dc', running) = countdown_effect dc in
     if running then fst (countdown_effect (fst dc', snd dc' - 1)) else dc')"

section \<open>copy (helpers/utils.jsx)\<close>

definition copy :: "env \<Rightarrow> jv \<Rightarrow> ('x browser_scheme, bool) act" where
  "copy env text' = try_catch (bnd (browser_call env (Clipboard_write (to_str text'))) (\<lambda>_. ret True))
     (\<lambda>_. try_catch (bnd (browser_call env (Exec_copy (to_str text'))) (\<lambda>_. ret True)) (\<lambda>_. ret False))"

section \<open>RegisterForm.jsx\<close>

text \<open>\<open>inputs\<close> is the object the form posts; \<open>affCode\<close> the invitation code of the page's URL.\<close>

record register_form = browser +
  inputs :: jv
  affCode :: jv
  status :: jv
  turnstileEnabled :: bool
  turnstileSiteKey :: jv
  turnstileToken :: string
  showWeChatLoginModal :: bool
  showEmailRegister :: bool
  showEmailVerification :: jv
  wechatLoading :: bool
  githubLoading :: bool
  discordLoading :: bool
  oidcLoading :: bool
  linuxdoLoading :: bool
  emailRegisterLoading :: bool
  registerLoading :: bool
  verificationCodeLoading :: bool
  otherRegisterOptionsLoading :: bool
  wechatCodeSubmitLoading :: bool
  disableButton :: bool
  countdown :: int
  agreedToTerms :: bool
  hasUserAgreement :: bool
  hasPrivacyPolicy :: bool
  githubButtonText :: string
  githubButtonDisabled :: bool

type_synonym 'a register_act = "(register_form, 'a) act"

definition register_apply_status :: "unit register_act" where
  "register_apply_status = bnd (gets status) (\<lambda>st.
     if nullish st then throw type_error else
     sq (modify (\<lambda>s. s\<lparr>showEmailVerification := opt_get st ''email_verification''\<rparr>))
    (sq (act_when (truthy (opt_get st ''turnstile_check''))
          (modify (\<lambda>s. s\<lparr>turnstileEnabled := True, turnstileSiteKey := opt_get st ''turnstile_site_key''\<rparr>)))
        (modify (\<lambda>s. s\<lparr>hasUserAgreement := truthy (opt_get st ''user_agreement_enabled''),
           hasPrivacyPolicy := truthy (opt_get st ''privacy_policy_enabled'')\<rparr>))))"

definition input :: "register_form \<Rightarrow> string \<Rightarrow> string" where
  "input s k = to_str (opt_get (inputs s) k)"

definition register_turnstile_missing :: "register_form \<Rightarrow> bool" where
  "register_turnstile_missing s = (turnstileEnabled s \<and> turnstileToken s = [])"

definition register_onWeChatLoginClicked :: "unit register_act" where
  "register_onWeChatLoginClicked = modify (\<lambda>s. s\<lparr>showWeChatLoginModal := True, wechatLoading := False\<rparr>)"

definition register_onSubmitWeChatVerificationCode :: "env \<Rightarrow> unit register_act" where
  "register_onSubmitWeChatVerificationCode env = bnd (gets (\<lambda>s. s)) (\<lambda>s0.
     if register_turnstile_missing s0 then showInfo turnstile_text
     else sq (modify (\<lambda>s. s\<lparr>wechatCodeSubmitLoading := True\<rparr>))
       (try_finally
         (try_catch
           (bnd (bnd (api_get env (''/api/oauth/wechat?code='' @ input s0 ''wechat_verification_code'') JUndef) destruct)
             (\<lambda>(success, message, data).
              if truthy success
              then sq (userDispatch ''login'' data)
                  (sq (set_item ''user'' (json_stringify data))
                  (sq (setUserData data)
                  (sq updateAPI
                  (sq (navigate ''/'')
                  (sq (showSuccess (JStr ''Login successful!''))
                      (modify (\<lambda>s. s\<lparr>showWeChatLoginModal := False\<rparr>)))))))
              else showError message))
           (\<lambda>_. showErr ''login failed, please retry''))
         (modify (\<lambda>s. s\<lparr>wechatCodeSubmitLoading := False\<rparr>))))"

definition register_handleChange :: "string \<Rightarrow> jv \<Rightarrow> unit register_act" where
  "register_handleChange name v = modify (\<lambda>s. s\<lparr>inputs := obj_set (inputs s) name v\<rparr>)"

text \<open>
  \<open>handleSubmit\<close>, with the state its closure sees: the invitation code of the URL, else of an earlier
  visit, joins the inputs.
\<close>

definition register_body :: "register_form \<Rightarrow> jv" where
  "register_body s = obj_set (inputs s) ''aff_code'' (if truthy (affCode s) then affCode s else get_item s ''aff'')"

definition register_submit_from :: "env \<Rightarrow> register_form \<Rightarrow> unit register_act" where
  "register_submit_from env s0 =
    (if length (input s0 ''password'') < 8 then showInfo (JStr ''the password must have at least 8 characters'')
     else if input s0 ''password'' \<noteq> input s0 ''password2'' then showInfo (JStr ''the two passwords differ'')
     else if input s0 ''username'' \<noteq> [] \<and> input s0 ''password'' \<noteq> [] then
       (if register_turnstile_missing s0 then showInfo turnstile_text
        else sq (modify (\<lambda>s. s\<lparr>registerLoading := True\<rparr>))
          (try_finally
            (try_catch
              (sq (modify (\<lambda>s. s\<lparr>inputs := register_body s, affCode := opt_get (register_body s) ''aff_code''\<rparr>))
              (bnd (bnd (api_post env (''/api/user/register?turnstile='' @ turnstileToken s0) (register_body s0)) destruct)
                (\<lambda>(success, message, _).
                 if truthy success then sq (navigate ''/login'') (showSuccess (JStr ''Registration successful!''))
                 else showError message)))
              (\<lambda>_. showErr ''registration failed, please retry''))
            (modify (\<lambda>s. s\<lparr>registerLoading := False\<rparr>))))
     else ret ())"

definition register_handleSubmit :: "env \<Rightarrow> unit register_act" where
  "register_handleSubmit env = bnd (gets (\<lambda>s. s)) (register_submit_from env)"

definition sendVerificationCode :: "env \<Rightarrow> unit register_act" where
  "sendVerificationCode env = bnd (gets (\<lambda>s. s)) (\<lambda>s0.
     if input s0 ''email'' = [] then ret ()
     else if register_turnstile_missing s0 then showInfo turnstile_text
     else sq (modify (\<lambda>s. s\<lparr>verificationCodeLoading := True\<rparr>))
       (try_finally
         (try_catch
           (bnd (bnd (api_get env (''/api/verification?email='' @ input s0 ''email'' @ ''&turnstile='' @ turnstileToken s0) JUndef)
               destruct) (\<lambda>(success, message, _).
              if truthy success
              then sq (showSuccess (JStr ''verification code sent, check your mailbox!''))
                      (modify (\<lambda>s. s\<lparr>disableButton := True\<rparr>))
              else showError message))
           (\<lambda>_. showErr ''sending the verification code failed, please retry''))
         (modify (\<lambda>s. s\<lparr>verificationCodeLoading := False\<rparr>))))"

definition register_handleGitHubClick :: "env \<Rightarrow> unit register_act" where
  "register_handleGitHubClick env = bnd (gets (\<lambda>s. s)) (\<lambda>s0.
     if githubButtonDisabled s0 then ret ()
     else sq (modify (\<lambda>s. s\<lparr>githubLoading := True, githubButtonDisabled := True,
            githubButtonText := ''Redirecting to GitHub...''\<rparr>))
         (sq (emit (Timer 20000 ''github_timeout''))
         (sq (emit (Timer 3000 ''github_loading_off''))
             (detach (onGitHubOAuthClicked env (opt_get (status s0) ''github_client_id'') True)))))"

definition register_github_timeout :: "register_form \<Rightarrow> register_form" where
  "register_github_timeout s = s\<lparr>githubLoading := False,
     githubButtonText := ''request timed out, refresh the page to start the GitHub login again'',
     githubButtonDisabled := True\<rparr>"

definition register_handleDiscordClick :: "env \<Rightarrow> string \<Rightarrow> unit register_act" where
  "register_handleDiscordClick env origin = bnd (gets status) (\<lambda>st.
     sq (modify (\<lambda>s. s\<lparr>discordLoading := True\<rparr>))
    (sq (emit (Timer 3000 ''discord_loading_off''))
        (detach (onDiscordOAuthClicked env origin (opt_get st ''discord_client_id'') True))))"

definition register_handleOIDCClick ::
  "env \<Rightarrow> (string \<Rightarrow> (string \<times> string) list \<Rightarrow> string option) \<Rightarrow> string \<Rightarrow> unit register_act" where
  "register_handleOIDCClick env url_with origin = bnd (gets status) (\<lambda>st.
     sq (modify (\<lambda>s. s\<lparr>oidcLoading := True\<rparr>))
    (sq (emit (Timer 3000 ''oidc_loading_off''))
        (detach (onOIDCClicked env url_with origin (opt_get st ''oidc_authorization_endpoint'')
           (opt_get st ''oidc_client_id'') False True))))"

definition register_handleLinuxDOClick :: "env \<Rightarrow> unit register_act" where
  "register_handleLinuxDOClick env = bnd (gets status) (\<lambda>st.
     sq (modify (\<lambda>s. s\<lparr>linuxdoLoading := True\<rparr>))
    (sq (emit (Timer 3000 ''linuxdo_loading_off''))
        (detach (onLinuxDOOAuthClicked env (opt_get st ''linuxdo_client_id'') True))))"

definition handleEmailRegisterClick :: "register_form \<Rightarrow> register_form" where
  "handleEmailRegisterClick s = s\<lparr>showEmailRegister := True, emailRegisterLoading := False\<rparr>"

definition handleOtherRegisterOptionsClick :: "register_form \<Rightarrow> register_form" where
  "handleOtherRegisterOptionsClick s = s\<lparr>showEmailRegister := False, otherRegisterOptionsLoading := False\<rparr>"

definition register_onTelegramLoginClicked :: "env \<Rightarrow> jv \<Rightarrow> unit register_act" where
  "register_onTelegramLoginClicked env response = telegram_login env response"

definition register_second :: "register_form \<Rightarrow> register_form" where
  "register_second s = (let (d, c) = second_passes (disableButton s, countdown s) in s\<lparr>disableButton := d, countdown := c\<rparr>)"

section \<open>PasswordResetForm.jsx\<close>

record reset_form = browser +
  email :: string
  rf_loading :: bool
  rf_turnstileEnabled :: bool
  rf_turnstileSiteKey :: jv
  rf_turnstileToken :: string
  rf_disableButton :: bool
  rf_countdown :: int

definition reset_status_effect :: "(reset_form, unit) act" where
  "reset_status_effect = bnd (gets (\<lambda>s. get_item s ''status'')) (\<lambda>raw.
     act_when (truthy raw) (bnd (parse_json raw) (\<lambda>st. bnd (prop_get st ''turnstile_check'') (\<lambda>c.
       act_when (truthy c) (modify (\<lambda>s. s\<lparr>rf_turnstileEnabled := True, rf_turnstileSiteKey := opt_get st ''turnstile_site_key''\<rparr>))))))"

definition reset_handleChange :: "string \<Rightarrow> reset_form \<Rightarrow> reset_form" where
  "reset_handleChange v s = s\<lparr>email := v\<rparr>"

definition reset_url :: "reset_form \<Rightarrow> string" where
  "reset_url s = ''/api/reset_password?email='' @ email s @ ''&turnstile='' @ rf_turnstileToken s"

definition reset_handleSubmit :: "env \<Rightarrow> (reset_form, unit) act" where
  "reset_handleSubmit env = bnd (gets (\<lambda>s. s)) (\<lambda>s0.
     if email s0 = [] then showErr ''please enter the email address''
     else if rf_turnstileEnabled s0 \<and> rf_turnstileToken s0 = [] then showInfo turnstile_text
     else sq (modify (\<lambda>s. s\<lparr>rf_disableButton := True, rf_loading := True\<rparr>))
         (bnd (bnd (api_get env (reset_url s0) JUndef) destruct) (\<lambda>(success, message, _).
            sq (if truthy success
                then sq (showSuccess (JStr ''reset mail sent, check your mailbox!'')) (modify (\<lambda>s. s\<lparr>email := []\<rparr>))
                else showError message)
               (modify (\<lambda>s. s\<lparr>rf_loading := False\<rparr>)))))"

definition reset_second :: "reset_form \<Rightarrow> reset_form" where
  "reset_second s = (let (d, c) = second_passes (rf_disableButton s, rf_countdown s) in s\<lparr>rf_disableButton := d, rf_countdown := c\<rparr>)"

section \<open>PasswordResetConfirm.jsx\<close>

record confirm_form = browser +
  cf_email :: string
  cf_token :: string
  cf_loading :: bool
  cf_disableButton :: bool
  cf_countdown :: int
  newPassword :: jv

text \<open>The link's parameters (null when missing) are read by an effect.\<close>

definition confirm_params_effect :: "jv \<Rightarrow> jv \<Rightarrow> confirm_form \<Rightarrow> confirm_form" where
  "confirm_params_effect token address s = s\<lparr>cf_token := to_str (jor token (JStr [])), cf_email := to_str (jor address (JStr []))\<rparr>"

definition isValidResetLink :: "confirm_form \<Rightarrow> bool" where
  "isValidResetLink s = (cf_email s \<noteq> [] \<and> cf_token s \<noteq> [])"

definition confirm_handleSubmit :: "env \<Rightarrow> (confirm_form, unit) act" where
  "confirm_handleSubmit env = bnd (gets (\<lambda>s. s)) (\<lambda>s0.
     if cf_email s0 = [] \<or> cf_token s0 = [] then showErr ''invalid reset link, please request a new one''
     else sq (modify (\<lambda>s. s\<lparr>cf_disableButton := True, cf_loading := True\<rparr>))
         (bnd (bnd (api_post env ''/api/user/reset'' (JObj [(''email'', JStr (cf_email s0)), (''token'', JStr (cf_token s0))])) destruct)
           (\<lambda>(success, message, data).
            sq (if truthy success
                then sq (modify (\<lambda>s. s\<lparr>newPassword := data\<rparr>))
                    (bnd (copy env data) (\<lambda>_.
                     showNotice (JStr (''password reset and copied to the clipboard: '' @ to_str data)) False))
                else showError message)
               (modify (\<lambda>s. s\<lparr>cf_loading := False\<rparr>)))))"

definition confirm_second :: "confirm_form \<Rightarrow> confirm_form" where
  "confirm_second s = (let (d, c) = second_passes (cf_disableButton s, cf_countdown s) in s\<lparr>cf_disableButton := d, cf_countdown := c\<rparr>)"

section \<open>Lemmas\<close>

lemma second_passes_run: "0 < c \<Longrightarrow> second_passes (True, c) = (if c = 1 then (False, 30) else (True, c - 1))"
  by (simp add: second_passes_def countdown_effect_def)

lemma countdown_runs:
  "n \<le> 29 \<Longrightarrow> (second_passes ^^ n) (True, 30) = (True, 30 - int n)"
proof (induction n)
  case 0
  then show ?case by simp
next
  case (Suc n)
  then show ?case by (simp add: second_passes_run)
qed


lemma emits_showInfo [emits_intros]: "(\<And>k v. P (Toasted k v)) \<Longrightarrow> emits P (showInfo m)"
  unfolding showInfo_def by (intro emits_intros)

lemma rejected_call_frames:
  assumes "env (trace s) (Http GET url JUndef) = Rejected e"
  shows "\<exists>e' t. api_get env url JUndef s = (Inl e', t) \<and> browser.more t = browser.more s"
proof -
  obtain e' t where c: "api_get env url JUndef s = (Inl e', t)"
    using api_call_Rejected[of env s "Http GET url JUndef" e False, OF assms]
    by (cases "api_get env url JUndef s") (auto simp: api_get_def)
  then show ?thesis using framesD[OF frames_api_get(1) c] by blast
qed

text \<open>When the reset request fails (as an error, not as an answer without success), the password reset form
  is left loading: no continuation runs that would reset the flag, and the countdown, which does
  re-enable the button after thirty seconds, does not reset it either.\<close>

lemma failed_reset_stays_loading:
  assumes "email s \<noteq> []" and "\<not> (rf_turnstileEnabled s \<and> rf_turnstileToken s = [])" and "rf_countdown s = 30"
    and "env (trace s) (Http GET (reset_url s) JUndef) = Rejected e"
  shows "\<exists>e' t. reset_handleSubmit env s = (Inl e', t) \<and> rf_loading t \<and> rf_disableButton t
    \<and> rf_loading ((reset_second ^^ n) t)"
proof -
  let ?s = "s\<lparr>rf_disableButton := True, rf_loading := True\<rparr>"
  obtain e' t where c: "api_get env (reset_url s) JUndef ?s = (Inl e', t)" "browser.more t = browser.more ?s"
    using rejected_call_frames[of env ?s "reset_url s" e] assms(4) by auto
  have t: "rf_loading t" "rf_disableButton t" using c(2)
    by (cases t, cases s; simp)+
  have "reset_handleSubmit env s = (Inl e', t)"
    using assms(1,2) c(1) by (auto simp: reset_handleSubmit_def act_simps simp del: api_get_def api_call_eq)
  moreover have "rf_loading ((reset_second ^^ n) t)" for n
    using t by (induction n) (auto simp: reset_second_def split: prod.splits)
  ultimately show ?thesis using t by blast
qed

definition reset_example :: reset_form where
  "reset_example = browser.extend blank_browser \<lparr>email = ''a@b.c'', rf_loading = False, rf_turnstileEnabled = False,
     rf_turnstileSiteKey = JUndef, rf_turnstileToken = [], rf_disableButton = False, rf_countdown = 30\<rparr>"

lemma failed_reset_stays_loading_example:
  "\<exists>e' t. reset_handleSubmit (\<lambda>_ _. Rejected (network_error ''down'')) reset_example = (Inl e', t) \<and> rf_loading t"
  using failed_reset_stays_loading[of reset_example "\<lambda>_ _. Rejected (network_error ''down'')" "network_error ''down''" 0]
  by (auto simp: reset_example_def browser.extend_def)

text \<open>The registration form sends nothing but a registration whose password has at least eight
  characters and was typed twice the same, with the invitation code of the page or of an earlier visit.\<close>

lemma register_sends_checked_password:
  "\<exists>es. trace (snd (register_handleSubmit env s)) = trace s @ es
     \<and> list_all (\<lambda>e. case e of Requested u q \<Rightarrow>
          q = Http POST (''/api/user/register?turnstile='' @ turnstileToken s)
                (obj_set (inputs s) ''aff_code'' (if truthy (affCode s) then affCode s else get_item s ''aff''))
          \<and> 8 \<le> length (input s ''password'') \<and> input s ''password'' = input s ''password2'' \<and> input s ''username'' \<noteq> []
        | _ \<Rightarrow> True) es"
proof -
  let ?ok = "8 \<le> length (input s ''password'') \<and> input s ''password'' = input s ''password2'' \<and> input s ''username'' \<noteq> []"
  let ?P = "\<lambda>e. case e of Requested u q \<Rightarrow>
          q = Http POST (''/api/user/register?turnstile='' @ turnstileToken s) (register_body s) \<and> ?ok | _ \<Rightarrow> True"
  have f: "emits ?P (register_submit_from env s)"
    unfolding register_submit_from_def api_post_def navigate_def showSuccess_def showInfo_def
    by (intro emits_intros) auto
  obtain r t where run: "register_submit_from env s s = (r, t)" by (cases "register_submit_from env s s")
  then have "register_handleSubmit env s = (r, t)" by (simp add: register_handleSubmit_def bnd_def gets_def)
  then show ?thesis unfolding register_body_def[symmetric] using emitsD[OF f run] by simp
qed

end
