(* ===== verification/Sidebar.thy ===== *)
theory Sidebar
  imports Client
begin

text \<open>
  Which modules of the console a user sees: \<open>hooks/common/useSidebar.js\<close> (the administrator's
  configuration combined with the user's), \<open>hooks/common/useUserPermissions.js\<close> and the
  menu of \<open>components/layout/SiderBar.jsx\<close>. Configurations are JSON values; \<open>Object.keys\<close> of a value
  that is no object is modelled as empty, except that null and undefined throw, and an
  assignment to a member of a fresh object is \<open>obj_set\<close>.
\<close>

section \<open>useSidebar\<close>

text \<open>
  The state of one instance of the hook. A refresh event carries the id of its sender; the
  event target itself is the effect \<open>Dispatched\<close>, and \<open>handleRefresh\<close> is what every listening
  instance does with it.
\<close>

record sidebar = browser +
  userConfig :: jv
  loading :: bool
  instanceId :: string
  hasLoadedOnce :: bool

definition defaultAdminConfig :: jv where
  "defaultAdminConfig = JObj
    [(''chat'', JObj [(''enabled'', JBool False), (''playground'', JBool False), (''chat'', JBool False)]),
     (''console'', JObj [(''enabled'', JBool True), (''detail'', JBool True), (''token'', JBool False),
        (''log'', JBool False), (''midjourney'', JBool False), (''task'', JBool False)]),
     (''personal'', JObj [(''enabled'', JBool True), (''topup'', JBool False), (''personal'', JBool True)]),
     (''admin'', JObj [(''enabled'', JBool True), (''channel'', JBool False), (''models'', JBool False),
        (''redemption'', JBool False), (''user'', JBool True), (''setting'', JBool True)])]"

definition adminConfig :: "'x browser_scheme \<Rightarrow> jv" where
  "adminConfig s =
     (let raw = opt_get (status_ctx s) ''SidebarModulesAdmin'' in
      if truthy raw
      then (case json_parse (to_str raw) of Some config \<Rightarrow> config | None \<Rightarrow> defaultAdminConfig)
      else defaultAdminConfig)"

text \<open>\<open>Object.keys(v)\<close> in code that can throw.\<close>

definition keys_of :: "jv \<Rightarrow> ('s, string list) act" where
  "keys_of v = (if nullish v then throw type_error else ret (obj_keys v))"

text \<open>
  The user configuration for a user who has none: every section and module the
  administrator allows is on. The code builds it twice, on a success without a configuration and in
  the \<open>catch\<close> branch.
\<close>

definition default_section :: "jv \<Rightarrow> jv" where
  "default_section section =
     fold (\<lambda>moduleKey sec. if moduleKey \<noteq> ''enabled'' \<and> truthy (opt_get section moduleKey)
                           then obj_set sec moduleKey (JBool True) else sec)
       (obj_keys section) (JObj [(''enabled'', JBool True)])"

definition default_user_config :: "jv \<Rightarrow> jv" where
  "default_user_config admin =
     fold (\<lambda>sectionKey cfg. if truthy (opt_get (opt_get admin sectionKey) ''enabled'')
                            then obj_set cfg sectionKey (default_section (opt_get admin sectionKey)) else cfg)
       (obj_keys admin) (JObj [])"

definition set_default_config :: "(('x) sidebar_scheme, unit) act" where
  "set_default_config = bnd (gets adminConfig) (\<lambda>admin.
     bnd (keys_of admin) (\<lambda>_. modify (\<lambda>s. s\<lparr>userConfig := default_user_config admin\<rparr>)))"

definition loadUserConfig :: "env \<Rightarrow> jv \<Rightarrow> (('x) sidebar_scheme, unit) act" where
  "loadUserConfig env withLoading = bnd (gets hasLoadedOnce) (\<lambda>once.
     let shouldShowLoader = (if type_of withLoading = ''boolean'' then truthy withLoading else \<not> once) in
     try_finally
       (try_catch
         (sq (act_when shouldShowLoader (modify (\<lambda>s. s\<lparr>loading := True\<rparr>)))
         (bnd (api_get env ''/api/user/self'' JUndef) (\<lambda>body.
          bnd (prop_get body ''success'') (\<lambda>success.
          bnd (if truthy success
               then bnd (prop_get body ''data'') (\<lambda>data. prop_get data ''sidebar_modules'') else ret success) (\<lambda>mods.
            if truthy mods
            then bnd (if type_of mods = ''string'' then parse_json mods else ret mods)
                   (\<lambda>config. modify (\<lambda>s. s\<lparr>userConfig := config\<rparr>))
            else set_default_config)))))
         (\<lambda>error. set_default_config))
       (sq (act_when shouldShowLoader (modify (\<lambda>s. s\<lparr>loading := False\<rparr>)))
           (modify (\<lambda>s. s\<lparr>hasLoadedOnce := True\<rparr>))))"

text \<open>The first effect of the hook, and the two ends of the refresh event.\<close>

definition load_if_configured :: "env \<Rightarrow> jv \<Rightarrow> (('x) sidebar_scheme, unit) act" where
  "load_if_configured env withLoading = bnd (gets adminConfig) (\<lambda>admin.
     bnd (keys_of admin) (\<lambda>ks. act_when (ks \<noteq> []) (loadUserConfig env withLoading)))"

definition useSidebar_effect :: "env \<Rightarrow> (('x) sidebar_scheme, unit) act" where
  "useSidebar_effect env = load_if_configured env JUndef"

definition refreshUserConfig :: "env \<Rightarrow> (('x) sidebar_scheme, unit) act" where
  "refreshUserConfig env = sq (load_if_configured env (JBool False))
     (bnd (gets instanceId) (\<lambda>me.
        emit (Dispatched ''sidebar-refresh'' (JObj [(''sourceId'', JStr me), (''skipLoader'', JBool True)]))))"

definition handleRefresh :: "env \<Rightarrow> jv \<Rightarrow> (('x) sidebar_scheme, unit) act" where
  "handleRefresh env detail = bnd (gets instanceId) (\<lambda>me.
     if opt_get detail ''sourceId'' = JStr me then ret ()
     else load_if_configured env (if truthy (opt_get detail ''skipLoader'') then JBool False else JUndef))"

subsection \<open>What is shown\<close>

definition final_section :: "jv \<Rightarrow> jv \<Rightarrow> jv" where
  "final_section adminSection userSection =
     (if \<not> truthy (opt_get adminSection ''enabled'') then JObj [(''enabled'', JBool False)]
      else let sectionEnabled = (truthy userSection \<longrightarrow> opt_get userSection ''enabled'' \<noteq> JBool False) in
        fold (\<lambda>moduleKey sec. if moduleKey \<noteq> ''enabled'' then
                let adminAllowed = opt_get adminSection moduleKey;
                    userAllowed = (truthy userSection \<longrightarrow> opt_get userSection moduleKey \<noteq> JBool False)
                in obj_set sec moduleKey (jand adminAllowed (JBool (userAllowed \<and> sectionEnabled)))
              else sec)
          (obj_keys adminSection) (JObj [(''enabled'', JBool sectionEnabled)]))"

definition finalConfig :: "jv \<Rightarrow> jv \<Rightarrow> jv" where
  "finalConfig admin user =
     (if \<not> truthy admin \<or> obj_keys admin = [] then JObj []
      else if \<not> truthy user then JObj []
      else fold (\<lambda>sectionKey cfg. obj_set cfg sectionKey
                   (final_section (opt_get admin sectionKey) (opt_get user sectionKey)))
             (obj_keys admin) (JObj []))"

definition isModuleVisible :: "jv \<Rightarrow> string \<Rightarrow> string \<Rightarrow> bool" where
  "isModuleVisible final sectionKey moduleKey =
     (if moduleKey \<noteq> [] then opt_get (opt_get final sectionKey) moduleKey = JBool True
      else opt_get (opt_get final sectionKey) ''enabled'' = JBool True)"

definition getVisibleModules :: "jv \<Rightarrow> string \<Rightarrow> string list" where
  "getVisibleModules final sectionKey =
     (let section = opt_get final sectionKey in
      if \<not> truthy (opt_get section ''enabled'') then []
      else filter (\<lambda>key. key \<noteq> ''enabled'' \<and> opt_get section key = JBool True) (obj_keys section))"

definition hasSectionVisibleModules :: "jv \<Rightarrow> string \<Rightarrow> bool" where
  "hasSectionVisibleModules final sectionKey =
     (let section = opt_get final sectionKey in
      if \<not> truthy (opt_get section ''enabled'') then False
      else list_ex (\<lambda>key. key \<noteq> ''enabled'' \<and> opt_get section key = JBool True) (obj_keys section))"

section \<open>useUserPermissions\<close>

record user_perms = browser +
  permissions :: jv
  perm_loading :: bool
  perm_error :: jv

definition loadPermissions :: "env \<Rightarrow> (('x) user_perms_scheme, unit) act" where
  "loadPermissions env = try_finally
     (try_catch
       (sq (modify (\<lambda>s. s\<lparr>perm_loading := True, perm_error := JNull\<rparr>))
       (bnd (api_get env ''/api/user/self'' JUndef) (\<lambda>body.
        bnd (prop_get body ''success'') (\<lambda>success.
          if truthy success
          then bnd (prop_get body ''data'') (\<lambda>data. bnd (prop_get data ''permissions'') (\<lambda>ps.
                 modify (\<lambda>s. s\<lparr>permissions := ps\<rparr>)))
          else modify (\<lambda>s. s\<lparr>perm_error := jor (opt_get body ''message'') (JStr ''Failed to load permissions'')\<rparr>)))))
       (\<lambda>e. modify (\<lambda>s. s\<lparr>perm_error := JStr ''Network error, please retry''\<rparr>)))
     (modify (\<lambda>s. s\<lparr>perm_loading := False\<rparr>))"

definition hasSidebarSettingsPermission :: "jv \<Rightarrow> bool" where
  "hasSidebarSettingsPermission perms = (opt_get perms ''sidebar_settings'' = JBool True)"

definition isSidebarSectionAllowed :: "jv \<Rightarrow> string \<Rightarrow> bool" where
  "isSidebarSectionAllowed perms sectionKey =
     (if \<not> truthy (opt_get perms ''sidebar_modules'') then True
      else opt_get (opt_get perms ''sidebar_modules'') sectionKey \<noteq> JBool False)"

definition isSidebarModuleAllowed :: "jv \<Rightarrow> string \<Rightarrow> string \<Rightarrow> bool" where
  "isSidebarModuleAllowed perms sectionKey moduleKey =
     (if \<not> truthy (opt_get perms ''sidebar_modules'') then True
      else let sectionPerms = opt_get (opt_get perms ''sidebar_modules'') sectionKey in
        if sectionPerms = JBool False then False
        else if truthy sectionPerms \<and> opt_get sectionPerms moduleKey = JBool False then False
        else True)"

definition getAllowedSidebarSections :: "jv \<Rightarrow> string list" where
  "getAllowedSidebarSections perms =
     (if \<not> truthy (opt_get perms ''sidebar_modules'') then []
      else filter (isSidebarSectionAllowed perms) (obj_keys (opt_get perms ''sidebar_modules'')))"

definition getAllowedSidebarModules :: "jv \<Rightarrow> string \<Rightarrow> string list" where
  "getAllowedSidebarModules perms sectionKey =
     (if \<not> truthy (opt_get perms ''sidebar_modules'') then []
      else let sectionPerms = opt_get (opt_get perms ''sidebar_modules'') sectionKey in
        if sectionPerms = JBool False then []
        else if \<not> truthy sectionPerms \<or> type_of sectionPerms \<noteq> ''object'' then []
        else filter (\<lambda>m. m \<noteq> ''enabled'' \<and> opt_get sectionPerms m = JBool True) (obj_keys sectionPerms))"

section \<open>The menu (SiderBar.jsx)\<close>

record item =
  item_text :: string
  itemKey :: string
  item_to :: string
  className :: string

definition routerMap :: "(string \<times> string) list" where
  "routerMap =
    [(''home'', ''/''), (''channel'', ''/console/channel''), (''token'', ''/console/token''),
     (''redemption'', ''/console/redemption''), (''topup'', ''/console/topup''), (''user'', ''/console/user''),
     (''log'', ''/console/log''), (''midjourney'', ''/console/midjourney''), (''setting'', ''/console/setting''),
     (''about'', ''/about''), (''detail'', ''/console''), (''pricing'', ''/pricing''), (''task'', ''/console/task''),
     (''models'', ''/console/models''), (''playground'', ''/console/playground''), (''personal'', ''/console/personal'')]"

definition hide_unless :: "bool \<Rightarrow> string" where
  "hide_unless b = (if b then [] else ''tableHiddle'')"

definition workspaceItems :: "'x browser_scheme \<Rightarrow> jv \<Rightarrow> item list" where
  "workspaceItems s final = filter (\<lambda>i. isModuleVisible final ''console'' (itemKey i))
     [\<lparr>item_text = ''Dashboard'', itemKey = ''detail'', item_to = ''/detail'',
        className = hide_unless (get_item s ''enable_data_export'' = JStr ''true'')\<rparr>,
      \<lparr>item_text = ''Tokens'', itemKey = ''token'', item_to = ''/token'', className = []\<rparr>,
      \<lparr>item_text = ''Usage log'', itemKey = ''log'', item_to = ''/log'', className = []\<rparr>,
      \<lparr>item_text = ''Drawing log'', itemKey = ''midjourney'', item_to = ''/midjourney'',
        className = hide_unless (get_item s ''enable_drawing'' = JStr ''true'')\<rparr>,
      \<lparr>item_text = ''Task log'', itemKey = ''task'', item_to = ''/task'',
        className = hide_unless (get_item s ''enable_task'' = JStr ''true'')\<rparr>]"

definition financeItems :: "jv \<Rightarrow> item list" where
  "financeItems final = filter (\<lambda>i. isModuleVisible final ''personal'' (itemKey i))
     [\<lparr>item_text = ''Wallet'', itemKey = ''topup'', item_to = ''/topup'', className = []\<rparr>,
      \<lparr>item_text = ''Personal settings'', itemKey = ''personal'', item_to = ''/personal'', className = []\<rparr>]"

definition adminItems :: "jv \<Rightarrow> ('x browser_scheme, item list) act" where
  "adminItems final = bnd isAdmin (\<lambda>admin. bnd isRoot (\<lambda>root.
     ret (filter (\<lambda>i. isModuleVisible final ''admin'' (itemKey i))
     [\<lparr>item_text = ''Channels'', itemKey = ''channel'', item_to = ''/channel'', className = hide_unless admin\<rparr>,
      \<lparr>item_text = ''Models'', itemKey = ''models'', item_to = ''/console/models'', className = hide_unless admin\<rparr>,
      \<lparr>item_text = ''Redemption codes'', itemKey = ''redemption'', item_to = ''/redemption'', className = hide_unless admin\<rparr>,
      \<lparr>item_text = ''Users'', itemKey = ''user'', item_to = ''/user'', className = hide_unless admin\<rparr>,
      \<lparr>item_text = ''System settings'', itemKey = ''setting'', item_to = ''/setting'', className = hide_unless root\<rparr>])))"

text \<open>The key selected for a path: the first entry of the route map with that path, if any.\<close>

definition matchingKey :: "string \<Rightarrow> string option" where
  "matchingKey path = map_option fst (List.find (\<lambda>(k, to). to = path) routerMap)"

definition renderNavItem :: "item \<Rightarrow> item option" where
  "renderNavItem i = (if className i = ''tableHiddle'' then None else Some i)"

text \<open>The link around an item: \<open>routerMap[itemKey]\<close>, not the item's own \<open>to\<close>.\<close>

definition renderWrapper :: "item \<Rightarrow> string option" where
  "renderWrapper i = map_of routerMap (itemKey i)"

text \<open>
  The menu as rendered: the section of the administrator only for administrators, hidden
  items left out, each item with the path it links to.
\<close>

definition menu_links :: "item list \<Rightarrow> (item \<times> string option) list" where
  "menu_links items = List.map (\<lambda>i. (i, renderWrapper i)) (List.map_filter renderNavItem items)"

definition SiderBar :: "jv \<Rightarrow> ('x browser_scheme, (item \<times> string option) list) act" where
  "SiderBar final = bnd (adminItems final) (\<lambda>adm. bnd isAdmin (\<lambda>admin. bnd (gets (\<lambda>s. workspaceItems s final)) (\<lambda>work. ret
     ((if hasSectionVisibleModules final ''console'' then menu_links work else [])
      @ (if hasSectionVisibleModules final ''personal'' then menu_links (financeItems final) else [])
      @ (if admin \<and> hasSectionVisibleModules final ''admin'' then menu_links adm else [])))))"

section \<open>Lemmas\<close>

lemma opt_get_truthy_key: "truthy (opt_get v k) \<Longrightarrow> k \<in> set (obj_keys v)"
  using opt_get_no_key by fastforce

lemma final_section_get:
  "m \<noteq> ''enabled'' \<Longrightarrow> opt_get (final_section a u) m =
     (if truthy (opt_get a ''enabled'') \<and> m \<in> set (obj_keys a)
      then jand (opt_get a m) (JBool ((truthy u \<longrightarrow> opt_get u m \<noteq> JBool False) \<and> (truthy u \<longrightarrow> opt_get u ''enabled'' \<noteq> JBool False)))
      else JUndef)"
  unfolding final_section_def Let_def by (simp add: opt_get_fold_set)

lemma jand_JBool_True: "(jand a (JBool b) = JBool True) = (truthy a \<and> b)"
  by (cases a) (auto simp: jand_def)

lemma finalConfig_get:
  "truthy user \<Longrightarrow> opt_get (finalConfig admin user) sec =
     (if sec \<in> set (obj_keys admin) \<and> truthy admin
      then final_section (opt_get admin sec) (opt_get user sec) else JUndef)"
  by (auto simp: finalConfig_def opt_get_fold_set_all)

text \<open>A user's configuration as \<open>isModuleVisible\<close> reads it.\<close>

definition user_allows :: "jv \<Rightarrow> string \<Rightarrow> string \<Rightarrow> bool" where
  "user_allows user sec m = (truthy (opt_get user sec) \<longrightarrow>
     opt_get (opt_get user sec) ''enabled'' \<noteq> JBool False \<and> opt_get (opt_get user sec) m \<noteq> JBool False)"

definition admin_allows :: "jv \<Rightarrow> string \<Rightarrow> string \<Rightarrow> bool" where
  "admin_allows admin sec m =
     (truthy (opt_get (opt_get admin sec) ''enabled'') \<and> truthy (opt_get (opt_get admin sec) m))"

lemma visible_lemma:
  assumes "truthy user" and "m \<noteq> []" and "m \<noteq> ''enabled''"
  shows "isModuleVisible (finalConfig admin user) sec m = (admin_allows admin sec m \<and> user_allows user sec m)"
proof (cases "admin_allows admin sec m")
  case True
  then have k: "m \<in> set (obj_keys (opt_get admin sec))" "truthy (opt_get (opt_get admin sec) ''enabled'')"
    by (auto simp: admin_allows_def intro: opt_get_truthy_key)
  have "opt_get admin sec \<noteq> JUndef" using k by auto
  then have s: "sec \<in> set (obj_keys admin)" using opt_get_no_key by blast
  then have "truthy admin" by (cases admin) (auto simp: obj_keys_def)
  then show ?thesis
    using True k s assms
    by (auto simp: isModuleVisible_def finalConfig_get final_section_get jand_JBool_True admin_allows_def user_allows_def)
next
  case False
  then show ?thesis
    using assms
    by (auto simp: isModuleVisible_def finalConfig_get final_section_get jand_JBool_True admin_allows_def)
qed

text \<open>C3: A module of the console is shown exactly when the administrator has enabled its section
  and the module, and the user has hidden neither: the user's configuration can only hide.\<close>

theorem module_visible_iff:
  assumes "truthy user" and "m \<noteq> []" and "m \<noteq> ''enabled''"
  shows "isModuleVisible (finalConfig admin user) sec m \<longleftrightarrow>
     truthy (opt_get (opt_get admin sec) ''enabled'') \<and> truthy (opt_get (opt_get admin sec) m)
     \<and> (truthy (opt_get user sec) \<longrightarrow>
          opt_get (opt_get user sec) ''enabled'' \<noteq> JBool False \<and> opt_get (opt_get user sec) m \<noteq> JBool False)"
  using visible_lemma[OF assms] by (simp add: admin_allows_def user_allows_def)

theorem module_visible_iff_witness:
  "isModuleVisible (finalConfig defaultAdminConfig (JObj [(''admin'', JObj [(''user'', JBool True)])])) ''admin'' ''user''
   \<and> \<not> isModuleVisible (finalConfig defaultAdminConfig (JObj [(''admin'', JObj [(''user'', JBool False)])])) ''admin'' ''user''
   \<and> \<not> isModuleVisible (finalConfig defaultAdminConfig (JObj [(''admin'', JObj [(''channel'', JBool True)])])) ''admin'' ''channel''"
  by (simp add: module_visible_iff defaultAdminConfig_def)

lemma default_section_get:
  "opt_get (default_section a) m =
     (if m \<in> set (obj_keys a) \<and> m \<noteq> ''enabled'' \<and> truthy (opt_get a m) then JBool True
      else if m = ''enabled'' then JBool True else JUndef)"
  by (simp add: default_section_def opt_get_fold_set)

lemma truthy_fold_set: "truthy (fold (\<lambda>k v. if P k then obj_set v k (f k) else v) ks (JObj ms))"
proof -
  have "\<exists>ms'. fold (\<lambda>k v. if P k then obj_set v k (f k) else v) ks (JObj ms) = JObj ms'"
    by (induction ks arbitrary: ms) (auto simp: obj_set_def)
  then show ?thesis by auto
qed

lemma default_user_config_truthy: "truthy (default_user_config admin)"
  unfolding default_user_config_def by (rule truthy_fold_set)

lemma default_user_config_allows: "user_allows (default_user_config admin) sec m" if "m \<noteq> []"
  using that
  by (auto simp: user_allows_def default_user_config_def opt_get_fold_set default_section_get)

text \<open>
  The default configuration hides nothing, and it is what a failed or empty load leaves: the
  last step of \<open>loadUserConfig\<close> always runs.
\<close>

lemma set_default_run:
  "\<not> nullish (adminConfig s) \<Longrightarrow>
   set_default_config s = (Inr (), s\<lparr>userConfig := default_user_config (adminConfig s)\<rparr>)"
  by (simp add: set_default_config_def act_simps keys_of_def)

lemma load_failed_run:
  assumes "\<not> nullish (adminConfig s)" and "intercepts (api s) = False"
    and "env (trace s) (Http GET ''/api/user/self'' JUndef) = Rejected e"
  shows "loadUserConfig env JUndef s =
    (Inr (), s\<lparr>userConfig := default_user_config (adminConfig s), loading := (hasLoadedOnce s \<and> loading s),
       hasLoadedOnce := True, trace := trace s @ [Requested (hdr_user (api s)) (Http GET ''/api/user/self'' JUndef)]\<rparr>)"
proof -
  have a: "adminConfig (s\<lparr>trace := tr\<rparr>) = adminConfig s" "adminConfig (s\<lparr>loading := b\<rparr>) = adminConfig s"
    "adminConfig (s\<lparr>loading := b, trace := tr\<rparr>) = adminConfig s" for tr b
    by (simp_all add: adminConfig_def)
  show ?thesis
    using assms
    by (cases "hasLoadedOnce s") (simp_all add: loadUserConfig_def act_simps set_default_run a Let_def)
qed

text \<open>When the user's configuration cannot be loaded, the first load still ends (the loader
  goes away) and the sidebar shows exactly the modules the administrator allows.\<close>

lemma failed_load_shows_admin_modules:
  assumes "\<not> nullish (adminConfig s)" and "\<not> intercepts (api s)" and "\<not> hasLoadedOnce s"
    and "env (trace s) (Http GET ''/api/user/self'' JUndef) = Rejected e"
    and "loadUserConfig env JUndef s = (r, t)" and "m \<noteq> []" and "m \<noteq> ''enabled''"
  shows "r = Inr () \<and> \<not> loading t \<and> hasLoadedOnce t
    \<and> isModuleVisible (finalConfig (adminConfig t) (userConfig t)) sec m =
        (truthy (opt_get (opt_get (adminConfig s) sec) ''enabled'') \<and> truthy (opt_get (opt_get (adminConfig s) sec) m))"
proof -
  have a: "adminConfig t = adminConfig s" "userConfig t = default_user_config (adminConfig s)"
    "r = Inr ()" "\<not> loading t" "hasLoadedOnce t"
    using assms(3,5) load_failed_run[of s env e] assms(1,2,4) by (auto simp: adminConfig_def)
  have "isModuleVisible (finalConfig (adminConfig s) (default_user_config (adminConfig s))) sec m
      = admin_allows (adminConfig s) sec m"
    using assms(6,7) by (simp add: visible_lemma default_user_config_truthy default_user_config_allows)
  then show ?thesis using a by (simp add: admin_allows_def)
qed

definition sidebar_example :: sidebar where
  "sidebar_example = browser.extend (blank_browser\<lparr>api := \<lparr>hdr_user = JNum 1, intercepts = False\<rparr>\<rparr>)
     \<lparr>userConfig = JNull, loading = True, instanceId = ''a'', hasLoadedOnce = False\<rparr>"

lemma sidebar_example_simps [simp]:
  "trace sidebar_example = []" "status_ctx sidebar_example = JUndef" "\<not> intercepts (api sidebar_example)"
  "\<not> hasLoadedOnce sidebar_example" "instanceId sidebar_example = ''a''" "adminConfig sidebar_example = defaultAdminConfig"
  by (simp_all add: sidebar_example_def browser.extend_def blank_browser_def adminConfig_def)

lemma failed_load_shows_admin_modules_example:
  "isModuleVisible (finalConfig defaultAdminConfig
     (userConfig (snd (loadUserConfig (\<lambda>_ _. Rejected (network_error ''down'')) JUndef sidebar_example)))) ''console'' ''detail''"
proof -
  let ?env = "\<lambda>_ _. Rejected (network_error ''down'')"
  obtain r t where run: "loadUserConfig ?env JUndef sidebar_example = (r, t)"
    by (cases "loadUserConfig ?env JUndef sidebar_example")
  have "status_ctx t = JUndef"
    using run load_failed_run[of sidebar_example ?env] by (auto simp: defaultAdminConfig_def)
  then have "adminConfig t = defaultAdminConfig" by (simp add: adminConfig_def)
  then show ?thesis
    using failed_load_shows_admin_modules[OF _ _ _ _ run, where m = "''detail''" and sec = "''console''"] run
    by (simp add: defaultAdminConfig_def)
qed

lemma load_config_run:
  assumes "env (trace s) (Http GET ''/api/user/self'' JUndef) = Ok body"
    and "truthy (opt_get body ''success'')" and "opt_get (opt_get body ''data'') ''sidebar_modules'' = JObj c"
  shows "loadUserConfig env (JBool False) s = (Inr (), s\<lparr>userConfig := JObj c, hasLoadedOnce := True,
     trace := trace s @ [Requested (hdr_user (api s)) (Http GET ''/api/user/self'' JUndef)]\<rparr>)"
proof -
  have b: "\<not> nullish body" "\<not> nullish (opt_get body ''data'')" using assms(2,3) by (auto simp: nullish_def)
  then show ?thesis using assms by (simp add: loadUserConfig_def act_simps Let_def)
qed

text \<open>A refresh reaches every other sidebar: when one instance saves and refreshes, it announces it
  once and ignores its own announcement, and any other instance that handles it and gets the same
  answer shows the same modules, without turning its loader on.\<close>

lemma refresh_synchronises:
  assumes "adminConfig s = admin" and "adminConfig s' = admin" and "obj_keys admin \<noteq> []" and "\<not> nullish admin"
    and "instanceId s' \<noteq> instanceId s"
    and "env (trace s) (Http GET ''/api/user/self'' JUndef) = Ok body"
    and "env' (trace s') (Http GET ''/api/user/self'' JUndef) = Ok body"
    and "truthy (opt_get body ''success'')" and "opt_get (opt_get body ''data'') ''sidebar_modules'' = JObj c"
    and "detail = JObj [(''sourceId'', JStr (instanceId s)), (''skipLoader'', JBool True)]"
  shows "\<exists>t t'. refreshUserConfig env s = (Inr (), t) \<and> last (trace t) = Dispatched ''sidebar-refresh'' detail
     \<and> handleRefresh env detail t = (Inr (), t)
     \<and> handleRefresh env' detail s' = (Inr (), t') \<and> loading t' = loading s'
     \<and> finalConfig (adminConfig t') (userConfig t') = finalConfig (adminConfig t) (userConfig t)"
proof -
  note run = load_config_run[of env s, OF assms(6,8,9)] load_config_run[of env' s', OF assms(7,8,9)]
  have "load_if_configured env (JBool False) s = loadUserConfig env (JBool False) s"
    "load_if_configured env' (JBool False) s' = loadUserConfig env' (JBool False) s'"
    using assms(1-4) by (simp_all add: load_if_configured_def keys_of_def act_simps)
  then show ?thesis
    using assms(1,2,5,10) by (simp add: refreshUserConfig_def handleRefresh_def act_simps run adminConfig_def)
qed

lemma refresh_synchronises_example:
  "\<exists>t t'. refreshUserConfig (\<lambda>_ _. Ok (JObj [(''success'', JBool True),
        (''data'', JObj [(''sidebar_modules'', JObj [(''admin'', JObj [])])])])) sidebar_example = (Inr (), t)
    \<and> handleRefresh (\<lambda>_ _. Ok (JObj [(''success'', JBool True),
        (''data'', JObj [(''sidebar_modules'', JObj [(''admin'', JObj [])])])]))
        (JObj [(''sourceId'', JStr ''a''), (''skipLoader'', JBool True)]) (sidebar_example\<lparr>instanceId := ''b''\<rparr>) = (Inr (), t')
    \<and> finalConfig (adminConfig t') (userConfig t') = finalConfig (adminConfig t) (userConfig t)"
proof -
  let ?body = "JObj [(''success'', JBool True), (''data'', JObj [(''sidebar_modules'', JObj [(''admin'', JObj [])])])]"
  have "adminConfig (sidebar_example\<lparr>instanceId := ''b''\<rparr>) = defaultAdminConfig"
    by (simp add: adminConfig_def)
  then show ?thesis
    using refresh_synchronises[of sidebar_example defaultAdminConfig "sidebar_example\<lparr>instanceId := ''b''\<rparr>"
        "\<lambda>_ _. Ok ?body" ?body "\<lambda>_ _. Ok ?body" "[(''admin'', JObj [])]"]
    by (auto simp: defaultAdminConfig_def obj_keys_def)
qed

text \<open>The list of allowed modules never offers what the two checks refuse.\<close>

lemma listed_modules_are_allowed:
  "list_all (\<lambda>m. isSidebarModuleAllowed perms sec m \<and> isSidebarSectionAllowed perms sec)
     (getAllowedSidebarModules perms sec)"
  by (auto simp: list_all_iff getAllowedSidebarModules_def isSidebarModuleAllowed_def isSidebarSectionAllowed_def
      Let_def)

end
