(* ===== verification/Header.thy ===== *)
theory Header
  imports Client
begin

text \<open>
  The header and the small persistent settings around it: \<open>hooks/common/useNavigation.js\<close>,
  \<open>useHeaderBar.js\<close>, \<open>useNotifications.js\<close>, \<open>useSidebarCollapsed.js\<close>, \<open>useTableCompactMode.js\<close> with its
  storage functions in \<open>helpers/utils.jsx\<close>, \<open>useMinimumLoadingTime.js\<close> and the theme setter of
  \<open>context/Theme\<close>.
\<close>

section \<open>useNavigation\<close>

text \<open>A link of the header; a link is external when it has an \<open>externalLink\<close>.\<close>

datatype nav_link = Internal (link_text: string) (itemKey: string) (to_path: string)
  | External (link_text: string) (itemKey: string) (externalLink: jv)

definition defaultModules :: jv where
  "defaultModules = JObj [(''home'', JBool True), (''console'', JBool True), (''pricing'', JBool False),
     (''docs'', JBool True), (''about'', JBool True)]"

definition allLinks :: "jv \<Rightarrow> nav_link list" where
  "allLinks docsLink =
     [Internal ''Home'' ''home'' ''/'', Internal ''Console'' ''console'' ''/console'',
      Internal ''Pricing'' ''pricing'' ''/pricing'']
     @ (if truthy docsLink then [External ''Docs'' ''docs'' docsLink] else [])
     @ [Internal ''About'' ''about'' ''/about'']"

definition link_shown :: "jv \<Rightarrow> jv \<Rightarrow> nav_link \<Rightarrow> ('s, bool) act" where
  "link_shown docsLink modules link =
     (if itemKey link = ''docs'' then ret (truthy docsLink \<and> truthy (opt_get modules ''docs''))
      else if itemKey link = ''pricing'' then
        (if type_of (opt_get modules ''pricing'') = ''object''
         then bnd (prop_get (opt_get modules ''pricing'') ''enabled'') (\<lambda>e. ret (truthy e))
         else ret (truthy (opt_get modules ''pricing'')))
      else ret (opt_get modules (itemKey link) = JBool True))"

fun filter_each :: "('a \<Rightarrow> ('s, bool) act) \<Rightarrow> 'a list \<Rightarrow> ('s, 'a list) act" where
  "filter_each p [] = ret []"
| "filter_each p (x # xs) = bnd (p x) (\<lambda>b. bnd (filter_each p xs) (\<lambda>ys. ret (if b then x # ys else ys)))"

definition mainNavLinks :: "jv \<Rightarrow> jv \<Rightarrow> ('s, nav_link list) act" where
  "mainNavLinks docsLink headerNavModules =
     filter_each (link_shown docsLink (jor headerNavModules defaultModules)) (allLinks docsLink)"

section \<open>useHeaderBar\<close>

record header = browser +
  collapsed :: bool
  theme :: jv
  isMobile :: bool
  drawerToggled :: nat

definition docsLink_of :: "'x browser_scheme \<Rightarrow> jv" where
  "docsLink_of s = jor (opt_get (status_ctx s) ''docs_link'') (JStr [])"

text \<open>The parse error, and the TypeError of a text that is the JSON null, give null.\<close>

definition headerNavModules :: "'x browser_scheme \<Rightarrow> jv" where
  "headerNavModules s =
     (let raw = opt_get (status_ctx s) ''HeaderNavModules'' in
      if \<not> truthy raw then JNull
      else case json_parse (to_str raw) of
        None \<Rightarrow> JNull
      | Some modules \<Rightarrow>
          if nullish modules then JNull
          else if type_of (opt_get modules ''pricing'') = ''boolean''
          then obj_set modules ''pricing''
                 (JObj [(''enabled'', opt_get modules ''pricing''), (''requireAuth'', JBool False)])
          else modules)"

definition pricingRequireAuth :: "jv \<Rightarrow> jv" where
  "pricingRequireAuth modules =
     (let pricing = opt_get modules ''pricing'' in
      if truthy pricing
      then (if type_of pricing = ''object'' then opt_get pricing ''requireAuth'' else JBool False)
      else JBool False)"

definition isConsoleRoute :: "string \<Rightarrow> bool" where
  "isConsoleRoute pathname = starts_with ''/console'' pathname"

text \<open>\<open>setTheme\<close> of the theme provider, and the effective theme.\<close>

definition setTheme :: "jv \<Rightarrow> (('x) header_scheme, unit) act" where
  "setTheme newTheme =
     (let themeValue = (case newTheme of JBool b \<Rightarrow> JStr (if b then ''dark'' else ''light'')
                        | JStr v \<Rightarrow> JStr v | _ \<Rightarrow> JStr ''auto'') in
      sq (modify (\<lambda>s. s\<lparr>theme := themeValue\<rparr>)) (set_item ''theme-mode'' themeValue))"

definition actualTheme :: "jv \<Rightarrow> string \<Rightarrow> jv" where
  "actualTheme mode systemTheme = (if mode = JStr ''auto'' then JStr systemTheme else mode)"

definition initialTheme :: "'x browser_scheme \<Rightarrow> jv" where
  "initialTheme s = jor (get_item s ''theme-mode'') (JStr ''auto'')"

definition handleThemeToggle :: "jv \<Rightarrow> (('x) header_scheme, unit) act" where
  "handleThemeToggle newTheme =
     (if \<not> truthy newTheme \<or> (newTheme \<noteq> JStr ''light'' \<and> newTheme \<noteq> JStr ''dark'' \<and> newTheme \<noteq> JStr ''auto'')
      then ret () else setTheme newTheme)"

text \<open>\<open>useSidebarCollapsed\<close>.\<close>

definition initialCollapsed :: "'x browser_scheme \<Rightarrow> bool" where
  "initialCollapsed s = (get_item s ''default_collapse_sidebar'' = JStr ''true'')"

definition toggleCollapsed :: "(('x) header_scheme, unit) act" where
  "toggleCollapsed = bnd (gets (\<lambda>s. \<not> collapsed s)) (\<lambda>n.
     sq (modify (\<lambda>s. s\<lparr>collapsed := n\<rparr>)) (set_item ''default_collapse_sidebar'' (JBool n)))"

definition setCollapsed :: "bool \<Rightarrow> (('x) header_scheme, unit) act" where
  "setCollapsed v =
     sq (modify (\<lambda>s. s\<lparr>collapsed := v\<rparr>)) (set_item ''default_collapse_sidebar'' (JBool v))"

text \<open>The mobile menu callback of the parent is counted by \<open>drawerToggled\<close>.\<close>

definition handleMobileMenuToggle :: "(('x) header_scheme, unit) act" where
  "handleMobileMenuToggle = bnd (gets isMobile) (\<lambda>m.
     if m then modify (\<lambda>s. s\<lparr>drawerToggled := Suc (drawerToggled s)\<rparr>) else toggleCollapsed)"

section \<open>useNotifications\<close>

record notices = browser +
  noticeVisible :: bool
  unreadCount :: nat

definition announcements :: "'x browser_scheme \<Rightarrow> jv" where
  "announcements s = jor (opt_get (status_ctx s) ''announcements'') (JArr [])"

text \<open>\<open>v.slice(0, 30)\<close> in a template literal: only strings and arrays have it.\<close>

definition slice30 :: "jv \<Rightarrow> ('s, string) act" where
  "slice30 v = (case v of JStr x \<Rightarrow> ret (take 30 x) | JArr vs \<Rightarrow> ret (to_str (JArr (take 30 vs))) | _ \<Rightarrow> throw type_error)"

definition getAnnouncementKey :: "jv \<Rightarrow> ('s, jv) act" where
  "getAnnouncementKey a = bnd (slice30 (jor (opt_get a ''content'') (JStr []))) (\<lambda>c.
     ret (JStr (to_str (jor (opt_get a ''publishDate'') (JStr [])) @ ''-'' @ c)))"

text \<open>The elements of an iterable: an array or the characters of a string.\<close>

definition elements_of :: "jv \<Rightarrow> ('s, jv list) act" where
  "elements_of v = (case v of JArr vs \<Rightarrow> ret vs | JStr x \<Rightarrow> ret (List.map (\<lambda>c. JStr [c]) x) | _ \<Rightarrow> throw type_error)"

definition readKeys :: "('x browser_scheme, jv) act" where
  "readKeys = try_catch
     (bnd (gets (\<lambda>s. get_item s ''notice_read_keys'')) (\<lambda>raw.
      bnd (parse_json raw) (\<lambda>v. ret (jor v (JArr [])))))
     (\<lambda>_. ret (JArr []))"

definition js_member :: "jv \<Rightarrow> jv list \<Rightarrow> bool" where
  "js_member v vs = list_ex (strict_eq v) vs"

text \<open>The announcements whose key is not among the read keys.\<close>

definition unread :: "jv list \<Rightarrow> ('x browser_scheme, jv list) act" where
  "unread as = bnd readKeys (\<lambda>ks. bnd (elements_of ks) (\<lambda>readSet.
     filter_each (\<lambda>a. bnd (getAnnouncementKey a) (\<lambda>k. ret (\<not> js_member k readSet))) as))"

text \<open>\<open>announcements.length\<close> is undefined, hence falsy, on a value that is no array or string.\<close>

definition with_announcements :: "(jv list \<Rightarrow> ('x browser_scheme, 'a) act) \<Rightarrow> 'a \<Rightarrow> ('x browser_scheme, 'a) act" where
  "with_announcements f none = bnd (gets announcements) (\<lambda>v. case v of
       JArr as \<Rightarrow> if as = [] then ret none else f as
     | JStr x \<Rightarrow> if x = [] then ret none else throw type_error
     | _ \<Rightarrow> ret none)"

definition calculateUnreadCount :: "('x browser_scheme, nat) act" where
  "calculateUnreadCount = with_announcements (\<lambda>as. bnd (unread as) (\<lambda>us. ret (length us))) 0"

definition getUnreadKeys :: "('x browser_scheme, jv list) act" where
  "getUnreadKeys = with_announcements (\<lambda>as. bnd (unread as) (map_each getAnnouncementKey)) []"

definition count_effect :: "(('x) notices_scheme, unit) act" where
  "count_effect = bnd calculateUnreadCount (\<lambda>n. modify (\<lambda>s. s\<lparr>unreadCount := n\<rparr>))"

definition handleNoticeOpen :: "(('x) notices_scheme, unit) act" where
  "handleNoticeOpen = modify (\<lambda>s. s\<lparr>noticeVisible := True\<rparr>)"

text \<open>\<open>Array.from(new Set(vs))\<close>: the first occurrence of every value.\<close>

fun set_array :: "jv list \<Rightarrow> jv list \<Rightarrow> jv list" where
  "set_array seen [] = []"
| "set_array seen (v # vs) = (if js_member v seen then set_array seen vs else v # set_array (seen @ [v]) vs)"

definition handleNoticeClose :: "(('x) notices_scheme, unit) act" where
  "handleNoticeClose = sq (modify (\<lambda>s. s\<lparr>noticeVisible := False\<rparr>))
     (sq (with_announcements (\<lambda>as. bnd readKeys (\<lambda>rk. bnd (elements_of rk) (\<lambda>old.
            bnd (map_each getAnnouncementKey as) (\<lambda>ks.
              set_item ''notice_read_keys'' (json_stringify (JArr (set_array [] (old @ ks)))))))) ())
         (modify (\<lambda>s. s\<lparr>unreadCount := 0\<rparr>)))"

section \<open>Compact tables\<close>

definition TABLE_COMPACT_MODES_KEY :: string where
  "TABLE_COMPACT_MODES_KEY = ''table_compact_modes''"

definition readTableCompactModes :: "'x browser_scheme \<Rightarrow> jv" where
  "readTableCompactModes s =
     (let json = get_item s TABLE_COMPACT_MODES_KEY in
      if truthy json then (case json_parse (to_str json) of Some v \<Rightarrow> v | None \<Rightarrow> JObj []) else JObj [])"

definition writeTableCompactModes :: "jv \<Rightarrow> ('x browser_scheme, unit) act" where
  "writeTableCompactModes modes = set_item TABLE_COMPACT_MODES_KEY (json_stringify modes)"

definition getTableCompactMode :: "string \<Rightarrow> ('x browser_scheme, bool) act" where
  "getTableCompactMode tableKey = bnd (gets readTableCompactModes) (\<lambda>modes.
     bnd (prop_get modes tableKey) (\<lambda>v. ret (truthy v)))"

text \<open>
  \<open>v[k] = x\<close>: a TypeError on everything that is no object; on an array the member would not be part of
  the JSON text written next.
\<close>

definition assign_member :: "jv \<Rightarrow> string \<Rightarrow> jv \<Rightarrow> ('s, jv) act" where
  "assign_member v k x = (case v of JObj _ \<Rightarrow> ret (obj_set v k x) | JArr _ \<Rightarrow> ret v | _ \<Rightarrow> throw type_error)"

definition setTableCompactMode :: "bool \<Rightarrow> string \<Rightarrow> ('x browser_scheme, unit) act" where
  "setTableCompactMode on tableKey = bnd (gets readTableCompactModes) (\<lambda>modes.
     bnd (assign_member modes tableKey (JBool on)) writeTableCompactModes)"

record compact_table = browser +
  compactMode :: bool

definition setCompactMode :: "string \<Rightarrow> bool \<Rightarrow> (('x) compact_table_scheme, unit) act" where
  "setCompactMode tableKey v =
     sq (modify (\<lambda>s. s\<lparr>compactMode := v\<rparr>)) (setTableCompactMode v tableKey)"

text \<open>The \<open>storage\<close> event another tab gets: the key and the new text (null when removed).\<close>

definition handleStorage :: "string \<Rightarrow> string \<Rightarrow> jv \<Rightarrow> (('x) compact_table_scheme, unit) act" where
  "handleStorage tableKey key newValue =
     (if key = TABLE_COMPACT_MODES_KEY
      then try_catch
        (bnd (parse_json (jor newValue (JStr ''{}''))) (\<lambda>modes.
         bnd (prop_get modes tableKey) (\<lambda>v. modify (\<lambda>s. s\<lparr>compactMode := truthy v\<rparr>))))
        (\<lambda>_. ret ())
      else ret ())"

section \<open>useMinimumLoadingTime\<close>

text \<open>Times are milliseconds; \<open>hide_at\<close> is the pending timer.\<close>

record skeleton =
  showSkeleton :: bool
  loadingStart :: int
  hide_at :: "int option"

text \<open>One run of the effect: the cleanup of the previous run clears its timer first.\<close>

definition loading_effect :: "bool \<Rightarrow> int \<Rightarrow> int \<Rightarrow> skeleton \<Rightarrow> skeleton" where
  "loading_effect loading minimumTime now sk0 =
     (let sk = sk0\<lparr>hide_at := None\<rparr> in
      if loading then sk\<lparr>loadingStart := now, showSkeleton := True\<rparr>
      else let elapsed = now - loadingStart sk; remaining = max 0 (minimumTime - elapsed) in
        if remaining = 0 then sk\<lparr>showSkeleton := False\<rparr> else sk\<lparr>hide_at := Some (now + remaining)\<rparr>)"

definition timer_tick :: "int \<Rightarrow> skeleton \<Rightarrow> skeleton" where
  "timer_tick now sk = (case hide_at sk of
       Some d \<Rightarrow> if d \<le> now then sk\<lparr>showSkeleton := False, hide_at := None\<rparr> else sk
     | None \<Rightarrow> sk)"

section \<open>Lemmas\<close>

lemma js_member_JStr: "js_member (JStr k) vs = (JStr k \<in> set vs)"
proof -
  have "strict_eq (JStr k) v = (JStr k = v)" for v by (cases v) auto
  then show ?thesis by (auto simp: js_member_def list_ex_iff)
qed

lemma set_array_strings:
  "\<forall>v \<in> set vs. \<exists>k. v = JStr k \<Longrightarrow>
   set (set_array seen vs) = set vs - set seen \<and> distinct (set_array seen vs)"
proof (induction seen vs rule: set_array.induct)
  case (1 seen)
  then show ?case by simp
next
  case (2 seen v vs)
  then obtain k where v: "v = JStr k" by auto
  show ?case
    using 2 v by (auto simp: js_member_JStr)
qed

text \<open>An announcement as the backend sends it: an object whose content is text or absent.\<close>

definition announcement_ok :: "jv \<Rightarrow> bool" where
  "announcement_ok a = (case jor (opt_get a ''content'') (JStr []) of JStr _ \<Rightarrow> True | _ \<Rightarrow> False)"

definition announcement_key :: "jv \<Rightarrow> jv" where
  "announcement_key a = JStr (to_str (jor (opt_get a ''publishDate'') (JStr [])) @ ''-''
     @ take 30 (to_str (jor (opt_get a ''content'') (JStr []))))"

lemma getAnnouncementKey_ok: "announcement_ok a \<Longrightarrow> getAnnouncementKey a s = (Inr (announcement_key a), s)"
  by (auto simp: announcement_ok_def getAnnouncementKey_def slice30_def announcement_key_def act_simps split: jv.splits)

lemma filter_each_ret:
  assumes "\<And>x s. x \<in> set xs \<Longrightarrow> p x s = (Inr (q x), s)"
  shows "filter_each p xs s = (Inr (filter q xs), s)"
  using assms by (induction xs) (simp_all add: ret_def bnd_def)

text \<open>The stored read keys: absent, or the text of a list of strings.\<close>

definition keys_stored :: "'x browser_scheme \<Rightarrow> string list \<Rightarrow> bool" where
  "keys_stored s old = (store s ''notice_read_keys'' = Some (js_text (JArr (List.map JStr old)))
     \<or> (old = [] \<and> store s ''notice_read_keys'' = None))"

lemma json_ok_strings: "json_ok (JArr (List.map JStr ks))"
  by simp

lemma json_parse_null: "json_parse ''null'' = Some JNull"
  using json_roundtrip[of JNull] by simp

lemma readKeys_stored:
  "keys_stored s old \<Longrightarrow> readKeys s = (Inr (JArr (List.map JStr old)), s)"
  using json_roundtrip[of "JArr (List.map JStr old)"]
  by (auto simp: keys_stored_def readKeys_def act_simps json_parse_null jor_def
      simp del: js_text.simps)

lemma unread_stored:
  assumes "keys_stored s old" and "list_all announcement_ok as"
  shows "unread as s = (Inr (filter (\<lambda>a. announcement_key a \<notin> JStr ` set old) as), s)"
proof -
  have "filter_each (\<lambda>a. bnd (getAnnouncementKey a) (\<lambda>k. ret (\<not> js_member k (List.map JStr old)))) as s
      = (Inr (filter (\<lambda>a. announcement_key a \<notin> JStr ` set old) as), s)"
    using assms(2)
    by (intro filter_each_ret)
      (auto simp: list_all_iff act_simps getAnnouncementKey_ok announcement_key_def js_member_JStr)
  then show ?thesis
    using readKeys_stored[OF assms(1)] by (simp add: unread_def bnd_def elements_of_def ret_def)
qed

lemma announcement_key_str: "\<exists>k. announcement_key a = JStr k"
  by (simp add: announcement_key_def)

lemma announcement_key_to_str [simp]: "JStr (to_str (announcement_key a)) = announcement_key a"
  by (simp add: announcement_key_def)

text \<open>C10: Closing the notice marks every announcement as read and forgets none that was read before:
  the badge is zero, and stays zero when it is computed again, until another announcement comes.\<close>

theorem notice_close_marks_all_read:
  assumes "announcements s = JArr as" and "as \<noteq> []" and "list_all announcement_ok as" and "keys_stored s old"
  shows "\<exists>t new. handleNoticeClose s = (Inr (), t) \<and> unreadCount t = 0 \<and> \<not> noticeVisible t
     \<and> keys_stored t new \<and> set old \<subseteq> set new \<and> distinct new
     \<and> calculateUnreadCount t = (Inr 0, t) \<and> getUnreadKeys t = (Inr [], t)"
proof -
  let ?s = "s\<lparr>noticeVisible := False\<rparr>"
  let ?vs = "List.map JStr old @ List.map announcement_key as"
  let ?m = "set_array [] ?vs"
  have strs: "\<forall>v \<in> set ?vs. \<exists>k. v = JStr k" using announcement_key_str by auto
  have m: "set ?m = set ?vs" "distinct ?m" using set_array_strings[OF strs, of "[]"] by simp_all
  define new where "new = List.map to_str ?m"
  have new: "?m = List.map JStr new"
    using strs m(1) by (auto simp: new_def intro!: map_idI[symmetric])
  have d: "distinct new" using m(2) new by (metis distinct_map)
  have sub: "set old \<subseteq> set new" "announcement_key a \<in> JStr ` set new" if "a \<in> set as" for a
    using m(1) that unfolding new by auto
  have sub0: "set old \<subseteq> set new" using sub assms(2) by (cases as) auto
  define t where "t = ?s\<lparr>store := (store s)(''notice_read_keys'' \<mapsto> js_text (JArr (List.map JStr new))), unreadCount := 0\<rparr>"
  have ks: "keys_stored ?s old" using assms(4) by (simp add: keys_stored_def)
  have an: "announcements ?s = JArr as" "announcements t = JArr as"
    using assms(1) by (simp_all add: announcements_def t_def)
  have keys: "map_each getAnnouncementKey as ?s = (Inr (List.map announcement_key as), ?s)"
    using assms(3) by (intro map_each_ret getAnnouncementKey_ok) (simp add: list_all_iff)
  have run: "handleNoticeClose s = (Inr (), t)"
    using an(1) assms(2) readKeys_stored[OF ks] keys new
    by (simp add: handleNoticeClose_def with_announcements_def sq_def bnd_def modify_def gets_def ret_def
        elements_of_def set_item_def json_stringify_def t_def del: js_text.simps)
  have kt: "keys_stored t new" by (simp add: keys_stored_def t_def del: js_text.simps)
  have "unread as t = (Inr [], t)"
    using unread_stored[OF kt assms(3)] sub(2) by (simp add: filter_empty_conv)
  then have "calculateUnreadCount t = (Inr 0, t)" "getUnreadKeys t = (Inr [], t)"
    using an(2) assms(2)
    by (simp_all add: calculateUnreadCount_def getUnreadKeys_def with_announcements_def bnd_def gets_def ret_def)
  then show ?thesis using run kt sub0 d by (auto simp: t_def)
qed

definition notices_example :: notices where
  "notices_example = browser.extend (blank_browser\<lparr>status_ctx := JObj [(''announcements'',
       JArr [JObj [(''content'', JStr ''hello''), (''publishDate'', JStr ''2025'')]])]\<rparr>)
     \<lparr>noticeVisible = True, unreadCount = 1\<rparr>"

theorem notice_close_marks_all_read_witness:
  "\<exists>t. handleNoticeClose notices_example = (Inr (), t) \<and> calculateUnreadCount t = (Inr 0, t)"
proof -
  have "announcements notices_example = JArr [JObj [(''content'', JStr ''hello''), (''publishDate'', JStr ''2025'')]]"
    by (simp add: announcements_def notices_example_def browser.extend_def blank_browser_def jor_def)
  moreover have "keys_stored notices_example []"
    by (simp add: keys_stored_def notices_example_def browser.extend_def blank_browser_def)
  ultimately show ?thesis
    using notice_close_marks_all_read[of notices_example
        "[JObj [(''content'', JStr ''hello''), (''publishDate'', JStr ''2025'')]]" "[]"]
    by (auto simp: announcement_ok_def jor_def)
qed

text \<open>The modes in storage: absent, or the text of an object.\<close>

definition modes_stored :: "'x browser_scheme \<Rightarrow> (string \<times> jv) list \<Rightarrow> bool" where
  "modes_stored s ms = (json_ok (JObj ms) \<and>
     (store s TABLE_COMPACT_MODES_KEY = Some (js_text (JObj ms)) \<or> (ms = [] \<and> store s TABLE_COMPACT_MODES_KEY = None)))"

lemma set_update_sub: "set (AList.update k v ms) \<subseteq> insert (k, v) (set ms)"
  by (induction ms) auto

lemma json_ok_update:
  assumes "json_ok (JObj ms)" and "json_ok v"
  shows "json_ok (JObj (AList.update k v ms))"
  using assms set_update_sub[of k v ms] by (auto simp: distinct_update)

lemma read_modes:
  assumes "modes_stored s ms"
  shows "readTableCompactModes s = JObj ms"
  using assms js_text_length[of "JObj ms"] json_roundtrip[of "JObj ms"]
  by (auto simp: modes_stored_def readTableCompactModes_def Let_def simp del: js_text.simps)

text \<open>The compact mode of a table is what was last set for it, here and in every other tab: setting
  it keeps the modes of the other tables, and the storage event brings another tab to the same mode.\<close>

lemma compact_mode_roundtrip:
  assumes "modes_stored s ms"
  shows "\<exists>t. setCompactMode k b s = (Inr (), t) \<and> compactMode t = b
     \<and> modes_stored t (AList.update k (JBool b) ms)
     \<and> getTableCompactMode k t = (Inr b, t)
     \<and> (\<forall>j. j \<noteq> k \<longrightarrow> fst (getTableCompactMode j t) = fst (getTableCompactMode j s))
     \<and> handleStorage k TABLE_COMPACT_MODES_KEY (get_item t TABLE_COMPACT_MODES_KEY) u = (Inr (), u\<lparr>compactMode := b\<rparr>)"
proof -
  let ?m = "AList.update k (JBool b) ms"
  let ?t = "s\<lparr>compactMode := b, store := (store s)(TABLE_COMPACT_MODES_KEY \<mapsto> js_text (JObj ?m))\<rparr>"
  have ms: "json_ok (JObj ms)" using assms unfolding modes_stored_def by blast
  have ok: "json_ok (JObj ?m)" by (rule json_ok_update[OF ms]) simp
  then have st: "modes_stored ?t ?m" by (simp add: modes_stored_def del: js_text.simps json_ok.simps)
  have s': "modes_stored (s\<lparr>compactMode := b\<rparr>) ms" using assms by (simp add: modes_stored_def)
  have run: "setCompactMode k b s = (Inr (), ?t)"
    using read_modes[OF s']
    by (simp add: setCompactMode_def setTableCompactMode_def writeTableCompactModes_def assign_member_def act_simps
        json_stringify_def obj_set_def del: js_text.simps)
  have get: "getTableCompactMode j ?t = (Inr (truthy (opt_get (JObj ?m) j)), ?t)" for j
    using read_modes[OF st] by (simp add: getTableCompactMode_def act_simps)
  have get0: "getTableCompactMode j s = (Inr (truthy (opt_get (JObj ms) j)), s)" for j
    using read_modes[OF assms] by (simp add: getTableCompactMode_def act_simps)
  have up: "opt_get (JObj ?m) j = (if j = k then JBool b else opt_get (JObj ms) j)" for j
    using opt_get_obj_set[of "JObj ms" k "JBool b" j] by (simp add: obj_set_def)
  have ev: "handleStorage k TABLE_COMPACT_MODES_KEY (get_item ?t TABLE_COMPACT_MODES_KEY) u = (Inr (), u\<lparr>compactMode := b\<rparr>)"
    using json_roundtrip[OF ok] js_text_length[OF ok] up
    by (simp add: handleStorage_def act_simps jor_def del: js_text.simps)
  show ?thesis
    by (rule exI[of _ ?t]) (use run st get get0 up ev in \<open>simp del: js_text.simps\<close>)
qed

definition table_example :: compact_table where
  "table_example = browser.extend blank_browser \<lparr>compactMode = False\<rparr>"

lemma compact_mode_roundtrip_example:
  "\<exists>t. setCompactMode ''users'' True table_example = (Inr (), t) \<and> getTableCompactMode ''users'' t = (Inr True, t)"
proof -
  have "modes_stored table_example []"
    by (simp add: modes_stored_def table_example_def browser.extend_def blank_browser_def)
  from compact_mode_roundtrip[OF this, of "''users''" True table_example]
  show ?thesis by (elim exE conjE) (rule exI, rule conjI; assumption)
qed

text \<open>Once shown, the skeleton stays for the minimum time: when loading ends at \<open>stop\<close>, it is hidden at
  once if the time is over, and otherwise by a timer due exactly at \<open>start\<close> plus the minimum; no tick
  before that hides it, and the tick due then does.\<close>

lemma skeleton_minimum_time:
  assumes "start \<le> stop" and "sk1 = loading_effect True minimum start sk" and "sk2 = loading_effect False minimum stop sk1"
  shows "showSkeleton sk1
    \<and> showSkeleton sk2 = (stop < start + minimum)
    \<and> (showSkeleton sk2 \<longrightarrow> (\<forall>now. showSkeleton (timer_tick now sk2) = (now < start + minimum)))"
  using assms by (auto simp: loading_effect_def timer_tick_def Let_def)

lemma skeleton_minimum_time_example:
  "showSkeleton (timer_tick 150 (loading_effect False 200 100 (loading_effect True 200 0 \<lparr>showSkeleton = False, loadingStart = 0, hide_at = None\<rparr>)))
   \<and> \<not> showSkeleton (timer_tick 200 (loading_effect False 200 100 (loading_effect True 200 0 \<lparr>showSkeleton = False, loadingStart = 0, hide_at = None\<rparr>)))"
  using skeleton_minimum_time[where start = 0 and stop = 100 and minimum = 200
      and sk = "\<lparr>showSkeleton = False, loadingStart = 0, hide_at = None\<rparr>", OF _ refl refl] by simp

end
