(* ===== verification/Messages.thy ===== *)
theory Messages
  imports Client
begin

text \<open>
  Chat messages: the message helpers of \<open>helpers/utils.jsx\<close> and the request payload and option lists of
  \<open>helpers/api.js\<close>, with \<open>constants/playground.constants.js\<close>. A message is an object with role, content
  (text, or a list of items for a message with images), status and the state of its reasoning panel.
\<close>

section \<open>Constants\<close>

datatype message_status = LOADING | INCOMPLETE | COMPLETE | ERROR

fun MESSAGE_STATUS :: "message_status \<Rightarrow> jv" where
  "MESSAGE_STATUS LOADING = JStr ''loading''"
| "MESSAGE_STATUS INCOMPLETE = JStr ''incomplete''"
| "MESSAGE_STATUS COMPLETE = JStr ''complete''"
| "MESSAGE_STATUS ERROR = JStr ''error''"

datatype message_role = USER | ASSISTANT | SYSTEM

fun MESSAGE_ROLES :: "message_role \<Rightarrow> jv" where
  "MESSAGE_ROLES USER = JStr ''user''"
| "MESSAGE_ROLES ASSISTANT = JStr ''assistant''"
| "MESSAGE_ROLES SYSTEM = JStr ''system''"

definition getDefaultMessages :: "jv list" where
  "getDefaultMessages =
    [JObj [(''role'', MESSAGE_ROLES USER), (''id'', JStr ''2''), (''createAt'', JNum 1715676751919),
       (''content'', JStr ''Default user message'')],
     JObj [(''role'', MESSAGE_ROLES ASSISTANT), (''id'', JStr ''3''), (''createAt'', JNum 1715676751919),
       (''content'', JStr ''Default assistant message''), (''reasoningContent'', JStr []), (''isReasoningExpanded'', JBool False)]]"

definition DEFAULT_INPUTS :: jv where
  "DEFAULT_INPUTS = JObj [(''model'', JStr ''gpt-4o''), (''group'', JStr []), (''temperature'', JNum (7/10)),
     (''top_p'', JNum 1), (''max_tokens'', JNum 4096), (''frequency_penalty'', JNum 0), (''presence_penalty'', JNum 0),
     (''seed'', JNull), (''stream'', JBool True), (''imageEnabled'', JBool False), (''imageUrls'', JArr [JStr []])]"

definition DEFAULT_PARAMETERS :: jv where
  "DEFAULT_PARAMETERS = JObj [(''temperature'', JBool True), (''top_p'', JBool True), (''max_tokens'', JBool False),
     (''frequency_penalty'', JBool True), (''presence_penalty'', JBool True), (''seed'', JBool False)]"

section \<open>Reading messages (helpers/utils.jsx)\<close>

definition elems :: "jv \<Rightarrow> jv list" where
  "elems v = (case v of JArr vs \<Rightarrow> vs | _ \<Rightarrow> [])"

definition getTextContent :: "jv \<Rightarrow> jv" where
  "getTextContent message =
     (let content = opt_get message ''content'' in
      if \<not> truthy message \<or> \<not> truthy content then JStr []
      else if is_array content
      then jor (case List.find (\<lambda>i. opt_get i ''type'' = JStr ''text'') (elems content) of
             Some i \<Rightarrow> opt_get i ''text'' | None \<Rightarrow> JUndef) (JStr [])
      else if type_of content = ''string'' then content else JStr [])"

definition hasImageContent :: "jv \<Rightarrow> bool" where
  "hasImageContent message = (truthy message \<and> is_array (opt_get message ''content'')
     \<and> list_ex (\<lambda>i. opt_get i ''type'' = JStr ''image_url'') (elems (opt_get message ''content'')))"

definition formatMessageForAPI :: "jv \<Rightarrow> jv" where
  "formatMessageForAPI message =
     (if \<not> truthy message then JNull
      else JObj [(''role'', opt_get message ''role''), (''content'', opt_get message ''content'')])"

definition isValidMessage :: "jv \<Rightarrow> bool" where
  "isValidMessage message = (truthy message \<and> truthy (opt_get message ''role'')
     \<and> (truthy (opt_get message ''content'') \<or> opt_get message ''content'' = JStr []))"

definition last_with_role :: "message_role \<Rightarrow> jv list \<Rightarrow> jv" where
  "last_with_role r ms = (case List.find (\<lambda>m. opt_get m ''role'' = MESSAGE_ROLES r) (rev ms) of
     Some m \<Rightarrow> m | None \<Rightarrow> JNull)"

definition getLastUserMessage :: "jv \<Rightarrow> jv" where
  "getLastUserMessage messages = (case messages of JArr ms \<Rightarrow> last_with_role USER ms | _ \<Rightarrow> JNull)"

definition getLastAssistantMessage :: "jv \<Rightarrow> jv" where
  "getLastAssistantMessage messages = (case messages of JArr ms \<Rightarrow> last_with_role ASSISTANT ms | _ \<Rightarrow> JNull)"

text \<open>\<open>buildMessageContent\<close>; the urls are strings.\<close>

definition buildMessageContent :: "string \<Rightarrow> string list \<Rightarrow> bool \<Rightarrow> jv" where
  "buildMessageContent textContent imageUrls imageEnabled =
     (if textContent = [] \<and> imageUrls = [] then JStr []
      else let validImageUrls = filter (\<lambda>url. url \<noteq> [] \<and> trim url \<noteq> []) imageUrls in
        if imageEnabled \<and> validImageUrls \<noteq> []
        then JArr (JObj [(''type'', JStr ''text''), (''text'', JStr textContent)]
               # List.map (\<lambda>url. JObj [(''type'', JStr ''image_url''),
                              (''image_url'', JObj [(''url'', JStr (trim url))])]) validImageUrls)
        else JStr textContent)"

text \<open>New messages: the clock and the counter \<open>messageId\<close> of the module are arguments.\<close>

definition generateMessageId :: "nat \<Rightarrow> jv \<times> nat" where
  "generateMessageId messageId = (JStr (nat_digits messageId), Suc messageId)"

definition createMessage :: "rat \<Rightarrow> nat \<Rightarrow> jv \<Rightarrow> jv \<Rightarrow> (string \<times> jv) list \<Rightarrow> jv \<times> nat" where
  "createMessage now messageId role content options =
     (let (i, next) = generateMessageId messageId in
      (obj_spread (JObj [(''role'', role), (''content'', content), (''createAt'', JNum now), (''id'', i)]) options, next))"

definition createLoadingAssistantMessage :: "rat \<Rightarrow> nat \<Rightarrow> jv \<times> nat" where
  "createLoadingAssistantMessage now messageId =
     createMessage now messageId (MESSAGE_ROLES ASSISTANT) (JStr [])
       [(''reasoningContent'', JStr []), (''isReasoningExpanded'', JBool True), (''isThinkingComplete'', JBool False),
        (''hasAutoCollapsed'', JBool False), (''status'', MESSAGE_STATUS LOADING)]"

section \<open>Think tags (helpers/utils.jsx)\<close>

abbreviation open_tag :: string where "open_tag \<equiv> ''<think>''"
abbreviation close_tag :: string where "close_tag \<equiv> ''</think>''"

definition thought_sep :: string where
  "thought_sep = [CHR 0x0A, CHR 0x0A] @ ''---'' @ [CHR 0x0A, CHR 0x0A]"

text \<open>
  The loop over the matches of \<open>/<think>([\s\S]*?)<\/think>/g\<close>: the reply parts between the matches (the
  last one is the rest) and the thoughts. The lazy group ends at the first closing tag; when the
  first opening tag has none after it, no later one has.
\<close>

function think_split :: "string \<Rightarrow> string list \<times> string list" where
  "think_split s =
     (case index_of open_tag s of None \<Rightarrow> ([s], [])
      | Some i \<Rightarrow> (let r = drop (i + length open_tag) s in
          case index_of close_tag r of None \<Rightarrow> ([s], [])
          | Some j \<Rightarrow> (let (parts, thoughts) = think_split (drop (j + length close_tag) r) in
              (take i s # parts, take j r # thoughts))))"
  by pat_completeness auto
termination
proof (relation "measure length", goal_cases)
  case 1
  then show ?case by simp
next
  case (2 s i r j)
  then have "i + length open_tag \<le> length s" using index_of_bound by blast
  with 2 show ?case by simp
qed

declare think_split.simps [simp del]

text \<open>\<open>replace(/<\/?think>/g, '')\<close>.\<close>

function strip_tags :: "string \<Rightarrow> string" where
  "strip_tags s =
     (if s = [] then []
      else if starts_with open_tag s then strip_tags (drop (length open_tag) s)
      else if starts_with close_tag s then strip_tags (drop (length close_tag) s)
      else hd s # strip_tags (tl s))"
  by pat_completeness auto
termination by (relation "measure length") auto

declare strip_tags.simps [simp del]

text \<open>Content and reasoning, appended with a separator when both are there.\<close>

definition add_reasoning :: "string \<Rightarrow> string \<Rightarrow> string" where
  "add_reasoning reasoningContent thoughts =
     (if reasoningContent \<noteq> [] \<and> thoughts \<noteq> [] then reasoningContent @ thought_sep @ thoughts
      else if reasoningContent \<noteq> [] then reasoningContent else thoughts)"

definition processThinkTags :: "string \<Rightarrow> string \<Rightarrow> string \<times> string" where
  "processThinkTags content reasoningContent =
     (if content = [] \<or> \<not> str_includes content open_tag then (content, reasoningContent)
      else let (replyParts, thoughts) = think_split content in
        (trim (strip_tags (concat replyParts)), add_reasoning reasoningContent (join_with thought_sep thoughts)))"

definition processIncompleteThinkTags :: "string \<Rightarrow> string \<Rightarrow> string \<times> string" where
  "processIncompleteThinkTags content reasoningContent =
     (if content = [] then ([], reasoningContent)
      else case last_index_of open_tag content of
        None \<Rightarrow> processThinkTags content reasoningContent
      | Some i \<Rightarrow>
          (let fragmentAfterLastOpen = drop i content in
           if \<not> str_includes fragmentAfterLastOpen close_tag then
             (let unclosedThought = trim (drop (length open_tag) fragmentAfterLastOpen);
                  cleanContent = take i content;
                  processedReasoningContent =
                    (if unclosedThought \<noteq> []
                     then (if reasoningContent \<noteq> [] then reasoningContent @ thought_sep @ unclosedThought else unclosedThought)
                     else reasoningContent)
              in processThinkTags cleanContent processedReasoningContent)
           else processThinkTags content reasoningContent))"

section \<open>Payload and options (helpers/api.js)\<close>

definition parameterMappings :: "string list" where
  "parameterMappings = [''temperature'', ''top_p'', ''max_tokens'', ''frequency_penalty'', ''presence_penalty'', ''seed'']"

text \<open>The system prompt is a string or null; null is written \<open>None\<close>.\<close>

definition buildApiPayload :: "jv list \<Rightarrow> string option \<Rightarrow> jv \<Rightarrow> jv \<Rightarrow> jv" where
  "buildApiPayload messages systemPrompt inputs parameterEnabled =
     (let processedMessages = filter truthy (List.map formatMessageForAPI (filter isValidMessage messages));
          withSystem = (case systemPrompt of
              Some p \<Rightarrow> if p \<noteq> [] \<and> trim p \<noteq> []
                then JObj [(''role'', MESSAGE_ROLES SYSTEM), (''content'', JStr (trim p))] # processedMessages
                else processedMessages
            | None \<Rightarrow> processedMessages);
          payload = JObj [(''model'', opt_get inputs ''model''), (''group'', opt_get inputs ''group''),
            (''messages'', JArr withSystem), (''stream'', opt_get inputs ''stream'')]
      in fold (\<lambda>param p. if truthy (opt_get parameterEnabled param) \<and> \<not> nullish (opt_get inputs param)
                         then obj_set p param (opt_get inputs param) else p) parameterMappings payload)"

definition processModelsData :: "jv list \<Rightarrow> jv \<Rightarrow> jv list \<times> jv" where
  "processModelsData data currentModel =
     (let modelOptions = List.map (\<lambda>model. JObj [(''label'', model), (''value'', model)]) data;
          hasCurrentModel = list_ex (\<lambda>option. strict_eq (opt_get option ''value'') currentModel) modelOptions;
          selectedModel = (if hasCurrentModel \<and> modelOptions \<noteq> [] then currentModel
             else case modelOptions of [] \<Rightarrow> JUndef | m # _ \<Rightarrow> opt_get m ''value'')
      in (modelOptions, selectedModel))"

definition short_label :: "jv \<Rightarrow> ('s, jv) act" where
  "short_label desc = (case desc of
       JStr d \<Rightarrow> ret (JStr (if length d > 20 then take 20 d @ ''...'' else d))
     | JArr vs \<Rightarrow> if length vs > 20 then throw type_error else ret desc
     | _ \<Rightarrow> if nullish desc then throw type_error else ret desc)"

definition group_option :: "string \<times> jv \<Rightarrow> ('s, jv) act" where
  "group_option gi = bnd (prop_get (snd gi) ''desc'') (\<lambda>desc. bnd (short_label desc) (\<lambda>label.
     ret (JObj [(''label'', label), (''value'', JStr (fst gi)), (''ratio'', opt_get (snd gi) ''ratio''), (''fullLabel'', desc)])))"

fun find_index :: "('a \<Rightarrow> bool) \<Rightarrow> 'a list \<Rightarrow> nat option" where
  "find_index p [] = None"
| "find_index p (x # xs) = (if p x then Some 0 else map_option Suc (find_index p xs))"

definition processGroupsData :: "jv \<Rightarrow> jv \<Rightarrow> ('s, jv list) act" where
  "processGroupsData data userGroup =
     (if nullish data then throw type_error else
      bnd (map_each group_option (members data)) (\<lambda>groupOptions. ret
       (if groupOptions = [] then [JObj [(''label'', JStr ''User group''), (''value'', JStr []), (''ratio'', JNum 1)]]
        else if truthy userGroup then
          (case find_index (\<lambda>g. opt_get g ''value'' = userGroup) groupOptions of
             Some i \<Rightarrow> groupOptions ! i # take i groupOptions @ drop (Suc i) groupOptions
           | None \<Rightarrow> groupOptions)
        else groupOptions)))"

definition handleApiError :: "jv \<Rightarrow> jv \<Rightarrow> jv \<Rightarrow> ('s, jv) act" where
  "handleApiError now error response =
     (if nullish error then throw type_error else
      let base = JObj [(''error'', jor (opt_get error ''message'') (JStr ''Unknown error'')), (''timestamp'', now),
                 (''stack'', opt_get error ''stack'')];
          withStatus = (if truthy response
             then obj_spread base [(''status'', opt_get response ''status''), (''statusText'', opt_get response ''statusText'')]
             else base)
      in case opt_get error ''message'' of
           JStr m \<Rightarrow> ret (if str_includes m ''HTTP error'' then obj_set withStatus ''details'' (JStr ''The server returned an error status'')
             else if str_includes m ''Failed to fetch'' then obj_set withStatus ''details'' (JStr ''Network failure or no answer'')
             else withStatus)
         | _ \<Rightarrow> throw type_error)"

section \<open>Lemmas on tags\<close>

lemma index_of_prefix: "index_of p (p @ s) = Some 0"
proof (cases "p @ s")
  case (Cons x xs)
  then have "starts_with p (x # xs)" using starts_with_append[of p s] by metis
  then show ?thesis using Cons by simp
qed simp

lemma index_of_fresh: "p \<noteq> [] \<Longrightarrow> hd p \<notin> set a \<Longrightarrow> index_of p (a @ s) = map_option ((+) (length a)) (index_of p s)"
proof (induction a)
  case Nil
  then show ?case by (simp add: option.map_ident)
next
  case (Cons x a)
  then have "\<not> starts_with p (x # a @ s)" by (cases p) auto
  with Cons show ?case by (simp add: option.map_comp o_def)
qed

lemma index_of_none: "p \<noteq> [] \<Longrightarrow> hd p \<notin> set a \<Longrightarrow> index_of p a = None"
  using index_of_fresh[of p a "[]"] by simp

lemma last_index_of_none: "p \<noteq> [] \<Longrightarrow> hd p \<notin> set a \<Longrightarrow> last_index_of p a = None"
  by (induction a) (auto simp: neq_Nil_conv)

text \<open>A reply interleaved with complete thoughts, in the form the model writes it.\<close>

definition tag_free :: "string \<Rightarrow> bool" where
  "tag_free s = (CHR ''<'' \<notin> set s)"

fun tagged :: "(string \<times> string) list \<Rightarrow> string \<Rightarrow> string" where
  "tagged [] rest = rest"
| "tagged ((part, thought) # ps) rest = part @ open_tag @ thought @ close_tag @ tagged ps rest"

lemma tagged_append: "tagged (ps @ qs) rest = tagged ps (tagged qs rest)"
  by (induction ps) auto

lemma index_of_open: "tag_free a \<Longrightarrow> index_of open_tag (a @ open_tag @ s) = Some (length a)"
  using index_of_fresh[of open_tag a "open_tag @ s"] index_of_prefix[of open_tag s] by (simp add: tag_free_def)

lemma index_of_close: "tag_free a \<Longrightarrow> index_of close_tag (a @ close_tag @ s) = Some (length a)"
  using index_of_fresh[of close_tag a "close_tag @ s"] index_of_prefix[of close_tag s] by (simp add: tag_free_def)

lemma think_split_tagged:
  "list_all (\<lambda>(a, b). tag_free a \<and> tag_free b) ps \<Longrightarrow> tag_free rest \<Longrightarrow>
   think_split (tagged ps rest) = (List.map fst ps @ [rest], List.map snd ps)"
proof (induction ps)
  case Nil
  then have "index_of open_tag rest = None" by (simp add: index_of_none tag_free_def)
  then show ?case by (subst think_split.simps) simp
next
  case (Cons ab ps)
  obtain a b where ab: "ab = (a, b)" by (cases ab)
  have free: "tag_free a" "tag_free b" using Cons.prems ab by auto
  have i: "index_of open_tag (tagged (ab # ps) rest) = Some (length a)"
    using index_of_open[OF free(1), of "b @ close_tag @ tagged ps rest"] by (simp add: ab)
  have d: "drop (length a + length open_tag) (tagged (ab # ps) rest) = b @ close_tag @ tagged ps rest"
    by (simp add: ab)
  have j: "index_of close_tag (b @ close_tag @ tagged ps rest) = Some (length b)"
    by (rule index_of_close[OF free(2)])
  have d2: "drop (length b + length close_tag) (b @ close_tag @ tagged ps rest) = tagged ps rest" by simp
  have t: "take (length a) (tagged (ab # ps) rest) = a" by (simp add: ab)
  show ?case
    using Cons.IH Cons.prems
    by (subst think_split.simps) (simp only: i d j d2 t Let_def option.case, simp add: ab)
qed

lemma strip_tags_free: "tag_free s \<Longrightarrow> strip_tags s = s"
proof (induction s)
  case Nil
  then show ?case by (subst strip_tags.simps) simp
next
  case (Cons c s)
  then show ?case by (subst strip_tags.simps) (auto simp: tag_free_def)
qed

lemma tag_free_append [simp]: "tag_free (a @ b) = (tag_free a \<and> tag_free b)" "tag_free []"
  by (simp_all add: tag_free_def)

lemma tag_free_concat: "tag_free (concat xs) = list_all tag_free xs"
  by (induction xs) auto

lemma tagged_has_open: "ps \<noteq> [] \<Longrightarrow> index_of open_tag (tagged ps rest) \<noteq> None" if "list_all (\<lambda>(a, b). tag_free a \<and> tag_free b) ps"
  using that by (cases ps) (auto simp: index_of_open[simplified])

lemma processThinkTags_tagged:
  assumes "list_all (\<lambda>(a, b). tag_free a \<and> tag_free b) ps" and "tag_free rest" and "ps \<noteq> []"
  shows "processThinkTags (tagged ps rest) reasoning =
    (trim (concat (List.map fst ps) @ rest), add_reasoning reasoning (join_with thought_sep (List.map snd ps)))"
proof -
  have "tag_free (concat (List.map fst ps) @ rest)"
    using assms by (auto simp: tag_free_concat list_all_iff)
  then have s: "strip_tags (concat (List.map fst ps) @ rest) = concat (List.map fst ps) @ rest" by (rule strip_tags_free)
  have o: "str_includes (tagged ps rest) open_tag"
    using tagged_has_open[OF assms(1) assms(3)] by (simp add: str_includes_def)
  then have "tagged ps rest \<noteq> []" by (auto simp: str_includes_def)
  then show ?thesis using o s think_split_tagged[OF assms(1,2)] by (simp add: processThinkTags_def)
qed

text \<open>A reply interleaved with complete thoughts is taken apart into exactly the reply (without
  tags, trimmed) and the thoughts, which follow the reasoning received before.\<close>

lemma think_tags_separated:
  assumes "list_all (\<lambda>(a, b). tag_free a \<and> tag_free b) ps" and "tag_free rest" and "ps \<noteq> []"
  shows "processThinkTags (tagged ps rest) reasoning =
    (trim (concat (List.map fst ps) @ rest), add_reasoning reasoning (join_with thought_sep (List.map snd ps)))"
  by (rule processThinkTags_tagged[OF assms])

lemma think_tags_separated_example:
  "processThinkTags ''<think>hm</think>Hello'' ''a'' = (''Hello'', ''a'' @ thought_sep @ ''hm'')"
  using think_tags_separated[of "[([], ''hm'')]" "''Hello''" "''a''"]
  by (simp add: tag_free_def add_reasoning_def trim_def is_ws_def Let_def)

lemma last_index_of_append:
  "last_index_of p s = Some i \<Longrightarrow> last_index_of p (a @ s) = Some (length a + i)"
  by (induction a) auto

lemma last_open: "tag_free b \<Longrightarrow> last_index_of open_tag (a @ open_tag @ b) = Some (length a)"
proof -
  assume b: "tag_free b"
  have "last_index_of open_tag (tl open_tag @ b) = None"
    by (rule last_index_of_none) (use b in \<open>auto simp: tag_free_def\<close>)
  then have "last_index_of open_tag (open_tag @ b) = Some 0" by simp
  then show ?thesis using last_index_of_append by fastforce
qed

lemma processIncomplete_open:
  assumes "tag_free b" and "content = a @ open_tag @ b"
  shows "processIncompleteThinkTags content reasoning = processThinkTags a (add_reasoning reasoning (trim b))"
proof -
  have l: "last_index_of open_tag content = Some (length a)" "content \<noteq> []"
    using last_open[OF assms(1), of a] assms(2) by simp_all
  have d: "drop (length a) content = open_tag @ b" "take (length a) content = a" using assms(2) by simp_all
  have dd: "drop (length open_tag) (open_tag @ b) = b" by simp
  have "index_of close_tag (tl open_tag @ b) = None"
    by (rule index_of_none) (use assms(1) in \<open>auto simp: tag_free_def\<close>)
  then have nc: "\<not> str_includes (open_tag @ b) close_tag" by (simp add: str_includes_def)
  show ?thesis
    unfolding processIncompleteThinkTags_def l(1) option.case Let_def d dd
    using nc l(2) by (simp add: add_reasoning_def del: append_Cons)
qed

text \<open>When generation stops inside a thought, the unfinished thought is kept as reasoning and the reply
  so far as content; the earlier complete thoughts come after it.\<close>

lemma unfinished_thought_kept:
  assumes "list_all (\<lambda>(a, b). tag_free a \<and> tag_free b) ps" and "tag_free part" and "tag_free thought" and "ps \<noteq> []"
  shows "processIncompleteThinkTags (tagged ps (part @ open_tag @ thought)) reasoning =
    (trim (concat (List.map fst ps) @ part),
     add_reasoning (add_reasoning reasoning (trim thought)) (join_with thought_sep (List.map snd ps)))"
proof -
  have "tagged ps (r @ q) = tagged ps r @ q" for r q by (induction ps) auto
  then show ?thesis
    using processIncomplete_open[OF assms(3) refl, of "tagged ps part" reasoning] processThinkTags_tagged[OF assms(1,2,4)]
    by simp
qed

lemma unfinished_thought_kept_example:
  "processIncompleteThinkTags ''<think>one</think>Hi<think>two'' [] = (''Hi'', ''two'' @ thought_sep @ ''one'')"
  using unfinished_thought_kept[of "[([], ''one'')]" "''Hi''" "''two''" "[]"]
  by (simp add: tag_free_def add_reasoning_def trim_def is_ws_def Let_def)

end
