(* ===== verification/Chat.thy ===== *)
theory Chat
  imports Messages
begin

text \<open>
  The chat of the playground hooks: streaming updates (\<open>hooks/playground/useApiRequest.jsx\<close>), message
  actions and editing (\<open>useMessageActions.jsx\<close>, \<open>useMessageEdit.jsx\<close>), the state with its configuration
  (\<open>usePlaygroundState.js\<close>), the loaders (\<open>useDataLoader.js\<close>) and the two-way synchronisation with the custom
  request body (\<open>useSyncMessageAndCustomBody.js\<close>). The storage module these hooks import is not in the
  repository: what is handed to it is logged in \<open>saved\<close>. Deferred calls run after the handler; the
  messages to send later are logged in \<open>to_send\<close>.
\<close>

record chat = browser +
  message :: "jv list"
  inputs :: jv
  parameterEnabled :: jv
  showDebugPanel :: jv
  customRequestMode :: jv
  customRequestBody :: jv
  models :: "jv list"
  groups :: "jv list"
  editingMessageId :: jv
  editValue :: string
  sse_open :: bool
  isUpdatingFromMessage :: bool
  isUpdatingFromCustomBody :: bool
  lastMessageHash :: jv
  lastCustomBodyHash :: jv
  saved :: "jv list list"
  save_timer :: "jv option"
  saved_configs :: "jv list"
  to_send :: "jv list"

definition setMessage :: "jv list \<Rightarrow> (('x) chat_scheme, unit) act" where
  [act_simps]: "setMessage ms = modify (\<lambda>s. s\<lparr>message := ms\<rparr>)"

definition saveMessages :: "jv list \<Rightarrow> (('x) chat_scheme, unit) act" where
  [act_simps]: "saveMessages ms = modify (\<lambda>s. s\<lparr>saved := saved s @ [ms]\<rparr>)"

definition chat_toast :: "toast_kind \<Rightarrow> string \<Rightarrow> (('x) chat_scheme, unit) act" where
  [act_simps]: "chat_toast k m = emit (Toasted k (JStr m))"

section \<open>Streaming (useApiRequest.jsx)\<close>

definition status_in :: "jv \<Rightarrow> message_status list \<Rightarrow> bool" where
  "status_in m sts = list_ex (\<lambda>st. opt_get m ''status'' = MESSAGE_STATUS st) sts"

definition applyAutoCollapseLogic :: "jv \<Rightarrow> jv \<Rightarrow> (string \<times> jv) list" where
  "applyAutoCollapseLogic m isThinkingComplete =
     (let shouldAutoCollapse = jand isThinkingComplete (JBool (\<not> truthy (opt_get m ''hasAutoCollapsed''))) in
      [(''isThinkingComplete'', isThinkingComplete),
       (''hasAutoCollapsed'', jor shouldAutoCollapse (opt_get m ''hasAutoCollapsed'')),
       (''isReasoningExpanded'', if truthy shouldAutoCollapse then JBool False else opt_get m ''isReasoningExpanded'')])"

text \<open>The number of non-overlapping matches of a tag.\<close>

function count_tag :: "string \<Rightarrow> string \<Rightarrow> nat" where
  "count_tag p s =
     (if p = [] then 0 else case index_of p s of None \<Rightarrow> 0 | Some i \<Rightarrow> Suc (count_tag p (drop (i + length p) s)))"
  by pat_completeness auto
termination
proof (relation "measure (length \<circ> snd)", goal_cases)
  case 1
  then show ?case by simp
next
  case (2 p s i)
  then have "i + length p \<le> length s" using index_of_bound by blast
  with 2 show ?case by (cases p) auto
qed

declare count_tag.simps [simp del]

definition str_or_empty :: "jv \<Rightarrow> string" where
  "str_or_empty v = (if truthy v then to_str v else [])"

definition reasoning_update :: "string \<Rightarrow> jv \<Rightarrow> jv" where
  "reasoning_update chunk m = obj_spread m
     [(''reasoningContent'', JStr (str_or_empty (opt_get m ''reasoningContent'') @ chunk)),
      (''status'', MESSAGE_STATUS INCOMPLETE), (''isThinkingComplete'', JBool False)]"

definition content_update :: "string \<Rightarrow> jv \<Rightarrow> jv" where
  "content_update chunk m =
     (let newContent = str_or_empty (opt_get m ''content'') @ chunk;
          closed = (truthy (opt_get m ''isReasoningExpanded'') \<and> str_includes newContent close_tag
            \<and> 0 < count_tag open_tag newContent \<and> 0 < count_tag close_tag newContent
            \<and> count_tag open_tag newContent \<le> count_tag close_tag newContent);
          thinkingCompleteFromTags = (if closed then JBool True else opt_get m ''isThinkingComplete'');
          isThinkingComplete = jor (jand (opt_get m ''reasoningContent'') (JBool (\<not> truthy (opt_get m ''isThinkingComplete''))))
            thinkingCompleteFromTags
      in obj_spread m ([(''content'', JStr newContent), (''status'', MESSAGE_STATUS INCOMPLETE)]
           @ applyAutoCollapseLogic m isThinkingComplete))"

datatype chunk_kind = Reasoning | Content

definition stream_update :: "string \<Rightarrow> chunk_kind \<Rightarrow> jv list \<Rightarrow> jv list" where
  "stream_update chunk kind ms =
     (if ms = [] then ms
      else let m = last ms in
        if opt_get m ''role'' \<noteq> MESSAGE_ROLES ASSISTANT then ms
        else if status_in m [ERROR] then ms
        else if status_in m [LOADING, INCOMPLETE]
        then butlast ms @ [case kind of Reasoning \<Rightarrow> reasoning_update chunk m | Content \<Rightarrow> content_update chunk m]
        else ms)"

definition streamMessageUpdate :: "string \<Rightarrow> chunk_kind \<Rightarrow> (('x) chat_scheme, unit) act" where
  "streamMessageUpdate chunk kind = modify (\<lambda>s. s\<lparr>message := stream_update chunk kind (message s)\<rparr>)"

text \<open>\<open>completeMessage\<close> reads the status of the last message, which throws when there is none.\<close>

definition completeMessage :: "message_status \<Rightarrow> (('x) chat_scheme, unit) act" where
  "completeMessage status = bnd (gets message) (\<lambda>ms.
     if ms = [] then throw type_error
     else let m = last ms in
       if status_in m [COMPLETE, ERROR] then ret ()
       else let updated = butlast ms @ [obj_spread m ((''status'', MESSAGE_STATUS status) # applyAutoCollapseLogic m (JBool True))] in
         sq (setMessage updated) (act_when (status \<in> {COMPLETE, ERROR}) (saveMessages updated)))"

text \<open>The repair of a half-streamed last message, shared by the stop button and the first load.\<close>

definition onStopGenerator :: "(('x) chat_scheme, unit) act" where
  "onStopGenerator = sq (modify (\<lambda>s. s\<lparr>sse_open := False\<rparr>))
     (bnd (gets message) (\<lambda>ms.
       if ms = [] then ret ()
       else let m = last ms in
         if status_in m [LOADING, INCOMPLETE] then
           (let (content, reasoning) = processIncompleteThinkTags (str_or_empty (opt_get m ''content''))
                                         (str_or_empty (opt_get m ''reasoningContent''));
                updated = butlast ms @ [obj_spread m
                  ([(''status'', MESSAGE_STATUS COMPLETE), (''reasoningContent'', if reasoning = [] then JNull else JStr reasoning),
                    (''content'', JStr content)] @ applyAutoCollapseLogic m (JBool True))]
            in sq (setMessage updated) (saveMessages updated))
         else ret ()))"

definition repair_effect :: "(('x) chat_scheme, unit) act" where
  "repair_effect = bnd (gets message) (\<lambda>ms.
     if ms = [] then ret ()
     else let m = last ms in
       if status_in m [LOADING, INCOMPLETE] then
         (let (content, reasoning) = processIncompleteThinkTags (str_or_empty (opt_get m ''content''))
                                       (str_or_empty (opt_get m ''reasoningContent''));
              updated = butlast ms @ [obj_spread m
                [(''status'', MESSAGE_STATUS COMPLETE), (''content'', JStr content),
                 (''reasoningContent'', if reasoning = [] then JNull else JStr reasoning), (''isThinkingComplete'', JBool True)]]
          in sq (setMessage updated) (saveMessages updated))
       else ret ())"

section \<open>Message actions (useMessageActions.jsx)\<close>

text \<open>
  The source looks a message up by reference first and by id second. Values have no identity
  here: \<open>ref\<close> is the position of the very object in the current list, when it is still there.
\<close>

definition locate :: "nat option \<Rightarrow> jv \<Rightarrow> jv list \<Rightarrow> nat option" where
  "locate ref target_id ms = (case ref of Some i \<Rightarrow> Some i
     | None \<Rightarrow> find_index (\<lambda>m. strict_eq (opt_get m ''id'') target_id) ms)"

definition has_role :: "message_role \<Rightarrow> jv \<Rightarrow> bool" where
  "has_role r m = (opt_get m ''role'' = MESSAGE_ROLES r)"

text \<open>The loop that walks back to the last user message before position \<open>i\<close>.\<close>

fun user_before :: "jv list \<Rightarrow> nat \<Rightarrow> nat option" where
  "user_before ms 0 = None"
| "user_before ms (Suc i) = (if has_role USER (ms ! i) then Some i else user_before ms i)"

definition resend_from :: "jv list \<Rightarrow> nat \<Rightarrow> jv \<Rightarrow> (('x) chat_scheme, unit) act" where
  "resend_from ms i m = sq (setMessage (take i ms)) (modify (\<lambda>s. s\<lparr>to_send := to_send s @ [getTextContent m]\<rparr>))"

definition handleMessageReset :: "nat option \<Rightarrow> jv \<Rightarrow> (('x) chat_scheme, unit) act" where
  "handleMessageReset ref target = bnd (gets message) (\<lambda>ms.
     case locate ref (opt_get target ''id'') ms of None \<Rightarrow> ret ()
     | Some i \<Rightarrow>
         if has_role USER target then resend_from ms i target
         else if has_role ASSISTANT target \<or> has_role SYSTEM target
         then (case user_before ms i of Some u \<Rightarrow> resend_from ms u (ms ! u) | None \<Rightarrow> ret ())
         else ret ())"

definition drop_id :: "jv \<Rightarrow> jv list \<Rightarrow> jv list" where
  "drop_id target = filter (\<lambda>m. \<not> strict_eq (opt_get m ''id'') (opt_get target ''id''))"

text \<open>\<open>onOk\<close> of the confirmation of \<open>handleMessageDelete\<close>.\<close>

definition handleMessageDelete :: "nat option \<Rightarrow> jv \<Rightarrow> (('x) chat_scheme, unit) act" where
  "handleMessageDelete ref target = bnd (gets message) (\<lambda>ms.
     case locate ref (opt_get target ''id'') ms of None \<Rightarrow> ret ()
     | Some i \<Rightarrow>
         let with_reply = (has_role USER target \<and> i < length ms - 1 \<and> has_role ASSISTANT (ms ! Suc i));
             updated = (if with_reply then take i ms @ drop (i + 2) ms else drop_id target ms)
         in sq (chat_toast TSuccess (if with_reply then ''Message and its reply deleted'' else ''Message deleted''))
            (sq (setMessage updated) (saveMessages updated)))"

definition handleRoleToggle :: "jv \<Rightarrow> (('x) chat_scheme, unit) act" where
  "handleRoleToggle target =
     (if \<not> (has_role ASSISTANT target \<or> has_role SYSTEM target) then ret ()
      else let newRole = (if has_role ASSISTANT target then SYSTEM else ASSISTANT) in
        bnd (gets message) (\<lambda>ms.
          let updated = List.map (\<lambda>m. if strict_eq (opt_get m ''id'') (opt_get target ''id'')
                                \<and> (has_role ASSISTANT m \<or> has_role SYSTEM m)
                              then obj_set m ''role'' (MESSAGE_ROLES newRole) else m) ms
          in sq (sq (setMessage updated) (saveMessages updated))
                (chat_toast TSuccess (if newRole = SYSTEM then ''Switched to System role'' else ''Switched to Assistant role''))))"

text \<open>
  \<open>handleMessageCopy\<close>: the clipboard service is tried when it is there, then the old copy
  command; \<open>secure\<close> tells whether the page is served over HTTPS or from localhost, \<open>has_command\<close> whether
  \<open>execCommand\<close> exists.
\<close>

definition fallbackCopy :: "env \<Rightarrow> bool \<Rightarrow> bool \<Rightarrow> bool \<Rightarrow> string \<Rightarrow> (('x) chat_scheme, unit) act" where
  "fallbackCopy env secure has_clipboard has_command text' = try_catch
     (bnd (browser_call env (Exec_copy text')) (\<lambda>ok.
        if truthy ok then chat_toast TSuccess ''Message copied to the clipboard''
        else throw (mk_error ''Error'' ''execCommand copy failed'')))
     (\<lambda>_. chat_toast TError
        (if \<not> secure then ''Copying needs HTTPS, please copy by hand''
         else if \<not> has_clipboard \<and> \<not> has_command then ''The browser does not support copying''
         else ''Copy failed, please select the text and copy it''))"

definition handleMessageCopy :: "env \<Rightarrow> bool \<Rightarrow> bool \<Rightarrow> bool \<Rightarrow> jv \<Rightarrow> (('x) chat_scheme, unit) act" where
  "handleMessageCopy env secure has_clipboard has_command target =
     (let textToCopy = getTextContent target in
      if \<not> truthy textToCopy then chat_toast TWarning ''This message has no text to copy''
      else if has_clipboard then
        try_catch (bnd (browser_call env (Clipboard_write (to_str textToCopy)))
                     (\<lambda>_. chat_toast TSuccess ''Message copied to the clipboard''))
          (\<lambda>_. fallbackCopy env secure has_clipboard has_command (to_str textToCopy))
      else fallbackCopy env secure has_clipboard has_command (to_str textToCopy))"

section \<open>Editing (useMessageEdit.jsx)\<close>

definition handleMessageEdit :: "jv \<Rightarrow> (('x) chat_scheme, unit) act" where
  "handleMessageEdit target = modify (\<lambda>s. s\<lparr>editingMessageId := opt_get target ''id'',
     editValue := to_str (getTextContent target)\<rparr>)"

definition handleEditCancel :: "(('x) chat_scheme, unit) act" where
  "handleEditCancel = modify (\<lambda>s. s\<lparr>editingMessageId := JNull, editValue := []\<rparr>)"

definition edited_content :: "string \<Rightarrow> jv \<Rightarrow> jv" where
  "edited_content v content = (case content of
       JArr items \<Rightarrow> JArr (List.map (\<lambda>i. if opt_get i ''type'' = JStr ''text'' then obj_set i ''text'' (JStr (trim v)) else i) items)
     | _ \<Rightarrow> JStr (trim v))"

text \<open>
  The answer of the confirmation, which is asked when a reply follows the edited user message:
  \<open>Regenerate\<close> drops the replies, saves, and sends a new request with a loading message after the list;
  \<open>Only_save\<close> keeps them. The request goes to \<open>sendRequest\<close>, here the payload logged by \<open>send\<close>.
\<close>

datatype edit_choice = Regenerate | Only_save

definition handleEditSave ::
  "(jv \<Rightarrow> (('x) chat_scheme, unit) act) \<Rightarrow> rat \<Rightarrow> nat \<Rightarrow> nat option \<Rightarrow> edit_choice \<Rightarrow> (('x) chat_scheme, unit) act" where
  "handleEditSave send now messageId ref choice = bnd (gets (\<lambda>s. s)) (\<lambda>s.
     let ms = message s; eid = editingMessageId s; v = editValue s in
     if \<not> truthy eid \<or> trim v = [] then ret ()
     else case locate ref eid ms of None \<Rightarrow> throw type_error
     | Some i \<Rightarrow>
         let target = ms ! i;
             updated = List.map (\<lambda>m. if strict_eq (opt_get m ''id'') eid
                                then obj_set m ''content'' (edited_content v (opt_get target ''content'')) else m) ms;
             asks = (has_role USER target \<and> i < length ms - 1 \<and> has_role ASSISTANT (ms ! Suc i));
             until_user = take (Suc i) updated
         in sq (sq handleEditCancel (chat_toast TSuccess ''Message updated''))
            (if \<not> asks then sq (setMessage updated) (saveMessages updated)
             else case choice of
               Only_save \<Rightarrow> sq (setMessage updated) (saveMessages updated)
             | Regenerate \<Rightarrow> sq (sq (setMessage until_user) (saveMessages until_user))
                 (sq (modify (\<lambda>s. s\<lparr>message := message s @ [fst (createLoadingAssistantMessage now messageId)]\<rparr>))
                     (send (buildApiPayload until_user None (inputs s) (parameterEnabled s))))))"

section \<open>Configuration (usePlaygroundState.js)\<close>

text \<open>The messages that start the session: old default messages are dropped, with their storage.\<close>

definition old_defaults :: "jv list \<Rightarrow> bool" where
  "old_defaults ms = (length ms = 2 \<and> opt_get (ms ! 0) ''id'' = JStr ''2'' \<and> opt_get (ms ! 1) ''id'' = JStr ''3''
     \<and> (opt_get (ms ! 0) ''content'' = JStr ''Ni hao''
        \<or> opt_get (ms ! 1) ''content'' = JStr ''Ni hao, how can I help you?''
        \<or> opt_get (ms ! 1) ''content'' = JStr ''Ni hao! Nice to meet you. How can I help you?''))"

definition initialMessages :: "jv list option \<Rightarrow> (('x) chat_scheme, jv list option) act" where
  "initialMessages loaded = (case loaded of None \<Rightarrow> ret None
     | Some ms \<Rightarrow> if old_defaults ms then sq (remove_item ''playground_messages'') (ret None) else ret (Some ms))"

definition init_chat :: "jv \<Rightarrow> jv list option \<Rightarrow> (('x) chat_scheme, unit) act" where
  "init_chat savedConfig loaded = bnd (initialMessages loaded) (\<lambda>initial. modify (\<lambda>s. s\<lparr>
     inputs := jor (opt_get savedConfig ''inputs'') DEFAULT_INPUTS,
     parameterEnabled := jor (opt_get savedConfig ''parameterEnabled'') DEFAULT_PARAMETERS,
     showDebugPanel := jor (opt_get savedConfig ''showDebugPanel'') (JBool False),
     customRequestMode := jor (opt_get savedConfig ''customRequestMode'') (JBool False),
     customRequestBody := jor (opt_get savedConfig ''customRequestBody'') (JStr []),
     message := (case initial of Some ms \<Rightarrow> ms | None \<Rightarrow> getDefaultMessages)\<rparr>))"

definition handleInputChange :: "string \<Rightarrow> jv \<Rightarrow> (('x) chat_scheme, unit) act" where
  [act_simps]: "handleInputChange name v = modify (\<lambda>s. s\<lparr>inputs := obj_set (inputs s) name v\<rparr>)"

definition handleParameterToggle :: "string \<Rightarrow> (('x) chat_scheme, unit) act" where
  "handleParameterToggle paramName = modify (\<lambda>s. s\<lparr>parameterEnabled :=
     obj_set (parameterEnabled s) paramName (JBool (\<not> truthy (opt_get (parameterEnabled s) paramName)))\<rparr>)"

definition config_of :: "('x) chat_scheme \<Rightarrow> jv" where
  "config_of s = JObj [(''inputs'', inputs s), (''parameterEnabled'', parameterEnabled s), (''showDebugPanel'', showDebugPanel s),
     (''customRequestMode'', customRequestMode s), (''customRequestBody'', customRequestBody s)]"

text \<open>A call replaces the pending timer by one that saves the configuration of now.\<close>

definition debouncedSaveConfig :: "(('x) chat_scheme, unit) act" where
  "debouncedSaveConfig = modify (\<lambda>s. s\<lparr>save_timer := Some (config_of s)\<rparr>)"

definition save_timer_fires :: "(('x) chat_scheme, unit) act" where
  "save_timer_fires = modify (\<lambda>s. case save_timer s of
     Some c \<Rightarrow> s\<lparr>saved_configs := saved_configs s @ [c], save_timer := None\<rparr> | None \<Rightarrow> s)"

definition handleConfigImport :: "jv \<Rightarrow> (('x) chat_scheme, unit) act" where
  "handleConfigImport imported =
     (if nullish imported then throw type_error else modify (\<lambda>s.
       s\<lparr>inputs := (if truthy (opt_get imported ''inputs'') then obj_spread (inputs s) (members (opt_get imported ''inputs'')) else inputs s),
         parameterEnabled := (if truthy (opt_get imported ''parameterEnabled'')
           then obj_spread (parameterEnabled s) (members (opt_get imported ''parameterEnabled'')) else parameterEnabled s),
         showDebugPanel := (if type_of (opt_get imported ''showDebugPanel'') = ''boolean''
           then opt_get imported ''showDebugPanel'' else showDebugPanel s),
         customRequestMode := jor (opt_get imported ''customRequestMode'') (customRequestMode s),
         customRequestBody := jor (opt_get imported ''customRequestBody'') (customRequestBody s),
         message := (case opt_get imported ''messages'' of JArr ms \<Rightarrow> ms | _ \<Rightarrow> message s)\<rparr>))"

definition handleConfigReset :: "bool \<Rightarrow> (('x) chat_scheme, unit) act" where
  "handleConfigReset resetMessages = modify (\<lambda>s.
     s\<lparr>inputs := DEFAULT_INPUTS, parameterEnabled := DEFAULT_PARAMETERS, showDebugPanel := JBool False,
       customRequestMode := JBool False, customRequestBody := JStr [],
       message := (if resetMessages then getDefaultMessages else message s)\<rparr>)"

section \<open>Loaders (useDataLoader.js)\<close>

definition loadModels :: "env \<Rightarrow> (('x) chat_scheme, unit) act" where
  "loadModels env = try_catch
     (bnd (api_get env ''/api/user/models'' JUndef) (\<lambda>res.
      bnd (prop_get res ''success'') (\<lambda>success.
        if truthy success then
          (case opt_get res ''data'' of
             JArr data \<Rightarrow> bnd (gets inputs) (\<lambda>inp.
               let (modelOptions, selectedModel) = processModelsData data (opt_get inp ''model'') in
               sq (modify (\<lambda>s. s\<lparr>models := modelOptions\<rparr>))
                  (act_when (\<not> strict_eq selectedModel (opt_get inp ''model'')) (handleInputChange ''model'' selectedModel)))
           | _ \<Rightarrow> throw type_error)
        else showError (opt_get res ''message''))))
     (\<lambda>_. showErr ''Failed to load models'')"

definition loadGroups :: "env \<Rightarrow> (('x) chat_scheme, unit) act" where
  "loadGroups env = try_catch
     (bnd (api_get env ''/api/user/self/groups'' JUndef) (\<lambda>res.
      bnd (prop_get res ''success'') (\<lambda>success.
        if truthy success then
          bnd (gets user_ctx) (\<lambda>u.
          bnd (if truthy (opt_get u ''group'') then ret (opt_get u ''group'')
               else bnd (gets (\<lambda>s. get_item s ''user'')) (\<lambda>raw. bnd (parse_json raw) (\<lambda>v. ret (opt_get v ''group'')))) (\<lambda>userGroup.
          bnd (processGroupsData (opt_get res ''data'') userGroup) (\<lambda>groupOptions.
          bnd (gets inputs) (\<lambda>inp.
            sq (modify (\<lambda>s. s\<lparr>groups := groupOptions\<rparr>))
               (act_when (\<not> list_ex (\<lambda>o'. strict_eq (opt_get o' ''value'') (opt_get inp ''group'')) groupOptions)
                 (handleInputChange ''group'' (jor (case groupOptions of [] \<Rightarrow> JUndef | g # _ \<Rightarrow> opt_get g ''value'') (JStr []))))))))
        else showError (opt_get res ''message''))))
     (\<lambda>_. showErr ''Failed to load groups'')"

definition data_effect :: "env \<Rightarrow> (('x) chat_scheme, unit) act" where
  "data_effect env = bnd (gets user_ctx) (\<lambda>u. act_when (truthy u) (sq (loadModels env) (loadGroups env)))"

section \<open>The custom request body (useSyncMessageAndCustomBody.js)\<close>

definition getMessageHash :: "jv list \<Rightarrow> jv" where
  "getMessageHash ms = json_stringify (JArr (List.map (\<lambda>m. JObj [(''id'', opt_get m ''id''), (''role'', opt_get m ''role''),
     (''content'', opt_get m ''content'')]) ms))"

definition getCustomBodyHash :: "jv \<Rightarrow> jv" where
  "getCustomBodyHash customBody = (case json_parse (to_str customBody) of
       None \<Rightarrow> JStr []
     | Some parsed \<Rightarrow> if nullish parsed then JStr [] else json_stringify (jor (opt_get parsed ''messages'') (JArr [])))"

text \<open>\<open>JSON.stringify(v, null, 2)\<close>: one member or element per line, two blanks per level.\<close>

definition nl_indent :: "nat \<Rightarrow> string" where
  "nl_indent n = CHR 0x0A # replicate (2 * n) (CHR '' '')"

fun js_pretty :: "nat \<Rightarrow> jv \<Rightarrow> string" and pretty_elems :: "nat \<Rightarrow> jv list \<Rightarrow> string list"
  and pretty_members :: "nat \<Rightarrow> (string \<times> jv) list \<Rightarrow> string list" where
  "js_pretty n (JArr vs) = (let es = pretty_elems (Suc n) vs in
     if es = [] then ''[]'' else CHR ''['' # join_with '','' es @ nl_indent n @ '']'')"
| "js_pretty n (JObj ms) = (let es = pretty_members (Suc n) ms in
     if es = [] then ''{}'' else CHR ''{'' # join_with '','' es @ nl_indent n @ ''}'')"
| "js_pretty n v = js_text v"
| "pretty_elems n [] = []"
| "pretty_elems n (v # vs) = (nl_indent n @ js_pretty n v) # pretty_elems n vs"
| "pretty_members n [] = []"
| "pretty_members n ((k, v) # ms) =
     (if v = JUndef then pretty_members n ms
      else (nl_indent n @ json_quote k @ '': '' @ js_pretty n v) # pretty_members n ms)"

definition fallback_payload :: "jv \<Rightarrow> jv" where
  "fallback_payload inp = JObj [(''model'', jor (opt_get inp ''model'') (JStr ''gpt-4o'')), (''messages'', JArr []),
     (''temperature'', jor (opt_get inp ''temperature'') (JNum (7/10))), (''stream'', JBool (opt_get inp ''stream'' \<noteq> JBool False))]"

text \<open>A parsed body that is no object: null throws, and on other values the assignment throws too.\<close>

definition body_object :: "jv \<Rightarrow> ('s, jv) act" where
  "body_object v = (case v of JObj _ \<Rightarrow> ret v | JArr _ \<Rightarrow> ret v | _ \<Rightarrow> throw type_error)"

definition with_messages :: "jv \<Rightarrow> jv list \<Rightarrow> jv" where
  "with_messages payload ms = (case payload of JObj _ \<Rightarrow> obj_set payload ''messages'' (JArr ms) | _ \<Rightarrow> payload)"

definition syncMessageToCustomBody :: "(('x) chat_scheme, unit) act" where
  "syncMessageToCustomBody = bnd (gets (\<lambda>s. s)) (\<lambda>s.
     let currentMessageHash = getMessageHash (message s) in
     if \<not> truthy (customRequestMode s) \<or> isUpdatingFromCustomBody s then ret ()
     else if currentMessageHash = lastMessageHash s then ret ()
     else try_finally
       (sq (modify (\<lambda>s. s\<lparr>isUpdatingFromMessage := True\<rparr>))
       (bnd (body_object (case json_parse (to_str (jor (customRequestBody s) (JStr ''{}''))) of
               Some v \<Rightarrow> v | None \<Rightarrow> fallback_payload (inputs s))) (\<lambda>payload.
        let newCustomBody = JStr (js_pretty 0 (with_messages payload
              (List.map (\<lambda>m. JObj [(''role'', opt_get m ''role''), (''content'', opt_get m ''content'')]) (message s))))
        in sq (modify (\<lambda>s. s\<lparr>customRequestBody := newCustomBody, lastMessageHash := currentMessageHash,
                 lastCustomBodyHash := getCustomBodyHash newCustomBody\<rparr>))
              debouncedSaveConfig)))
       (modify (\<lambda>s. s\<lparr>isUpdatingFromMessage := False\<rparr>)))"

definition imported_message :: "rat \<Rightarrow> nat \<Rightarrow> jv \<Rightarrow> ('s, jv) act" where
  "imported_message now index m =
     (if nullish m then throw type_error else
      ret (obj_spread (JObj [(''id'', jor (opt_get m ''id'') (JStr (nat_digits (index + 1)))),
            (''role'', jor (opt_get m ''role'') (MESSAGE_ROLES USER)), (''content'', jor (opt_get m ''content'') (JStr [])),
            (''createAt'', JNum now)])
          (if has_role ASSISTANT m
           then [(''reasoningContent'', jor (opt_get m ''reasoningContent'') (JStr [])), (''isReasoningExpanded'', JBool False)]
           else [])))"

definition syncCustomBodyToMessage :: "rat \<Rightarrow> (('x) chat_scheme, unit) act" where
  "syncCustomBodyToMessage now = bnd (gets (\<lambda>s. s)) (\<lambda>s.
     let currentCustomBodyHash = getCustomBodyHash (customRequestBody s) in
     if \<not> truthy (customRequestMode s) \<or> isUpdatingFromMessage s then ret ()
     else if currentCustomBodyHash = lastCustomBodyHash s then ret ()
     else try_finally
       (try_catch
         (sq (modify (\<lambda>s. s\<lparr>isUpdatingFromCustomBody := True\<rparr>))
         (bnd (parse_json (jor (customRequestBody s) (JStr ''{}''))) (\<lambda>payload.
          bnd (prop_get payload ''messages'') (\<lambda>msgs. case msgs of
              JArr vs \<Rightarrow> bnd (map_each (\<lambda>(i, m). imported_message now i m) (List.enumerate 0 vs)) (\<lambda>ms.
                sq (setMessage ms) (modify (\<lambda>s. s\<lparr>lastCustomBodyHash := currentCustomBodyHash,
                     lastMessageHash := getMessageHash ms\<rparr>)))
            | _ \<Rightarrow> ret ()))))
         (\<lambda>_. ret ()))
       (modify (\<lambda>s. s\<lparr>isUpdatingFromCustomBody := False\<rparr>)))"

section \<open>Lemmas\<close>

lemma MESSAGE_STATUS_inject [simp]: "(MESSAGE_STATUS a = MESSAGE_STATUS b) = (a = b)"
  by (cases a; cases b) simp_all

lemma MESSAGE_ROLES_inject [simp]: "(MESSAGE_ROLES a = MESSAGE_ROLES b) = (a = b)"
  by (cases a; cases b) simp_all

declare MESSAGE_STATUS.simps [simp del] MESSAGE_ROLES.simps [simp del]

lemma status_in_iff: "opt_get m ''status'' = MESSAGE_STATUS st \<Longrightarrow> status_in m sts = (st \<in> set sts)"
  by (auto simp: status_in_def list_ex_iff)

lemma collapse_keys_set: "fst ` set (applyAutoCollapseLogic m b) = {''isThinkingComplete'', ''hasAutoCollapsed'', ''isReasoningExpanded''}"
  by (simp add: applyAutoCollapseLogic_def Let_def)

lemma opt_get_obj_spread_app:
  assumes "k \<notin> fst ` set rest"
  shows "opt_get (obj_spread v (kvs @ rest)) k = opt_get (obj_spread v kvs) k"
proof -
  obtain ms where o: "obj_spread v kvs = JObj ms"
    by (induction kvs rule: rev_induct) (auto simp: obj_spread_def obj_set_def split: prod.splits)
  then have "obj_spread v (kvs @ rest) = obj_spread (obj_spread v kvs) rest" by (simp add: obj_spread_def)
  then show ?thesis using assms by (simp add: opt_get_obj_spread_other)
qed

text \<open>The members of a message after an update: what the streaming touches and what it leaves.\<close>

lemma content_update_other:
  assumes "k \<notin> {''isThinkingComplete'', ''hasAutoCollapsed'', ''isReasoningExpanded''}"
  shows "opt_get (content_update c m) k =
    opt_get (obj_spread m [(''content'', JStr (str_or_empty (opt_get m ''content'') @ c)), (''status'', MESSAGE_STATUS INCOMPLETE)]) k"
  unfolding content_update_def Let_def
  by (rule opt_get_obj_spread_app) (use assms in \<open>simp only: collapse_keys_set not_False_eq_True\<close>)

lemma content_update_get:
  "opt_get (content_update c m) ''content'' = JStr (str_or_empty (opt_get m ''content'') @ c)"
  "opt_get (content_update c m) ''status'' = MESSAGE_STATUS INCOMPLETE"
  "opt_get (content_update c m) ''role'' = opt_get m ''role''"
  "opt_get (content_update c m) ''id'' = opt_get m ''id''"
  "opt_get (content_update c m) ''reasoningContent'' = opt_get m ''reasoningContent''"
  by (subst content_update_other; simp add: obj_spread_def opt_get_obj_set)+

lemma reasoning_update_get:
  "opt_get (reasoning_update c m) ''reasoningContent'' = JStr (str_or_empty (opt_get m ''reasoningContent'') @ c)"
  "opt_get (reasoning_update c m) ''status'' = MESSAGE_STATUS INCOMPLETE"
  "opt_get (reasoning_update c m) ''role'' = opt_get m ''role''"
  "opt_get (reasoning_update c m) ''id'' = opt_get m ''id''"
  "opt_get (reasoning_update c m) ''content'' = opt_get m ''content''"
  by (simp_all add: reasoning_update_def obj_spread_def opt_get_obj_set)

lemma str_or_empty_JStr [simp]: "str_or_empty (JStr x) = x"
  by (simp add: str_or_empty_def)

text \<open>A message that is being streamed: what it has received so far.\<close>

definition streaming :: "jv \<Rightarrow> string \<Rightarrow> string \<Rightarrow> bool" where
  "streaming m content reasoning = (opt_get m ''role'' = MESSAGE_ROLES ASSISTANT
     \<and> (opt_get m ''status'' = MESSAGE_STATUS LOADING \<or> opt_get m ''status'' = MESSAGE_STATUS INCOMPLETE)
     \<and> opt_get m ''content'' = JStr content \<and> opt_get m ''reasoningContent'' = JStr reasoning)"

definition chunks_of :: "chunk_kind \<Rightarrow> (chunk_kind \<times> string) list \<Rightarrow> string" where
  "chunks_of kind chunks = concat (List.map snd (filter (\<lambda>c. fst c = kind) chunks))"

definition receive :: "(chunk_kind \<times> string) list \<Rightarrow> jv list \<Rightarrow> jv list" where
  "receive chunks ms = fold (\<lambda>(kind, c). stream_update c kind) chunks ms"

lemma streaming_step:
  assumes "streaming m c r"
  shows "\<exists>m'. stream_update x kind (ms @ [m]) = ms @ [m'] \<and> opt_get m' ''id'' = opt_get m ''id''
    \<and> streaming m' (if kind = Content then c @ x else c) (if kind = Reasoning then r @ x else r)"
proof -
  have st: "status_in m [LOADING, INCOMPLETE]" "\<not> status_in m [ERROR]"
    using assms by (auto simp: streaming_def status_in_iff)
  have role: "opt_get m ''role'' = MESSAGE_ROLES ASSISTANT" using assms by (simp add: streaming_def)
  show ?thesis
  proof (cases kind)
    case Reasoning
    then show ?thesis using assms st role
      by (intro exI[of _ "reasoning_update x m"])
        (simp add: stream_update_def Let_def streaming_def reasoning_update_get)
  next
    case Content
    then show ?thesis using assms st role
      by (intro exI[of _ "content_update x m"])
        (simp add: stream_update_def Let_def streaming_def content_update_get)
  qed
qed

lemma streaming_receive:
  "streaming m c r \<Longrightarrow> \<exists>m'. receive chunks (ms @ [m]) = ms @ [m'] \<and> opt_get m' ''id'' = opt_get m ''id''
    \<and> streaming m' (c @ chunks_of Content chunks) (r @ chunks_of Reasoning chunks)"
proof (induction chunks arbitrary: m c r)
  case Nil
  then show ?case by (auto simp: receive_def chunks_of_def)
next
  case (Cons kx chunks)
  obtain kind x where kx: "kx = (kind, x)" by (cases kx)
  obtain m1 where m1: "stream_update x kind (ms @ [m]) = ms @ [m1]" "opt_get m1 ''id'' = opt_get m ''id''"
    "streaming m1 (if kind = Content then c @ x else c) (if kind = Reasoning then r @ x else r)"
    using streaming_step[OF Cons.prems] by blast
  have "receive (kx # chunks) (ms @ [m]) = receive chunks (ms @ [m1])" using m1(1) by (simp add: receive_def kx)
  then show ?case using Cons.IH[OF m1(3)] m1(2) by (cases kind) (auto simp: chunks_of_def kx)
qed

lemma loading_streaming: "streaming (fst (createLoadingAssistantMessage now i)) [] []"
  by (simp add: createLoadingAssistantMessage_def createMessage_def generateMessageId_def streaming_def obj_spread_def
      opt_get_obj_set)

text \<open>C7: Whatever the order in which reply and reasoning arrive, the chunks are assembled into the one
  loading message that was appended for them, each kind in its order, and no other message changes.\<close>

theorem stream_assembles_reply:
  "\<exists>m. receive chunks (ms @ [fst (createLoadingAssistantMessage now i)]) = ms @ [m]
     \<and> opt_get m ''content'' = JStr (concat (List.map snd (filter (\<lambda>c. fst c = Content) chunks)))
     \<and> opt_get m ''reasoningContent'' = JStr (concat (List.map snd (filter (\<lambda>c. fst c = Reasoning) chunks)))"
  using streaming_receive[OF loading_streaming] by (fastforce simp: streaming_def chunks_of_def)

lemma done_ignores: "ms \<noteq> [] \<Longrightarrow> status_in (last ms) [COMPLETE, ERROR] \<Longrightarrow> receive chunks ms = ms"
proof (induction chunks)
  case Nil
  then show ?case by (simp add: receive_def)
next
  case (Cons kx chunks)
  have "status_in (last ms) [ERROR] \<or> \<not> status_in (last ms) [LOADING, INCOMPLETE]"
    using Cons.prems(2) by (auto simp: status_in_def)
  then have "stream_update (snd kx) (fst kx) ms = ms" by (auto simp: stream_update_def Let_def)
  with Cons show ?case by (cases kx) (simp add: receive_def)
qed

lemma obj_spread_status:
  "k \<notin> fst ` set rest \<Longrightarrow> distinct (List.map fst kvs) \<Longrightarrow> (k, x) \<in> set kvs \<Longrightarrow>
   opt_get (obj_spread v (kvs @ rest)) k = x"
  by (simp add: opt_get_obj_spread_app opt_get_obj_spread)

text \<open>Stopping the generator closes the stream and completes the message that was being streamed; it
  saves the list it leaves, once, and nothing that arrives late changes it, nor does a second stop.\<close>

lemma stop_is_final:
  assumes "message s = ms @ [m]" and "streaming m content reasoning"
  shows "\<exists>t m'. onStopGenerator s = (Inr (), t) \<and> \<not> sse_open t \<and> message t = ms @ [m'] \<and> saved t = saved s @ [message t]
     \<and> opt_get m' ''content'' = JStr (fst (processIncompleteThinkTags content reasoning))
     \<and> (\<forall>chunks. receive chunks (message t) = message t)
     \<and> onStopGenerator t = (Inr (), t)"
proof -
  obtain c r where cr: "processIncompleteThinkTags content reasoning = (c, r)" by fastforce
  define m' where "m' = obj_spread m ([(''status'', MESSAGE_STATUS COMPLETE),
     (''reasoningContent'', if r = [] then JNull else JStr r), (''content'', JStr c)] @ applyAutoCollapseLogic m (JBool True))"
  let ?t = "s\<lparr>sse_open := False, message := ms @ [m'], saved := saved s @ [ms @ [m']]\<rparr>"
  have st: "status_in m [LOADING, INCOMPLETE]" using assms(2) by (auto simp: streaming_def status_in_iff)
  have co: "opt_get m ''content'' = JStr content" "opt_get m ''reasoningContent'' = JStr reasoning"
    using assms(2) by (simp_all add: streaming_def)
  have run: "onStopGenerator s = (Inr (), ?t)"
    using assms(1) st cr by (simp add: onStopGenerator_def act_simps co Let_def m'_def)
  have s': "opt_get m' ''status'' = MESSAGE_STATUS COMPLETE" "opt_get m' ''content'' = JStr c"
    unfolding m'_def by (rule obj_spread_status; simp add: collapse_keys_set)+
  then have fin: "status_in m' [COMPLETE, ERROR]" "\<not> status_in m' [LOADING, INCOMPLETE]"
    by (simp_all add: status_in_iff)
  have late: "receive chunks (ms @ [m']) = ms @ [m']" for chunks
    using done_ignores[of "ms @ [m']" chunks] fin(1) by simp
  have again: "onStopGenerator ?t = (Inr (), ?t)"
    using fin(2) by (simp add: onStopGenerator_def act_simps Let_def)
  show ?thesis
    by (intro exI[of _ ?t] exI[of _ m']) (use run late again s'(2) cr in simp)
qed

definition chat_example :: chat where
  "chat_example = browser.extend blank_browser
     \<lparr>message = [fst (createLoadingAssistantMessage 0 4)], inputs = DEFAULT_INPUTS, parameterEnabled = DEFAULT_PARAMETERS,
      showDebugPanel = JBool False, customRequestMode = JBool True, customRequestBody = JStr [], models = [], groups = [],
      editingMessageId = JNull, editValue = [], sse_open = True, isUpdatingFromMessage = False,
      isUpdatingFromCustomBody = False, lastMessageHash = JStr [], lastCustomBodyHash = JStr [], saved = [],
      save_timer = None, saved_configs = [], to_send = []\<rparr>"

lemma stop_is_final_example:
  "\<exists>t. onStopGenerator chat_example = (Inr (), t) \<and> onStopGenerator t = (Inr (), t)"
  using stop_is_final[of chat_example "[]" "fst (createLoadingAssistantMessage 0 4)" "[]" "[]"] loading_streaming
  by (auto simp: chat_example_def browser.extend_def)

text \<open>C21: The two synchronisations between messages and custom body do not feed each other: after the
  messages were written into the body, neither direction does anything until one of them changes.\<close>

theorem sync_settles:
  assumes "\<not> isUpdatingFromCustomBody s" and "syncMessageToCustomBody s = (Inr (), t)"
    and "truthy (customRequestMode s)" and "getMessageHash (message s) \<noteq> lastMessageHash s"
  shows "\<not> isUpdatingFromMessage t \<and> message t = message s
    \<and> syncMessageToCustomBody t = (Inr (), t) \<and> syncCustomBodyToMessage now t = (Inr (), t)"
proof -
  have "\<not> isUpdatingFromMessage t \<and> message t = message s \<and> lastMessageHash t = getMessageHash (message s)
      \<and> lastCustomBodyHash t = getCustomBodyHash (customRequestBody t)"
    using assms
    by (auto simp: syncMessageToCustomBody_def act_simps Let_def body_object_def debouncedSaveConfig_def
        split: option.splits jv.splits)
  then show ?thesis
    by (simp add: syncMessageToCustomBody_def syncCustomBodyToMessage_def act_simps Let_def)
qed

theorem sync_settles_witness:
  "\<exists>t. syncMessageToCustomBody chat_example = (Inr (), t) \<and> syncCustomBodyToMessage 0 t = (Inr (), t)"
proof -
  let ?s = chat_example
  have s: "truthy (customRequestMode ?s)" "\<not> isUpdatingFromCustomBody ?s" "customRequestBody ?s = JStr []"
    "lastMessageHash ?s = JStr []"
    by (simp_all add: chat_example_def browser.extend_def)
  have h: "getMessageHash (message ?s) \<noteq> lastMessageHash ?s"
    by (simp add: s(4) getMessageHash_def json_stringify_def)
  have "json_parse ''{}'' = Some (JObj [])" using json_roundtrip[of "JObj []"] by simp
  then obtain t where t: "syncMessageToCustomBody ?s = (Inr (), t)"
    using s h by (simp add: syncMessageToCustomBody_def act_simps Let_def body_object_def debouncedSaveConfig_def jor_def)
  show ?thesis using sync_settles[OF s(2) t s(1) h, of 0] t by blast
qed

text \<open>Deleting a message removes exactly it, or a user message together with the reply that follows
  it, and saves what is left, as long as ids are unique.\<close>

lemma delete_removes_message_and_reply:
  assumes "message s = ms" and "i < length ms" and "ms ! i = target"
    and "distinct (List.map (\<lambda>m. opt_get m ''id'') ms)" and "\<forall>m \<in> set ms. \<exists>x. opt_get m ''id'' = JStr x"
  shows "\<exists>t. handleMessageDelete (Some i) target s = (Inr (), t)
     \<and> message t = take i ms @ drop (i + (if opt_get target ''role'' = JStr ''user'' \<and> i < length ms - 1
             \<and> opt_get (ms ! (i + 1)) ''role'' = JStr ''assistant'' then 2 else 1)) ms
     \<and> saved t = saved s @ [message t]"
proof -
  have one: "drop_id target ms = take i ms @ drop (i + 1) ms"
  proof -
    let ?id = "\<lambda>m. opt_get m ''id''"
    have split: "ms = take i ms @ target # drop (Suc i) ms" using assms(2,3) id_take_nth_drop by blast
    have seq: "strict_eq (?id m) (?id target) = (?id m = ?id target)" if m: "m \<in> set ms" for m
    proof -
      obtain x where "?id m = JStr x" using assms(5) m by blast
      then show ?thesis by (cases "?id target") auto
    qed
    have "distinct (List.map ?id (take i ms @ target # drop (Suc i) ms))" using assms(4) split by simp
    then have "?id m \<noteq> ?id target" if "m \<in> set (take i ms) \<union> set (drop (Suc i) ms)" for m
      using that by (auto simp: image_iff)
    then have "filter (\<lambda>m. ?id m \<noteq> ?id target) ms = take i ms @ drop (Suc i) ms"
      by (subst split) simp
    moreover have "drop_id target ms = filter (\<lambda>m. ?id m \<noteq> ?id target) ms"
      unfolding drop_id_def using seq by (intro filter_cong) auto
    ultimately show ?thesis by simp
  qed
  show ?thesis
    using assms(1) one
    by (auto simp: handleMessageDelete_def act_simps Let_def locate_def has_role_def MESSAGE_ROLES.simps)
qed

lemma delete_removes_message_and_reply_example:
  "\<exists>t. handleMessageDelete (Some 0) (getDefaultMessages ! 0) (chat_example\<lparr>message := getDefaultMessages\<rparr>) = (Inr (), t)
     \<and> message t = []"
  using delete_removes_message_and_reply[of "chat_example\<lparr>message := getDefaultMessages\<rparr>" getDefaultMessages 0 "getDefaultMessages ! 0"]
  by (auto simp: getDefaultMessages_def MESSAGE_ROLES.simps)

end
