(* ===== verification/Users.thy ===== *)
theory Users
  imports Login
begin

text \<open>
  The user table of the administrator: \<open>hooks/users/useUsersData.jsx\<close>. The table's form is the pair
  of its two fields, absent while no form is registered.
\<close>

record users_table = browser +
  users :: "jv list"
  loading :: bool
  activePage :: jv
  pageSize :: jv
  searching :: bool
  groupOptions :: "jv list"
  userCount :: jv
  showAddUser :: bool
  showEditUser :: bool
  editingUser :: jv
  form :: "(string \<times> string) option"

definition getFormValues :: "('x) users_table_scheme \<Rightarrow> string \<times> string" where
  "getFormValues s = (case form s of None \<Rightarrow> ([], []) | Some f \<Rightarrow> f)"

text \<open>The rows get their id as React key; a row that is null or undefined has no members to read.\<close>

definition with_key :: "jv \<Rightarrow> ('s, jv) act" where
  "with_key u = bnd (prop_get u ''id'') (\<lambda>i. ret (obj_set u ''key'' i))"

definition setUserFormat :: "jv \<Rightarrow> (('x) users_table_scheme, unit) act" where
  "setUserFormat items = (case items of
       JArr us \<Rightarrow> bnd (map_each with_key us) (\<lambda>us'. modify (\<lambda>s. s\<lparr>users := us'\<rparr>))
     | _ \<Rightarrow> throw type_error)"

text \<open>The common tail of the two loaders: what is done with the answer.\<close>

definition show_page :: "jv \<Rightarrow> (('x) users_table_scheme, unit) act" where
  "show_page body = bnd (destruct body) (\<lambda>(success, message, data).
     if truthy success
     then bnd (prop_get data ''items'') (\<lambda>newPageData.
          sq (modify (\<lambda>s. s\<lparr>activePage := opt_get data ''page'', userCount := opt_get data ''total''\<rparr>))
             (setUserFormat newPageData))
     else showError message)"

definition users_url :: "jv \<Rightarrow> jv \<Rightarrow> string" where
  "users_url startIdx psize = ''/api/user/?p='' @ to_str startIdx @ ''&page_size='' @ to_str psize"

definition loadUsers :: "env \<Rightarrow> jv \<Rightarrow> jv \<Rightarrow> (('x) users_table_scheme, unit) act" where
  "loadUsers env startIdx psize =
     sq (modify (\<lambda>s. s\<lparr>loading := True\<rparr>))
    (sq (bnd (api_get env (users_url startIdx psize) JUndef) show_page)
        (modify (\<lambda>s. s\<lparr>loading := False\<rparr>)))"

definition search_url :: "string \<Rightarrow> string \<Rightarrow> jv \<Rightarrow> jv \<Rightarrow> string" where
  "search_url keyword group' startIdx psize = ''/api/user/search?keyword='' @ keyword @ ''&group='' @ group'
     @ ''&p='' @ to_str startIdx @ ''&page_size='' @ to_str psize"

definition search_run :: "env \<Rightarrow> jv \<Rightarrow> jv \<Rightarrow> string \<Rightarrow> string \<Rightarrow> (('x) users_table_scheme, unit) act" where
  "search_run env startIdx psize keyword group' =
     sq (modify (\<lambda>s. s\<lparr>searching := True\<rparr>))
    (sq (bnd (api_get env (search_url keyword group' startIdx psize) JUndef) show_page)
        (modify (\<lambda>s. s\<lparr>searching := False\<rparr>)))"

definition searchUsers ::
  "env \<Rightarrow> jv \<Rightarrow> jv \<Rightarrow> string option \<Rightarrow> string option \<Rightarrow> (('x) users_table_scheme, unit) act" where
  "searchUsers env startIdx psize keyword group' = bnd (gets getFormValues) (\<lambda>(fk, fg).
     let (k, g) = (case (keyword, group') of (Some k, Some g) \<Rightarrow> (k, g) | _ \<Rightarrow> (fk, fg)) in
     if k = [] \<and> g = [] then loadUsers env startIdx psize else search_run env startIdx psize k g)"

text \<open>\<open>manageUser\<close>; \<open>now\<close> is the date object a deletion is marked with.\<close>

definition managed_row :: "jv \<Rightarrow> jv \<Rightarrow> string \<Rightarrow> jv \<Rightarrow> jv \<Rightarrow> ('s, jv) act" where
  "managed_row now userId action user u =
     (if nullish u then throw type_error
      else if strict_eq (opt_get u ''id'') userId then
        (if action = ''delete'' then ret (obj_spread u [(''DeletedAt'', now)])
         else if nullish user then throw type_error
         else ret (obj_spread u [(''status'', opt_get user ''status''), (''role'', opt_get user ''role'')]))
      else ret u)"

definition manageUser :: "env \<Rightarrow> jv \<Rightarrow> jv \<Rightarrow> string \<Rightarrow> (('x) users_table_scheme, unit) act" where
  "manageUser env now userId action = bnd (gets users) (\<lambda>us.
     sq (modify (\<lambda>s. s\<lparr>loading := True\<rparr>))
    (sq (bnd (api_post env ''/api/user/manage'' (JObj [(''id'', userId), (''action'', JStr action)])) (\<lambda>body.
         bnd (destruct body) (\<lambda>(success, message, data).
           if truthy success
           then sq (showSuccess (JStr ''Operation completed successfully!''))
               (bnd (map_each (managed_row now userId action data) us) (\<lambda>us'. modify (\<lambda>s. s\<lparr>users := us'\<rparr>)))
           else showError message)))
        (modify (\<lambda>s. s\<lparr>loading := False\<rparr>))))"

definition reset_credential :: "env \<Rightarrow> string \<Rightarrow> string \<Rightarrow> jv \<Rightarrow> ('x browser_scheme, unit) act" where
  "reset_credential env suffix done' user =
     (if \<not> truthy user then ret ()
      else try_catch
        (bnd (bnd (api_call env False (Http DELETE (''/api/user/'' @ to_str (opt_get user ''id'') @ suffix) JUndef)) destruct)
          (\<lambda>(success, message, _).
             if truthy success then showSuccess (JStr done')
             else showError (jor message (JStr ''operation failed, please retry''))))
        (\<lambda>_. showErr ''operation failed, please retry''))"

definition resetUserPasskey :: "env \<Rightarrow> jv \<Rightarrow> ('x browser_scheme, unit) act" where
  "resetUserPasskey env = reset_credential env ''/reset_passkey'' ''Passkey reset''"

definition resetUserTwoFA :: "env \<Rightarrow> jv \<Rightarrow> ('x browser_scheme, unit) act" where
  "resetUserTwoFA env = reset_credential env ''/2fa'' ''Two-factor authentication reset''"

text \<open>A promise that the handler does not await; \<open>.catch(showError)\<close> shows what it throws.\<close>

definition reload :: "env \<Rightarrow> jv \<Rightarrow> (('x) users_table_scheme, unit) act" where
  "reload env page = bnd (gets (\<lambda>s. (getFormValues s, pageSize s))) (\<lambda>((k, g), psize).
     if k = [] \<and> g = [] then loadUsers env page psize else searchUsers env page psize (Some k) (Some g))"

definition handlePageChange :: "env \<Rightarrow> jv \<Rightarrow> (('x) users_table_scheme, unit) act" where
  "handlePageChange env page = sq (modify (\<lambda>s. s\<lparr>activePage := page\<rparr>)) (detach (reload env page))"

definition handlePageSizeChange :: "env \<Rightarrow> jv \<Rightarrow> (('x) users_table_scheme, unit) act" where
  "handlePageSizeChange env psize = bnd (gets activePage) (\<lambda>page.
     sq (set_item ''page-size'' (JStr (to_str psize)))
    (sq (modify (\<lambda>s. s\<lparr>pageSize := psize, activePage := JNum 1\<rparr>))
        (detach (try_catch (loadUsers env page psize) showError))))"

datatype row_style = Plain | Greyed

definition handleRow :: "jv \<Rightarrow> row_style" where
  "handleRow record' = (if opt_get record' ''DeletedAt'' \<noteq> JNull \<or> \<not> strict_eq (opt_get record' ''status'') (JNum 1)
     then Greyed else Plain)"

definition refresh :: "env \<Rightarrow> jv option \<Rightarrow> (('x) users_table_scheme, unit) act" where
  "refresh env page = bnd (gets activePage) (\<lambda>p. reload env (case page of Some q \<Rightarrow> q | None \<Rightarrow> p))"

definition fetchGroups :: "env \<Rightarrow> (('x) users_table_scheme, unit) act" where
  "fetchGroups env = try_catch
     (bnd (api_get env ''/api/group/'' JUndef) (\<lambda>body. bnd (prop_get body ''data'') (\<lambda>data. case data of
        JArr gs \<Rightarrow> modify (\<lambda>s. s\<lparr>groupOptions := List.map (\<lambda>g. JObj [(''label'', g), (''value'', g)]) gs\<rparr>)
      | _ \<Rightarrow> throw type_error)))
     (\<lambda>error. showError (opt_get error ''message''))"

definition closeAddUser :: "('x) users_table_scheme \<Rightarrow> ('x) users_table_scheme" where
  "closeAddUser s = s\<lparr>showAddUser := False\<rparr>"

definition closeEditUser :: "('x) users_table_scheme \<Rightarrow> ('x) users_table_scheme" where
  "closeEditUser s = s\<lparr>showEditUser := False, editingUser := JObj [(''id'', JUndef)]\<rparr>"

definition mount_effect :: "env \<Rightarrow> (('x) users_table_scheme, unit) act" where
  "mount_effect env = bnd (gets pageSize) (\<lambda>psize.
     sq (detach (try_catch (loadUsers env (JNum 0) psize) showError)) (detach (fetchGroups env)))"

section \<open>The contract of a page loader\<close>

text \<open>An answer with a page: objects for rows.\<close>

definition page_answer :: "jv \<Rightarrow> jv list \<Rightarrow> bool" where
  "page_answer body rows = (truthy (opt_get body ''success'') \<and> opt_get (opt_get body ''data'') ''items'' = JArr rows
     \<and> list_all (\<lambda>u. \<not> nullish u) rows)"

definition keyed :: "jv list \<Rightarrow> jv list" where
  "keyed rows = List.map (\<lambda>u. obj_set u ''key'' (opt_get u ''id'')) rows"

locale page_loader =
  fixes run :: "env \<Rightarrow> (users_table, unit) act" and q :: request and busy :: "users_table \<Rightarrow> bool"
  assumes run_page: "env (trace s) q = Ok body \<Longrightarrow> page_answer body rows \<Longrightarrow>
      \<exists>t. run env s = (Inr (), t) \<and> users t = keyed rows \<and> \<not> busy t
        \<and> activePage t = opt_get (opt_get body ''data'') ''page'' \<and> userCount t = opt_get (opt_get body ''data'') ''total''"
    and run_refused: "env (trace s) q = Ok body \<Longrightarrow> \<not> nullish body \<Longrightarrow> \<not> truthy (opt_get body ''success'') \<Longrightarrow>
      \<exists>m. opt_get body ''message'' = JStr m \<Longrightarrow>
      \<exists>t. run env s = (Inr (), t) \<and> users t = users s \<and> activePage t = activePage s \<and> \<not> busy t"
begin

text \<open>The rows depend on the answer only: two runs that get the same page show the same rows.\<close>

lemma same_answer_same_rows:
  assumes "env (trace s) q = Ok body" and "env' (trace s') q = Ok body" and "page_answer body rows"
  shows "users (snd (run env s)) = users (snd (run env' s')) \<and> userCount (snd (run env s)) = userCount (snd (run env' s'))"
  using run_page[of env s body rows, OF assms(1,3)] run_page[of env' s' body rows, OF assms(2,3)] by auto

text \<open>Every row shown has the key React needs, and the backend's order is kept.\<close>

lemma rows_keyed:
  assumes "env (trace s) q = Ok body" and "page_answer body rows"
  shows "List.map (\<lambda>u. opt_get u ''key'') (users (snd (run env s))) = List.map (\<lambda>u. opt_get u ''id'') rows"
  using run_page[of env s body rows, OF assms] by (auto simp: keyed_def opt_get_obj_set)

end

lemma with_keys: "list_all (\<lambda>u. \<not> nullish u) rows \<Longrightarrow> map_each with_key rows s = (Inr (keyed rows), s)"
  unfolding keyed_def by (rule map_each_ret) (auto simp: list_all_iff with_key_def act_simps)

lemma show_page_run:
  assumes "page_answer body rows"
  shows "show_page body s = (Inr (), s\<lparr>activePage := opt_get (opt_get body ''data'') ''page'',
      userCount := opt_get (opt_get body ''data'') ''total'', users := keyed rows\<rparr>)"
proof -
  have "\<not> nullish body" "\<not> nullish (opt_get body ''data'')" using assms by (auto simp: page_answer_def nullish_def)
  then show ?thesis
    using assms by (simp add: show_page_def page_answer_def act_simps setUserFormat_def with_keys)
qed

lemma show_page_refused:
  "\<not> nullish body \<Longrightarrow> \<not> truthy (opt_get body ''success'') \<Longrightarrow> opt_get body ''message'' = JStr m \<Longrightarrow>
   show_page body s = (Inr (), s\<lparr>trace := trace s @ [Toasted TError (JStr (''Error: '' @ m))]\<rparr>)"
  by (simp add: show_page_def act_simps)

interpretation load: page_loader "\<lambda>env. loadUsers env p psize" "Http GET (users_url p psize) JUndef" loading for p psize
  by unfold_locales (auto simp: loadUsers_def act_simps Let_def show_page_run show_page_refused)

interpretation search: page_loader "\<lambda>env. search_run env p psize k g" "Http GET (search_url k g p psize) JUndef" searching
  for p psize k g
  by unfold_locales (auto simp: search_run_def act_simps Let_def show_page_run show_page_refused)

section \<open>Properties\<close>

text \<open>The table shows what the answer says, whichever way it was asked: loading and searching put the same
  rows in the same order for the same answer, each with its id as key, and stop being busy.\<close>

lemma load_and_search_agree:
  fixes s s' :: users_table
  assumes "env (trace s) (Http GET (users_url p psize) JUndef) = Ok body"
    and "env' (trace s') (Http GET (search_url k g p' psize') JUndef) = Ok body" and "page_answer body rows"
  shows "\<exists>t t'. loadUsers env p psize s = (Inr (), t) \<and> search_run env' p' psize' k g s' = (Inr (), t')
    \<and> users t = users t' \<and> activePage t = activePage t' \<and> userCount t = userCount t'
    \<and> List.map (\<lambda>u. opt_get u ''key'') (users t) = List.map (\<lambda>u. opt_get u ''id'') rows
    \<and> \<not> loading t \<and> \<not> searching t'"
  using load.run_page[of env s p psize body rows, OF assms(1,3)] search.run_page[of env' s' k g p' psize' body rows, OF assms(2,3)]
    load.rows_keyed[of env s p psize body rows, OF assms(1,3)] by auto

definition users_example :: users_table where
  "users_example = browser.extend blank_browser \<lparr>users = [JObj [(''id'', JNum 1), (''role'', JNum 1)], JObj [(''id'', JNum 2), (''role'', JNum 1)]],
     loading = False, activePage = JNum 3, pageSize = JNum 10, searching = False, groupOptions = [], userCount = JNum 30,
     showAddUser = False, showEditUser = False, editingUser = JObj [], form = None\<rparr>"

definition page_body :: jv where
  "page_body = JObj [(''success'', JBool True), (''data'', JObj [(''items'', JArr [JObj [(''id'', JNum 5)]]),
     (''page'', JNum 1), (''total'', JNum 1)])]"

lemma load_and_search_agree_example:
  "\<exists>t. loadUsers (\<lambda>_ _. Ok page_body) (JNum 0) (JNum 10) users_example = (Inr (), t)
     \<and> List.map (\<lambda>u. opt_get u ''key'') (users t) = [JNum 5]"
proof -
  have "page_answer page_body [JObj [(''id'', JNum 5)]]" by (simp add: page_answer_def page_body_def)
  from load_and_search_agree[of "\<lambda>_ _. Ok page_body" users_example "JNum 0" "JNum 10" page_body
      "\<lambda>_ _. Ok page_body" users_example "''x''" "[]" "JNum 0" "JNum 10", OF refl refl this]
  obtain t where "loadUsers (\<lambda>_ _. Ok page_body) (JNum 0) (JNum 10) users_example = (Inr (), t)"
    "List.map (\<lambda>u. opt_get u ''key'') (users t) = List.map (\<lambda>u. opt_get u ''id'') [JObj [(''id'', JNum 5)]]" by blast
  then show ?thesis by simp
qed

text \<open>A row after a successful operation on user \<open>i\<close>.\<close>

definition managed :: "jv \<Rightarrow> jv \<Rightarrow> string \<Rightarrow> jv \<Rightarrow> jv \<Rightarrow> jv" where
  "managed now i action user u =
     (if strict_eq (opt_get u ''id'') i then
       (if action = ''delete'' then obj_spread u [(''DeletedAt'', now)]
        else obj_spread u [(''status'', opt_get user ''status''), (''role'', opt_get user ''role'')])
      else u)"

lemma managed_rows:
  "list_all (\<lambda>u. \<not> nullish u) us \<Longrightarrow> \<not> nullish user \<or> action = ''delete'' \<Longrightarrow>
   map_each (managed_row now i action user) us s = (Inr (List.map (managed now i action user) us), s)"
  by (rule map_each_ret) (auto simp: list_all_iff managed_row_def managed_def act_simps)

text \<open>C13: A successful operation on a user changes the rows of that user only, keeps every row's id and the
  order, and takes the new status and role from the backend; a deletion greys the row out.\<close>

theorem manage_touches_one_user:
  assumes "users s = us" and "list_all (\<lambda>u. \<not> nullish u) us" and "\<not> nullish (opt_get body ''data'')"
    and "env (trace s) (Http POST ''/api/user/manage'' (JObj [(''id'', i), (''action'', JStr action)])) = Ok body"
    and "truthy (opt_get body ''success'')" and "now \<noteq> JNull"
  shows "\<exists>t. manageUser env now i action s = (Inr (), t) \<and> \<not> loading t \<and> length (users t) = length us
    \<and> (\<forall>n < length us. opt_get (users t ! n) ''id'' = opt_get (us ! n) ''id''
         \<and> (if strict_eq (opt_get (us ! n) ''id'') i
            then (if action = ''delete'' then handleRow (users t ! n) = Greyed
                  else opt_get (users t ! n) ''status'' = opt_get (opt_get body ''data'') ''status''
                    \<and> opt_get (users t ! n) ''role'' = opt_get (opt_get body ''data'') ''role'')
            else users t ! n = us ! n))"
proof -
  have b: "\<not> nullish body" using assms(3) by (auto simp: nullish_def)
  let ?us = "List.map (managed now i action (opt_get body ''data'')) us"
  have run: "\<exists>t. manageUser env now i action s = (Inr (), t) \<and> \<not> loading t \<and> users t = ?us"
    using assms b by (simp add: manageUser_def act_simps Let_def managed_rows)
  have row: "opt_get (managed now i action d u) ''id'' = opt_get u ''id''
     \<and> (if strict_eq (opt_get u ''id'') i
        then (if action = ''delete'' then handleRow (managed now i action d u) = Greyed
              else opt_get (managed now i action d u) ''status'' = opt_get d ''status''
                \<and> opt_get (managed now i action d u) ''role'' = opt_get d ''role'')
        else managed now i action d u = u)" for d u
    using assms(6) by (simp add: managed_def obj_spread_def opt_get_obj_set handleRow_def)
  from run obtain t where t: "manageUser env now i action s = (Inr (), t)" "\<not> loading t" "users t = ?us" by blast
  show ?thesis
  proof (intro exI[of _ t] conjI allI impI)
    fix n assume n: "n < length us"
    then have "users t ! n = managed now i action (opt_get body ''data'') (us ! n)" using t(3) by simp
    with row[of "opt_get body ''data''" "us ! n"]
    show "opt_get (users t ! n) ''id'' = opt_get (us ! n) ''id''"
      and "if strict_eq (opt_get (us ! n) ''id'') i
            then (if action = ''delete'' then handleRow (users t ! n) = Greyed
                  else opt_get (users t ! n) ''status'' = opt_get (opt_get body ''data'') ''status''
                    \<and> opt_get (users t ! n) ''role'' = opt_get (opt_get body ''data'') ''role'')
            else users t ! n = us ! n" by (auto split: if_splits)
  qed (use t in simp_all)
qed

theorem manage_touches_one_user_witness:
  "\<exists>t. manageUser (\<lambda>_ _. Ok (JObj [(''success'', JBool True), (''data'', JObj [(''status'', JNum 1), (''role'', JNum 10)])]))
      (JStr ''now'') (JNum 2) ''promote'' users_example = (Inr (), t)
    \<and> opt_get (users t ! 1) ''role'' = JNum 10 \<and> users t ! 0 = users users_example ! 0"
proof -
  let ?b = "JObj [(''success'', JBool True), (''data'', JObj [(''status'', JNum 1), (''role'', JNum 10)])]"
  have u: "users users_example = [JObj [(''id'', JNum 1), (''role'', JNum 1)], JObj [(''id'', JNum 2), (''role'', JNum 1)]]"
    by (simp add: users_example_def browser.extend_def)
  obtain t where t: "manageUser (\<lambda>_ _. Ok ?b) (JStr ''now'') (JNum 2) ''promote'' users_example = (Inr (), t)"
    "\<forall>n < 2. (if strict_eq (opt_get (users users_example ! n) ''id'') (JNum 2)
            then opt_get (users t ! n) ''role'' = JNum 10 else users t ! n = users users_example ! n)"
    using manage_touches_one_user[of users_example "users users_example" ?b "\<lambda>_ _. Ok ?b" "JNum 2" "''promote''" "JStr ''now''"]
    by (auto simp: u)
  show ?thesis using t(1) t(2)[rule_format, of 0] t(2)[rule_format, of 1] by (simp add: u)
qed

text \<open>Changing the page size asks for the page that was active before, not for the first page the table
  says it goes to, and ignores the search form: the request carries the old page and no keyword.\<close>

lemma page_size_change_asks_old_page:
  assumes "env (trace s) (Http GET (''/api/user/?p='' @ to_str (activePage s) @ ''&page_size='' @ to_str psize) JUndef) = Ok body"
    and "page_answer body rows"
  shows "\<exists>t. handlePageSizeChange env psize s = (Inr (), t) \<and> pageSize t = psize \<and> users t = keyed rows
    \<and> trace t = trace s @ [Requested (hdr_user (api s))
        (Http GET (''/api/user/?p='' @ to_str (activePage s) @ ''&page_size='' @ to_str psize) JUndef)]"
  using assms unfolding users_url_def[symmetric]
  by (simp add: handlePageSizeChange_def loadUsers_def act_simps Let_def show_page_run)

lemma page_size_change_asks_old_page_example:
  "\<exists>t. handlePageSizeChange (\<lambda>_ _. Ok page_body) (JNum 20) users_example = (Inr (), t)
    \<and> trace t = [Requested (JNum (-1)) (Http GET ''/api/user/?p=3&page_size=20'' JUndef)]"
proof -
  have e: "activePage users_example = JNum 3" "trace users_example = []" "hdr_user (api users_example) = JNum (-1)"
    by (simp_all add: users_example_def browser.extend_def blank_browser_def)
  have n: "to_str (JNum 3) = ''3''" "to_str (JNum 20) = ''20''"
    by code_simp+
  show ?thesis
    using page_size_change_asks_old_page[of "\<lambda>_ _. Ok page_body" users_example "JNum 20" page_body "[JObj [(''id'', JNum 5)]]"]
    unfolding e n by (auto simp: page_answer_def page_body_def)
qed

end
