(* ===== verification/Format.thy ===== *)
theory Format
  imports Client
begin

text \<open>
  The formatting and selection helpers of \<open>helpers/utils.jsx\<close>: dates, relative times, changed properties,
  select filter, model prices, the page range of the tables and the pricing filters. The time
  zone of the browser is the parameter \<open>tz\<close>, the offset in milliseconds at an instant.
\<close>

section \<open>Text\<close>

definition removeTrailingSlash :: "string \<Rightarrow> string" where
  "removeTrailingSlash url = (if url = [] then [] else if ends_with ''/'' url then butlast url else url)"

definition verifyJSON :: "jv \<Rightarrow> bool" where
  "verifyJSON v = (json_parse (to_str v) \<noteq> None)"

definition verifyJSONPromise :: "jv \<Rightarrow> ('s, unit) act" where
  "verifyJSONPromise v = (if json_parse (to_str v) \<noteq> None then ret () else throw (JStr ''not a valid JSON text''))"

definition shouldShowPrompt :: "string \<Rightarrow> 'x browser_scheme \<Rightarrow> bool" where
  "shouldShowPrompt i s = (\<not> truthy (get_item s (''prompt-'' @ i)))"

definition setPromptShown :: "string \<Rightarrow> ('x browser_scheme, unit) act" where
  "setPromptShown i = set_item (''prompt-'' @ i) (JStr ''true'')"

definition openPage :: "string \<Rightarrow> ('x browser_scheme, unit) act" where
  "openPage url = emit (Opened url)"

section \<open>Dates\<close>

text \<open>The fields of a \<open>Date\<close>: the proleptic Gregorian calendar, computed from the day number.\<close>

record date =
  getFullYear :: int
  getMonth :: int
  getDate :: int
  getHours :: int
  getMinutes :: int
  getSeconds :: int

definition civil :: "int \<Rightarrow> int \<times> int \<times> int" where
  "civil days =
     (let z = days + 719468; era = z div 146097; doe = z mod 146097;
          yoe = (doe - doe div 1460 + doe div 36524 - doe div 146096) div 365;
          doy = doe - (365 * yoe + yoe div 4 - yoe div 100);
          mp = (5 * doy + 2) div 153;
          d = doy - (153 * mp + 2) div 5 + 1;
          m = (if mp < 10 then mp + 3 else mp - 9);
          y = yoe + era * 400
      in (if m \<le> 2 then y + 1 else y, m, d))"

definition new_Date :: "(int \<Rightarrow> int) \<Rightarrow> int \<Rightarrow> date" where
  "new_Date tz ms =
     (let l = (ms + tz ms) div 1000; (y, m, d) = civil (l div 86400); secs = l mod 86400 in
      \<lparr>getFullYear = y, getMonth = m - 1, getDate = d, getHours = secs div 3600,
       getMinutes = secs mod 3600 div 60, getSeconds = secs mod 60\<rparr>)"

text \<open>One leading zero for a text of one character, and \<open>padStart(2, '0')\<close>.\<close>

definition two_digits :: "string \<Rightarrow> string" where
  "two_digits s = (if length s = 1 then CHR ''0'' # s else s)"

definition pad2 :: "string \<Rightarrow> string" where
  "pad2 s = replicate (2 - length s) (CHR ''0'') @ s"

definition timestamp2string :: "(int \<Rightarrow> int) \<Rightarrow> int \<Rightarrow> string" where
  "timestamp2string tz timestamp =
     (let date = new_Date tz (timestamp * 1000) in
      int_str (getFullYear date) @ ''-'' @ two_digits (int_str (getMonth date + 1)) @ ''-'' @ two_digits (int_str (getDate date))
      @ '' '' @ two_digits (int_str (getHours date)) @ '':'' @ two_digits (int_str (getMinutes date))
      @ '':'' @ two_digits (int_str (getSeconds date)))"

definition timestamp2string1 :: "(int \<Rightarrow> int) \<Rightarrow> int \<Rightarrow> string \<Rightarrow> string" where
  "timestamp2string1 tz timestamp dataExportDefaultTime =
     (let date = new_Date tz (timestamp * 1000);
          str = two_digits (int_str (getMonth date + 1)) @ ''-'' @ two_digits (int_str (getDate date)) in
      if dataExportDefaultTime = ''hour'' then str @ '' '' @ two_digits (int_str (getHours date)) @ '':00''
      else if dataExportDefaultTime = ''week'' then
        (let nextWeek = new_Date tz (timestamp * 1000 + 6 * 24 * 60 * 60 * 1000) in
         str @ '' - '' @ two_digits (int_str (getMonth nextWeek + 1)) @ ''-'' @ two_digits (int_str (getDate nextWeek)))
      else str)"

definition formatDateString :: "date \<Rightarrow> string" where
  "formatDateString date = int_str (getFullYear date) @ ''-'' @ pad2 (int_str (getMonth date + 1)) @ ''-'' @ pad2 (int_str (getDate date))"

definition formatDateTimeString :: "date \<Rightarrow> string" where
  "formatDateTimeString date = formatDateString date @ '' '' @ pad2 (int_str (getHours date)) @ '':'' @ pad2 (int_str (getMinutes date))"

text \<open>
  \<open>getRelativeTime\<close> of a published text: \<open>parsed\<close> is its time in milliseconds, \<open>None\<close> when the date is invalid.
\<close>

definition getRelativeTime :: "(int \<Rightarrow> int) \<Rightarrow> int \<Rightarrow> string \<Rightarrow> int option \<Rightarrow> string" where
  "getRelativeTime tz now publishDate parsed =
     (if publishDate = [] then [] else case parsed of None \<Rightarrow> publishDate
      | Some pub \<Rightarrow>
        (let diffMs = now - pub; diffSeconds = diffMs div 1000; diffMinutes = diffSeconds div 60;
             diffHours = diffMinutes div 60; diffDays = diffHours div 24; diffWeeks = diffDays div 7;
             diffMonths = diffDays div 30; diffYears = diffDays div 365 in
         if diffMs < 0 then formatDateString (new_Date tz pub)
         else if diffSeconds < 60 then ''just now''
         else if diffMinutes < 60 then int_str diffMinutes @ '' minutes ago''
         else if diffHours < 24 then int_str diffHours @ '' hours ago''
         else if diffDays < 7 then int_str diffDays @ '' days ago''
         else if diffWeeks < 4 then int_str diffWeeks @ '' weeks ago''
         else if diffMonths < 12 then int_str diffMonths @ '' months ago''
         else if diffYears < 2 then ''1 year ago''
         else formatDateString (new_Date tz pub)))"

section \<open>Objects and options\<close>

text \<open>\<open>compareObjects\<close>, on objects.\<close>

definition compareObjects :: "jv \<Rightarrow> jv \<Rightarrow> (string \<times> jv \<times> jv) list" where
  "compareObjects old new =
     List.map (\<lambda>k. (k, opt_get old k, opt_get new k))
       (filter (\<lambda>k. k \<in> set (obj_keys new) \<and> \<not> strict_eq (opt_get old k) (opt_get new k)) (obj_keys old))"

definition selectFilter :: "string \<Rightarrow> jv \<Rightarrow> bool" where
  "selectFilter inp option =
     (if inp = [] then True
      else let keyword = to_lower (trim inp);
               valueText = to_lower (to_str (jcoalesce (opt_get option ''value'') (JStr [])));
               labelText = to_lower (to_str (jcoalesce (opt_get option ''label'') (JStr [])))
           in str_includes valueText keyword \<or> str_includes labelText keyword)"

section \<open>Prices\<close>

text \<open>
  Ratios by group: \<open>groupRatio[g]\<close> is \<open>None\<close> when undefined. The first loop looks for the smallest ratio among the
  groups the model is enabled for; the minimum starts at infinity, written \<open>None\<close>.
\<close>

definition cheaper :: "rat \<Rightarrow> rat option \<Rightarrow> bool" where
  "cheaper r m = (case m of None \<Rightarrow> True | Some x \<Rightarrow> r < x)"

definition consider_group :: "(string \<Rightarrow> rat option) \<Rightarrow> string \<Rightarrow> rat option \<times> string \<times> rat option \<Rightarrow> rat option \<times> string \<times> rat option" where
  "consider_group groupRatio g st = (case st of (minRatio, usedGroup, usedRatio) \<Rightarrow>
     (case groupRatio g of Some r \<Rightarrow> if cheaper r minRatio then (Some r, g, Some r) else st | None \<Rightarrow> st))"

definition used_group :: "string list \<Rightarrow> string \<Rightarrow> (string \<Rightarrow> rat option) \<Rightarrow> string \<times> rat" where
  "used_group enable_groups selectedGroup groupRatio =
     (case groupRatio selectedGroup of
        Some r \<Rightarrow> if selectedGroup \<noteq> ''all'' then (selectedGroup, r)
          else (case fold (consider_group groupRatio) enable_groups (None, selectedGroup, Some r) of
                  (_, g, u) \<Rightarrow> (g, case u of Some x \<Rightarrow> x | None \<Rightarrow> 1))
      | None \<Rightarrow> (case fold (consider_group groupRatio) enable_groups (None, selectedGroup, None) of
                  (_, g, u) \<Rightarrow> (g, case u of Some x \<Rightarrow> x | None \<Rightarrow> 1)))"

text \<open>\<open>parseFloat\<close>: the longest prefix that is a decimal number.\<close>

definition parseFloat :: "jv \<Rightarrow> jv" where
  "parseFloat v =
     (let s = dropWhile is_ws (to_str v); neg = (s \<noteq> [] \<and> hd s = CHR ''-'');
          s1 = (if s \<noteq> [] \<and> (hd s = CHR ''-'' \<or> hd s = CHR ''+'') then tl s else s);
          a = takeWhile is_digit s1; s2 = dropWhile is_digit s1;
          b = (case s2 of c # r \<Rightarrow> if c = CHR ''.'' then takeWhile is_digit r else [] | [] \<Rightarrow> []);
          s3 = (case s2 of c # r \<Rightarrow> if c = CHR ''.'' then dropWhile is_digit r else s2 | [] \<Rightarrow> []) in
      if a = [] \<and> b = [] then JNaN
      else JNum ((if neg then -1 else 1) * (of_nat (digits_val a) + of_nat (digits_val b) / 10 ^ length b)
             * (case p_exp s3 of Some (e, _) \<Rightarrow> e | None \<Rightarrow> 1)))"

text \<open>\<open>parseInt\<close> without a radix: the longest prefix of digits, hexadecimal ones after \<open>0x\<close>.\<close>

definition parseInt :: "jv \<Rightarrow> jv" where
  "parseInt v =
     (let s = dropWhile is_ws (to_str v); neg = (s \<noteq> [] \<and> hd s = CHR ''-'');
          s1 = (if s \<noteq> [] \<and> (hd s = CHR ''-'' \<or> hd s = CHR ''+'') then tl s else s);
          hex = (starts_with ''0x'' s1 \<or> starts_with ''0X'' s1);
          ds = (if hex then takeWhile (\<lambda>c. hex_val c \<noteq> None) (drop 2 s1) else takeWhile is_digit s1);
          n = (if hex then foldl (\<lambda>m c. 16 * m + (case hex_val c of Some d \<Rightarrow> d | None \<Rightarrow> 0)) 0 ds else digits_val ds) in
      if ds = [] then JNaN else JNum ((if neg then -1 else 1) * of_nat n))"

text \<open>\<open>parseFloat(s.replace(/[^0-9.]/g, ''))\<close> and \<open>toFixed\<close>.\<close>

definition parse_shown :: "string \<Rightarrow> rat option" where
  "parse_shown s =
     (let t = filter (\<lambda>c. is_digit c \<or> c = CHR ''.'') s; a = takeWhile is_digit t; rest = dropWhile is_digit t;
          b = (case rest of c # r \<Rightarrow> takeWhile is_digit r | [] \<Rightarrow> []) in
      if a = [] \<and> b = [] then None else Some (of_nat (digits_val a) + of_nat (digits_val b) / 10 ^ length b))"

definition pad_left :: "nat \<Rightarrow> string \<Rightarrow> string" where
  "pad_left n s = replicate (n - length s) (CHR ''0'') @ s"

definition toFixed :: "nat \<Rightarrow> rat \<Rightarrow> string" where
  "toFixed p x = (let n = nat \<lfloor>x * 10 ^ p + 1 / 2\<rfloor> in
     if p = 0 then nat_digits n else nat_digits (n div 10 ^ p) @ ''.'' @ pad_left p (nat_digits (n mod 10 ^ p)))"

definition currency_symbol :: "string \<Rightarrow> 'x browser_scheme \<Rightarrow> string" where
  "currency_symbol currency s =
     (if currency = ''CNY'' then [char_of (165::nat)]
      else if currency = ''CUSTOM'' then
        (let statusStr = get_item s ''status''; generic = [char_of (164::nat)] in
         if truthy statusStr
         then (case json_parse (to_str statusStr) of
                 Some v \<Rightarrow> to_str (jor (opt_get v ''custom_currency_symbol'') (JStr generic)) | None \<Rightarrow> generic)
         else generic)
      else ''$'')"

datatype price =
    PerToken (inputPrice: string) (completionPrice: string) (unitLabel: string) (usedGroup: string) (usedGroupRatio: rat)
  | PerCall (price_text: string) (usedGroup: string) (usedGroupRatio: rat)

record model_record =
  quota_type :: int
  model_ratio :: rat
  completion_ratio :: rat
  model_price :: rat
  enable_groups :: "string list"

definition shown_number :: "nat \<Rightarrow> rat \<Rightarrow> string \<Rightarrow> string" where
  "shown_number precision divisor s = (case parse_shown s of Some x \<Rightarrow> toFixed precision (x / divisor) | None \<Rightarrow> ''NaN'')"

definition calculateModelPrice ::
  "model_record \<Rightarrow> string \<Rightarrow> (string \<Rightarrow> rat option) \<Rightarrow> string \<Rightarrow> (rat \<Rightarrow> string) \<Rightarrow> string \<Rightarrow> nat \<Rightarrow> 'x browser_scheme \<Rightarrow> price" where
  "calculateModelPrice m selectedGroup groupRatio tokenUnit displayPrice currency precision s =
     (let (g, ratio) = used_group (enable_groups m) selectedGroup groupRatio in
      if quota_type m = 0 then
        (let divisor = (if tokenUnit = ''K'' then 1000 else 1); symbol = currency_symbol currency s in
         PerToken (symbol @ shown_number precision divisor (displayPrice (model_ratio m * 2 * ratio)))
                  (symbol @ shown_number precision divisor (displayPrice (model_ratio m * completion_ratio m * 2 * ratio)))
                  (if tokenUnit = ''K'' then ''K'' else ''M'') g ratio)
      else if quota_type m = 1 then PerCall (displayPrice (model_price m * ratio)) g ratio
      else PerCall ''-'' g ratio)"

section \<open>Pages\<close>

text \<open>The range that \<open>createCardProPagination\<close> announces; nothing is shown without rows.\<close>

definition page_range :: "int \<Rightarrow> int \<Rightarrow> int \<Rightarrow> (int \<times> int) option" where
  "page_range page pageSize rows =
     (if rows \<le> 0 then None else Some ((page - 1) * pageSize + 1, min (page * pageSize) rows))"

record pricing_filters =
  search :: string
  showWithRecharge :: bool
  pf_currency :: string
  showRatio :: bool
  viewMode :: string
  tokenUnit :: string
  filterGroup :: string
  filterQuotaType :: string
  filterEndpointType :: string
  filterVendor :: string
  filterTag :: string
  currentPage :: int

definition DEFAULT_PRICING_FILTERS :: pricing_filters where
  "DEFAULT_PRICING_FILTERS = \<lparr>search = [], showWithRecharge = False, pf_currency = ''USD'', showRatio = False,
     viewMode = ''card'', tokenUnit = ''M'', filterGroup = ''all'', filterQuotaType = ''all'', filterEndpointType = ''all'',
     filterVendor = ''all'', filterTag = ''all'', currentPage = 1\<rparr>"

text \<open>With all setters given.\<close>

definition resetPricingFilters :: "pricing_filters \<Rightarrow> pricing_filters" where
  "resetPricingFilters f = f\<lparr>search := search DEFAULT_PRICING_FILTERS, showWithRecharge := showWithRecharge DEFAULT_PRICING_FILTERS,
     pf_currency := pf_currency DEFAULT_PRICING_FILTERS, showRatio := showRatio DEFAULT_PRICING_FILTERS,
     viewMode := viewMode DEFAULT_PRICING_FILTERS, tokenUnit := tokenUnit DEFAULT_PRICING_FILTERS,
     filterGroup := filterGroup DEFAULT_PRICING_FILTERS, filterQuotaType := filterQuotaType DEFAULT_PRICING_FILTERS,
     filterEndpointType := filterEndpointType DEFAULT_PRICING_FILTERS, filterVendor := filterVendor DEFAULT_PRICING_FILTERS,
     filterTag := filterTag DEFAULT_PRICING_FILTERS, currentPage := currentPage DEFAULT_PRICING_FILTERS\<rparr>"

section \<open>Properties\<close>

lemma consider_fold:
  assumes "fold (consider_group f) gs (m, g, u) = (m', g', u')" and "\<forall>x. m = Some x \<longrightarrow> f g = Some x \<and> u = Some x"
  shows "(\<forall>x. m' = Some x \<longrightarrow> f g' = Some x \<and> u' = Some x)
    \<and> (\<forall>h \<in> set gs. \<forall>r. f h = Some r \<longrightarrow> (\<exists>x. m' = Some x \<and> x \<le> r))
    \<and> (\<forall>x. m = Some x \<longrightarrow> (\<exists>y. m' = Some y \<and> y \<le> x))
    \<and> (m' = None \<longrightarrow> u' = u \<and> g' = g)
    \<and> (g' = g \<or> g' \<in> set gs)"
  using assms
proof (induction gs arbitrary: m g u)
  case Nil
  then show ?case by auto
next
  case (Cons h gs)
  show ?case
  proof (cases "f h")
    case None
    then show ?thesis using Cons.IH[of m g u] Cons.prems by (auto simp: consider_group_def)
  next
    case (Some r)
    show ?thesis
    proof (cases "cheaper r m")
      case True
      then have "consider_group f h (m, g, u) = (Some r, h, Some r)" using Some by (simp add: consider_group_def)
      then have "fold (consider_group f) gs (Some r, h, Some r) = (m', g', u')" using Cons.prems(1) by simp
      from Cons.IH[OF this] Some True show ?thesis
        by (auto simp: cheaper_def split: option.splits)
    next
      case False
      then obtain x where x: "m = Some x" "x \<le> r" by (auto simp: cheaper_def split: option.splits)
      have "consider_group f h (m, g, u) = (m, g, u)" using Some False by (simp add: consider_group_def)
      then have "fold (consider_group f) gs (m, g, u) = (m', g', u')" using Cons.prems(1) by simp
      from Cons.IH[OF this Cons.prems(2)] Some x show ?thesis
        by (auto intro: order.trans)
    qed
  qed
qed

text \<open>For all groups together the price uses the cheapest ratio among the model's groups: the group named is one of
  them and carries that ratio, and no group of the model has a smaller one.\<close>

lemma cheapest_group_used:
  assumes "groupRatio ''all'' = None" and "h \<in> set gs" and "groupRatio h = Some r"
    and "used_group gs ''all'' groupRatio = (g, u)"
  shows "g \<in> set gs \<and> groupRatio g = Some u \<and> (\<forall>k \<in> set gs. \<forall>x. groupRatio k = Some x \<longrightarrow> u \<le> x)"
proof -
  obtain m' g' u' where f: "fold (consider_group groupRatio) gs (None, ''all'', None) = (m', g', u')" by (metis prod_cases3)
  note i = consider_fold[OF f]
  from i assms(2,3) obtain x where x: "m' = Some x" "groupRatio g' = Some x" "u' = Some x" by fastforce
  then have gu: "g = g'" "u = x" using assms(1,4) f by (auto simp: used_group_def)
  have "g' \<in> set gs" using i x(2) assms(1) by auto
  then show ?thesis using i x gu by fastforce
qed

lemma cheapest_group_used_example:
  "used_group [''vip'', ''default''] ''all'' [''vip'' \<mapsto> (1::rat), ''default'' \<mapsto> 2] = (''vip'', 1)"
proof -
  let ?f = "[''vip'' \<mapsto> (1::rat), ''default'' \<mapsto> 2]"
  obtain g u where gu: "used_group [''vip'', ''default''] ''all'' ?f = (g, u)" by (cases "used_group [''vip'', ''default''] ''all'' ?f")
  from cheapest_group_used[OF _ _ _ gu, of "''vip''" "1"]
  have k: "g \<in> {''vip'', ''default''}" "?f g = Some u" "u \<le> 1" by (simp_all add: gu)
  then have "g = ''vip''" "u = 1" by (auto split: if_splits)
  then show ?thesis using gu by simp
qed

text \<open>The relative times skip a beat: what was published 28 or 29 days ago is announced as 0 months ago.\<close>

lemma four_weeks_are_zero_months:
  assumes "28 * 86400000 \<le> now - pub" and "now - pub < 30 * 86400000" and "publishDate \<noteq> []"
  shows "getRelativeTime tz now publishDate (Some pub) = ''0 months ago''"
proof -
  define d where "d = now - pub"
  define S where "S = d div 1000"
  define M where "M = S div 60"
  define H where "H = M div 60"
  define D where "D = H div 24"
  define W where "W = D div 7"
  define Mo where "Mo = D div 30"
  have S: "2419200 \<le> S" "S < 2592000" using assms(1,2) by (simp_all add: S_def d_def)
  have M: "40320 \<le> M" "M < 43200" using S by (simp_all add: M_def)
  have H: "672 \<le> H" "H < 720" using M by (simp_all add: H_def)
  have D: "28 \<le> D" "D < 30" using H by (simp_all add: D_def)
  have W: "4 \<le> W" and Mo: "Mo = 0" using D by (simp_all add: W_def Mo_def)
  have d: "0 \<le> d" using assms(1) by (simp add: d_def)
  have z: "int_str 0 = ''0''" by (simp add: int_str_def nat_digits_0)
  have c: "\<not> d < 0" "\<not> S < 60" "\<not> M < 60" "\<not> H < 24" "\<not> D < 7" "\<not> W < 4" "Mo < 12" using S M H D W Mo d by simp_all
  show ?thesis
    unfolding getRelativeTime_def Let_def option.case d_def[symmetric] S_def[symmetric] M_def[symmetric] H_def[symmetric]
      D_def[symmetric] W_def[symmetric] Mo_def[symmetric]
    using assms(3) c by (simp add: Mo z)
qed

lemma four_weeks_are_zero_months_example:
  "getRelativeTime (\<lambda>_. 0) (29 * 86400000) ''1970-01-01'' (Some 0) = ''0 months ago''"
  by (rule four_weeks_are_zero_months) simp_all

end
