(* ===== verification/Json_Pretty.thy ===== *)
theory Json_Pretty
  imports Json
begin

text \<open>
  \<open>JSON.stringify(v, null, 2)\<close>, the indented text that the settings pages and the key-value editor show, and
  its round trip: the parser's white space is what the printer adds.
\<close>

definition nl :: "nat \<Rightarrow> string" where
  "nl n = CHR 0x0A # replicate n CHR '' ''"

text \<open>The text of a list of parts at indentation \<open>n\<close>, between two brackets.\<close>

definition bracketed :: "nat \<Rightarrow> char \<Rightarrow> string list \<Rightarrow> char \<Rightarrow> string" where
  "bracketed n a parts b =
     (if parts = [] then [a, b] else a # nl (n + 2) @ join_with ('','' @ nl (n + 2)) parts @ nl n @ [b])"

fun pretty :: "nat \<Rightarrow> jv \<Rightarrow> string" and pretty_elems :: "nat \<Rightarrow> jv list \<Rightarrow> string list"
  and pretty_members :: "nat \<Rightarrow> (string \<times> jv) list \<Rightarrow> string list" where
  "pretty n JUndef = ''null''"
| "pretty n JNull = ''null''"
| "pretty n (JBool b) = (if b then ''true'' else ''false'')"
| "pretty n (JNum r) = num_str r"
| "pretty n JNaN = ''null''"
| "pretty n (JStr s) = json_quote s"
| "pretty n (JArr vs) = bracketed n CHR ''['' (pretty_elems (n + 2) vs) CHR '']''"
| "pretty n (JObj ms) = bracketed n CHR ''{'' (pretty_members (n + 2) ms) CHR ''}''"
| "pretty n (JBuf _) = ''{}''"
| "pretty_elems n [] = []"
| "pretty_elems n (v # vs) = pretty n v # pretty_elems n vs"
| "pretty_members n [] = []"
| "pretty_members n ((k, v) # ms) =
     (if v = JUndef then pretty_members n ms else (json_quote k @ '': '' @ pretty n v) # pretty_members n ms)"

definition json_pretty :: "jv \<Rightarrow> jv" where
  "json_pretty v = (if v = JUndef then JUndef else JStr (pretty 0 v))"

section \<open>Round trip\<close>

lemma nl_ws: "list_all json_ws (nl n)"
  by (simp add: nl_def json_ws_def list_all_iff)

lemma skip_ws_append: "list_all json_ws w \<Longrightarrow> skip_ws (w @ s) = skip_ws s"
  by (induction w) (auto simp: skip_ws_def)

lemma skip_ws_nl [simp]: "skip_ws (nl n @ s) = skip_ws s"
  by (rule skip_ws_append[OF nl_ws])

lemma p_value_nl [simp]: "p_value f (nl n @ s) = p_value f s"
  by (cases f) simp_all

lemma p_value_blank [simp]: "p_value f (CHR '' '' # s) = p_value f s"
  by (cases f) (simp_all add: skip_ws_def json_ws_def)

lemma p_elems_nl [simp]: "p_elems f (nl n @ s) = p_elems f s"
  by (cases f) simp_all

lemma p_members_nl [simp]: "p_members f (nl n @ s) acc = p_members f s acc"
  by (cases f) simp_all

lemma num_stop_nl: "num_stop (nl n @ s)"
  by (simp add: nl_def num_stop_def is_digit_def)

lemma p_elems_more:
  assumes "p_value f x = Some (v, u)" and "skip_ws u = c # r" and "c = CHR '','' \<or> c = CHR '']''"
  shows "p_elems (Suc f) x =
    (if c = CHR '','' then map_option (\<lambda>(vs, r'). (v # vs, r')) (p_elems f r) else Some ([v], r))"
  using assms by auto

lemma p_members_more:
  assumes "p_value f t = Some (v, u)" and "skip_ws u = c # r" and "c = CHR '','' \<or> c = CHR ''}''"
  shows "p_members (Suc f) (json_quote k @ '': '' @ t) acc =
    (if c = CHR '','' then p_members f r (AList.update k v acc) else Some (AList.update k v acc, r))"
proof -
  have "p_chars (concat (List.map esc_char k) @ CHR 0x22 # (CHR '':'' # CHR '' '' # t)) = Some (k, CHR '':'' # CHR '' '' # t)"
    by (rule p_chars_quote)
  then show ?thesis using assms by (auto simp: json_quote_def skip_ws_Cons)
qed

lemma pretty_head: "json_ok v \<Longrightarrow> plain_head (pretty n v)"
  using js_text_head[of v] by (cases v) (auto simp: plain_head_def json_ws_def json_quote_def bracketed_def)

lemma pretty_length: "json_ok v \<Longrightarrow> 0 < length (pretty n v)"
  using pretty_head[of v n] by (auto simp: plain_head_def)

lemma json_ok_defined: "json_ok v \<Longrightarrow> v \<noteq> JUndef"
  by auto

lemma p_value_pretty:
  "json_ok v \<Longrightarrow> length (pretty n v) < f \<Longrightarrow> num_stop r \<Longrightarrow> p_value f (pretty n v @ r) = Some (v, r)"
  and "\<forall>v \<in> set vs. json_ok v \<Longrightarrow> vs \<noteq> [] \<Longrightarrow> length (join_with ('','' @ nl n) (pretty_elems n vs)) + 1 < f \<Longrightarrow>
    p_elems f (join_with ('','' @ nl n) (pretty_elems n vs) @ nl j @ CHR '']'' # r) = Some (vs, r)"
  and "\<forall>m \<in> set ms. json_ok (snd m) \<Longrightarrow> ms \<noteq> [] \<Longrightarrow> length (join_with ('','' @ nl n) (pretty_members n ms)) + 1 < f \<Longrightarrow>
    distinct (List.map fst (acc @ ms)) \<Longrightarrow>
    p_members f (join_with ('','' @ nl n) (pretty_members n ms) @ nl j @ CHR ''}'' # r) acc = Some (acc @ ms, r)"
proof (induction n v and n vs and n ms arbitrary: f r and f r j and f r acc j rule: pretty_pretty_elems_pretty_members.induct)
  case (4 n q)
  then show ?case using p_value_json_text(1)[of "JNum q" f r] by simp
next
  case (6 n s)
  then show ?case using p_value_json_text(1)[of "JStr s" f r] by simp
next
  case (2 n)
  then show ?case using p_value_json_text(1)[of JNull f r] by simp
next
  case (3 n b)
  then show ?case using p_value_json_text(1)[of "JBool b" f r] by (cases b) simp_all
next
  case (7 n vs)
  then obtain g where f: "f = Suc g" by (cases f) auto
  show ?case
  proof (cases vs)
    case Nil
    then show ?thesis by (simp add: f bracketed_def skip_ws_Cons)
  next
    case (Cons w ws)
    let ?b = "join_with ('','' @ nl (n + 2)) (pretty_elems (n + 2) vs)"
    have h: "plain_head ?b"
      using 7 pretty_head[of w "n + 2"] Cons by (cases "pretty_elems (n + 2) ws") (auto simp: plain_head_def hd_append)
    have "p_elems g (?b @ nl n @ CHR '']'' # r) = Some (vs, r)"
      using 7 f Cons by (intro "7.IH") (auto simp: bracketed_def)
    then show ?thesis using f h Cons skip_ws_plain[OF h, of "nl n @ CHR '']'' # r"]
      by (auto simp: bracketed_def skip_ws_Cons plain_head_def hd_append)
  qed
next
  case (8 n ms)
  then obtain g where f: "f = Suc g" by (cases f) auto
  show ?case
  proof (cases ms)
    case Nil
    then show ?thesis by (simp add: f bracketed_def skip_ws_Cons)
  next
    case (Cons m ms')
    let ?b = "join_with ('','' @ nl (n + 2)) (pretty_members (n + 2) ms)"
    have ne: "pretty_members (n + 2) ms \<noteq> []" using 8 Cons by (cases m) auto
    have h: "\<exists>t. ?b = CHR 0x22 # t"
      using 8 Cons by (cases m; cases "pretty_members (n + 2) ms'") (auto simp: json_quote_def)
    have "p_members g (?b @ nl n @ CHR ''}'' # r) [] = Some ([] @ ms, r)"
      using 8 f Cons ne by (intro "8.IH") (auto simp: bracketed_def)
    then show ?thesis using f h ne by (auto simp: bracketed_def skip_ws_Cons)
  qed
next
  case (11 n v vs)
  then obtain g where f: "f = Suc g" by (cases f) auto
  have ok: "json_ok v" using 11 by simp
  show ?case
  proof (cases vs)
    case Nil
    have "p_value g (pretty n v @ nl j @ CHR '']'' # r) = Some (v, nl j @ CHR '']'' # r)"
      using 11 f Nil by (intro "11.IH"(1)) (auto simp: num_stop_nl)
    from p_elems_more[OF this, of "CHR '']''" r] show ?thesis using Nil f by (simp add: skip_ws_Cons)
  next
    case (Cons w ws)
    let ?t = "join_with ('','' @ nl n) (pretty_elems n vs) @ nl j @ CHR '']'' # r"
    have e: "join_with ('','' @ nl n) (pretty_elems n (v # vs)) @ nl j @ CHR '']'' # r = pretty n v @ CHR '','' # nl n @ ?t"
      using Cons by simp
    have len: "length (join_with ('','' @ nl n) (pretty_elems n (v # vs)))
      = length (pretty n v) + 1 + length (nl n) + length (join_with ('','' @ nl n) (pretty_elems n vs))"
      using Cons by simp
    have "p_value g (pretty n v @ CHR '','' # nl n @ ?t) = Some (v, CHR '','' # nl n @ ?t)"
      using 11 f len by (intro "11.IH"(1)) (auto simp: num_stop_def is_digit_def)
    moreover have "p_elems g ?t = Some (vs, r)"
      using 11 f len Cons pretty_length[OF ok, of n] by (intro "11.IH"(2)) auto
    ultimately show ?thesis unfolding e f
      using p_elems_more[of g "pretty n v @ CHR '','' # nl n @ ?t" v "CHR '','' # nl n @ ?t" "CHR '',''" "nl n @ ?t"]
      by (simp add: skip_ws_Cons)
  qed
next
  case (13 n k v ms)
  then obtain g where f: "f = Suc g" by (cases f) auto
  have ok: "json_ok v" and vu: "v \<noteq> JUndef" using 13 by auto
  have up: "AList.update k v acc = acc @ [(k, v)]" using 13 by (intro update_new) auto
  show ?case
  proof (cases ms)
    case Nil
    have "p_value g (pretty n v @ nl j @ CHR ''}'' # r) = Some (v, nl j @ CHR ''}'' # r)"
      using 13 f vu Nil by (intro "13.IH") (auto simp: json_quote_def num_stop_nl)
    from p_members_more[OF this, of "CHR ''}''" r k acc] show ?thesis using Nil f up vu by (simp add: skip_ws_Cons)
  next
    case (Cons m ms')
    let ?t = "join_with ('','' @ nl n) (pretty_members n ms) @ nl j @ CHR ''}'' # r"
    have ne: "\<exists>y ys. pretty_members n ms = y # ys" using 13 Cons by (cases m) auto
    have e: "join_with ('','' @ nl n) (pretty_members n ((k, v) # ms)) @ nl j @ CHR ''}'' # r
        = json_quote k @ '': '' @ pretty n v @ CHR '','' # nl n @ ?t"
      using ne vu by auto
    have len: "length (join_with ('','' @ nl n) (pretty_members n ((k, v) # ms)))
      = length (json_quote k) + 2 + length (pretty n v) + 1 + length (nl n) + length (join_with ('','' @ nl n) (pretty_members n ms))"
      using ne vu by auto
    have "p_value g (pretty n v @ CHR '','' # nl n @ ?t) = Some (v, CHR '','' # nl n @ ?t)"
      using 13 f len vu by (intro "13.IH") (auto simp: num_stop_def is_digit_def)
    moreover have "p_members g ?t (acc @ [(k, v)]) = Some ((acc @ [(k, v)]) @ ms, r)"
      using 13 f len Cons vu by (intro "13.IH") auto
    ultimately show ?thesis unfolding e f
      using p_members_more[of g "pretty n v @ CHR '','' # nl n @ ?t" v "CHR '','' # nl n @ ?t" "CHR '',''" "nl n @ ?t" k acc] up
      by (simp add: skip_ws_Cons)
  qed
qed simp_all

text \<open>The indented text parses back, as the compact one does.\<close>

lemma pretty_roundtrip: "json_ok v \<Longrightarrow> json_parse (pretty 0 v) = Some v"
  using p_value_pretty(1)[of v 0 "Suc (length (pretty 0 v))" "[]"]
  by (simp add: json_parse_def skip_ws_def num_stop_def)

interpretation pretty: codec "pretty 0" json_parse json_ok
  by unfold_locales (rule pretty_roundtrip)

end
