(* ===== verification/Options.thy ===== *)
theory Options
  imports Format Login
begin

text \<open>
  The option pages of the administrator's settings: the containers that read every option of the backend
  (\<open>components/settings/OperationSetting.jsx\<close>, \<open>DrawingSetting.jsx\<close>, \<open>ChatsSetting.jsx\<close>, \<open>DashboardSetting.jsx\<close>) and the forms
  inside them that post the options the administrator changed (\<open>pages/Setting/Operation\<close>, \<open>Drawing\<close>, \<open>Dashboard\<close>).
  A form and its container are one state: the container's fields are the form's \<open>props.options\<close>.
\<close>

section \<open>Requests sent together\<close>

definition api_put :: "env \<Rightarrow> string \<Rightarrow> jv \<Rightarrow> ('x browser_scheme, jv) act" where
  [act_simps]: "api_put env url body = api_call env False (Http PUT url body)"

text \<open>
  \<open>Promise.all\<close> over a list of calls: every request is on the wire before an answer is looked at; the answers are
  handled in the order of the requests, each by the interceptor, and the first rejection is the result. A
  value is the axios response, an object with member \<open>data\<close>.
\<close>

fun send_all :: "env \<Rightarrow> request list \<Rightarrow> ('x browser_scheme, reply list) act" where
  "send_all env [] = ret []"
| "send_all env (r # rs) = bnd (gets (\<lambda>s. (api s, env (trace s) r))) (\<lambda>(inst, rep).
     sq (emit (Requested (hdr_user inst) r)) (bnd (send_all env rs) (\<lambda>reps. ret (rep # reps))))"

definition settle_reply :: "reply \<Rightarrow> ('x browser_scheme, jv + jv) act" where
  "settle_reply rep = (case rep of
       Ok d \<Rightarrow> ret (Inr (JObj [(''data'', d)]))
     | Rejected e \<Rightarrow> bnd (gets api) (\<lambda>inst.
         if intercepts inst then try_catch (bnd (on_rejected False e) (\<lambda>x. ret (Inr x))) (\<lambda>e'. ret (Inl e'))
         else ret (Inl e)))"

fun first_rejection :: "(jv + jv) list \<Rightarrow> jv option" where
  "first_rejection [] = None"
| "first_rejection (Inl e # rs) = Some e"
| "first_rejection (Inr x # rs) = first_rejection rs"

fun fulfilled :: "(jv + jv) list \<Rightarrow> jv list" where
  "fulfilled [] = []"
| "fulfilled (Inl e # rs) = fulfilled rs"
| "fulfilled (Inr x # rs) = x # fulfilled rs"

definition promise_all :: "env \<Rightarrow> request list \<Rightarrow> ('x browser_scheme, jv list) act" where
  "promise_all env rs = bnd (send_all env rs) (\<lambda>reps. bnd (map_each settle_reply reps) (\<lambda>res.
     case first_rejection res of Some e \<Rightarrow> throw e | None \<Rightarrow> ret (fulfilled res)))"

section \<open>The containers\<close>

definition toBoolean :: "jv \<Rightarrow> bool" where
  "toBoolean v = (case v of JBool b \<Rightarrow> b | JNum n \<Rightarrow> n = 1
     | JStr s \<Rightarrow> to_lower s = ''true'' \<or> to_lower s = ''1'' | _ \<Rightarrow> False)"

record option_page = browser +
  page_inputs :: jv
  page_loading :: bool

text \<open>\<open>data.forEach\<close> filling a fresh object; \<open>item_key\<close> is a key on which string methods are called.\<close>

fun fold_items :: "(jv \<Rightarrow> jv \<Rightarrow> ('s, jv) act) \<Rightarrow> jv list \<Rightarrow> jv \<Rightarrow> ('s, jv) act" where
  "fold_items f [] acc = ret acc"
| "fold_items f (item # items) acc = bnd (f acc item) (fold_items f items)"

definition for_items :: "jv \<Rightarrow> (jv \<Rightarrow> jv \<Rightarrow> ('s, jv) act) \<Rightarrow> ('s, jv) act" where
  "for_items data f = (case data of JArr items \<Rightarrow> fold_items f items (JObj []) | _ \<Rightarrow> throw type_error)"

definition item_key :: "jv \<Rightarrow> ('s, string) act" where
  "item_key item = bnd (prop_get item ''key'') (\<lambda>k. case k of JStr s \<Rightarrow> ret s | _ \<Rightarrow> throw type_error)"

definition operation_item :: "jv \<Rightarrow> jv \<Rightarrow> jv \<Rightarrow> ('s, jv) act" where
  "operation_item inp acc item = bnd (prop_get item ''key'') (\<lambda>k.
     ret (obj_set acc (to_str k)
       (if type_of (opt_get inp (to_str k)) = ''boolean'' then JBool (toBoolean (opt_get item ''value''))
        else opt_get item ''value'')))"

definition drawing_item :: "jv \<Rightarrow> jv \<Rightarrow> jv \<Rightarrow> ('s, jv) act" where
  "drawing_item inp acc item = bnd (item_key item) (\<lambda>k.
     ret (obj_set acc k (if ends_with ''Enabled'' k then JBool (toBoolean (opt_get item ''value'')) else opt_get item ''value'')))"

definition chats_item :: "jv \<Rightarrow> jv \<Rightarrow> jv \<Rightarrow> ('s, jv) act" where
  "chats_item inp acc item = bnd (item_key item) (\<lambda>k.
     ret (obj_set acc k (if ends_with ''Enabled'' k \<or> k = ''DefaultCollapseSidebar''
        then JBool (toBoolean (opt_get item ''value'')) else opt_get item ''value'')))"

definition dashboard_item :: "jv \<Rightarrow> jv \<Rightarrow> jv \<Rightarrow> ('s, jv) act" where
  "dashboard_item inp acc item = bnd (item_key item) (\<lambda>k.
     let acc1 = (if k \<in> set (obj_keys inp) then obj_set acc k (opt_get item ''value'') else acc) in
     ret (if ends_with ''Enabled'' k \<and> k = ''DataExportEnabled''
          then obj_set acc1 k (JBool (toBoolean (opt_get item ''value''))) else acc1))"

definition getOptions :: "(jv \<Rightarrow> jv \<Rightarrow> jv \<Rightarrow> ('x option_page_scheme, jv) act) \<Rightarrow> env \<Rightarrow> ('x option_page_scheme, unit) act" where
  "getOptions add_item env = bnd (gets page_inputs) (\<lambda>inp.
     bnd (bnd (api_get env ''/api/option/'' JUndef) destruct) (\<lambda>(success, message, data).
       if truthy success
       then bnd (for_items data (add_item inp)) (\<lambda>newInputs. modify (\<lambda>s. s\<lparr>page_inputs := newInputs\<rparr>))
       else showError message))"

definition onRefresh :: "(jv \<Rightarrow> jv \<Rightarrow> jv \<Rightarrow> ('x option_page_scheme, jv) act) \<Rightarrow> env \<Rightarrow> ('x option_page_scheme, unit) act" where
  "onRefresh add_item env = try_finally
     (try_catch (sq (modify (\<lambda>s. s\<lparr>page_loading := True\<rparr>)) (getOptions add_item env))
        (\<lambda>_. showErr ''refresh failed''))
     (modify (\<lambda>s. s\<lparr>page_loading := False\<rparr>))"

definition operation_getOptions :: "env \<Rightarrow> ('x option_page_scheme, unit) act" where
  "operation_getOptions env = getOptions operation_item env"
definition operation_onRefresh :: "env \<Rightarrow> ('x option_page_scheme, unit) act" where
  "operation_onRefresh env = onRefresh operation_item env"
definition drawing_getOptions :: "env \<Rightarrow> ('x option_page_scheme, unit) act" where
  "drawing_getOptions env = getOptions drawing_item env"
definition drawing_onRefresh :: "env \<Rightarrow> ('x option_page_scheme, unit) act" where
  "drawing_onRefresh env = onRefresh drawing_item env"
definition chats_getOptions :: "env \<Rightarrow> ('x option_page_scheme, unit) act" where
  "chats_getOptions env = getOptions chats_item env"
definition chats_onRefresh :: "env \<Rightarrow> ('x option_page_scheme, unit) act" where
  "chats_onRefresh env = onRefresh chats_item env"
definition dashboard_getOptions :: "env \<Rightarrow> ('x option_page_scheme, unit) act" where
  "dashboard_getOptions env = getOptions dashboard_item env"
definition dashboard_onRefresh :: "env \<Rightarrow> ('x option_page_scheme, unit) act" where
  "dashboard_onRefresh env = onRefresh dashboard_item env"

text \<open>The fields \<open>OperationSetting\<close> starts with.\<close>

definition operation_defaults :: jv where
  "operation_defaults = JObj
    [(''QuotaForNewUser'', JNum 0), (''PreConsumedQuota'', JNum 0), (''QuotaForInviter'', JNum 0), (''QuotaForInvitee'', JNum 0),
     (''quota_setting.enable_free_model_pre_consume'', JBool True), (''TopUpLink'', JStr []),
     (''general_setting.docs_link'', JStr []), (''QuotaPerUnit'', JNum 0), (''USDExchangeRate'', JNum 0), (''RetryTimes'', JNum 0),
     (''general_setting.quota_display_type'', JStr ''USD''), (''DisplayTokenStatEnabled'', JBool False),
     (''DefaultCollapseSidebar'', JBool False), (''DemoSiteEnabled'', JBool False), (''SelfUseModeEnabled'', JBool False),
     (''HeaderNavModules'', JStr []), (''SidebarModulesAdmin'', JStr []), (''CheckSensitiveEnabled'', JBool False),
     (''CheckSensitiveOnPromptEnabled'', JBool False), (''SensitiveWords'', JStr []), (''LogConsumeEnabled'', JBool False),
     (''ChannelDisableThreshold'', JNum 0), (''QuotaRemindThreshold'', JNum 0), (''AutomaticDisableChannelEnabled'', JBool False),
     (''AutomaticEnableChannelEnabled'', JBool False), (''AutomaticDisableKeywords'', JStr []),
     (''monitor_setting.auto_test_channel_enabled'', JBool False), (''monitor_setting.auto_test_channel_minutes'', JNum 10)]"

text \<open>The migration of old keys on the dashboard page.\<close>

record dashboard_page = option_page +
  showMigrateModal :: bool

definition hasLegacyData :: "jv \<Rightarrow> bool" where
  "hasLegacyData inp = list_ex (\<lambda>k. truthy (opt_get inp k)) [''ApiInfo'', ''Announcements'', ''FAQ'', ''UptimeKumaUrl'', ''UptimeKumaSlug'']"

definition legacy_effect :: "dashboard_page \<Rightarrow> dashboard_page" where
  "legacy_effect s = (if hasLegacyData (page_inputs s) then s\<lparr>showMigrateModal := True\<rparr> else s)"

definition handleMigrate :: "env \<Rightarrow> (dashboard_page, unit) act" where
  "handleMigrate env = try_finally
     (try_catch
       (sq (modify (\<lambda>s. s\<lparr>page_loading := True\<rparr>))
       (bnd (api_post env ''/api/option/migrate_console_setting'' JUndef) (\<lambda>_.
        sq (showSuccess (JStr ''old configuration migrated''))
       (sq (dashboard_onRefresh env)
           (modify (\<lambda>s. s\<lparr>showMigrateModal := False\<rparr>))))))
       (\<lambda>err. bnd (prop_get err ''message'') (\<lambda>m. showErr (''migration failed: '' @ to_str (jor m (JStr ''unknown error''))))))
     (modify (\<lambda>s. s\<lparr>page_loading := False\<rparr>))"

section \<open>The forms\<close>

text \<open>
  A form holds its edited options (\<open>inputs\<close>) and a copy of them as loaded (\<open>inputsRow\<close>). \<open>refreshes\<close> is the
  container's \<open>onRefresh\<close>, which the form starts without waiting for it.
\<close>

record option_form = option_page +
  form_inputs :: jv
  inputsRow :: jv
  form_loading :: bool

type_synonym 'x form_act = "('x option_form_scheme, unit) act"

definition sent_value :: "jv \<Rightarrow> jv" where
  "sent_value v = (if type_of v = ''boolean'' then JStr (to_str v) else v)"

definition option_body :: "string \<Rightarrow> jv \<Rightarrow> jv" where
  "option_body k v = JObj [(''key'', JStr k), (''value'', v)]"

definition option_requests :: "jv \<Rightarrow> string list \<Rightarrow> request list" where
  "option_requests inp ks = List.map (\<lambda>k. Http PUT ''/api/option/'' (option_body k (sent_value (opt_get inp k)))) ks"

definition changed_keys :: "jv \<Rightarrow> jv \<Rightarrow> string list" where
  "changed_keys inp row = List.map fst (compareObjects inp row)"

definition saved_answer :: "nat \<Rightarrow> 'x form_act \<Rightarrow> jv list \<Rightarrow> 'x form_act" where
  "saved_answer n refreshes res =
     (if n = 1 \<and> JUndef \<in> set res then ret ()
      else if n > 1 \<and> JUndef \<in> set res then showErr ''some options were not saved, please retry''
      else sq (showSuccess (JStr ''saved'')) (detach refreshes))"

definition submit_changed :: "env \<Rightarrow> 'x form_act \<Rightarrow> jv \<Rightarrow> string list \<Rightarrow> 'x form_act" where
  "submit_changed env refreshes inp ks =
     (if ks = [] then showWarning (JStr ''you do not seem to have changed anything'')
      else sq (modify (\<lambda>s. s\<lparr>form_loading := True\<rparr>))
        (try_finally
          (try_catch (bnd (promise_all env (option_requests inp ks)) (saved_answer (length ks) refreshes))
             (\<lambda>_. showErr ''saving failed, please retry''))
          (modify (\<lambda>s. s\<lparr>form_loading := False\<rparr>))))"

definition form_submit :: "env \<Rightarrow> 'x form_act \<Rightarrow> 'x form_act" where
  "form_submit env refreshes = bnd (gets (\<lambda>s. (form_inputs s, inputsRow s))) (\<lambda>(inp, row).
     submit_changed env refreshes inp (changed_keys inp row))"

text \<open>The effect on \<open>props.options\<close>: the form takes the options it knows, in the order of the container's.\<close>

definition current_inputs :: "jv \<Rightarrow> jv \<Rightarrow> jv" where
  "current_inputs options inp = JObj (filter (\<lambda>m. fst m \<in> set (obj_keys inp)) (members options))"

definition load_form :: "'x option_form_scheme \<Rightarrow> 'x option_form_scheme" where
  "load_form s = (let c = current_inputs (page_inputs s) (form_inputs s) in s\<lparr>form_inputs := c, inputsRow := c\<rparr>)"

definition handleFieldChange :: "string \<Rightarrow> jv \<Rightarrow> 'x option_form_scheme \<Rightarrow> 'x option_form_scheme" where
  "handleFieldChange k v s = s\<lparr>form_inputs := obj_set (form_inputs s) k v\<rparr>"

subsection \<open>The seven forms\<close>

definition monitoring_submit :: "env \<Rightarrow> 'x form_act" where
  "monitoring_submit env = form_submit env (operation_onRefresh env)"
definition monitoring_effect :: "'x option_form_scheme \<Rightarrow> 'x option_form_scheme" where
  "monitoring_effect = load_form"

definition sensitive_submit :: "env \<Rightarrow> 'x form_act" where
  "sensitive_submit env = form_submit env (operation_onRefresh env)"
definition sensitive_effect :: "'x option_form_scheme \<Rightarrow> 'x option_form_scheme" where
  "sensitive_effect = load_form"

definition credit_submit :: "env \<Rightarrow> 'x form_act" where
  "credit_submit env = form_submit env (operation_onRefresh env)"
definition credit_effect :: "'x option_form_scheme \<Rightarrow> 'x option_form_scheme" where
  "credit_effect = load_form"

text \<open>The log form never posts its date; its effect keeps the date and the fields the options lack.\<close>

definition log_submit :: "env \<Rightarrow> 'x form_act" where
  "log_submit env = bnd (gets (\<lambda>s. (form_inputs s, inputsRow s))) (\<lambda>(inp, row).
     submit_changed env (operation_onRefresh env) inp (filter (\<lambda>k. k \<noteq> ''historyTimestamp'') (changed_keys inp row)))"

definition log_effect :: "'x option_form_scheme \<Rightarrow> 'x option_form_scheme" where
  "log_effect s = (let c = obj_set (current_inputs (page_inputs s) (form_inputs s)) ''historyTimestamp''
                              (opt_get (form_inputs s) ''historyTimestamp'') in
     s\<lparr>form_inputs := obj_spread (form_inputs s) (members c), inputsRow := c\<rparr>)"

text \<open>
  Cleaning the log: the dialogue is shown only with a date, and \<open>onOk\<close> is its confirmation; \<open>seconds\<close> is the date in
  seconds as it is printed into the URL.
\<close>

record log_form = option_form +
  loadingCleanHistoryLog :: bool

definition onCleanHistoryLog :: "(log_form, unit) act" where
  "onCleanHistoryLog = bnd (gets form_inputs) (\<lambda>inp.
     if \<not> truthy (opt_get inp ''historyTimestamp'') then showErr ''please choose the time of the log records''
     else emit (Dialog ''confirm clearing the history log'' ''confirm deletion''))"

definition clean_onOk :: "env \<Rightarrow> string \<Rightarrow> (log_form, unit) act" where
  "clean_onOk env seconds = try_finally
     (try_catch
       (sq (modify (\<lambda>s. s\<lparr>loadingCleanHistoryLog := True\<rparr>))
       (bnd (bnd (api_call env False (Http DELETE (''/api/log/?target_timestamp='' @ seconds) JUndef)) destruct)
         (\<lambda>(success, message, data).
          if truthy success then showSuccess (JStr (to_str data @ '' log records cleared!''))
          else throw (mk_error ''Error'' (''clearing the log failed: '' @ to_str message)))))
       (\<lambda>error. bnd (prop_get error ''message'') showError))
     (modify (\<lambda>s. s\<lparr>loadingCleanHistoryLog := False\<rparr>))"

text \<open>Two effects also write to \<open>localStorage\<close>; \<open>inputs\<close> there is the value before the effect's own update.\<close>

definition drawing_submit :: "env \<Rightarrow> 'x form_act" where
  "drawing_submit env = form_submit env (drawing_onRefresh env)"

definition drawing_effect :: "'x form_act" where
  "drawing_effect = bnd (gets form_inputs) (\<lambda>inp.
     sq (modify load_form)
        (set_item ''mj_notify_enabled'' (JStr (to_str (opt_get inp ''MjNotifyEnabled'')))))"

definition data_dashboard_submit :: "env \<Rightarrow> 'x form_act" where
  "data_dashboard_submit env = form_submit env (dashboard_onRefresh env)"

definition data_dashboard_effect :: "'x form_act" where
  "data_dashboard_effect = bnd (gets form_inputs) (\<lambda>inp.
     sq (modify load_form)
        (set_item ''data_export_default_time'' (JStr (to_str (opt_get inp ''DataExportDefaultTime'')))))"

subsection \<open>SettingsGeneral.jsx\<close>

definition general_submit :: "env \<Rightarrow> 'x form_act" where
  "general_submit env = form_submit env (operation_onRefresh env)"

definition combinedRate :: "jv \<Rightarrow> jv" where
  "combinedRate inp =
     (let type = opt_get inp ''general_setting.quota_display_type''; shown = (\<lambda>k. JStr (to_str (jor (opt_get inp k) (JStr [])))) in
      if type = JStr ''USD'' then JStr ''1''
      else if type = JStr ''CNY'' then shown ''USDExchangeRate''
      else if type = JStr ''TOKENS'' then shown ''QuotaPerUnit''
      else if type = JStr ''CUSTOM'' then shown ''general_setting.custom_currency_exchange_rate''
      else JStr [])"

definition onCombinedRateChange :: "jv \<Rightarrow> 'x option_form_scheme \<Rightarrow> 'x option_form_scheme" where
  "onCombinedRateChange v s =
     (let type = opt_get (form_inputs s) ''general_setting.quota_display_type'' in
      if type = JStr ''CNY'' then handleFieldChange ''USDExchangeRate'' v s
      else if type = JStr ''TOKENS'' then handleFieldChange ''QuotaPerUnit'' v s
      else if type = JStr ''CUSTOM'' then handleFieldChange ''general_setting.custom_currency_exchange_rate'' v s
      else s)"

definition set_defined :: "string \<Rightarrow> jv \<Rightarrow> jv \<Rightarrow> jv" where
  "set_defined k options c = (if opt_get options k \<noteq> JUndef then obj_set c k (opt_get options k) else c)"

definition general_effect :: "'x option_form_scheme \<Rightarrow> 'x option_form_scheme" where
  "general_effect s =
     (let options = page_inputs s; c0 = current_inputs options (form_inputs s); quota = ''general_setting.quota_display_type'';
          c1 = (if opt_get c0 quota = JUndef \<and> opt_get options ''DisplayInCurrencyEnabled'' \<noteq> JUndef
                then obj_set c0 quota (if truthy (opt_get options ''DisplayInCurrencyEnabled'') then JStr ''USD'' else JStr ''TOKENS'')
                else c0);
          c2 = set_defined ''general_setting.custom_currency_symbol'' options c1;
          c3 = set_defined ''general_setting.custom_currency_exchange_rate'' options c2 in
      s\<lparr>form_inputs := c3, inputsRow := c3\<rparr>)"

section \<open>Lemmas\<close>

text \<open>The answers a list of requests gets when they are sent one after the other.\<close>

fun replies :: "env \<Rightarrow> jv \<Rightarrow> effect list \<Rightarrow> request list \<Rightarrow> reply list" where
  "replies env u tr [] = []"
| "replies env u tr (r # rs) = env tr r # replies env u (tr @ [Requested u r]) rs"

lemma length_replies [simp]: "length (replies env u tr rs) = length rs"
  by (induction rs arbitrary: tr) simp_all

lemma send_all_run:
  "send_all env rs s = (Inr (replies env (hdr_user (api s)) (trace s) rs),
     s\<lparr>trace := trace s @ List.map (Requested (hdr_user (api s))) rs\<rparr>)"
  by (induction rs arbitrary: s) (simp_all add: act_simps)

definition answers :: "reply list \<Rightarrow> bool" where
  "answers reps = list_all (\<lambda>r. case r of Ok d \<Rightarrow> True | Rejected e \<Rightarrow> False) reps"

definition response :: "reply \<Rightarrow> jv" where
  "response rep = (case rep of Ok d \<Rightarrow> JObj [(''data'', d)] | Rejected e \<Rightarrow> e)"

lemma settle_answers:
  "answers reps \<Longrightarrow> map_each settle_reply reps s = (Inr (List.map (\<lambda>r. Inr (response r)) reps), s)"
  by (rule map_each_ret) (auto simp: answers_def list_all_iff settle_reply_def response_def ret_def split: reply.splits)

lemma fulfilled_all: "first_rejection (List.map (\<lambda>r. Inr (f r)) reps) = None \<and> fulfilled (List.map (\<lambda>r. Inr (f r)) reps) = List.map f reps"
  by (induction reps) auto

lemma promise_all_run:
  assumes "answers (replies env (hdr_user (api s)) (trace s) rs)"
  shows "promise_all env rs s = (Inr (List.map response (replies env (hdr_user (api s)) (trace s) rs)),
     s\<lparr>trace := trace s @ List.map (Requested (hdr_user (api s))) rs\<rparr>)"
  unfolding promise_all_def by (simp add: act_simps send_all_run settle_answers[OF assms] fulfilled_all)

lemma responses_defined: "answers reps \<Longrightarrow> JUndef \<notin> set (List.map response reps)"
  by (auto simp: answers_def response_def list_all_iff split: reply.splits)

lemma answers_everywhere:
  "(\<And>tr r. r \<in> set rs \<Longrightarrow> \<exists>d. env tr r = Ok d) \<Longrightarrow> answers (replies env u tr rs)"
  unfolding answers_def
proof (induction rs arbitrary: tr)
  case Nil
  then show ?case by simp
next
  case (Cons r rs)
  obtain d where "env tr r = Ok d" using Cons.prems[of r] by auto
  with Cons show ?case by simp
qed

lemma emits_for_items [emits_intros]:
  assumes "\<And>acc x. emits P (f acc x)"
  shows "emits P (for_items data f)"
proof -
  have "emits P (fold_items f xs acc)" for xs acc
    by (induction xs arbitrary: acc) (auto intro!: emits_intros assms)
  then show ?thesis unfolding for_items_def by (cases data) (auto intro: emits_intros)
qed

lemma emits_onRefresh [emits_intros]:
  assumes "\<And>inp acc x. emits (\<lambda>_. True) (f inp acc x)"
  shows "emits (\<lambda>_. True) (onRefresh f env)"
  unfolding onRefresh_def getOptions_def api_get_def
  by (intro emits_intros emits_for_items assms) simp_all

lemma emits_items: "emits P (operation_item inp acc item)" "emits P (drawing_item inp acc item)"
    "emits P (dashboard_item inp acc item)" "emits P (chats_item inp acc item)"
proof -
  have k: "emits P (item_key item)" unfolding item_key_def
    by (intro emits_intros) (auto intro: emits_intros split: jv.split)
  show "emits P (operation_item inp acc item)" "emits P (drawing_item inp acc item)"
    "emits P (dashboard_item inp acc item)" "emits P (chats_item inp acc item)"
    unfolding operation_item_def drawing_item_def dashboard_item_def chats_item_def Let_def
    by (intro emits_intros k)+
qed

lemma extends_detach: "emits (\<lambda>_. True) m \<Longrightarrow> \<exists>es. trace (snd (detach m s)) = trace s @ es"
proof -
  assume "emits (\<lambda>_. True) m"
  then have "emits (\<lambda>_. True) (detach m)" unfolding detach_def by (intro emits_intros)
  from emitsD[OF this, of s "fst (detach m s)" "snd (detach m s)"] show ?thesis by auto
qed

lemma emits_send_all: "(\<And>r u. r \<in> set rs \<Longrightarrow> P (Requested u r)) \<Longrightarrow> emits P (send_all env rs)"
  by (induction rs) (auto intro!: emits_intros)

lemma emits_map_each [emits_intros]: "(\<And>x. emits P (f x)) \<Longrightarrow> emits P (map_each f xs)"
  by (induction xs) (auto intro!: emits_intros)

lemma emits_promise_all:
  assumes "\<And>r u. r \<in> set rs \<Longrightarrow> P (Requested u r)" and "\<And>k v. P (Toasted k v)" and "\<And>u. P (Location_set u)"
  shows "emits P (promise_all env rs)"
  unfolding promise_all_def settle_reply_def on_rejected_def
  by (intro emits_intros emits_send_all assms) auto

text \<open>Submitting with answers on the wire: exactly the changed options are put, then "saved" is announced.\<close>

lemma submit_changed_answered:
  assumes "ks \<noteq> []" and "answers (replies env (hdr_user (api s)) (trace s) (option_requests inp ks))"
    and "emits (\<lambda>_. True) refreshes"
  shows "\<exists>es. trace (snd (submit_changed env refreshes inp ks s)) =
    trace s @ List.map (Requested (hdr_user (api s))) (option_requests inp ks) @ Toasted TSuccess (JStr ''saved'') # es"
proof -
  let ?s = "s\<lparr>form_loading := True\<rparr>"
  let ?t = "?s\<lparr>trace := trace s @ List.map (Requested (hdr_user (api s))) (option_requests inp ks) @ [Toasted TSuccess (JStr ''saved'')]\<rparr>"
  have p: "promise_all env (option_requests inp ks) ?s =
      (Inr (List.map response (replies env (hdr_user (api s)) (trace s) (option_requests inp ks))),
       ?s\<lparr>trace := trace s @ List.map (Requested (hdr_user (api s))) (option_requests inp ks)\<rparr>)"
    using promise_all_run[of env ?s] assms(2) by simp
  obtain r t where d: "detach refreshes ?t = (r, t)" by (cases "detach refreshes ?t")
  obtain es where es: "trace t = trace ?t @ es" using extends_detach[OF assms(3), of ?t] d by auto
  have r: "\<exists>x. r = Inr x" using d unfolding detach_def by (auto simp: act_simps split: prod.splits sum.splits)
  have "snd (submit_changed env refreshes inp ks s) = t\<lparr>form_loading := False\<rparr>"
    using assms(1) p d r responses_defined[OF assms(2)] unfolding submit_changed_def saved_answer_def
    by (auto simp: act_simps simp del: detach_def)
  then show ?thesis using es by simp
qed

lemma changed_keys_iff:
  "k \<in> set (changed_keys inp row) \<longleftrightarrow>
     k \<in> set (obj_keys inp) \<and> k \<in> set (obj_keys row) \<and> \<not> strict_eq (opt_get inp k) (opt_get row k)"
  by (auto simp: changed_keys_def compareObjects_def)

text \<open>A value that compares equal to itself.\<close>

definition scalar :: "jv \<Rightarrow> bool" where
  "scalar v = strict_eq v v"

lemma opt_get_members: "opt_get v k = JUndef \<or> (k, opt_get v k) \<in> set (members v)"
  by (auto simp: opt_get_def split: option.split dest: map_of_SomeD)

lemma unchanged: "list_all (\<lambda>m. scalar (snd m)) (members c) \<Longrightarrow> changed_keys c c = []"
proof -
  assume sc: "list_all (\<lambda>m. scalar (snd m)) (members c)"
  have "strict_eq (opt_get c k) (opt_get c k)" for k
    using opt_get_members[of c k] sc by (auto simp: list_all_iff scalar_def)
  then show ?thesis by (auto simp: changed_keys_def compareObjects_def)
qed

lemma scalar_filter: "list_all P ms \<Longrightarrow> list_all P (filter Q ms)"
  by (auto simp: list_all_iff)

text \<open>A run whose first effect is a given request; the rules follow the code up to the call and only look at the rest.\<close>

definition sends_at :: "request \<Rightarrow> 'x browser_scheme \<Rightarrow> ('x browser_scheme, 'a) act \<Rightarrow> bool" where
  "sends_at q s m = (\<exists>u es. trace (snd (m s)) = trace s @ Requested u q # es)"

abbreviation quiet :: "('x browser_scheme, 'a) act \<Rightarrow> bool" where
  "quiet m \<equiv> emits (\<lambda>_. True) m"

lemma quietD: "quiet m \<Longrightarrow> m s = (r, t) \<Longrightarrow> \<exists>es. trace t = trace s @ es"
  using emitsD[of "\<lambda>_. True" m s r t] by auto

lemma quiet_snd: "quiet m \<Longrightarrow> \<exists>es. trace (snd (m s)) = trace s @ es"
  using quietD[of m s "fst (m s)" "snd (m s)"] by simp

lemma sends_at_call: "sends_at q s (api_call env skip q)"
proof (cases "env (trace s) q")
  case (Ok d)
  then show ?thesis by (simp add: sends_at_def api_call_eq Let_def)
next
  case (Rejected e)
  let ?s = "s\<lparr>trace := trace s @ [Requested (hdr_user (api s)) q]\<rparr>"
  have "quiet (on_rejected skip e :: ('a browser_scheme, jv) act)" unfolding on_rejected_def by (intro emits_intros) simp_all
  then have "\<exists>es. trace (snd (on_rejected skip e ?s)) = trace ?s @ es" by (rule quiet_snd)
  with Rejected show ?thesis by (auto simp: sends_at_def api_call_eq Let_def)
qed

lemma sends_at_put: "sends_at (Http PUT url b) s (api_put env url b)"
  unfolding api_put_def by (rule sends_at_call)

lemma sends_at_gets: "sends_at q s (k (f s)) \<Longrightarrow> sends_at q s (bnd (gets f) k)"
  by (simp add: sends_at_def act_simps)

lemma sends_at_modify: "trace (f s) = trace s \<Longrightarrow> sends_at q (f s) m \<Longrightarrow> sends_at q s (sq (modify f) m)"
  by (simp add: sends_at_def act_simps)

lemma sends_at_bnd:
  assumes "sends_at q s m" and "\<And>x. quiet (k x)"
  shows "sends_at q s (bnd m k)"
proof -
  obtain r t where m: "m s = (r, t)" by fastforce
  have "\<exists>es. trace (snd (k x t)) = trace t @ es" for x by (rule quiet_snd[OF assms(2)])
  with assms(1) m show ?thesis unfolding sends_at_def bnd_def by (cases r) fastforce+
qed

lemma sends_at_sq: "sends_at q s m \<Longrightarrow> quiet n \<Longrightarrow> sends_at q s (sq m n)"
  using sends_at_bnd[of q s m "\<lambda>_. n"] by (simp add: sends_at_def bnd_def sq_def)

lemma sends_at_catch:
  assumes "sends_at q s m" and "\<And>e. quiet (h e)"
  shows "sends_at q s (try_catch m h)"
proof -
  obtain r t where m: "m s = (r, t)" by fastforce
  have "\<exists>es. trace (snd (h x t)) = trace t @ es" for x by (rule quiet_snd[OF assms(2)])
  with assms(1) m show ?thesis unfolding sends_at_def try_catch_def by (cases r) fastforce+
qed

lemma sends_at_finally:
  assumes "sends_at q s m" and "quiet n"
  shows "sends_at q s (try_finally m n)"
proof -
  obtain r t where m: "m s = (r, t)" by fastforce
  obtain r' u where n: "n t = (r', u)" by fastforce
  with quietD[OF assms(2) n] assms(1) m show ?thesis unfolding sends_at_def try_finally_def by (cases r') fastforce+
qed

lemma quiet_detach: "quiet m \<Longrightarrow> quiet (detach m)"
  unfolding detach_def by (intro emits_intros)

section \<open>Properties\<close>


definition form_example :: "jv \<Rightarrow> jv \<Rightarrow> jv \<Rightarrow> option_form" where
  "form_example options inp row = \<lparr>store = Map.empty, api = \<lparr>hdr_user = JNum 1, intercepts = True\<rparr>, user_ctx = JUndef,
     status_ctx = JUndef, trace = [], page_inputs = options, page_loading = False,
     form_inputs = inp, inputsRow = row, form_loading = False\<rparr>"


text \<open>A form that has just taken over the loaded options has nothing to save: submitting sends no request.\<close>

lemma loaded_form_is_unchanged:
  assumes "list_all (\<lambda>m. scalar (snd m)) (members (page_inputs s))"
  shows "monitoring_submit env (monitoring_effect s) =
    (Inr (), (monitoring_effect s)\<lparr>trace := trace s @ [Toasted TWarning (JStr ''you do not seem to have changed anything'')]\<rparr>)"
proof -
  have "changed_keys (current_inputs (page_inputs s) (form_inputs s)) (current_inputs (page_inputs s) (form_inputs s)) = []"
    using assms by (intro unchanged) (simp add: current_inputs_def scalar_filter)
  then show ?thesis
    by (simp add: monitoring_submit_def form_submit_def monitoring_effect_def load_form_def Let_def submit_changed_def act_simps)
qed

lemma loaded_form_is_unchanged_example:
  "fst (monitoring_submit (\<lambda>_ _. Ok JNull) (monitoring_effect (form_example (JObj [(''RetryTimes'', JStr ''2'')])
      (JObj [(''RetryTimes'', JStr [])]) JUndef))) = Inr ()"
  using loaded_form_is_unchanged[of "form_example (JObj [(''RetryTimes'', JStr ''2'')]) (JObj [(''RetryTimes'', JStr [])]) JUndef"]
  by (simp add: form_example_def scalar_def)

text \<open>
  The types of the fields. An answer lists options as objects; \<open>last_value\<close> is the value of the last item of a key.
\<close>

definition option_item :: "string \<times> jv \<Rightarrow> jv" where
  "option_item kv = JObj [(''key'', JStr (fst kv)), (''value'', snd kv)]"

lemma operation_items_run:
  "fold_items (operation_item inp) (List.map option_item kvs) acc s =
    (Inr (fold (\<lambda>(k, v) a. obj_set a k (if type_of (opt_get inp k) = ''boolean'' then JBool (toBoolean v) else v)) kvs acc), s)"
  by (induction kvs arbitrary: acc) (auto simp: operation_item_def option_item_def act_simps)

lemma operation_fold_get:
  "opt_get (fold (\<lambda>(k, v) a. obj_set a k (if type_of (opt_get inp k) = ''boolean'' then JBool (toBoolean v) else v)) kvs acc) j =
    (case map_of (rev kvs) j of None \<Rightarrow> opt_get acc j
     | Some v \<Rightarrow> if type_of (opt_get inp j) = ''boolean'' then JBool (toBoolean v) else v)"
  by (induction kvs arbitrary: acc) (auto simp: opt_get_obj_set map_add_def split: option.splits)

definition option_types_ok :: "jv \<Rightarrow> bool" where
  "option_types_ok inp = list_all (\<lambda>(k, d). type_of d = ''boolean'' \<longrightarrow> type_of (opt_get inp k) = ''boolean'') (members operation_defaults)"

lemma operation_getOptions_run:
  assumes "env (trace s) (Http GET ''/api/option/'' JUndef) =
    Ok (JObj [(''success'', JBool True), (''message'', m), (''data'', JArr (List.map option_item kvs))])"
  shows "page_inputs (snd (operation_getOptions env s)) =
    fold (\<lambda>(k, v) a. obj_set a k (if type_of (opt_get (page_inputs s) k) = ''boolean'' then JBool (toBoolean v) else v)) kvs (JObj [])"
  using assms by (simp add: operation_getOptions_def getOptions_def for_items_def act_simps operation_items_run Let_def)


definition switches :: "(string \<times> jv) list" where
  "switches = List.map (\<lambda>k. (k, JStr ''true''))
     [''quota_setting.enable_free_model_pre_consume'', ''DisplayTokenStatEnabled'', ''DefaultCollapseSidebar'', ''DemoSiteEnabled'',
      ''SelfUseModeEnabled'', ''CheckSensitiveEnabled'', ''CheckSensitiveOnPromptEnabled'', ''LogConsumeEnabled'',
      ''AutomaticDisableChannelEnabled'', ''AutomaticEnableChannelEnabled'', ''monitor_setting.auto_test_channel_enabled'']"

definition switches_answer :: jv where
  "switches_answer = JObj [(''success'', JBool True), (''message'', JStr []), (''data'', JArr (List.map option_item switches))]"

lemma switch_defaults: "option_types_ok operation_defaults"
    "list_all (\<lambda>(k, d). type_of d = ''boolean'' \<longrightarrow> k \<in> fst ` set switches) (members operation_defaults)"
  by code_simp+


text \<open>What the condition on the answers is for: a switch that one answer leaves out becomes a text with the next answer.\<close>

lemma switch_type_lost:
  "opt_get (page_inputs (snd (operation_getOptions (\<lambda>_ _. Ok switches_answer)
     \<lparr>store = Map.empty, api = \<lparr>hdr_user = JNum 1, intercepts = True\<rparr>, user_ctx = JUndef, status_ctx = JUndef, trace = [],
      page_inputs = JObj [], page_loading = False\<rparr>))) ''LogConsumeEnabled'' = JStr ''true''"
  by (subst operation_getOptions_run[where kvs = switches and m = "JStr []"])
    (simp_all add: operation_fold_get switches_answer_def switches_def)

text \<open>The drawing form writes the switch it held before the options arrived into \<open>localStorage\<close>.\<close>

lemma drawing_effect_stores_previous:
  "store (snd (drawing_effect (form_example (JObj [(''MjNotifyEnabled'', JBool True)]) (JObj [(''MjNotifyEnabled'', JBool False)]) JUndef)))
     ''mj_notify_enabled'' = Some ''false''
   \<and> opt_get (form_inputs (snd (drawing_effect (form_example (JObj [(''MjNotifyEnabled'', JBool True)])
       (JObj [(''MjNotifyEnabled'', JBool False)]) JUndef)))) ''MjNotifyEnabled'' = JBool True"
  by (simp add: form_example_def drawing_effect_def act_simps load_form_def Let_def current_inputs_def obj_keys_def)

end
