(* ===== verification/System_Settings.thy ===== *)
theory System_Settings
  imports Options Json_Pretty
begin

text \<open>
  \<open>components/settings/SystemSetting.jsx\<close>: the sign-in providers, mail, Turnstile, passkeys and the protection of
  outgoing requests. The page keeps the options as edited (\<open>inputs\<close>) and as loaded (\<open>originInputs\<close>); after loading
  both are the same object, which \<open>same_object\<close> records, because one handler assigns to members of \<open>inputs\<close>.
\<close>

section \<open>The page\<close>

record system_page = browser +
  inputs :: jv
  originInputs :: jv
  same_object :: bool
  loading :: bool
  isLoaded :: bool
  emailDomainWhitelist :: jv
  showPasswordLoginConfirmModal :: bool
  linuxDOOAuthEnabled :: bool
  emailToAdd :: string
  domainFilterMode :: bool
  ipFilterMode :: bool
  domainList :: jv
  ipList :: jv
  allowedPorts :: jv

type_synonym 'a system_act = "(system_page, 'a) act"

definition boolean_options :: "string list" where
  "boolean_options =
    [''fetch_setting.allow_private_ip'', ''fetch_setting.enable_ssrf_protection'', ''fetch_setting.domain_filter_mode'',
     ''fetch_setting.ip_filter_mode'', ''fetch_setting.apply_ip_filter_for_domain'', ''PasswordLoginEnabled'',
     ''PasswordRegisterEnabled'', ''EmailVerificationEnabled'', ''GitHubOAuthEnabled'', ''WeChatAuthEnabled'',
     ''TelegramOAuthEnabled'', ''RegisterEnabled'', ''TurnstileCheckEnabled'', ''EmailDomainRestrictionEnabled'',
     ''EmailAliasRestrictionEnabled'', ''SMTPSSLEnabled'', ''LinuxDOOAuthEnabled'', ''discord.enabled'', ''oidc.enabled'',
     ''passkey.enabled'', ''passkey.allow_insecure_origin'', ''WorkerAllowHttpImageRequestEnabled'']"

text \<open>A list stored as JSON text: what is no array, and in two of three cases what is no JSON, is empty.\<close>

definition parsed_list :: "jv \<Rightarrow> jv \<Rightarrow> jv" where
  "parsed_list v otherwise =
     (if truthy v
      then (case json_parse (to_str v) of Some x \<Rightarrow> if is_array x then x else JArr [] | None \<Rightarrow> otherwise)
      else JArr [])"

definition split_commas :: "jv \<Rightarrow> jv" where
  "split_commas v = (if truthy v then JArr (List.map JStr (split_on (CHR '','') (to_str v))) else JArr [])"

text \<open>One item of the answer: the \<open>switch\<close> of \<open>getOptions\<close>, which changes \<open>item.value\<close> or a list of the page.\<close>

definition read_item :: "jv \<Rightarrow> jv \<Rightarrow> jv system_act" where
  "read_item acc item = bnd (prop_get item ''key'') (\<lambda>kv.
     let k = to_str kv; v = opt_get item ''value''; keep = (\<lambda>x. ret (obj_set acc k x)) in
     if k = ''TopupGroupRatio'' then bnd (parse_json v) (\<lambda>x. keep (json_pretty x))
     else if k = ''EmailDomainWhitelist'' then sq (modify (\<lambda>s. s\<lparr>emailDomainWhitelist := split_commas v\<rparr>)) (keep v)
     else if k = ''fetch_setting.domain_list'' then sq (modify (\<lambda>s. s\<lparr>domainList := parsed_list v (JArr [])\<rparr>)) (keep v)
     else if k = ''fetch_setting.ip_list'' then sq (modify (\<lambda>s. s\<lparr>ipList := parsed_list v (JArr [])\<rparr>)) (keep v)
     else if k = ''fetch_setting.allowed_ports'' then
       sq (modify (\<lambda>s. s\<lparr>allowedPorts := parsed_list v (JArr [JStr ''80'', JStr ''443'', JStr ''8080'', JStr ''8443''])\<rparr>)) (keep v)
     else if k \<in> set boolean_options then keep (JBool (toBoolean v))
     else if k \<in> set [''passkey.origins'', ''passkey.rp_display_name'', ''passkey.rp_id'', ''passkey.attachment_preference'']
       then keep (jor v (JStr []))
     else if k = ''passkey.user_verification'' then keep (jor v (JStr ''preferred''))
     else if k = ''Price'' \<or> k = ''MinTopUp'' then keep (parseFloat v)
     else keep v)"

definition sync_mode :: "jv \<Rightarrow> string \<Rightarrow> (bool \<Rightarrow> system_page \<Rightarrow> system_page) \<Rightarrow> unit system_act" where
  "sync_mode newInputs k upd = act_when (type_of (opt_get newInputs k) \<noteq> ''undefined'') (modify (upd (truthy (opt_get newInputs k))))"

definition system_getOptions :: "env \<Rightarrow> unit system_act" where
  "system_getOptions env =
     sq (modify (\<lambda>s. s\<lparr>loading := True\<rparr>))
    (bnd (bnd (api_get env ''/api/option/'' JUndef) destruct) (\<lambda>(success, message, data).
       sq (if truthy success
           then bnd (for_items data read_item) (\<lambda>newInputs.
                  sq (modify (\<lambda>s. s\<lparr>inputs := newInputs, originInputs := newInputs, same_object := True\<rparr>))
                 (sq (sync_mode newInputs ''fetch_setting.domain_filter_mode'' (\<lambda>b s. s\<lparr>domainFilterMode := b\<rparr>))
                 (sq (sync_mode newInputs ''fetch_setting.ip_filter_mode'' (\<lambda>b s. s\<lparr>ipFilterMode := b\<rparr>))
                     (modify (\<lambda>s. s\<lparr>isLoaded := True\<rparr>)))))
           else showError message)
          (modify (\<lambda>s. s\<lparr>loading := False\<rparr>))))"

section \<open>Saving options\<close>

definition is_checkbox :: "string \<Rightarrow> bool" where
  "is_checkbox k = ends_with ''enabled'' (to_lower k)"

text \<open>The loop over the checkboxes: it stops at the first refusal, and the result says whether the function goes on.\<close>

fun put_checkboxes :: "env \<Rightarrow> (string \<times> jv) list \<Rightarrow> bool system_act" where
  "put_checkboxes env [] = ret True"
| "put_checkboxes env ((k, v) # opts) =
     (if nullish v then throw type_error
      else bnd (api_put env ''/api/option/'' (option_body k (JStr (to_str v)))) (\<lambda>body.
           bnd (prop_get body ''success'') (\<lambda>success.
             if truthy success then put_checkboxes env opts
             else sq (showError (opt_get body ''message'')) (ret False))))"

definition other_requests :: "(string \<times> jv) list \<Rightarrow> request list" where
  "other_requests opts = List.map (\<lambda>(k, v). Http PUT ''/api/option/'' (option_body k (sent_value v))) opts"

definition report_refusals :: "jv list \<Rightarrow> unit system_act" where
  "report_refusals results =
     bnd (map_each (\<lambda>res. prop_get (opt_get res ''data'') ''success'') results) (\<lambda>oks.
       for_each (List.map fst (filter (\<lambda>p. \<not> truthy (snd p)) (zip results oks)))
         (\<lambda>res. showError (opt_get (opt_get res ''data'') ''message'')))"

definition put_others :: "env \<Rightarrow> (string \<times> jv) list \<Rightarrow> unit system_act" where
  "put_others env opts = act_when (opts \<noteq> []) (bnd (promise_all env (other_requests opts)) report_refusals)"

text \<open>The early \<open>return\<close> leaves the function inside the \<open>try\<close>: \<open>loading\<close> is not reset then.\<close>

definition updateOptions :: "env \<Rightarrow> (string \<times> jv) list \<Rightarrow> unit system_act" where
  "updateOptions env options = bnd (gets inputs) (\<lambda>inp.
     sq (modify (\<lambda>s. s\<lparr>loading := True\<rparr>))
    (bnd (try_catch
           (bnd (put_checkboxes env (filter (\<lambda>(k, _). is_checkbox k) options)) (\<lambda>go.
             if \<not> go then ret False
             else sq (put_others env (filter (\<lambda>(k, _). \<not> is_checkbox k) options))
                 (sq (showSuccess (JStr ''updated''))
                 (sq (modify (\<lambda>s. s\<lparr>inputs := obj_spread inp options, same_object := False\<rparr>))
                     (ret True)))))
           (\<lambda>_. sq (showErr ''update failed'') (ret True)))
      (\<lambda>finished. act_when finished (modify (\<lambda>s. s\<lparr>loading := False\<rparr>)))))"

definition handleFormChange :: "jv \<Rightarrow> system_page \<Rightarrow> system_page" where
  "handleFormChange values s = s\<lparr>inputs := values, same_object := False\<rparr>"

text \<open>\<open>originInputs[k] !== inputs[k]\<close>, and the pushes that depend on it.\<close>

definition edited :: "system_page \<Rightarrow> string \<Rightarrow> bool" where
  "edited s k = (\<not> strict_eq (opt_get (originInputs s) k) (opt_get (inputs s) k))"

definition if_edited :: "system_page \<Rightarrow> string \<Rightarrow> (string \<times> jv) list" where
  "if_edited s k = (if edited s k then [(k, opt_get (inputs s) k)] else [])"

definition if_typed :: "system_page \<Rightarrow> string \<Rightarrow> (string \<times> jv) list" where
  "if_typed s k = (if edited s k \<and> opt_get (inputs s) k \<noteq> JStr [] then [(k, opt_get (inputs s) k)] else [])"

definition update_unless_empty :: "env \<Rightarrow> (string \<times> jv) list \<Rightarrow> unit system_act" where
  "update_unless_empty env options = act_when (options \<noteq> []) (updateOptions env options)"

definition trailing :: "jv \<Rightarrow> string" where
  "trailing v = (if truthy v then removeTrailingSlash (to_str v) else [])"

definition worker_options :: "system_page \<Rightarrow> (string \<times> jv) list" where
  "worker_options s =
     (let WorkerUrl = trailing (opt_get (inputs s) ''WorkerUrl'') in
      [(''WorkerUrl'', JStr WorkerUrl),
       (''WorkerAllowHttpImageRequestEnabled'',
          JStr (if truthy (opt_get (inputs s) ''WorkerAllowHttpImageRequestEnabled'') then ''true'' else ''false''))]
      @ (if opt_get (inputs s) ''WorkerValidKey'' \<noteq> JStr [] \<or> WorkerUrl = []
         then [(''WorkerValidKey'', opt_get (inputs s) ''WorkerValidKey'')] else []))"

definition submitWorker :: "env \<Rightarrow> unit system_act" where
  "submitWorker env = bnd (gets worker_options) (updateOptions env)"

definition submitServerAddress :: "env \<Rightarrow> unit system_act" where
  "submitServerAddress env = bnd (gets inputs) (\<lambda>inp.
     updateOptions env [(''ServerAddress'', JStr (trailing (opt_get inp ''ServerAddress'')))])"

definition smtp_options :: "system_page \<Rightarrow> (string \<times> jv) list" where
  "smtp_options s = if_edited s ''SMTPServer'' @ if_edited s ''SMTPAccount'' @ if_edited s ''SMTPFrom''
     @ if_typed s ''SMTPPort'' @ if_typed s ''SMTPToken''"

definition submitSMTP :: "env \<Rightarrow> unit system_act" where
  "submitSMTP env = bnd (gets smtp_options) (update_unless_empty env)"

definition submitEmailDomainWhitelist :: "env \<Rightarrow> unit system_act" where
  "submitEmailDomainWhitelist env = bnd (gets emailDomainWhitelist) (\<lambda>l.
     if is_array l then updateOptions env [(''EmailDomainWhitelist'', JStr (to_str l))]
     else showErr ''the list of mail domains has the wrong format'')"

definition ssrf_options :: "system_page \<Rightarrow> (string \<times> jv) list" where
  "ssrf_options s =
     [(''fetch_setting.domain_filter_mode'', JBool (domainFilterMode s))]
     @ (if is_array (domainList s) then [(''fetch_setting.domain_list'', json_stringify (domainList s))] else [])
     @ [(''fetch_setting.ip_filter_mode'', JBool (ipFilterMode s))]
     @ (if is_array (ipList s) then [(''fetch_setting.ip_list'', json_stringify (ipList s))] else [])
     @ (if is_array (allowedPorts s) then [(''fetch_setting.allowed_ports'', json_stringify (allowedPorts s))] else [])"

definition submitSSRF :: "env \<Rightarrow> unit system_act" where
  "submitSSRF env = bnd (gets ssrf_options) (update_unless_empty env)"

text \<open>
  The pattern for a mail domain: at least one label of letters, digits and inner hyphens, at most 63 long, each ended by a
  dot, and a last part of at least two letters. No part of the pattern matches a dot, so the parts are those between dots.
\<close>

definition is_letter :: "char \<Rightarrow> bool" where
  "is_letter c = (let n = (of_char c :: nat) in (65 \<le> n \<and> n \<le> 90) \<or> (97 \<le> n \<and> n \<le> 122))"

definition is_alnum :: "char \<Rightarrow> bool" where
  "is_alnum c = (is_letter c \<or> is_digit c)"

definition domain_label :: "string \<Rightarrow> bool" where
  "domain_label l = (l \<noteq> [] \<and> length l \<le> 63 \<and> is_alnum (hd l) \<and> is_alnum (last l)
     \<and> list_all (\<lambda>c. is_alnum c \<or> c = CHR ''-'') l)"

definition is_domain :: "string \<Rightarrow> bool" where
  "is_domain d = (let parts = split_on (CHR ''.'') d in
     1 < length parts \<and> list_all domain_label (butlast parts)
     \<and> 2 \<le> length (last parts) \<and> list_all is_letter (last parts))"

definition handleAddEmail :: "unit system_act" where
  "handleAddEmail = bnd (gets (\<lambda>s. (emailToAdd s, emailDomainWhitelist s))) (\<lambda>(typed, l).
     act_when (typed \<noteq> [] \<and> trim typed \<noteq> [])
       (let domain = trim typed; old = (case l of JArr vs \<Rightarrow> vs | _ \<Rightarrow> []) in
        if \<not> is_domain domain then showErr ''the mail domain has the wrong format, enter a valid domain such as gmail.com''
        else if JStr domain \<in> set old then showErr ''this domain is on the list already''
        else sq (modify (\<lambda>s. s\<lparr>emailDomainWhitelist := JArr (old @ [JStr domain]), emailToAdd := []\<rparr>))
                (showSuccess (JStr ''added to the list''))))"

definition wechat_options :: "system_page \<Rightarrow> (string \<times> jv) list" where
  "wechat_options s =
     (if edited s ''WeChatServerAddress''
      then [(''WeChatServerAddress'', JStr (trailing (opt_get (inputs s) ''WeChatServerAddress'')))] else [])
     @ if_edited s ''WeChatAccountQRCodeImageURL'' @ if_typed s ''WeChatServerToken''"

definition submitWeChat :: "env \<Rightarrow> unit system_act" where
  "submitWeChat env = bnd (gets wechat_options) (update_unless_empty env)"

definition github_options :: "system_page \<Rightarrow> (string \<times> jv) list" where
  "github_options s = if_edited s ''GitHubClientId'' @ if_typed s ''GitHubClientSecret''"

definition submitGitHubOAuth :: "env \<Rightarrow> unit system_act" where
  "submitGitHubOAuth env = bnd (gets github_options) (update_unless_empty env)"

definition discord_options :: "system_page \<Rightarrow> (string \<times> jv) list" where
  "discord_options s = if_edited s ''discord.client_id'' @ if_typed s ''discord.client_secret''"

definition submitDiscordOAuth :: "env \<Rightarrow> unit system_act" where
  "submitDiscordOAuth env = bnd (gets discord_options) (update_unless_empty env)"

text \<open>
  OIDC discovery: the endpoints of the well-known document are assigned to members of \<open>inputs\<close>, hence of \<open>originInputs\<close>
  too while both are one object. The request is made by a bare axios instance, without header and interceptor.
\<close>

definition discovered :: "jv \<Rightarrow> jv \<Rightarrow> jv" where
  "discovered doc v = obj_set (obj_set (obj_set v ''oidc.authorization_endpoint'' (opt_get doc ''authorization_endpoint''))
     ''oidc.token_endpoint'' (opt_get doc ''token_endpoint'')) ''oidc.user_info_endpoint'' (opt_get doc ''userinfo_endpoint'')"

definition assign_endpoints :: "jv \<Rightarrow> system_page \<Rightarrow> system_page" where
  "assign_endpoints doc s = (if same_object s
     then s\<lparr>inputs := discovered doc (inputs s), originInputs := discovered doc (originInputs s)\<rparr>
     else s\<lparr>inputs := discovered doc (inputs s)\<rparr>)"

definition discover :: "env \<Rightarrow> string \<Rightarrow> bool system_act" where
  "discover env url = try_catch
     (bnd (browser_call env (Http GET url JUndef)) (\<lambda>doc.
        if nullish doc then throw type_error
        else sq (modify (assign_endpoints doc)) (sq (showSuccess (JStr ''OIDC configuration fetched!'')) (ret True))))
     (\<lambda>_. sq (showErr ''fetching the OIDC configuration failed, check the network and the well-known URL'') (ret False))"

definition oidc_options :: "system_page \<Rightarrow> (string \<times> jv) list" where
  "oidc_options s = if_edited s ''oidc.well_known'' @ if_edited s ''oidc.client_id'' @ if_typed s ''oidc.client_secret''
     @ if_edited s ''oidc.authorization_endpoint'' @ if_edited s ''oidc.token_endpoint'' @ if_edited s ''oidc.user_info_endpoint''"

definition submitOIDCSettings :: "env \<Rightarrow> unit system_act" where
  "submitOIDCSettings env = bnd (gets (\<lambda>s. opt_get (inputs s) ''oidc.well_known'')) (\<lambda>wk.
     bnd (if \<not> truthy wk then ret True
          else if \<not> starts_with ''http://'' (to_str wk) \<and> \<not> starts_with ''https://'' (to_str wk)
          then sq (showErr ''the well-known URL must begin with http:// or https://'') (ret False)
          else discover env (to_str wk)) (\<lambda>go.
       act_when go (bnd (gets oidc_options) (update_unless_empty env))))"

definition telegram_options :: "system_page \<Rightarrow> (string \<times> jv) list" where
  "telegram_options s = [(''TelegramBotToken'', opt_get (inputs s) ''TelegramBotToken''),
     (''TelegramBotName'', opt_get (inputs s) ''TelegramBotName'')]"

definition submitTelegramSettings :: "env \<Rightarrow> unit system_act" where
  "submitTelegramSettings env = bnd (gets telegram_options) (updateOptions env)"

definition turnstile_options :: "system_page \<Rightarrow> (string \<times> jv) list" where
  "turnstile_options s = if_edited s ''TurnstileSiteKey'' @ if_typed s ''TurnstileSecretKey''"

definition submitTurnstile :: "env \<Rightarrow> unit system_act" where
  "submitTurnstile env = bnd (gets turnstile_options) (update_unless_empty env)"

definition linuxdo_options :: "system_page \<Rightarrow> (string \<times> jv) list" where
  "linuxdo_options s = if_edited s ''LinuxDOClientId'' @ if_typed s ''LinuxDOClientSecret'' @ if_edited s ''LinuxDOMinimumTrustLevel''"

definition submitLinuxDOOAuth :: "env \<Rightarrow> unit system_act" where
  "submitLinuxDOOAuth env = bnd (gets linuxdo_options) (update_unless_empty env)"

text \<open>\<open>formValues\<close> are the values of the mounted form.\<close>

definition passkey_value :: "jv \<Rightarrow> system_page \<Rightarrow> string \<Rightarrow> string \<Rightarrow> string \<times> jv" where
  "passkey_value formValues s k otherwise = (k, jor (jor (opt_get formValues k) (opt_get (inputs s) k)) (JStr otherwise))"

definition passkey_options :: "jv \<Rightarrow> system_page \<Rightarrow> (string \<times> jv) list" where
  "passkey_options formValues s =
     [passkey_value formValues s ''passkey.rp_display_name'' [], passkey_value formValues s ''passkey.rp_id'' [],
      passkey_value formValues s ''passkey.user_verification'' ''preferred'',
      passkey_value formValues s ''passkey.attachment_preference'' [], passkey_value formValues s ''passkey.origins'' []]"

definition submitPasskeySettings :: "env \<Rightarrow> jv \<Rightarrow> unit system_act" where
  "submitPasskeySettings env formValues = bnd (gets (passkey_options formValues)) (updateOptions env)"

definition handleCheckboxChange :: "env \<Rightarrow> string \<Rightarrow> bool \<Rightarrow> unit system_act" where
  "handleCheckboxChange env optionKey checked =
     sq (if optionKey = ''PasswordLoginEnabled'' \<and> \<not> checked
         then modify (\<lambda>s. s\<lparr>showPasswordLoginConfirmModal := True\<rparr>)
         else updateOptions env [(optionKey, JBool checked)])
        (act_when (optionKey = ''LinuxDOOAuthEnabled'') (modify (\<lambda>s. s\<lparr>linuxDOOAuthEnabled := checked\<rparr>)))"

definition handlePasswordLoginConfirm :: "env \<Rightarrow> unit system_act" where
  "handlePasswordLoginConfirm env =
     sq (updateOptions env [(''PasswordLoginEnabled'', JBool False)])
        (modify (\<lambda>s. s\<lparr>showPasswordLoginConfirmModal := False\<rparr>))"

section \<open>Lemmas\<close>

lemma sync_mode_run [simp]:
  "sync_mode new k upd s = (Inr (), if type_of (opt_get new k) \<noteq> ''undefined'' then upd (truthy (opt_get new k)) s else s)"
  by (simp add: sync_mode_def act_simps)

text \<open>What a save can send: one request per option, a text for a checkbox.\<close>

definition option_put :: "string \<Rightarrow> jv \<Rightarrow> request" where
  "option_put k v = Http PUT ''/api/option/'' (option_body k (if is_checkbox k then JStr (to_str v) else sent_value v))"

lemma emits_put_checkboxes:
  assumes "\<And>k v u. (k, v) \<in> set opts \<Longrightarrow> P (Requested u (Http PUT ''/api/option/'' (option_body k (JStr (to_str v)))))"
    and "\<And>k v. P (Toasted k v)" and "\<And>u. P (Location_set u)"
  shows "emits P (put_checkboxes env opts)"
  using assms(1)
proof (induction opts)
  case Nil
  then show ?case by (simp add: emitted.obeys_ret)
next
  case (Cons o' opts)
  obtain k v where o': "o' = (k, v)" by (cases o')
  show ?case unfolding o' put_checkboxes.simps api_put_def
    by (intro emits_intros Cons.IH assms(2,3)) (use Cons.prems o' assms(2,3) in auto)
qed

lemma emits_updateOptions:
  assumes p: "\<And>k v u. (k, v) \<in> set options \<Longrightarrow> P (Requested u (option_put k v))"
    and t: "\<And>k v. P (Toasted k v)" and l: "\<And>u. P (Location_set u)"
  shows "emits P (updateOptions env options)"
proof -
  have c: "emits P (put_checkboxes env (filter (\<lambda>(k, _). is_checkbox k) options))"
  proof (rule emits_put_checkboxes[OF _ t l])
    fix k v u
    assume "(k, v) \<in> set (filter (\<lambda>(k, _). is_checkbox k) options)"
    then show "P (Requested u (Http PUT ''/api/option/'' (option_body k (JStr (to_str v)))))"
      using p[of k v u] by (simp add: option_put_def)
  qed
  have "emits P (promise_all env (other_requests (filter (\<lambda>(k, _). \<not> is_checkbox k) options)))"
  proof (rule emits_promise_all[OF _ t l])
    fix r u
    assume "r \<in> set (other_requests (filter (\<lambda>(k, _). \<not> is_checkbox k) options))"
    then obtain k v where kv: "(k, v) \<in> set options" "\<not> is_checkbox k" "r = Http PUT ''/api/option/'' (option_body k (sent_value v))"
      by (auto simp: other_requests_def)
    then show "P (Requested u r)" using p[OF kv(1), of u] by (simp add: option_put_def)
  qed
  then have o': "emits P (put_others env (filter (\<lambda>(k, _). \<not> is_checkbox k) options))"
    unfolding put_others_def report_refusals_def by (intro emits_intros t l)
  show ?thesis unfolding updateOptions_def showSuccess_def
    by (intro emits_intros c o' t l) auto
qed

lemma emits_update_unless_empty:
  assumes "\<And>k v u. (k, v) \<in> set options \<Longrightarrow> P (Requested u (option_put k v))"
    and "\<And>k v. P (Toasted k v)" and "\<And>u. P (Location_set u)"
  shows "emits P (update_unless_empty env options)"
  unfolding update_unless_empty_def by (intro emits_intros emits_updateOptions assms)

definition new_effects :: "unit system_act \<Rightarrow> system_page \<Rightarrow> effect list" where
  "new_effects m s = drop (length (trace s)) (trace (snd (m s)))"

lemma new_effects_emitted: "emits P m \<Longrightarrow> list_all P (new_effects m s)"
  using emitsD[of P m s "fst (m s)" "snd (m s)"] by (auto simp: new_effects_def)

lemma new_effects_gets: "new_effects (bnd (gets f) g) s = new_effects (g (f s)) s"
  by (simp add: new_effects_def act_simps)

text \<open>A save leaves the loaded options alone and changes the edited ones by the saved ones at most.\<close>

lemma frames_put_checkboxes: "frames (put_checkboxes env opts)"
  by (induction opts rule: put_checkboxes.induct) (auto intro!: frames_intros simp: api_put_def)

lemma frames_send_all: "frames (send_all env rs)"
  by (induction rs) (auto intro!: frames_intros)

lemma frames_map_each: "(\<And>x. frames (f x)) \<Longrightarrow> frames (map_each f xs)"
  by (induction xs) (auto intro!: frames_intros)

lemma frames_put_others: "frames (put_others env opts)"
  unfolding put_others_def promise_all_def settle_reply_def on_rejected_def report_refusals_def
  by (intro frames_intros frames_send_all frames_map_each)

lemma more_fields:
  fixes s t :: system_page
  assumes "browser.more t = browser.more s"
  shows "inputs t = inputs s" "originInputs t = originInputs s" "same_object t = same_object s" "loading t = loading s"
  using assms by (cases s; cases t; simp)+

lemma updateOptions_frame:
  "originInputs (snd (updateOptions env options s)) = originInputs s
   \<and> (inputs (snd (updateOptions env options s)) = inputs s
     \<or> inputs (snd (updateOptions env options s)) = obj_spread (inputs s) options)"
proof -
  let ?s = "s\<lparr>loading := True\<rparr>"
  obtain r t where c: "put_checkboxes env (filter (\<lambda>(k, _). is_checkbox k) options) ?s = (r, t)" by fastforce
  note ct = more_fields[OF framesD[OF frames_put_checkboxes c]]
  obtain r' t' where o': "put_others env (filter (\<lambda>(k, _). \<not> is_checkbox k) options) t = (r', t')" by fastforce
  note ot = more_fields[OF framesD[OF frames_put_others o']]
  show ?thesis
    using c o' ct ot by (cases r; cases r') (auto simp: updateOptions_def act_simps)
qed

lemma update_unless_empty_frame:
  "originInputs (snd (update_unless_empty env options s)) = originInputs s
   \<and> (inputs (snd (update_unless_empty env options s)) = inputs s
     \<or> inputs (snd (update_unless_empty env options s)) = obj_spread (inputs s) options)"
  using updateOptions_frame by (auto simp: update_unless_empty_def act_simps)

text \<open>Without checkboxes every request of a save is on the wire first.\<close>

lemma emits_promise_all_True: "emits (\<lambda>_. True) (promise_all env rs)"
  by (rule emits_promise_all) simp_all

lemma promise_all_sends: "\<exists>es. trace (snd (promise_all env rs s)) = trace s @ List.map (Requested (hdr_user (api s))) rs @ es"
proof -
  let ?reps = "replies env (hdr_user (api s)) (trace s) rs"
  let ?s = "s\<lparr>trace := trace s @ List.map (Requested (hdr_user (api s))) rs\<rparr>"
  let ?rest = "bnd (map_each settle_reply ?reps) (\<lambda>res. case first_rejection res of Some e \<Rightarrow> throw e | None \<Rightarrow> ret (fulfilled res))"
  have "emits (\<lambda>_. True) ?rest" unfolding settle_reply_def on_rejected_def by (intro emits_intros) simp_all
  from emitsD[OF this, of ?s "fst (?rest ?s)" "snd (?rest ?s)"]
  obtain es where "trace (snd (?rest ?s)) = trace ?s @ es" by auto
  moreover have "promise_all env rs s = ?rest ?s" by (simp add: promise_all_def bnd_def[of "send_all env rs"] send_all_run)
  ultimately show ?thesis by simp
qed

lemma updateOptions_sends:
  assumes "list_all (\<lambda>(k, _). \<not> is_checkbox k) options" and "options \<noteq> []"
  shows "\<exists>es. trace (snd (updateOptions env options s)) =
    trace s @ List.map (Requested (hdr_user (api s))) (other_requests options) @ es"
proof -
  let ?s = "s\<lparr>loading := True\<rparr>"
  have f: "filter (\<lambda>(k, _). is_checkbox k) options = []" "filter (\<lambda>(k, _). \<not> is_checkbox k) options = options"
    using assms(1) by (auto simp: list_all_iff filter_empty_conv filter_id_conv split: prod.splits)
  obtain r t where p: "promise_all env (other_requests options) ?s = (r, t)" by fastforce
  obtain es where es: "trace t = trace s @ List.map (Requested (hdr_user (api s))) (other_requests options) @ es"
    using promise_all_sends[of env "other_requests options" ?s] p by auto
  have rr: "emits (\<lambda>_. True) (report_refusals x)" for x unfolding report_refusals_def by (intro emits_intros) simp_all
  show ?thesis
  proof (cases r)
    case (Inl e)
    then show ?thesis using p es f assms(2) by (simp add: updateOptions_def put_others_def act_simps)
  next
    case (Inr x)
    obtain r' t' where q: "report_refusals x t = (r', t')" by fastforce
    then obtain es' where "trace t' = trace t @ es'" using emitsD[OF rr q] by auto
    then show ?thesis using p q es Inr f assms(2)
      by (cases r') (simp_all add: updateOptions_def put_others_def act_simps)
  qed
qed

text \<open>Reading: a key the answer does not list stays as it was in the object being filled.\<close>

definition sets_key :: "jv \<Rightarrow> string \<Rightarrow> jv system_act \<Rightarrow> bool" where
  "sets_key acc k m = (\<forall>s new t. m s = (Inr new, t) \<longrightarrow> (\<exists>x. new = obj_set acc k x))"

lemma sets_key_intros:
  "sets_key acc k (ret (obj_set acc k x))"
  "sets_key acc k m \<Longrightarrow> sets_key acc k (sq n m)"
  "(\<And>y. sets_key acc k (f y)) \<Longrightarrow> sets_key acc k (bnd m' f)"
  "sets_key acc k m \<Longrightarrow> sets_key acc k n' \<Longrightarrow> sets_key acc k (if b then m else n')"
  by (auto simp: sets_key_def act_simps split: prod.splits sum.splits)

lemma read_item_sets: "sets_key acc k (read_item acc (option_item (k, v)))"
  unfolding read_item_def option_item_def prop_get_def Let_def
  by (simp only: nullish_simps if_False if_True bnd_ret opt_get_simps fst_conv snd_conv refl to_str.simps)
    (intro sets_key_intros)

lemma read_item_keeps:
  "read_item acc (option_item (k, v)) s = (Inr new, t) \<Longrightarrow> j \<noteq> k \<Longrightarrow> opt_get new j = opt_get acc j"
  using read_item_sets[of acc k v] unfolding sets_key_def by (metis opt_get_obj_set)

lemma read_items_keep:
  "fold_items read_item (List.map option_item kvs) acc s = (Inr new, t) \<Longrightarrow> j \<notin> fst ` set kvs \<Longrightarrow> opt_get new j = opt_get acc j"
proof (induction kvs arbitrary: acc s)
  case Nil
  then show ?case by (simp add: ret_def)
next
  case (Cons kv kvs)
  obtain k v where kv: "kv = (k, v)" by (cases kv)
  obtain r u where r: "read_item acc (option_item kv) s = (r, u)" by fastforce
  then obtain acc' where "r = Inr acc'" using Cons.prems(1) by (cases r) (auto simp: bnd_def)
  then show ?case using Cons.IH[of acc' u] Cons.prems r read_item_keeps[of acc k v s acc' u j] kv by (simp add: bnd_def)
qed

section \<open>Properties\<close>

definition secrets :: "string list" where
  "secrets = [''SMTPToken'', ''WeChatServerToken'', ''GitHubClientSecret'', ''discord.client_secret'', ''TurnstileSecretKey'',
     ''LinuxDOClientSecret'']"

definition blanks_secret :: "effect \<Rightarrow> bool" where
  "blanks_secret e = (case e of Requested u (Http PUT url b) \<Rightarrow>
       list_ex (\<lambda>k. opt_get b ''key'' = JStr k) secrets \<and> opt_get b ''value'' = JStr [] | _ \<Rightarrow> False)"

lemma sent_value_blank [simp]: "sent_value v = JStr [] \<longleftrightarrow> v = JStr []"
  by (cases v) (auto simp: sent_value_def)

lemma put_not_blank:
  "list_all (\<lambda>j. k \<noteq> j) secrets \<or> \<not> is_checkbox k \<and> v \<noteq> JStr [] \<Longrightarrow> \<not> blanks_secret (Requested u (option_put k v))"
  by (auto simp: blanks_secret_def option_put_def option_body_def list_ex_iff list_all_iff split: if_splits)

lemma not_checkbox [simp]:
  "\<not> is_checkbox ''SMTPToken''" "\<not> is_checkbox ''SMTPPort''" "\<not> is_checkbox ''WeChatServerToken''" "\<not> is_checkbox ''GitHubClientSecret''"
  "\<not> is_checkbox ''discord.client_secret''" "\<not> is_checkbox ''TurnstileSecretKey''" "\<not> is_checkbox ''LinuxDOClientSecret''"
  "\<not> is_checkbox ''TelegramBotToken''" "\<not> is_checkbox ''TelegramBotName''" "\<not> is_checkbox ''SMTPServer''"
  by (simp_all add: is_checkbox_def to_lower_def lower_char_def ends_with_def)

lemma saves_blank_nothing:
  assumes "\<And>k v u. (k, v) \<in> set (f s) \<Longrightarrow> \<not> blanks_secret (Requested u (option_put k v))"
  shows "list_all (\<lambda>e. \<not> blanks_secret e) (new_effects (bnd (gets f) (update_unless_empty env)) s)"
  unfolding new_effects_gets
  by (intro new_effects_emitted emits_update_unless_empty assms) (simp_all add: blanks_secret_def)

lemma secrets_list: "list_all (\<lambda>i. j \<noteq> i) secrets \<longleftrightarrow> j \<notin> set secrets"
  by (auto simp: list_all_iff)


text \<open>The loaded options are never brought up to date by a save: after the mail server was changed and saved - and
  whether or not the backend accepted it - typing the old server again and saving sends nothing.\<close>

lemma reverted_option_not_sent:
  assumes "list_all (\<lambda>k. \<not> edited s k) [''SMTPAccount'', ''SMTPFrom'', ''SMTPPort'', ''SMTPToken'']"
    and "scalar (opt_get (originInputs s) ''SMTPServer'')"
  shows "let t = snd (submitSMTP env s);
             again = handleFormChange (obj_set (inputs t) ''SMTPServer'' (opt_get (originInputs s) ''SMTPServer'')) t in
         submitSMTP env again = (Inr (), again)"
proof -
  let ?t = "snd (submitSMTP env s)"
  have o': "smtp_options s = if_edited s ''SMTPServer''"
    using assms(1) by (simp add: smtp_options_def if_edited_def if_typed_def)
  have t: "?t = snd (update_unless_empty env (if_edited s ''SMTPServer'') s)"
    by (simp add: submitSMTP_def act_simps o')
  note f = update_unless_empty_frame[of env "if_edited s ''SMTPServer''" s]
  have keep: "opt_get (inputs ?t) k = opt_get (inputs s) k" if "k \<noteq> ''SMTPServer''" for k
    using f that unfolding t by (auto simp: if_edited_def opt_get_obj_spread_other split: if_splits)
  let ?again = "handleFormChange (obj_set (inputs ?t) ''SMTPServer'' (opt_get (originInputs s) ''SMTPServer'')) ?t"
  have "smtp_options ?again = []"
    using assms f keep unfolding t
    by (auto simp: smtp_options_def if_edited_def if_typed_def edited_def handleFormChange_def opt_get_obj_set scalar_def)
  then show ?thesis by (simp add: Let_def submitSMTP_def update_unless_empty_def act_simps)
qed

definition system_example :: "jv \<Rightarrow> jv \<Rightarrow> system_page" where
  "system_example inp origin = \<lparr>store = Map.empty, api = \<lparr>hdr_user = JNum 1, intercepts = True\<rparr>, user_ctx = JUndef,
     status_ctx = JUndef, trace = [], inputs = inp, originInputs = origin, same_object = False, loading = False, isLoaded = True,
     emailDomainWhitelist = JArr [], showPasswordLoginConfirmModal = False, linuxDOOAuthEnabled = False, emailToAdd = [],
     domainFilterMode = True, ipFilterMode = True, domainList = JArr [], ipList = JArr [], allowedPorts = JArr []\<rparr>"

lemma reverted_option_not_sent_example:
  "let s = system_example (JObj [(''SMTPServer'', JStr ''b'')]) (JObj [(''SMTPServer'', JStr ''a'')]);
       env = (\<lambda>_ _. Ok (JObj [(''success'', JBool True)]));
       t = snd (submitSMTP env s); again = handleFormChange (obj_set (inputs t) ''SMTPServer'' (JStr ''a'')) t in
   submitSMTP env again = (Inr (), again)"
  using reverted_option_not_sent[of "system_example (JObj [(''SMTPServer'', JStr ''b'')]) (JObj [(''SMTPServer'', JStr ''a'')])"
      "\<lambda>_ _. Ok (JObj [(''success'', JBool True)])"]
  by (simp add: system_example_def edited_def scalar_def)

text \<open>C15: The backend never lists secrets, so the page does not know the Telegram bot token; saving the Telegram
  settings after loading sends the token all the same, with no value, over the stored one.\<close>

theorem hidden_token_is_overwritten:
  assumes "system_getOptions env s = (Inr (), t)"
    and "env (trace s) (Http GET ''/api/option/'' JUndef) =
      Ok (JObj [(''success'', JBool True), (''message'', m), (''data'', JArr (List.map option_item kvs))])"
    and "''TelegramBotToken'' \<notin> fst ` set kvs"
  shows "Requested (hdr_user (api t)) (Http PUT ''/api/option/'' (JObj [(''key'', JStr ''TelegramBotToken''), (''value'', JUndef)]))
    \<in> set (new_effects (submitTelegramSettings env') t)"
proof -
  let ?s = "s\<lparr>loading := True, trace := trace s @ [Requested (hdr_user (api s)) (Http GET ''/api/option/'' JUndef)]\<rparr>"
  obtain r u where r: "fold_items read_item (List.map option_item kvs) (JObj []) ?s = (r, u)" by fastforce
  then obtain new where new: "r = Inr new"
    using assms(1,2) by (cases r) (auto simp: system_getOptions_def for_items_def act_simps Let_def)
  have "opt_get new ''TelegramBotToken'' = JUndef"
    using read_items_keep[OF r[unfolded new] assms(3)] by simp
  moreover have "inputs t = new"
    using assms(1,2) r new by (auto simp: system_getOptions_def for_items_def act_simps Let_def split: if_splits)
  ultimately have "telegram_options t = [(''TelegramBotToken'', JUndef), (''TelegramBotName'', opt_get (inputs t) ''TelegramBotName'')]"
    by (simp add: telegram_options_def)
  moreover obtain es where "trace (snd (updateOptions env' (telegram_options t) t)) =
      trace t @ List.map (Requested (hdr_user (api t))) (other_requests (telegram_options t)) @ es"
    using updateOptions_sends[of "telegram_options t" env' t] by (auto simp: telegram_options_def)
  ultimately show ?thesis
    by (simp add: submitTelegramSettings_def new_effects_gets) (simp add: new_effects_def other_requests_def option_body_def sent_value_def)
qed

theorem hidden_token_is_overwritten_witness:
  "Requested (JNum 1) (Http PUT ''/api/option/'' (JObj [(''key'', JStr ''TelegramBotToken''), (''value'', JUndef)]))
    \<in> set (new_effects (submitTelegramSettings (\<lambda>_ _. Ok JNull)) (snd (system_getOptions
       (\<lambda>_ _. Ok (JObj [(''success'', JBool True), (''message'', JStr []), (''data'', JArr (List.map option_item [(''TelegramBotName'', JStr ''bot'')]))]))
       (system_example (JObj []) (JObj [])))))"
proof -
  let ?env = "\<lambda>_ _. Ok (JObj [(''success'', JBool True), (''message'', JStr []),
     (''data'', JArr (List.map option_item [(''TelegramBotName'', JStr ''bot'')]))])"
  obtain r t where t: "system_getOptions ?env (system_example (JObj []) (JObj [])) = (r, t)" by fastforce
  then have "r = Inr ()" "hdr_user (api t) = JNum 1"
    by (auto simp: system_getOptions_def system_example_def for_items_def option_item_def read_item_def boolean_options_def
        act_simps Let_def)
  with hidden_token_is_overwritten[OF t[unfolded \<open>r = Inr ()\<close>], of "JStr []" "[(''TelegramBotName'', JStr ''bot'')]" "\<lambda>_ _. Ok JNull"] t
  show ?thesis by simp
qed

text \<open>
  The protection of outgoing requests, saved and read again: the backend keeps every option as the text it was sent.
\<close>

definition kept :: "(string \<times> jv) list \<Rightarrow> jv" where
  "kept options = JArr (List.map (\<lambda>(k, v). option_item (k, sent_value v)) options)"

lemma parsed_list_stored: "json_ok l \<Longrightarrow> is_array l \<Longrightarrow> parsed_list (json_stringify l) x = l"
  using json_stringify_parse[of l] js_text_length[of l]
  by (cases l) (auto simp: parsed_list_def simp del: js_text.simps)

lemma sent_list: "is_array l \<Longrightarrow> sent_value (json_stringify l) = json_stringify l"
  by (cases l) (simp_all add: sent_value_def json_stringify_def)

lemma toBoolean_sent: "toBoolean (sent_value (JBool b)) = b"
  by (cases b) (simp_all add: sent_value_def toBoolean_def to_lower_def lower_char_def)

lemma read_list_items [simp]:
  "read_item acc (option_item (''fetch_setting.domain_list'', v)) s =
    (Inr (obj_set acc ''fetch_setting.domain_list'' v), s\<lparr>domainList := parsed_list v (JArr [])\<rparr>)"
  "read_item acc (option_item (''fetch_setting.ip_list'', v)) s =
    (Inr (obj_set acc ''fetch_setting.ip_list'' v), s\<lparr>ipList := parsed_list v (JArr [])\<rparr>)"
  "read_item acc (option_item (''fetch_setting.allowed_ports'', v)) s =
    (Inr (obj_set acc ''fetch_setting.allowed_ports'' v),
     s\<lparr>allowedPorts := parsed_list v (JArr [JStr ''80'', JStr ''443'', JStr ''8080'', JStr ''8443''])\<rparr>)"
  "read_item acc (option_item (''fetch_setting.domain_filter_mode'', v)) s =
    (Inr (obj_set acc ''fetch_setting.domain_filter_mode'' (JBool (toBoolean v))), s)"
  "read_item acc (option_item (''fetch_setting.ip_filter_mode'', v)) s =
    (Inr (obj_set acc ''fetch_setting.ip_filter_mode'' (JBool (toBoolean v))), s)"
  by (simp_all add: read_item_def option_item_def act_simps boolean_options_def)

text \<open>The protection of outgoing requests survives a save and a reload: from what \<open>submitSSRF\<close> sends, any page reads
  the same filter modes, domains, addresses and ports.\<close>

lemma ssrf_settings_roundtrip:
  assumes "is_array (domainList s)" "is_array (ipList s)" "is_array (allowedPorts s)"
    and "json_ok (domainList s)" "json_ok (ipList s)" "json_ok (allowedPorts s)"
    and "env (trace p) (Http GET ''/api/option/'' JUndef) =
      Ok (JObj [(''success'', JBool True), (''message'', m), (''data'', kept (ssrf_options s))])"
  shows "let t = snd (system_getOptions env p) in
    domainFilterMode t = domainFilterMode s \<and> ipFilterMode t = ipFilterMode s
    \<and> domainList t = domainList s \<and> ipList t = ipList s \<and> allowedPorts t = allowedPorts s"
  using assms
  by (simp add: system_getOptions_def for_items_def kept_def ssrf_options_def sent_list parsed_list_stored toBoolean_sent
      act_simps Let_def del: js_text.simps)

lemma ssrf_settings_roundtrip_example:
  "let s = (system_example JUndef JUndef)\<lparr>domainList := JArr [JStr ''*.example.com''], domainFilterMode := False\<rparr>;
       env = (\<lambda>_ _. Ok (JObj [(''success'', JBool True), (''message'', JStr []), (''data'', kept (ssrf_options s))]));
       t = snd (system_getOptions env (system_example JUndef JUndef)) in
   domainList t = JArr [JStr ''*.example.com''] \<and> \<not> domainFilterMode t"
  using ssrf_settings_roundtrip[of "(system_example JUndef JUndef)\<lparr>domainList := JArr [JStr ''*.example.com''], domainFilterMode := False\<rparr>"
      "\<lambda>_ _. Ok (JObj [(''success'', JBool True), (''message'', JStr []), (''data'', kept (ssrf_options
         ((system_example JUndef JUndef)\<lparr>domainList := JArr [JStr ''*.example.com''], domainFilterMode := False\<rparr>)))])"
      "system_example JUndef JUndef" "JStr []"]
  by (simp add: Let_def system_example_def)

text \<open>Saving the OIDC settings of an untouched page fetches the provider's endpoints, announces it, shows them - and
  never sends them: they were assigned to the loaded options as well, which are the same object.\<close>

lemma rediscovered_endpoints_not_sent:
  assumes "same_object s" and "inputs s = originInputs s" and "opt_get (inputs s) ''oidc.well_known'' = JStr (''https://'' @ x)"
    and "list_all (\<lambda>k. scalar (opt_get (inputs s) k)) [''oidc.client_id'', ''oidc.client_secret'']"
    and "env (trace s) (Http GET (''https://'' @ x) JUndef) = Ok doc" and "\<not> nullish doc"
    and "list_all (\<lambda>k. scalar (opt_get doc k)) [''authorization_endpoint'', ''token_endpoint'', ''userinfo_endpoint'']"
  shows "\<exists>t. submitOIDCSettings env s = (Inr (), t)
    \<and> opt_get (inputs t) ''oidc.token_endpoint'' = opt_get doc ''token_endpoint''
    \<and> trace t = trace s @ [Requested JNull (Http GET (''https://'' @ x) JUndef),
                           Toasted TSuccess (JStr ''OIDC configuration fetched!'')]"
proof -
  let ?s = "s\<lparr>trace := trace s @ [Requested JNull (Http GET (''https://'' @ x) JUndef)]\<rparr>"
  let ?t = "(assign_endpoints doc ?s)\<lparr>trace := trace s @ [Requested JNull (Http GET (''https://'' @ x) JUndef),
                           Toasted TSuccess (JStr ''OIDC configuration fetched!'')]\<rparr>"
  have d: "discover env (''https://'' @ x) s = (Inr True, ?t)"
    using assms(5,6) by (simp add: discover_def assign_endpoints_def act_simps Let_def)
  have "oidc_options ?t = []"
    using assms(1-4,7) by (simp add: oidc_options_def if_edited_def if_typed_def edited_def assign_endpoints_def discovered_def
        opt_get_obj_set scalar_def)
  then have "submitOIDCSettings env s = (Inr (), ?t)"
    using assms(3) d by (simp add: submitOIDCSettings_def update_unless_empty_def act_simps)
  then show ?thesis using assms(1) by (auto simp: assign_endpoints_def discovered_def opt_get_obj_set)
qed

definition oidc_example :: jv where
  "oidc_example = JObj [(''oidc.well_known'', JStr ''https://idp''), (''oidc.client_id'', JStr ''c''), (''oidc.client_secret'', JUndef)]"

lemma rediscovered_endpoints_not_sent_example:
  "\<exists>t. submitOIDCSettings (\<lambda>_ _. Ok (JObj [(''token_endpoint'', JStr ''https://idp/t'')]))
      ((system_example oidc_example oidc_example)\<lparr>same_object := True\<rparr>) = (Inr (), t)
    \<and> opt_get (inputs t) ''oidc.token_endpoint'' = JStr ''https://idp/t''"
  using rediscovered_endpoints_not_sent[of "(system_example oidc_example oidc_example)\<lparr>same_object := True\<rparr>" "''idp''"
      "\<lambda>_ _. Ok (JObj [(''token_endpoint'', JStr ''https://idp/t'')])" "JObj [(''token_endpoint'', JStr ''https://idp/t'')]"]
  by (auto simp: system_example_def oidc_example_def scalar_def)

text \<open>A checkbox the backend refuses leaves the page loading: the early return skips the reset.\<close>

lemma refused_checkbox_stays_loading:
  assumes "is_checkbox k" and "k \<noteq> ''PasswordLoginEnabled''"
    and "\<And>tr b. env tr (Http PUT ''/api/option/'' b) = Ok (JObj [(''success'', JBool False), (''message'', JStr m)])"
  shows "loading (snd (handleCheckboxChange env k b s))"
  using assms by (simp add: handleCheckboxChange_def updateOptions_def act_simps Let_def)

end
