(* ===== verification/Content_Lists.thy ===== *)
theory Content_Lists
  imports Options
begin

text \<open>
  The four lists an administrator edits on the dashboard settings page: announcements, API addresses, questions and
  answers, and monitoring groups (\<open>pages/Setting/Dashboard/SettingsAnnouncements.jsx\<close>, \<open>SettingsAPIInfo.jsx\<close>, \<open>SettingsFAQ.jsx\<close>,
  \<open>SettingsUptimeKuma.jsx\<close>). Edits change a draft; saving posts the draft as JSON. The entries are objects. A \<open>Date\<close> in a form is
  an object with the member \<open>iso\<close>, which is NaN for an invalid date.
\<close>

section \<open>The shared parts\<close>

record content_list = dashboard_page +
  clist :: "jv list"
  showEditModal :: bool
  showDeleteModal :: bool
  deletingItem :: jv
  editingItem :: jv
  modalLoading :: bool
  listLoading :: bool
  hasChanges :: bool
  list_form :: jv
  currentPage :: int
  pageSize :: int
  selectedRowKeys :: "jv list"
  panelEnabled :: bool

type_synonym 'a list_act = "(content_list, 'a) act"

definition item_id :: "jv \<Rightarrow> jv" where
  "item_id i = opt_get i ''id''"

definition updateOption :: "env \<Rightarrow> string \<Rightarrow> string \<Rightarrow> jv \<Rightarrow> unit list_act" where
  "updateOption env done_text key v =
     bnd (bnd (api_put env ''/api/option/'' (option_body key v)) destruct) (\<lambda>(success, message, _).
       if truthy success then sq (showSuccess (JStr done_text)) (detach (dashboard_onRefresh env)) else showError message)"

definition submit_list :: "env \<Rightarrow> string \<Rightarrow> string \<Rightarrow> string \<Rightarrow> unit list_act" where
  "submit_list env key done_text failed_text = try_finally
     (try_catch
       (sq (modify (\<lambda>s. s\<lparr>listLoading := True\<rparr>))
       (bnd (gets clist) (\<lambda>l.
        sq (updateOption env done_text key (json_stringify (JArr l)))
           (modify (\<lambda>s. s\<lparr>hasChanges := False\<rparr>)))))
       (\<lambda>_. showErr failed_text))
     (modify (\<lambda>s. s\<lparr>listLoading := False\<rparr>))"

definition open_add :: "jv \<Rightarrow> content_list \<Rightarrow> content_list" where
  "open_add blank s = s\<lparr>editingItem := JNull, list_form := blank, showEditModal := True\<rparr>"

definition open_edit :: "jv \<Rightarrow> jv \<Rightarrow> content_list \<Rightarrow> content_list" where
  "open_edit form item s = s\<lparr>editingItem := item, list_form := form, showEditModal := True\<rparr>"

definition open_delete :: "jv \<Rightarrow> content_list \<Rightarrow> content_list" where
  "open_delete item s = s\<lparr>deletingItem := item, showDeleteModal := True\<rparr>"

definition without_item :: "jv \<Rightarrow> jv list \<Rightarrow> jv list" where
  "without_item item l = filter (\<lambda>i. \<not> strict_eq (item_id i) (item_id item)) l"

definition confirm_delete :: "string \<Rightarrow> unit list_act" where
  "confirm_delete done_text = bnd (gets deletingItem) (\<lambda>item.
     sq (act_when (truthy item)
          (sq (modify (\<lambda>s. s\<lparr>clist := without_item item (clist s), hasChanges := True\<rparr>)) (showSuccess (JStr done_text))))
        (modify (\<lambda>s. s\<lparr>showDeleteModal := False, deletingItem := JNull\<rparr>)))"

text \<open>\<open>Math.max(...ids, 0) + 1\<close>: NaN when an id is no number.\<close>

definition next_id :: "jv list \<Rightarrow> jv" where
  "next_id l = (if list_ex (\<lambda>i. to_num (item_id i) = None) l then JNaN
     else JNum (fold (\<lambda>i m. case to_num (item_id i) of Some r \<Rightarrow> max r m | None \<Rightarrow> m) l 0 + 1))"

definition with_item :: "jv \<Rightarrow> jv \<Rightarrow> jv list \<Rightarrow> jv list" where
  "with_item editing data l =
     (if truthy editing
      then List.map (\<lambda>i. if strict_eq (item_id i) (item_id editing) then obj_spread i (members data) else i) l
      else l @ [obj_spread (JObj [(''id'', next_id l)]) (members data)])"

text \<open>Saving the dialogue's form into the draft; \<open>data\<close> makes the entry's members of the form and may throw.\<close>

definition save_item :: "(jv \<Rightarrow> bool) \<Rightarrow> (jv \<Rightarrow> jv list_act) \<Rightarrow> string \<Rightarrow> string \<Rightarrow> string \<Rightarrow> unit list_act" where
  "save_item filled data missing_text edited_text added_text = bnd (gets (\<lambda>s. (list_form s, editingItem s))) (\<lambda>(form, editing).
     if \<not> filled form then showErr missing_text
     else try_finally
       (try_catch
         (sq (modify (\<lambda>s. s\<lparr>modalLoading := True\<rparr>))
         (bnd (data form) (\<lambda>d.
          sq (modify (\<lambda>s. s\<lparr>clist := with_item editing d (clist s), hasChanges := True, showEditModal := False\<rparr>))
             (showSuccess (JStr (if truthy editing then edited_text else added_text))))))
         (\<lambda>e. bnd (prop_get e ''message'') (\<lambda>m. showErr (''operation failed: '' @ to_str m))))
       (modify (\<lambda>s. s\<lparr>modalLoading := False\<rparr>)))"

definition change_form :: "string \<Rightarrow> jv \<Rightarrow> content_list \<Rightarrow> content_list" where
  "change_form k v s = s\<lparr>list_form := obj_set (list_form s) k v\<rparr>"

text \<open>Reading the stored text; in three of the four lists an entry without an id gets its position.\<close>

fun number_items :: "nat \<Rightarrow> jv list \<Rightarrow> jv list" where
  "number_items n [] = []"
| "number_items n (item # items) =
     obj_set item ''id'' (jor (item_id item) (JNum (of_nat (n + 1)))) # number_items (Suc n) items"

definition parsed_array :: "jv \<Rightarrow> jv list" where
  "parsed_array text' = (if \<not> truthy text' then []
     else case json_parse (to_str text') of Some (JArr items) \<Rightarrow> items | _ \<Rightarrow> [])"

definition parse_numbered :: "jv \<Rightarrow> jv list" where
  "parse_numbered text' = (let items = parsed_array text' in if list_ex nullish items then [] else number_items 0 items)"

definition read_list :: "(jv \<Rightarrow> jv list) \<Rightarrow> jv \<Rightarrow> content_list \<Rightarrow> content_list" where
  "read_list parse text' s = (if text' = JUndef then s else s\<lparr>clist := parse text'\<rparr>)"

definition read_enabled :: "string \<Rightarrow> content_list \<Rightarrow> content_list" where
  "read_enabled key s = (let enabledStr = opt_get (page_inputs s) key in
     s\<lparr>panelEnabled := (if enabledStr = JUndef then True else enabledStr = JStr ''true'' \<or> enabledStr = JBool True)\<rparr>)"

definition toggle_enabled :: "env \<Rightarrow> string \<Rightarrow> bool \<Rightarrow> unit list_act" where
  "toggle_enabled env key checked = try_catch
     (bnd (api_put env ''/api/option/'' (option_body key (JStr (if checked then ''true'' else ''false'')))) (\<lambda>body.
      bnd (prop_get body ''success'') (\<lambda>success.
        if truthy success
        then sq (modify (\<lambda>s. s\<lparr>panelEnabled := checked\<rparr>))
            (sq (showSuccess (JStr ''setting saved'')) (detach (dashboard_onRefresh env)))
        else showError (opt_get body ''message''))))
     (\<lambda>err. bnd (prop_get err ''message'') showError)"

definition batch_delete :: "string \<Rightarrow> string \<Rightarrow> unit list_act" where
  "batch_delete none_text what = bnd (gets selectedRowKeys) (\<lambda>keys.
     if keys = [] then showErr none_text
     else sq (modify (\<lambda>s. s\<lparr>clist := filter (\<lambda>i. item_id i \<notin> set keys) (clist s), selectedRowKeys := [], hasChanges := True\<rparr>))
             (showSuccess (JStr (''deleted '' @ int_str (int (length keys)) @ what))))"

definition page_slice :: "int \<Rightarrow> int \<Rightarrow> 'a list \<Rightarrow> 'a list" where
  "page_slice page n l = take (nat n) (drop (nat ((page - 1) * n)) l)"

section \<open>SettingsAnnouncements.jsx\<close>

text \<open>\<open>now\<close> is the current date, \<open>to_date\<close> the constructor \<open>new Date\<close>, \<open>time\<close> its milliseconds.\<close>

definition announcements_updateOption :: "env \<Rightarrow> string \<Rightarrow> jv \<Rightarrow> unit list_act" where
  "announcements_updateOption env = updateOption env ''announcements updated''"

definition submitAnnouncements :: "env \<Rightarrow> unit list_act" where
  "submitAnnouncements env = submit_list env ''console_setting.announcements'' ''announcements updated'' ''updating the announcements failed''"

definition handleAddAnnouncement :: "jv \<Rightarrow> content_list \<Rightarrow> content_list" where
  "handleAddAnnouncement now = open_add (JObj [(''content'', JStr []), (''publishDate'', now), (''type'', JStr ''default''), (''extra'', JStr [])])"

definition handleEditAnnouncement :: "jv \<Rightarrow> (jv \<Rightarrow> jv) \<Rightarrow> jv \<Rightarrow> content_list \<Rightarrow> content_list" where
  "handleEditAnnouncement now to_date a = open_edit
     (JObj [(''content'', opt_get a ''content''),
            (''publishDate'', if truthy (opt_get a ''publishDate'') then to_date (opt_get a ''publishDate'') else now),
            (''type'', jor (opt_get a ''type'') (JStr ''default'')), (''extra'', jor (opt_get a ''extra'') (JStr []))]) a"

definition handleDeleteAnnouncement :: "jv \<Rightarrow> content_list \<Rightarrow> content_list" where
  "handleDeleteAnnouncement = open_delete"

definition confirmDeleteAnnouncement :: "unit list_act" where
  "confirmDeleteAnnouncement = confirm_delete ''announcement deleted, remember to save the settings''"

definition announcement_complete :: "jv \<Rightarrow> bool" where
  "announcement_complete form = (truthy (opt_get form ''content'') \<and> truthy (opt_get form ''publishDate''))"

definition announcement_data :: "jv \<Rightarrow> ('s, jv) act" where
  "announcement_data form = (let iso = opt_get (opt_get form ''publishDate'') ''iso'' in
     if iso = JNaN then throw (mk_error ''RangeError'' ''Invalid time value'')
     else ret (obj_set (JObj (members form)) ''publishDate'' iso))"

definition handleSaveAnnouncement :: "unit list_act" where
  "handleSaveAnnouncement = save_item announcement_complete announcement_data ''please complete the announcement''
     ''announcement changed, remember to save the settings'' ''announcement added, remember to save the settings''"

definition parseAnnouncements :: "jv \<Rightarrow> jv list" where
  "parseAnnouncements = parse_numbered"

definition announcements_effect :: "content_list \<Rightarrow> content_list" where
  "announcements_effect s = read_list parseAnnouncements
     (jcoalesce (opt_get (page_inputs s) ''console_setting.announcements'') (opt_get (page_inputs s) ''Announcements'')) s"

definition announcements_enabled_effect :: "content_list \<Rightarrow> content_list" where
  "announcements_enabled_effect = read_enabled ''console_setting.announcements_enabled''"

definition announcements_handleToggleEnabled :: "env \<Rightarrow> bool \<Rightarrow> unit list_act" where
  "announcements_handleToggleEnabled env = toggle_enabled env ''console_setting.announcements_enabled''"

definition announcements_handleBatchDelete :: "unit list_act" where
  "announcements_handleBatchDelete = batch_delete ''please choose the announcements to delete first'' '' announcements, remember to save the settings''"

definition announcements_getCurrentPageData :: "(jv \<Rightarrow> int) \<Rightarrow> content_list \<Rightarrow> jv list" where
  "announcements_getCurrentPageData time s =
     page_slice (currentPage s) (pageSize s) (sort_key (\<lambda>a. - time (opt_get a ''publishDate'')) (clist s))"

section \<open>SettingsAPIInfo.jsx\<close>

definition api_updateOption :: "env \<Rightarrow> string \<Rightarrow> jv \<Rightarrow> unit list_act" where
  "api_updateOption env = updateOption env ''API addresses updated''"

definition submitApiInfo :: "env \<Rightarrow> unit list_act" where
  "submitApiInfo env = submit_list env ''console_setting.api_info'' ''API addresses updated'' ''updating the API addresses failed''"

definition handleAddApi :: "content_list \<Rightarrow> content_list" where
  "handleAddApi = open_add (JObj [(''url'', JStr []), (''description'', JStr []), (''route'', JStr []), (''color'', JStr ''blue'')])"

definition handleEditApi :: "jv \<Rightarrow> content_list \<Rightarrow> content_list" where
  "handleEditApi a = open_edit
     (JObj [(''url'', opt_get a ''url''), (''description'', opt_get a ''description''), (''route'', opt_get a ''route''),
            (''color'', opt_get a ''color'')]) a"

definition handleDeleteApi :: "jv \<Rightarrow> content_list \<Rightarrow> content_list" where
  "handleDeleteApi = open_delete"

definition confirmDeleteApi :: "unit list_act" where
  "confirmDeleteApi = confirm_delete ''API address deleted, remember to save the settings''"

definition api_complete :: "jv \<Rightarrow> bool" where
  "api_complete form = (truthy (opt_get form ''url'') \<and> truthy (opt_get form ''route'') \<and> truthy (opt_get form ''description''))"

definition handleSaveApi :: "unit list_act" where
  "handleSaveApi = save_item api_complete ret ''please complete the API address''
     ''API address changed, remember to save the settings'' ''API address added, remember to save the settings''"

definition parseApiInfo :: "jv \<Rightarrow> jv list" where
  "parseApiInfo = parsed_array"

definition api_effect :: "content_list \<Rightarrow> content_list" where
  "api_effect s = read_list parseApiInfo
     (jcoalesce (opt_get (page_inputs s) ''console_setting.api_info'') (opt_get (page_inputs s) ''ApiInfo'')) s"

definition api_enabled_effect :: "content_list \<Rightarrow> content_list" where
  "api_enabled_effect = read_enabled ''console_setting.api_info_enabled''"

definition api_handleToggleEnabled :: "env \<Rightarrow> bool \<Rightarrow> unit list_act" where
  "api_handleToggleEnabled env = toggle_enabled env ''console_setting.api_info_enabled''"

definition api_handleBatchDelete :: "unit list_act" where
  "api_handleBatchDelete = batch_delete ''please choose the API addresses to delete first'' '' API addresses, remember to save the settings''"

definition api_getCurrentPageData :: "content_list \<Rightarrow> jv list" where
  "api_getCurrentPageData s = page_slice (currentPage s) (pageSize s) (clist s)"

section \<open>SettingsFAQ.jsx\<close>

definition faq_updateOption :: "env \<Rightarrow> string \<Rightarrow> jv \<Rightarrow> unit list_act" where
  "faq_updateOption env = updateOption env ''questions updated''"

definition submitFAQ :: "env \<Rightarrow> unit list_act" where
  "submitFAQ env = submit_list env ''console_setting.faq'' ''questions updated'' ''updating the questions failed''"

definition handleAddFaq :: "content_list \<Rightarrow> content_list" where
  "handleAddFaq = open_add (JObj [(''question'', JStr []), (''answer'', JStr [])])"

definition handleEditFaq :: "jv \<Rightarrow> content_list \<Rightarrow> content_list" where
  "handleEditFaq a = open_edit (JObj [(''question'', opt_get a ''question''), (''answer'', opt_get a ''answer'')]) a"

definition handleDeleteFaq :: "jv \<Rightarrow> content_list \<Rightarrow> content_list" where
  "handleDeleteFaq = open_delete"

definition confirmDeleteFaq :: "unit list_act" where
  "confirmDeleteFaq = confirm_delete ''question deleted, remember to save the settings''"

definition faq_complete :: "jv \<Rightarrow> bool" where
  "faq_complete form = (truthy (opt_get form ''question'') \<and> truthy (opt_get form ''answer''))"

definition handleSaveFaq :: "unit list_act" where
  "handleSaveFaq = save_item faq_complete ret ''please complete the question''
     ''question changed, remember to save the settings'' ''question added, remember to save the settings''"

definition parseFAQ :: "jv \<Rightarrow> jv list" where
  "parseFAQ = parse_numbered"

definition faq_effect :: "content_list \<Rightarrow> content_list" where
  "faq_effect s = read_list parseFAQ (opt_get (page_inputs s) ''console_setting.faq'') s"

definition faq_enabled_effect :: "content_list \<Rightarrow> content_list" where
  "faq_enabled_effect = read_enabled ''console_setting.faq_enabled''"

definition faq_handleToggleEnabled :: "env \<Rightarrow> bool \<Rightarrow> unit list_act" where
  "faq_handleToggleEnabled env = toggle_enabled env ''console_setting.faq_enabled''"

definition faq_handleBatchDelete :: "unit list_act" where
  "faq_handleBatchDelete = batch_delete ''please choose the questions to delete first'' '' questions, remember to save the settings''"

definition faq_getCurrentPageData :: "content_list \<Rightarrow> jv list" where
  "faq_getCurrentPageData s = page_slice (currentPage s) (pageSize s) (clist s)"

section \<open>SettingsUptimeKuma.jsx\<close>

text \<open>\<open>is_url\<close> says whether the constructor \<open>new URL\<close> accepts the text.\<close>

definition uptime_updateOption :: "env \<Rightarrow> string \<Rightarrow> jv \<Rightarrow> unit list_act" where
  "uptime_updateOption env = updateOption env ''monitoring groups updated''"

definition submitUptimeGroups :: "env \<Rightarrow> unit list_act" where
  "submitUptimeGroups env = submit_list env ''console_setting.uptime_kuma_groups'' ''monitoring groups updated'' ''updating the monitoring groups failed''"

definition handleAddGroup :: "content_list \<Rightarrow> content_list" where
  "handleAddGroup = open_add (JObj [(''categoryName'', JStr []), (''url'', JStr []), (''slug'', JStr [])])"

definition handleEditGroup :: "jv \<Rightarrow> content_list \<Rightarrow> content_list" where
  "handleEditGroup g = open_edit
     (JObj [(''categoryName'', opt_get g ''categoryName''), (''url'', opt_get g ''url''), (''slug'', opt_get g ''slug'')]) g"

definition handleDeleteGroup :: "jv \<Rightarrow> content_list \<Rightarrow> content_list" where
  "handleDeleteGroup = open_delete"

definition confirmDeleteGroup :: "unit list_act" where
  "confirmDeleteGroup = confirm_delete ''group deleted, remember to save the settings''"

definition group_complete :: "jv \<Rightarrow> bool" where
  "group_complete form = (truthy (opt_get form ''categoryName'') \<and> truthy (opt_get form ''url'') \<and> truthy (opt_get form ''slug''))"

definition slug_char :: "char \<Rightarrow> bool" where
  "slug_char c = (let n = (of_char c :: nat) in
     (65 \<le> n \<and> n \<le> 90) \<or> (97 \<le> n \<and> n \<le> 122) \<or> (48 \<le> n \<and> n \<le> 57) \<or> n = 95 \<or> n = 45)"

definition valid_slug :: "string \<Rightarrow> bool" where
  "valid_slug t = (t \<noteq> [] \<and> list_all slug_char t)"

definition handleSaveGroup :: "(string \<Rightarrow> bool) \<Rightarrow> unit list_act" where
  "handleSaveGroup is_url = bnd (gets list_form) (\<lambda>form.
     if group_complete form \<and> \<not> is_url (to_str (opt_get form ''url'')) then showErr ''please enter a valid URL''
     else if group_complete form \<and> \<not> valid_slug (to_str (opt_get form ''slug''))
     then showErr ''the slug may have letters, digits, underscores and hyphens only''
     else save_item group_complete ret ''please complete the group''
       ''group changed, remember to save the settings'' ''group added, remember to save the settings'')"

definition parseUptimeGroups :: "jv \<Rightarrow> jv list" where
  "parseUptimeGroups = parse_numbered"

definition uptime_effect :: "content_list \<Rightarrow> content_list" where
  "uptime_effect s = read_list parseUptimeGroups (opt_get (page_inputs s) ''console_setting.uptime_kuma_groups'') s"

definition uptime_enabled_effect :: "content_list \<Rightarrow> content_list" where
  "uptime_enabled_effect = read_enabled ''console_setting.uptime_kuma_enabled''"

definition uptime_handleToggleEnabled :: "env \<Rightarrow> bool \<Rightarrow> unit list_act" where
  "uptime_handleToggleEnabled env = toggle_enabled env ''console_setting.uptime_kuma_enabled''"

definition uptime_handleBatchDelete :: "unit list_act" where
  "uptime_handleBatchDelete = batch_delete ''please choose the groups to delete first'' '' groups, remember to save the settings''"

definition uptime_getCurrentPageData :: "content_list \<Rightarrow> jv list" where
  "uptime_getCurrentPageData s = page_slice (currentPage s) (pageSize s) (clist s)"

section \<open>Drafts\<close>

text \<open>
  What every list promises: the entries have different positive ids, and the draft is a finite map from ids to entries.
  \<open>list_step\<close> is one action of the administrator on the dialogues and the table; \<open>data\<close> is what the dialogue's form gives.
\<close>

definition id_num :: "jv \<Rightarrow> rat option" where
  "id_num i = (case item_id i of JNum r \<Rightarrow> if 0 < r then Some r else None | _ \<Rightarrow> None)"

definition draft_ok :: "jv list \<Rightarrow> bool" where
  "draft_ok l = (list_all (\<lambda>i. id_num i \<noteq> None) l \<and> distinct (List.map item_id l))"

definition draft :: "jv list \<Rightarrow> jv \<rightharpoonup> jv" where
  "draft l = map_of (List.map (\<lambda>i. (item_id i, i)) l)"

definition no_id :: "jv \<Rightarrow> bool" where
  "no_id d = (''id'' \<notin> set (obj_keys d))"

lemma item_id_simps [simp]: "item_id (JObj ((k, v) # ms)) = (if ''id'' = k then v else item_id (JObj ms))"
  by (simp add: item_id_def)

lemma item_id_spread: "no_id d \<Longrightarrow> item_id (obj_spread i (members d)) = item_id i"
  unfolding item_id_def no_id_def obj_keys_def by (simp add: opt_get_obj_spread_other)

lemma id_num_iff: "id_num i = Some r \<longleftrightarrow> item_id i = JNum r \<and> 0 < r"
  by (auto simp: id_num_def split: jv.splits)

lemma fold_max:
  fixes f :: "'a \<Rightarrow> rat"
  shows "m \<le> fold (\<lambda>i m. max (f i) m) l m \<and> (\<forall>i \<in> set l. f i \<le> fold (\<lambda>i m. max (f i) m) l m)"
proof (induction l arbitrary: m)
  case Nil
  then show ?case by simp
next
  case (Cons x l)
  from Cons.IH[of "max (f x) m"] show ?case by auto
qed

lemma next_id_fresh:
  assumes "list_all (\<lambda>i. id_num i \<noteq> None) l"
  shows "\<exists>r. next_id l = JNum r \<and> 0 < r \<and> (\<forall>i \<in> set l. item_id i \<noteq> JNum r)"
proof -
  define f where "f = (\<lambda>i. case item_id i of JNum r \<Rightarrow> r | _ \<Rightarrow> 0)"
  have n: "to_num (item_id i) = Some (f i)" "item_id i = JNum (f i)" if "i \<in> set l" for i
    using assms that by (auto simp: list_all_iff id_num_def f_def split: jv.splits)
  have "fold (\<lambda>i m. case to_num (item_id i) of Some r \<Rightarrow> max r m | None \<Rightarrow> m) l m = fold (\<lambda>i m. max (f i) m) l m" for m
    using n by (intro List.fold_cong) auto
  then have "next_id l = JNum (fold (\<lambda>i m. max (f i) m) l 0 + 1)" using n by (auto simp: next_id_def list_ex_iff)
  moreover have "0 \<le> fold (\<lambda>i m. max (f i) m) l 0" "\<forall>i \<in> set l. f i \<le> fold (\<lambda>i m. max (f i) m) l 0"
    using fold_max[of 0 f l] by auto
  ultimately show ?thesis using n(2) by (intro exI[of _ "fold (\<lambda>i m. max (f i) m) l 0 + 1"]) fastforce
qed

lemma draft_ok_Cons:
  "draft_ok (i # l) \<longleftrightarrow> id_num i \<noteq> None \<and> item_id i \<notin> item_id ` set l \<and> draft_ok l"
  by (auto simp: draft_ok_def)

lemma strict_eq_id: "id_num i \<noteq> None \<Longrightarrow> strict_eq (item_id i) v \<longleftrightarrow> item_id i = v"
  by (cases v) (auto simp: id_num_def split: jv.splits)

text \<open>The operations on a draft: each keeps it well formed and is the map operation one expects.\<close>

lemma delete_refines:
  assumes "draft_ok l"
  shows "draft_ok (without_item item l) \<and> draft (without_item item l) = (draft l)(item_id item := None)"
proof -
  have w: "without_item item l = filter (\<lambda>i. item_id i \<noteq> item_id item) l"
    using assms unfolding without_item_def draft_ok_def by (intro filter_cong) (auto simp: strict_eq_id list_all_iff)
  have "map_of (List.map (\<lambda>i. (item_id i, i)) (filter (\<lambda>i. item_id i \<noteq> k) l)) = (map_of (List.map (\<lambda>i. (item_id i, i)) l))(k := None)" for k
    by (induction l) auto
  then show ?thesis using assms unfolding w draft_def draft_ok_def
    by (auto simp: list_all_iff intro: distinct_map_filter)
qed

lemma batch_refines:
  assumes "draft_ok l"
  shows "draft_ok (filter (\<lambda>i. item_id i \<notin> ks) l) \<and> draft (filter (\<lambda>i. item_id i \<notin> ks) l) = draft l |` (- ks)"
proof -
  have "map_of (List.map (\<lambda>i. (item_id i, i)) (filter (\<lambda>i. item_id i \<notin> ks) l)) = map_of (List.map (\<lambda>i. (item_id i, i)) l) |` (- ks)"
    by (induction l) (auto simp: restrict_map_def fun_eq_iff)
  then show ?thesis using assms by (auto simp: draft_def draft_ok_def list_all_iff intro: distinct_map_filter)
qed

lemma add_refines:
  assumes "draft_ok l" and "no_id d" and "\<not> truthy editing"
  shows "draft_ok (with_item editing d l)
    \<and> draft (with_item editing d l) = (draft l)(next_id l \<mapsto> obj_spread (JObj [(''id'', next_id l)]) (members d))"
proof -
  let ?new = "obj_spread (JObj [(''id'', next_id l)]) (members d)"
  obtain r where r: "next_id l = JNum r" "0 < r" "\<forall>i \<in> set l. item_id i \<noteq> JNum r"
    using next_id_fresh[of l] assms(1) by (auto simp: draft_ok_def)
  have w: "with_item editing d l = l @ [?new]" using assms(3) by (simp add: with_item_def)
  have i: "item_id ?new = next_id l" using item_id_spread[OF assms(2), of "JObj [(''id'', next_id l)]"] by simp
  have "map_of (List.map (\<lambda>i. (item_id i, i)) (l @ [x])) = map_of [(item_id x, x)] ++ map_of (List.map (\<lambda>i. (item_id i, i)) l)" for x
    by simp
  moreover have "item_id ?new \<notin> dom (map_of (List.map (\<lambda>i. (item_id i, i)) l))" using i r(1,3) by (auto simp: dom_map_of_conv_image_fst image_iff)
  ultimately show ?thesis using assms(1) r i unfolding w draft_def draft_ok_def
    by (auto simp: id_num_def map_add_def fun_eq_iff split: option.split)
qed

lemma draft_id: "draft l k = Some x \<Longrightarrow> item_id x = k"
  by (induction l) (auto simp: draft_def split: if_splits)

lemma draft_ok_ids: "draft_ok l \<longleftrightarrow> list_all (\<lambda>v. \<exists>r > 0. v = JNum r) (List.map item_id l) \<and> distinct (List.map item_id l)"
  by (auto simp: draft_ok_def list_all_iff id_num_iff)

lemma edit_ok:
  assumes "draft_ok l" and "no_id d" and "truthy editing"
  shows "draft_ok (with_item editing d l)"
proof -
  have "List.map item_id (with_item editing d l) = List.map item_id l"
    using assms(3) item_id_spread[OF assms(2)] by (simp add: with_item_def)
  then show ?thesis using assms(1) unfolding draft_ok_ids by simp
qed

lemma edit_refines:
  assumes "draft_ok l" and "no_id d" and "truthy editing" and "draft l (item_id editing) = Some old"
  shows "draft_ok (with_item editing d l) \<and> draft (with_item editing d l) = (draft l)(item_id editing \<mapsto> obj_spread old (members d))"
proof -
  let ?f = "\<lambda>i. if item_id i = item_id editing then obj_spread i (members d) else i"
  have w: "with_item editing d l = List.map ?f l"
    using assms(1,3) unfolding with_item_def draft_ok_def by (auto simp: strict_eq_id list_all_iff)
  have i: "item_id (?f x) = item_id x" for x using item_id_spread[OF assms(2)] by simp
  have m: "map_of (List.map (\<lambda>i. (item_id i, i)) (List.map ?f l)) k = map_option ?f (map_of (List.map (\<lambda>i. (item_id i, i)) l) k)" for k
    by (induction l) (use i in auto)
  have "draft (with_item editing d l) k = ((draft l)(item_id editing \<mapsto> obj_spread old (members d))) k" for k
  proof (cases "draft l k")
    case None
    then show ?thesis using m[of k] assms(4) unfolding w draft_def by auto
  next
    case (Some x)
    then show ?thesis using m[of k] assms(4) draft_id[OF Some] unfolding w draft_def by auto
  qed
  then show ?thesis using edit_ok[OF assms(1-3)] by (simp add: fun_eq_iff)
qed

section \<open>The dialogues' contract\<close>

definition list_inv :: "content_list \<Rightarrow> bool" where
  "list_inv s = (draft_ok (clist s) \<and> no_id (list_form s))"

lemma more_list:
  fixes s t :: content_list
  assumes "browser.more t = browser.more s"
  shows "clist t = clist s" "list_form t = list_form s" "editingItem t = editingItem s" "hasChanges t = hasChanges s"
  using assms by (cases s; cases t; simp)+

text \<open>
  A list's dialogue: what its blank form, the form of an entry and the entry made of a form may be, so that every
  operation keeps the list's promise.
\<close>

locale list_dialogue =
  fixes data :: "jv \<Rightarrow> jv list_act" and blank :: jv and form_of :: "jv \<Rightarrow> jv"
  assumes blank_no_id: "no_id blank" and form_no_id: "no_id (form_of i)"
    and data_no_id: "no_id f \<Longrightarrow> data f s = (Inr d, t) \<Longrightarrow> no_id d"
    and data_state: "data f s = (r, t) \<Longrightarrow> t = s"
begin

lemma inv_open: "list_inv s \<Longrightarrow> list_inv (open_add blank s)" "list_inv s \<Longrightarrow> list_inv (open_edit (form_of i) i s)"
    "list_inv s \<Longrightarrow> list_inv (open_delete i s)"
  by (simp_all add: list_inv_def open_add_def open_edit_def open_delete_def blank_no_id form_no_id)

lemma inv_change: "list_inv s \<Longrightarrow> k \<noteq> ''id'' \<Longrightarrow> list_inv (change_form k v s)"
  by (auto simp: list_inv_def change_form_def no_id_def obj_set_def obj_keys_def dom_update)

lemma inv_confirm: "list_inv s \<Longrightarrow> list_inv (snd (confirm_delete m s))"
  using delete_refines[of "clist s" "deletingItem s"] by (simp add: list_inv_def confirm_delete_def act_simps)

lemma inv_batch: "list_inv s \<Longrightarrow> list_inv (snd (batch_delete m n s))"
  using batch_refines[of "clist s" "set (selectedRowKeys s)"] by (simp add: list_inv_def batch_delete_def act_simps)

lemma with_item_ok: "draft_ok l \<Longrightarrow> no_id d \<Longrightarrow> draft_ok (with_item e d l)"
  using add_refines[of l d e] edit_ok[of l d e] by blast

lemma inv_save: "list_inv s \<Longrightarrow> list_inv (snd (save_item filled data m1 m2 m3 s))"
proof -
  assume i: "list_inv s"
  let ?s = "s\<lparr>modalLoading := True\<rparr>"
  obtain r t where d: "data (list_form s) ?s = (r, t)" by fastforce
  have t: "t = ?s" using data_state[OF d] .
  let ?h = "\<lambda>e. bnd (prop_get e ''message'') (\<lambda>m. showErr (''operation failed: '' @ to_str m)) :: unit list_act"
  have h: "browser.more (snd (?h e ?s)) = browser.more ?s" for e
    by (rule framesD[of "?h e" ?s "fst (?h e ?s)"]) (intro frames_intros, simp)
  note e = more_list[OF h]
  show ?thesis
  proof (cases "filled (list_form s)")
    case False
    then show ?thesis using i by (simp add: save_item_def list_inv_def act_simps)
  next
    case True
    show ?thesis
    proof (cases r)
      case (Inl x)
      obtain r' u where u: "?h x ?s = (r', u)" by fastforce
      then show ?thesis using True i d t Inl e(1,2)[of x]
        by (cases r') (simp_all add: save_item_def list_inv_def bnd_def[of "gets _"] gets_def try_finally_def try_catch_def sq_def
            modify_def bnd_def[of "data _"])
    next
      case (Inr x)
      then have "no_id x" using data_no_id[of "list_form s" ?s x t] d i by (simp add: list_inv_def)
      then show ?thesis using True i d t Inr with_item_ok[of "clist s" x "editingItem s"]
        by (simp add: save_item_def list_inv_def act_simps)
    qed
  qed
qed

end

subsection \<open>The four lists keep it\<close>

lemma no_id_members [simp]: "no_id (JObj ms) \<longleftrightarrow> ''id'' \<notin> fst ` set ms"
  by (simp add: no_id_def obj_keys_def)

lemma no_id_set: "k \<noteq> ''id'' \<Longrightarrow> no_id (obj_set v k x) \<longleftrightarrow> no_id v"
  by (simp add: no_id_def obj_keys_def obj_set_def dom_update)

lemma announcement_data_ok:
  "no_id f \<Longrightarrow> announcement_data f s = (Inr d, t) \<Longrightarrow> no_id d"
  "announcement_data f s = (r, t) \<Longrightarrow> t = s"
  by (auto simp: announcement_data_def act_simps Let_def no_id_set simp del: no_id_members split: if_splits)
    (simp add: no_id_def obj_keys_def)

interpretation announcements: list_dialogue announcement_data
    "JObj [(''content'', JStr []), (''publishDate'', now), (''type'', JStr ''default''), (''extra'', JStr [])]"
    "\<lambda>a. JObj [(''content'', opt_get a ''content''),
       (''publishDate'', if truthy (opt_get a ''publishDate'') then to_date (opt_get a ''publishDate'') else now),
       (''type'', jor (opt_get a ''type'') (JStr ''default'')), (''extra'', jor (opt_get a ''extra'') (JStr []))]" for now to_date
proof unfold_locales
  fix f s d t
  assume "no_id f" and "announcement_data f s = (Inr d, t)"
  then show "no_id d" by (rule announcement_data_ok(1))
next
  fix f s r t
  assume "announcement_data f s = (r, t)"
  then show "t = s" by (rule announcement_data_ok(2))
qed simp_all

interpretation api_info: list_dialogue ret
    "JObj [(''url'', JStr []), (''description'', JStr []), (''route'', JStr []), (''color'', JStr ''blue'')]"
    "\<lambda>a. JObj [(''url'', opt_get a ''url''), (''description'', opt_get a ''description''), (''route'', opt_get a ''route''),
       (''color'', opt_get a ''color'')]"
  by unfold_locales (auto simp: ret_def)

interpretation faq: list_dialogue ret "JObj [(''question'', JStr []), (''answer'', JStr [])]"
    "\<lambda>a. JObj [(''question'', opt_get a ''question''), (''answer'', opt_get a ''answer'')]"
  by unfold_locales (auto simp: ret_def)

interpretation uptime: list_dialogue ret "JObj [(''categoryName'', JStr []), (''url'', JStr []), (''slug'', JStr [])]"
    "\<lambda>g. JObj [(''categoryName'', opt_get g ''categoryName''), (''url'', opt_get g ''url''), (''slug'', opt_get g ''slug'')]"
  by unfold_locales (auto simp: ret_def)

text \<open>What an administrator can do to the announcements between loading and saving, in any order.\<close>

inductive announcement_step :: "jv \<Rightarrow> (jv \<Rightarrow> jv) \<Rightarrow> content_list \<Rightarrow> content_list \<Rightarrow> bool" for now to_date where
  add: "announcement_step now to_date s (handleAddAnnouncement now s)"
| edit: "announcement_step now to_date s (handleEditAnnouncement now to_date a s)"
| change: "k \<noteq> ''id'' \<Longrightarrow> announcement_step now to_date s (change_form k v s)"
| save: "announcement_step now to_date s (snd (handleSaveAnnouncement s))"
| ask: "announcement_step now to_date s (handleDeleteAnnouncement a s)"
| confirm: "announcement_step now to_date s (snd (confirmDeleteAnnouncement s))"
| select: "announcement_step now to_date s (s\<lparr>selectedRowKeys := ks\<rparr>)"
| batch: "announcement_step now to_date s (snd (announcements_handleBatchDelete s))"

inductive_cases announcement_stepE: "announcement_step now to_date s t"

lemma announcement_step_inv: "announcement_step now to_date s t \<Longrightarrow> list_inv s \<Longrightarrow> list_inv t"
proof (induction rule: announcement_step.induct)
  case (add s)
  then show ?case unfolding handleAddAnnouncement_def by (rule announcements.inv_open(1))
next
  case (edit s a)
  then show ?case unfolding handleEditAnnouncement_def by (rule announcements.inv_open(2))
next
  case (change k s v)
  then show ?case by (intro announcements.inv_change)
next
  case (save s)
  then show ?case unfolding handleSaveAnnouncement_def by (rule announcements.inv_save)
next
  case (ask s a)
  then show ?case unfolding handleDeleteAnnouncement_def by (rule announcements.inv_open(3))
next
  case (confirm s)
  then show ?case unfolding confirmDeleteAnnouncement_def by (rule announcements.inv_confirm)
next
  case (select s ks)
  then show ?case by (simp add: list_inv_def)
next
  case (batch s)
  then show ?case unfolding announcements_handleBatchDelete_def by (rule announcements.inv_batch)
qed

lemma announcement_steps_inv: "(announcement_step now to_date)\<^sup>*\<^sup>* s t \<Longrightarrow> list_inv s \<Longrightarrow> list_inv t"
  by (induction rule: rtranclp_induct) (auto intro: announcement_step_inv)

section \<open>Stored lists\<close>

lemma number_items_ok: "list_all (\<lambda>i. id_num i \<noteq> None) l \<Longrightarrow> list_all json_ok l \<Longrightarrow> number_items n l = l"
proof (induction l arbitrary: n)
  case Nil
  then show ?case by simp
next
  case (Cons i l)
  obtain r where r: "item_id i = JNum r" "0 < r" using Cons.prems(1) by (auto simp: id_num_iff)
  then obtain ms where i: "i = JObj ms" by (cases i) (auto simp: item_id_def)
  then have "map_of ms ''id'' = Some (JNum r)" using r by (auto simp: item_id_def opt_get_def split: option.splits)
  moreover have "distinct (List.map fst ms)" using Cons.prems(2) i by simp
  ultimately have "AList.update ''id'' (JNum r) ms = ms"
    by (induction ms) (auto dest: map_of_SomeD)
  then show ?case using Cons r i by (simp add: obj_set_def jor_def)
qed

lemma parse_stored:
  assumes "draft_ok l" and "list_all json_ok l"
  shows "parse_numbered (json_stringify (JArr l)) = l"
proof -
  have j: "json_ok (JArr l)" using assms(2) by (simp add: list_all_iff)
  have "\<not> list_ex nullish l" using assms(2) by (auto simp: list_ex_iff list_all_iff nullish_def item_id_def id_num_def draft_ok_def
      dest!: bspec split: jv.splits) (use assms(1) in \<open>auto simp: draft_ok_def list_all_iff id_num_def item_id_def\<close>)
  moreover have "parsed_array (json_stringify (JArr l)) = l"
    using json_stringify_parse[OF j] js_text_length[OF j] by (auto simp: parsed_array_def simp del: js_text.simps)
  ultimately show ?thesis using number_items_ok assms by (simp add: parse_numbered_def Let_def draft_ok_def)
qed

section \<open>Properties\<close>

definition list_example :: "jv list \<Rightarrow> content_list" where
  "list_example l = \<lparr>store = Map.empty, api = \<lparr>hdr_user = JNum 1, intercepts = True\<rparr>, user_ctx = JUndef, status_ctx = JUndef,
     trace = [], page_inputs = JObj [], page_loading = False, showMigrateModal = False, clist = l, showEditModal = False,
     showDeleteModal = False, deletingItem = JNull, editingItem = JNull, modalLoading = False, listLoading = False,
     hasChanges = True, list_form = JObj [], currentPage = 1, pageSize = 10, selectedRowKeys = [], panelEnabled = True\<rparr>"

text \<open>Whatever the administrator does to the announcements - adding, editing, deleting one or several, in any order - their
  ids stay different positive numbers, so that every later action hits the one entry it is meant for.\<close>

lemma announcement_ids_stay_distinct:
  assumes "(announcement_step now to_date)\<^sup>*\<^sup>* s t" and "draft_ok (clist s)" and "no_id (list_form s)"
  shows "draft_ok (clist t)"
  using announcement_steps_inv[OF assms(1)] assms(2,3) by (simp add: list_inv_def)

lemma announcement_ids_stay_distinct_example:
  "draft_ok (clist (snd (handleSaveAnnouncement (change_form ''content'' (JStr ''x'')
     (handleAddAnnouncement (JObj [(''iso'', JStr ''d'')]) (list_example [JObj [(''id'', JNum 2)]]))))))"
proof -
  let ?now = "JObj [(''iso'', JStr ''d'')]" and ?s = "list_example [JObj [(''id'', JNum 2)]]"
  let ?a = "handleAddAnnouncement ?now ?s"
  let ?b = "change_form ''content'' (JStr ''x'') ?a"
  have 1: "announcement_step ?now id ?s ?a" by (rule announcement_step.add)
  have 2: "announcement_step ?now id ?a ?b" by (rule announcement_step.change) simp
  have 3: "announcement_step ?now id ?b (snd (handleSaveAnnouncement ?b))" by (rule announcement_step.save)
  from 1 2 3 have "(announcement_step ?now id)\<^sup>*\<^sup>* ?s (snd (handleSaveAnnouncement ?b))"
    by (rule rtranclp_trans[OF r_into_rtranclp rtranclp_trans[OF r_into_rtranclp r_into_rtranclp]])
  then show ?thesis
    by (rule announcement_ids_stay_distinct) (simp_all add: list_example_def draft_ok_def id_num_def)
qed

text \<open>C11: The dialogues implement a finite map from ids to entries: saving the dialogue of a new announcement inserts under
  an id no entry has, saving that of an existing one updates that entry only, and a confirmed deletion removes that entry only.\<close>

theorem announcements_refine_map:
  assumes "draft_ok (clist s)" and "no_id (list_form s)" and "announcement_complete (list_form s)"
    and "opt_get (opt_get (list_form s) ''publishDate'') ''iso'' = JStr day"
    and "truthy (editingItem s) \<Longrightarrow> draft (clist s) (item_id (editingItem s)) = Some old"
  shows "draft (clist (snd (handleSaveAnnouncement s))) =
      (let entry = members (obj_set (JObj (members (list_form s))) ''publishDate'' (JStr day)); i = next_id (clist s) in
       if truthy (editingItem s) then (draft (clist s))(item_id (editingItem s) \<mapsto> obj_spread old entry)
       else (draft (clist s))(i \<mapsto> obj_spread (JObj [(''id'', i)]) entry))
    \<and> draft (clist s) (next_id (clist s)) = None
    \<and> draft (clist (snd (confirmDeleteAnnouncement (handleDeleteAnnouncement (JObj ms) s)))) = (draft (clist s))(item_id (JObj ms) := None)"
proof (intro conjI)
  let ?d = "obj_set (JObj (members (list_form s))) ''publishDate'' (JStr day)"
  have d: "no_id ?d" using assms(2) by (simp add: no_id_set del: no_id_members) (simp add: no_id_def obj_keys_def)
  have save: "clist (snd (handleSaveAnnouncement s)) = with_item (editingItem s) ?d (clist s)"
    using assms(3,4) by (simp add: handleSaveAnnouncement_def save_item_def announcement_data_def act_simps Let_def)
  show "draft (clist (snd (handleSaveAnnouncement s))) =
      (let entry = members ?d; i = next_id (clist s) in
       if truthy (editingItem s) then (draft (clist s))(item_id (editingItem s) \<mapsto> obj_spread old entry)
       else (draft (clist s))(i \<mapsto> obj_spread (JObj [(''id'', i)]) entry))"
    unfolding save Let_def using add_refines[OF assms(1) d, of "editingItem s"] edit_refines[OF assms(1) d, of "editingItem s" old] assms(5)
    by (cases "truthy (editingItem s)") simp_all
  obtain r where r: "next_id (clist s) = JNum r" "\<forall>i \<in> set (clist s). item_id i \<noteq> JNum r"
    using next_id_fresh[of "clist s"] assms(1) by (auto simp: draft_ok_def)
  have "item_id x = next_id (clist s) \<and> x \<in> set (clist s)" if "draft (clist s) (next_id (clist s)) = Some x" for x
    using that draft_id[OF that] by (auto simp: draft_def dest: map_of_SomeD)
  then show "draft (clist s) (next_id (clist s)) = None" using r by (cases "draft (clist s) (next_id (clist s))") auto
  show "draft (clist (snd (confirmDeleteAnnouncement (handleDeleteAnnouncement (JObj ms) s)))) = (draft (clist s))(item_id (JObj ms) := None)"
    using delete_refines[OF assms(1), of "JObj ms"]
    by (simp add: confirmDeleteAnnouncement_def confirm_delete_def handleDeleteAnnouncement_def open_delete_def act_simps)
qed

theorem announcements_refine_map_witness:
  "draft (clist (snd (handleSaveAnnouncement ((list_example [JObj [(''id'', JNum 2)]])\<lparr>list_form :=
     JObj [(''content'', JStr ''x''), (''publishDate'', JObj [(''iso'', JStr ''d'')])]\<rparr>)))) (JNum 3)
   = Some (JObj [(''id'', JNum 3), (''content'', JStr ''x''), (''publishDate'', JStr ''d'')])"
proof -
  let ?s = "(list_example [JObj [(''id'', JNum 2)]])\<lparr>list_form := JObj [(''content'', JStr ''x''), (''publishDate'', JObj [(''iso'', JStr ''d'')])]\<rparr>"
  have n: "next_id (clist ?s) = JNum 3" by (simp add: list_example_def next_id_def)
  have "draft_ok (clist ?s)" by (simp add: list_example_def draft_ok_def id_num_def)
  then show ?thesis
    using announcements_refine_map[of ?s "''d''" JNull "[]"] n
    by (simp add: list_example_def announcement_complete_def Let_def obj_spread_def)
qed

text \<open>Saving and reloading the announcements gives the same list: what \<open>submitAnnouncements\<close> posts is read back entry by
  entry, with the same ids.\<close>

lemma announcements_roundtrip:
  assumes "draft_ok (clist s)" and "list_all json_ok (clist s)"
    and "opt_get (page_inputs t) ''console_setting.announcements'' = json_stringify (JArr (clist s))"
  shows "clist (announcements_effect t) = clist s
    \<and> (\<exists>u es. trace (snd (submitAnnouncements env s)) = trace s @ Requested u (Http PUT ''/api/option/''
         (option_body ''console_setting.announcements'' (opt_get (page_inputs t) ''console_setting.announcements''))) # es)"
proof
  have "json_stringify (JArr (clist s)) \<noteq> JUndef" "\<not> nullish (json_stringify (JArr (clist s)))" by (simp_all add: json_stringify_def)
  then show "clist (announcements_effect t) = clist s"
    using parse_stored[OF assms(1,2)] assms(3) by (simp add: announcements_effect_def read_list_def parseAnnouncements_def jcoalesce_def)
  let ?q = "Http PUT ''/api/option/'' (option_body ''console_setting.announcements'' (json_stringify (JArr (clist s))))"
  have "quiet (dashboard_onRefresh env)" unfolding dashboard_onRefresh_def by (intro emits_onRefresh emits_items)
  then have "sends_at ?q s (submitAnnouncements env)"
    unfolding submitAnnouncements_def submit_list_def updateOption_def showSuccess_def
    by (intro sends_at_finally sends_at_catch sends_at_modify sends_at_gets sends_at_sq sends_at_bnd)
      (auto intro!: sends_at_put emits_intros quiet_detach)
  then show "\<exists>u es. trace (snd (submitAnnouncements env s)) = trace s @ Requested u (Http PUT ''/api/option/''
         (option_body ''console_setting.announcements'' (opt_get (page_inputs t) ''console_setting.announcements''))) # es"
    using assms(3) by (simp add: sends_at_def)
qed

lemma announcements_roundtrip_example:
  "clist (announcements_effect ((list_example [])\<lparr>page_inputs :=
      JObj [(''console_setting.announcements'', json_stringify (JArr [JObj [(''id'', JNum 1), (''content'', JStr ''hello'')]]))]\<rparr>)) =
    [JObj [(''id'', JNum 1), (''content'', JStr ''hello'')]]"
proof -
  let ?s = "(list_example [])\<lparr>clist := [JObj [(''id'', JNum 1), (''content'', JStr ''hello'')]]\<rparr>"
  have "draft_ok (clist ?s)" "list_all json_ok (clist ?s)" by (simp_all add: draft_ok_def id_num_def)
  from announcements_roundtrip[OF this, of "(list_example [])\<lparr>page_inputs :=
      JObj [(''console_setting.announcements'', json_stringify (JArr (clist ?s)))]\<rparr>"]
  show ?thesis by (simp del: js_text.simps)
qed

text \<open>A refused save counts as saved: when the backend answers with a refusal, the message is shown, nothing was stored,
  but the page forgets that the draft has changes, which disables its save button.\<close>

lemma refused_list_counts_as_saved:
  assumes "env (trace s) (Http PUT ''/api/option/'' (option_body ''console_setting.announcements'' (json_stringify (JArr (clist s)))))
      = Ok (JObj [(''success'', JBool False), (''message'', JStr m)])"
  shows "\<exists>t. submitAnnouncements env s = (Inr (), t) \<and> \<not> hasChanges t \<and> clist t = clist s
    \<and> trace t = trace s @ [Requested (hdr_user (api s)) (Http PUT ''/api/option/''
          (option_body ''console_setting.announcements'' (json_stringify (JArr (clist s))))), Toasted TError (JStr (''Error: '' @ m))]"
  using assms by (simp add: submitAnnouncements_def submit_list_def updateOption_def act_simps Let_def del: js_text.simps)

lemma refused_list_counts_as_saved_example:
  "\<exists>t. submitAnnouncements (\<lambda>_ _. Ok (JObj [(''success'', JBool False), (''message'', JStr ''too long'')])) (list_example []) = (Inr (), t)
     \<and> \<not> hasChanges t"
  using refused_list_counts_as_saved[of "\<lambda>_ _. Ok (JObj [(''success'', JBool False), (''message'', JStr ''too long'')])" "list_example []" "''too long''"]
  by auto

text \<open>Numbering the entries without an id by their position can give one id twice; a deletion then removes both.\<close>

lemma numbering_repeats_ids:
  "number_items 0 [JObj [], JObj [(''id'', JNum 1)]] = [JObj [(''id'', JNum 1)], JObj [(''id'', JNum 1)]]
   \<and> without_item (JObj [(''id'', JNum 1)]) [JObj [(''id'', JNum 1)], JObj [(''id'', JNum 1)]] = []"
  by (simp add: without_item_def item_id_def jor_def)

end
