(* ===== verification/Module_Forms.thy ===== *)
theory Module_Forms
  imports Options Sidebar Header Session
begin

text \<open>
  The two forms in which an administrator switches modules on and off for everyone: the links of the header
  (\<open>pages/Setting/Operation/SettingsHeaderNavModules.jsx\<close>) and the sidebar (\<open>SettingsSidebarModulesAdmin.jsx\<close>). A save puts the
  configuration into the status context, from which theories Header and Sidebar compute what is shown.
\<close>

section \<open>SettingsHeaderNavModules.jsx\<close>

record header_form = option_page +
  headerModules :: jv
  hf_loading :: bool

definition default_header_modules :: jv where
  "default_header_modules = JObj [(''home'', JBool True), (''console'', JBool True),
     (''pricing'', JObj [(''enabled'', JBool True), (''requireAuth'', JBool False)]), (''docs'', JBool True), (''about'', JBool True)]"

definition handleHeaderNavModuleChange :: "string \<Rightarrow> bool \<Rightarrow> header_form \<Rightarrow> header_form" where
  "handleHeaderNavModuleChange moduleKey checked s =
     (let newModules = headerModules s in
      s\<lparr>headerModules := (if moduleKey = ''pricing''
         then obj_set newModules moduleKey (obj_set (opt_get newModules moduleKey) ''enabled'' (JBool checked))
         else obj_set newModules moduleKey (JBool checked))\<rparr>)"

definition handlePricingAuthChange :: "bool \<Rightarrow> header_form \<Rightarrow> header_form" where
  "handlePricingAuthChange checked s =
     s\<lparr>headerModules := obj_set (headerModules s) ''pricing''
         (obj_set (opt_get (headerModules s) ''pricing'') ''requireAuth'' (JBool checked))\<rparr>"

definition resetHeaderNavModules :: "(header_form, unit) act" where
  "resetHeaderNavModules = sq (modify (\<lambda>s. s\<lparr>headerModules := default_header_modules\<rparr>)) (showSuccess (JStr ''reset to the defaults''))"

text \<open>The tail both forms share; the status is the one of the render in which the button was pressed.\<close>

definition save_modules :: "env \<Rightarrow> string \<Rightarrow> jv \<Rightarrow> jv \<Rightarrow> ('x option_page_scheme, unit) act" where
  "save_modules env key config st =
     bnd (bnd (api_put env ''/api/option/'' (option_body key (json_stringify config))) destruct) (\<lambda>(success, message, _).
       if truthy success
       then sq (showSuccess (JStr ''saved''))
           (sq (statusDispatch ''set'' (obj_set st key (json_stringify config)))
               (operation_onRefresh env))
       else showError message)"

definition header_onSubmit :: "env \<Rightarrow> (header_form, unit) act" where
  "header_onSubmit env = bnd (gets (\<lambda>s. (headerModules s, status_ctx s))) (\<lambda>(config, st).
     try_finally
       (try_catch (sq (modify (\<lambda>s. s\<lparr>hf_loading := True\<rparr>)) (save_modules env ''HeaderNavModules'' config st))
          (\<lambda>_. showErr ''saving failed, please retry''))
       (modify (\<lambda>s. s\<lparr>hf_loading := False\<rparr>)))"

definition header_form_effect :: "header_form \<Rightarrow> header_form" where
  "header_form_effect s =
     (let raw = opt_get (page_inputs s) ''HeaderNavModules'' in
      if \<not> truthy raw then s
      else case json_parse (to_str raw) of
        None \<Rightarrow> s\<lparr>headerModules := default_header_modules\<rparr>
      | Some modules \<Rightarrow>
          if nullish modules then s\<lparr>headerModules := default_header_modules\<rparr>
          else if type_of (opt_get modules ''pricing'') = ''boolean''
          then s\<lparr>headerModules := obj_set modules ''pricing''
                   (JObj [(''enabled'', opt_get modules ''pricing''), (''requireAuth'', JBool False)])\<rparr>
          else s\<lparr>headerModules := modules\<rparr>)"

section \<open>SettingsSidebarModulesAdmin.jsx\<close>

record sidebar_form = option_page +
  sidebarModulesAdmin :: jv
  sf_loading :: bool

definition default_sidebar_modules :: jv where
  "default_sidebar_modules = JObj
    [(''chat'', JObj [(''enabled'', JBool True), (''playground'', JBool True), (''chat'', JBool True)]),
     (''console'', JObj [(''enabled'', JBool True), (''detail'', JBool True), (''token'', JBool True), (''log'', JBool True),
        (''midjourney'', JBool True), (''task'', JBool True)]),
     (''personal'', JObj [(''enabled'', JBool True), (''topup'', JBool True), (''personal'', JBool True)]),
     (''admin'', JObj [(''enabled'', JBool True), (''channel'', JBool True), (''models'', JBool True), (''redemption'', JBool True),
        (''user'', JBool True), (''setting'', JBool True)])]"

definition handleSectionChange :: "string \<Rightarrow> bool \<Rightarrow> sidebar_form \<Rightarrow> sidebar_form" where
  "handleSectionChange sectionKey checked s =
     s\<lparr>sidebarModulesAdmin := obj_set (sidebarModulesAdmin s) sectionKey
         (obj_set (opt_get (sidebarModulesAdmin s) sectionKey) ''enabled'' (JBool checked))\<rparr>"

definition handleModuleChange :: "string \<Rightarrow> string \<Rightarrow> bool \<Rightarrow> sidebar_form \<Rightarrow> sidebar_form" where
  "handleModuleChange sectionKey moduleKey checked s =
     s\<lparr>sidebarModulesAdmin := obj_set (sidebarModulesAdmin s) sectionKey
         (obj_set (opt_get (sidebarModulesAdmin s) sectionKey) moduleKey (JBool checked))\<rparr>"

definition resetSidebarModules :: "(sidebar_form, unit) act" where
  "resetSidebarModules = sq (modify (\<lambda>s. s\<lparr>sidebarModulesAdmin := default_sidebar_modules\<rparr>)) (showSuccess (JStr ''reset to the defaults''))"

definition sidebar_onSubmit :: "env \<Rightarrow> (sidebar_form, unit) act" where
  "sidebar_onSubmit env = bnd (gets (\<lambda>s. (sidebarModulesAdmin s, status_ctx s))) (\<lambda>(config, st).
     try_finally
       (try_catch (sq (modify (\<lambda>s. s\<lparr>sf_loading := True\<rparr>)) (save_modules env ''SidebarModulesAdmin'' config st))
          (\<lambda>_. showErr ''saving failed, please retry''))
       (modify (\<lambda>s. s\<lparr>sf_loading := False\<rparr>)))"

definition sidebar_form_effect :: "sidebar_form \<Rightarrow> sidebar_form" where
  "sidebar_form_effect s =
     (let raw = opt_get (page_inputs s) ''SidebarModulesAdmin'' in
      if \<not> truthy raw then s
      else case json_parse (to_str raw) of
        None \<Rightarrow> s\<lparr>sidebarModulesAdmin := default_sidebar_modules\<rparr>
      | Some modules \<Rightarrow> s\<lparr>sidebarModulesAdmin := modules\<rparr>)"

section \<open>Lemmas\<close>

text \<open>Refreshing the page does not touch the contexts.\<close>

interpretation contexts: state_rel "\<lambda>s t. status_ctx t = status_ctx s \<and> user_ctx t = user_ctx s"
  by unfold_locales simp_all

lemma contexts_leaves:
  "contexts.obeys (emit e)" "contexts.obeys (remove_item k)" "contexts.obeys (showErr m)"
  "(\<And>s. status_ctx (f s) = status_ctx s \<and> user_ctx (f s) = user_ctx s) \<Longrightarrow> contexts.obeys (modify f)"
  by (auto simp: emit_def remove_item_def showErr_eq intro!: contexts.obeys_modify)

lemma contexts_showError: "contexts.obeys (showError e)"
  unfolding showError_def Let_def by (intro contexts.obeys_intros contexts_leaves)

lemma contexts_call: "contexts.obeys (api_call env skip r)"
  unfolding api_call_def on_rejected_def by (intro contexts.obeys_intros contexts_leaves contexts_showError)

lemma contexts_fold: "(\<And>acc x. contexts.obeys (f acc x)) \<Longrightarrow> contexts.obeys (fold_items f xs acc)"
  by (induction xs arbitrary: acc) (auto intro!: contexts.obeys_intros)

lemma contexts_refresh: "contexts.obeys (operation_onRefresh env)"
proof -
  have i: "contexts.obeys (operation_item inp acc x)" for inp acc x
    unfolding operation_item_def by (intro contexts.obeys_intros)
  have "contexts.obeys (for_items d (operation_item inp))" for d inp
    unfolding for_items_def by (cases d) (auto intro: contexts.obeys_intros contexts_fold i)
  then show ?thesis
    unfolding operation_onRefresh_def onRefresh_def getOptions_def api_get_def destruct_def
    by (intro contexts.obeys_intros contexts_leaves contexts_showError contexts_call) simp_all
qed

definition accepts :: "env \<Rightarrow> 'x browser_scheme \<Rightarrow> string \<Rightarrow> jv \<Rightarrow> bool" where
  "accepts env s key config = (case env (trace s) (Http PUT ''/api/option/'' (option_body key (json_stringify config))) of
     Ok d \<Rightarrow> truthy (opt_get d ''success'') | Rejected e \<Rightarrow> False)"

lemma save_modules_status:
  assumes "accepts env s key config"
  shows "status_ctx (snd (save_modules env key config st s)) = obj_set st key (json_stringify config)"
proof -
  let ?q = "Http PUT ''/api/option/'' (option_body key (json_stringify config))"
  obtain d where d: "env (trace s) ?q = Ok d" "truthy (opt_get d ''success'')"
    using assms by (auto simp: accepts_def split: reply.splits)
  then have n: "\<not> nullish d" by (cases d) auto
  let ?t = "s\<lparr>trace := trace s @ [Requested (hdr_user (api s)) ?q, Toasted TSuccess (JStr ''saved'')],
     status_ctx := obj_set st key (json_stringify config)\<rparr>"
  have "save_modules env key config st s = operation_onRefresh env ?t"
    using d n by (simp add: save_modules_def act_simps Let_def)
  moreover obtain r u where u: "operation_onRefresh env ?t = (r, u)" by fastforce
  ultimately show ?thesis using contexts.obeysD[OF contexts_refresh u] by simp
qed

lemma try_saved:
  assumes "contexts.obeys (h :: ('x browser_scheme, unit) act)" "contexts.obeys (f :: ('x browser_scheme, unit) act)"
  shows "status_ctx (snd (try_finally (try_catch m (\<lambda>_. h)) f s)) = status_ctx (snd (m s))"
proof -
  obtain r t where m: "m s = (r, t)" by fastforce
  obtain r1 t1 where h: "h t = (r1, t1)" by fastforce
  obtain r2 t2 where f2: "f t = (r2, t2)" by fastforce
  obtain r3 t3 where f3: "f t1 = (r3, t3)" by fastforce
  show ?thesis using m h f2 f3 contexts.obeysD[OF assms(1) h] contexts.obeysD[OF assms(2) f2] contexts.obeysD[OF assms(2) f3]
    by (cases r; cases r1; cases r2; cases r3) (auto simp: try_finally_def try_catch_def)
qed

lemma header_saved_status:
  assumes "accepts env s ''HeaderNavModules'' (headerModules s)"
  shows "status_ctx (snd (header_onSubmit env s)) = obj_set (status_ctx s) ''HeaderNavModules'' (json_stringify (headerModules s))"
proof -
  have "status_ctx (snd (header_onSubmit env s)) =
      status_ctx (snd (save_modules env ''HeaderNavModules'' (headerModules s) (status_ctx s) (s\<lparr>hf_loading := True\<rparr>)))"
    unfolding header_onSubmit_def bnd_def gets_def
    by (simp add: try_saved contexts_leaves sq_def modify_def)
  then show ?thesis using save_modules_status[of env "s\<lparr>hf_loading := True\<rparr>"] assms by (simp add: accepts_def)
qed

lemma sidebar_saved_status:
  assumes "accepts env s ''SidebarModulesAdmin'' (sidebarModulesAdmin s)"
  shows "status_ctx (snd (sidebar_onSubmit env s)) = obj_set (status_ctx s) ''SidebarModulesAdmin'' (json_stringify (sidebarModulesAdmin s))"
proof -
  have "status_ctx (snd (sidebar_onSubmit env s)) =
      status_ctx (snd (save_modules env ''SidebarModulesAdmin'' (sidebarModulesAdmin s) (status_ctx s) (s\<lparr>sf_loading := True\<rparr>)))"
    unfolding sidebar_onSubmit_def bnd_def gets_def
    by (simp add: try_saved contexts_leaves sq_def modify_def)
  then show ?thesis using save_modules_status[of env "s\<lparr>sf_loading := True\<rparr>"] assms by (simp add: accepts_def)
qed

text \<open>The shape of the header's configuration, which every handler of the form keeps.\<close>

definition header_modules_ok :: "jv \<Rightarrow> bool" where
  "header_modules_ok m = (json_ok m \<and> (\<exists>ms. m = JObj ms)
     \<and> list_all (\<lambda>k. type_of (opt_get m k) = ''boolean'') [''home'', ''console'', ''docs'', ''about'']
     \<and> (\<exists>ms. opt_get m ''pricing'' = JObj ms) \<and> type_of (opt_get (opt_get m ''pricing'') ''enabled'') = ''boolean'')"

lemma json_ok_obj_set: "json_ok v \<Longrightarrow> json_ok x \<Longrightarrow> json_ok (obj_set v k x)"
proof -
  assume v: "json_ok v" and x: "json_ok x"
  have "distinct (List.map fst (members v))" "\<forall>m \<in> set (members v). json_ok (snd m)" using v by (cases v; simp)+
  moreover have "snd ` set (AList.update k x ms) \<subseteq> insert x (snd ` set ms)" for ms by (induction ms) auto
  ultimately show ?thesis using x by (fastforce simp: obj_set_def distinct_update)
qed

lemma json_ok_opt_get: "json_ok v \<Longrightarrow> opt_get v k \<noteq> JUndef \<Longrightarrow> json_ok (opt_get v k)"
  by (cases v) (auto simp: opt_get_def split: option.splits dest: map_of_SomeD)

lemma type_of_boolean: "type_of v = ''boolean'' \<longleftrightarrow> (\<exists>b. v = JBool b)"
  by (cases v) simp_all

lemma header_ok_set:
  assumes "header_modules_ok m" and "json_ok x"
    and "if k = ''pricing'' then (\<exists>ms. x = JObj ms) \<and> type_of (opt_get x ''enabled'') = ''boolean'' else type_of x = ''boolean''"
  shows "header_modules_ok (obj_set m k x)"
proof -
  note m = assms(1)[unfolded header_modules_ok_def list.pred_inject]
  have "type_of (opt_get (obj_set m k x) k') = ''boolean''" if "type_of (opt_get m k') = ''boolean''" "k' \<noteq> ''pricing''" for k'
    using that assms(3) by (simp add: opt_get_obj_set split: if_splits)
  moreover have "(\<exists>ms. opt_get (obj_set m k x) ''pricing'' = JObj ms)
      \<and> type_of (opt_get (opt_get (obj_set m k x) ''pricing'') ''enabled'') = ''boolean''"
    using m assms(3) by (cases "k = ''pricing''") (simp_all add: opt_get_obj_set)
  moreover have "json_ok (obj_set m k x)" using m assms(2) by (simp add: json_ok_obj_set)
  moreover have "\<exists>ms. obj_set m k x = JObj ms" by (simp add: obj_set_def)
  ultimately show ?thesis using m unfolding header_modules_ok_def list.pred_inject by simp
qed

lemma header_change_ok:
  assumes "header_modules_ok (headerModules s)"
  shows "header_modules_ok (headerModules (handleHeaderNavModuleChange k b s))"
    and "header_modules_ok (headerModules (handlePricingAuthChange b s))"
proof -
  let ?m = "headerModules s"
  obtain ms where p: "opt_get ?m ''pricing'' = JObj ms" and e: "type_of (opt_get (JObj ms) ''enabled'') = ''boolean''"
    using assms by (auto simp: header_modules_ok_def)
  have j: "json_ok (obj_set (JObj ms) k' (JBool b))" for k'
    using assms json_ok_opt_get[of ?m "''pricing''"] p by (intro json_ok_obj_set) (auto simp: header_modules_ok_def)
  have o: "\<exists>ms'. obj_set (JObj ms) k' (JBool b) = JObj ms'" for k' by (simp add: obj_set_def)
  show "header_modules_ok (headerModules (handleHeaderNavModuleChange k b s))"
    using j o assms by (auto simp: handleHeaderNavModuleChange_def Let_def p opt_get_obj_set intro!: header_ok_set)
  show "header_modules_ok (headerModules (handlePricingAuthChange b s))"
    using j o e assms by (auto simp: handlePricingAuthChange_def p opt_get_obj_set intro!: header_ok_set)
qed

section \<open>Properties\<close>

text \<open>What the form says about one link.\<close>

definition switched_on :: "jv \<Rightarrow> nav_link \<Rightarrow> bool" where
  "switched_on m l = (if itemKey l = ''pricing'' then opt_get (opt_get m ''pricing'') ''enabled'' = JBool True
     else opt_get m (itemKey l) = JBool True)"

lemma filter_each_pure:
  "(\<And>x. x \<in> set xs \<Longrightarrow> p x s = (Inr (f x), s)) \<Longrightarrow> filter_each p xs s = (Inr (filter f xs), s)"
  by (induction xs) (auto simp: act_simps)

lemma header_from_status:
  assumes "header_modules_ok m" and "opt_get (status_ctx t) ''HeaderNavModules'' = json_stringify m"
  shows "headerNavModules t = m"
  using assms json_stringify_parse[of m] js_text_length[of m]
  by (auto simp: header_modules_ok_def headerNavModules_def Let_def simp del: js_text.simps)

lemma links_shown:
  assumes "header_modules_ok m"
  shows "mainNavLinks docs m u = (Inr (filter (switched_on m) (allLinks docs)), u)"
proof -
  have t: "jor m defaultModules = m" using assms by (auto simp: header_modules_ok_def jor_def)
  have "link_shown docs m l s = (Inr (switched_on m l), s)" if "l \<in> set (allLinks docs)" for l and s :: 'a
    using that assms by (auto simp: allLinks_def link_shown_def switched_on_def header_modules_ok_def type_of_boolean act_simps split: if_splits)
  then show ?thesis unfolding mainNavLinks_def t by (rule filter_each_pure)
qed

text \<open>C12: Switching the header's links takes effect at once and exactly: after a save that the backend accepts, the
  navigation offers those links whose switch is on - the docs link only where one is configured - in their fixed order.\<close>

theorem saved_header_shown:
  assumes "header_modules_ok (headerModules s)" and "accepts env s ''HeaderNavModules'' (headerModules s)"
  shows "let t = snd (header_onSubmit env s) in
    mainNavLinks docs (headerNavModules t) t = (Inr (filter (switched_on (headerModules s)) (allLinks docs)), t)"
proof -
  have "headerNavModules (snd (header_onSubmit env s)) = headerModules s"
    by (intro header_from_status[OF assms(1)]) (simp add: header_saved_status[OF assms(2)] opt_get_obj_set)
  then show ?thesis using links_shown[OF assms(1)] by (simp add: Let_def)
qed

definition header_example :: header_form where
  "header_example = \<lparr>store = Map.empty, api = \<lparr>hdr_user = JNum 1, intercepts = True\<rparr>, user_ctx = JUndef, status_ctx = JObj [],
     trace = [], page_inputs = JObj [], page_loading = False, headerModules = default_header_modules, hf_loading = False\<rparr>"

theorem saved_header_shown_witness:
  "let t = snd (header_onSubmit (\<lambda>_ _. Ok (JObj [(''success'', JBool True)])) (handleHeaderNavModuleChange ''about'' False header_example)) in
   \<exists>links. mainNavLinks JUndef (headerNavModules t) t = (Inr links, t) \<and> List.map itemKey links = [''home'', ''console'', ''pricing'']"
proof -
  let ?s = "handleHeaderNavModuleChange ''about'' False header_example"
  have "header_modules_ok default_header_modules" by (simp add: header_modules_ok_def default_header_modules_def)
  then have ok: "header_modules_ok (headerModules ?s)" by (intro header_change_ok) (simp add: header_example_def)
  have "accepts (\<lambda>_ _. Ok (JObj [(''success'', JBool True)])) ?s ''HeaderNavModules'' (headerModules ?s)" by (simp add: accepts_def)
  from saved_header_shown[OF ok this, of JUndef] show ?thesis
    by (simp add: Let_def allLinks_def switched_on_def handleHeaderNavModuleChange_def header_example_def default_header_modules_def)
qed

text \<open>The sidebar configuration an administrator saves is the one that counts: after an accepted save a module is visible to a
  user exactly when the form has it and its section on and the user hides neither.\<close>

lemma saved_sidebar_counts:
  assumes "json_ok (sidebarModulesAdmin s)" and "accepts env s ''SidebarModulesAdmin'' (sidebarModulesAdmin s)"
    and "truthy user" and "m \<noteq> []" and "m \<noteq> ''enabled''"
  shows "isModuleVisible (finalConfig (adminConfig (snd (sidebar_onSubmit env s))) user) sec m \<longleftrightarrow>
    truthy (opt_get (opt_get (sidebarModulesAdmin s) sec) ''enabled'') \<and> truthy (opt_get (opt_get (sidebarModulesAdmin s) sec) m)
    \<and> (truthy (opt_get user sec) \<longrightarrow> opt_get (opt_get user sec) ''enabled'' \<noteq> JBool False \<and> opt_get (opt_get user sec) m \<noteq> JBool False)"
proof -
  have "adminConfig (snd (sidebar_onSubmit env s)) = sidebarModulesAdmin s"
    using sidebar_saved_status[OF assms(2)] json_stringify_parse[OF assms(1)] js_text_length[OF assms(1)]
    by (simp add: adminConfig_def Let_def opt_get_obj_set del: js_text.simps)
  then show ?thesis using visible_lemma[OF assms(3-5)] by (simp add: admin_allows_def user_allows_def)
qed

definition sidebar_example :: sidebar_form where
  "sidebar_example = \<lparr>store = Map.empty, api = \<lparr>hdr_user = JNum 1, intercepts = True\<rparr>, user_ctx = JUndef, status_ctx = JObj [],
     trace = [], page_inputs = JObj [], page_loading = False, sidebarModulesAdmin = default_sidebar_modules, sf_loading = False\<rparr>"

lemma default_sidebar_ok: "json_ok default_sidebar_modules"
  by (simp add: default_sidebar_modules_def)

lemma saved_sidebar_counts_example:
  "\<not> isModuleVisible (finalConfig (adminConfig (snd (sidebar_onSubmit (\<lambda>_ _. Ok (JObj [(''success'', JBool True)]))
      (handleModuleChange ''admin'' ''user'' False sidebar_example)))) (JObj [])) ''admin'' ''user''"
proof -
  let ?s = "handleModuleChange ''admin'' ''user'' False sidebar_example"
  have "json_ok (sidebarModulesAdmin ?s)" by (simp add: handleModuleChange_def sidebar_example_def default_sidebar_modules_def)
  moreover have "accepts (\<lambda>_ _. Ok (JObj [(''success'', JBool True)])) ?s ''SidebarModulesAdmin'' (sidebarModulesAdmin ?s)"
    by (simp add: accepts_def)
  ultimately show ?thesis using saved_sidebar_counts[of ?s "\<lambda>_ _. Ok (JObj [(''success'', JBool True)])" "JObj []" "''user''" "''admin''"]
    by (simp add: handleModuleChange_def sidebar_example_def default_sidebar_modules_def)
qed

text \<open>Resetting the sidebar to "the defaults" and saving switches on modules whose pages this version does not have: the
  menu then offers tokens, logs, channels, models, redemptions and the wallet, and each of these links leads to the not-found page.\<close>

lemma reset_sidebar_offers_dead_links:
  assumes "accepts env (snd (resetSidebarModules s)) ''SidebarModulesAdmin'' default_sidebar_modules"
  shows "let t = snd (sidebar_onSubmit env (snd (resetSidebarModules s))) in
    list_all (\<lambda>(sec, m, path). isModuleVisible (finalConfig (adminConfig t) (JObj [])) sec m
        \<and> map_of routerMap m = Some path \<and> App path t = Page NotFound)
      [(''console'', ''token'', ''/console/token''), (''console'', ''log'', ''/console/log''), (''console'', ''task'', ''/console/task''),
       (''admin'', ''channel'', ''/console/channel''), (''admin'', ''models'', ''/console/models''),
       (''admin'', ''redemption'', ''/console/redemption''), (''personal'', ''topup'', ''/console/topup'')]"
proof -
  let ?s = "snd (resetSidebarModules s)"
  let ?t = "snd (sidebar_onSubmit env ?s)"
  have m: "sidebarModulesAdmin ?s = default_sidebar_modules" by (simp add: resetSidebarModules_def act_simps)
  then have st: "status_ctx ?t = obj_set (status_ctx ?s) ''SidebarModulesAdmin'' (json_stringify default_sidebar_modules)"
    using sidebar_saved_status[of env ?s] assms by simp
  have "adminConfig ?t = default_sidebar_modules"
    using st json_stringify_parse[OF default_sidebar_ok] js_text_length[OF default_sidebar_ok]
    by (simp add: adminConfig_def Let_def opt_get_obj_set del: js_text.simps)
  then show ?thesis
    by (simp add: Let_def visible_lemma admin_allows_def user_allows_def default_sidebar_modules_def routerMap_def App_def route_of_def
        routes_def guard_result_def)
qed

lemma reset_sidebar_offers_dead_links_example:
  "App ''/console/channel'' (snd (sidebar_onSubmit (\<lambda>_ _. Ok (JObj [(''success'', JBool True)])) (snd (resetSidebarModules sidebar_example)))) = Page NotFound"
  using reset_sidebar_offers_dead_links[of "\<lambda>_ _. Ok (JObj [(''success'', JBool True)])" sidebar_example]
  by (simp add: accepts_def Let_def)

end
