(* ===== verification/Other_Settings.thy ===== *)
theory Other_Settings
  imports Options
begin

text \<open>
  \<open>components/settings/OtherSetting.jsx\<close>: notices, legal texts and personalisation, one button per option, and the check
  for a newer release. The Markdown parser is a parameter: it gives a text or throws.
\<close>

section \<open>State\<close>

record other_page = browser +
  inputs :: jv
  loading :: bool
  showUpdateModal :: bool
  updateData :: jv
  loadingInput :: jv
  general_values :: jv
  personal_values :: jv

type_synonym 'a other_act = "(other_page, 'a) act"

definition LEGAL_USER_AGREEMENT_KEY :: string where
  "LEGAL_USER_AGREEMENT_KEY = ''legal.user_agreement''"

definition LEGAL_PRIVACY_POLICY_KEY :: string where
  "LEGAL_PRIVACY_POLICY_KEY = ''legal.privacy_policy''"

definition initial_inputs :: jv where
  "initial_inputs = JObj (List.map (\<lambda>k. (k, JStr []))
     [''Notice'', LEGAL_USER_AGREEMENT_KEY, LEGAL_PRIVACY_POLICY_KEY, ''SystemName'', ''Logo'', ''Footer'', ''About'', ''HomePageContent''])"

definition initial_loading :: jv where
  "initial_loading = JObj (List.map (\<lambda>k. (k, JBool False))
     [''Notice'', LEGAL_USER_AGREEMENT_KEY, LEGAL_PRIVACY_POLICY_KEY, ''SystemName'', ''Logo'', ''HomePageContent'', ''About'',
      ''Footer'', ''CheckUpdate''])"

definition other_initial :: "browser \<Rightarrow> other_page" where
  "other_initial b = \<lparr>store = store b, api = api b, user_ctx = user_ctx b, status_ctx = status_ctx b, trace = trace b,
     inputs = initial_inputs, loading = False, showUpdateModal = False,
     updateData = JObj [(''tag_name'', JStr []), (''content'', JStr [])],
     loadingInput = initial_loading, general_values = initial_inputs, personal_values = initial_inputs\<rparr>"

section \<open>Saving one option\<close>

definition other_updateOption :: "env \<Rightarrow> string \<Rightarrow> jv \<Rightarrow> unit other_act" where
  "other_updateOption env key value =
     sq (modify (\<lambda>s. s\<lparr>loading := True\<rparr>))
    (sq (bnd (bnd (api_put env ''/api/option/'' (option_body key value)) destruct) (\<lambda>(success, message, _).
           if truthy success then modify (\<lambda>s. s\<lparr>inputs := obj_set (inputs s) key value\<rparr>) else showError message))
        (modify (\<lambda>s. s\<lparr>loading := False\<rparr>)))"

definition other_handleInputChange :: "jv \<Rightarrow> string \<Rightarrow> other_page \<Rightarrow> other_page" where
  "other_handleInputChange value name s = s\<lparr>inputs := obj_set (inputs s) name value\<rparr>"

definition set_busy :: "string \<Rightarrow> bool \<Rightarrow> other_page \<Rightarrow> other_page" where
  "set_busy flag b s = s\<lparr>loadingInput := obj_set (loadingInput s) flag (JBool b)\<rparr>"

text \<open>The body the eight buttons share: the flag of the button, the option, and the two announcements.\<close>

definition submit_button :: "env \<Rightarrow> string \<Rightarrow> string \<Rightarrow> string \<Rightarrow> string \<Rightarrow> unit other_act" where
  "submit_button env flag key ok bad = bnd (gets (\<lambda>s. opt_get (inputs s) key)) (\<lambda>value.
     try_finally
       (try_catch
         (sq (modify (set_busy flag True))
         (sq (other_updateOption env key value)
             (showSuccess (JStr ok))))
         (\<lambda>_. showErr bad))
       (modify (set_busy flag False)))"

definition submitNotice :: "env \<Rightarrow> unit other_act" where
  "submitNotice env = submit_button env ''Notice'' ''Notice'' ''notice updated'' ''updating the notice failed''"

definition submitUserAgreement :: "env \<Rightarrow> unit other_act" where
  "submitUserAgreement env = submit_button env LEGAL_USER_AGREEMENT_KEY LEGAL_USER_AGREEMENT_KEY
     ''user agreement updated'' ''updating the user agreement failed''"

definition submitPrivacyPolicy :: "env \<Rightarrow> unit other_act" where
  "submitPrivacyPolicy env = submit_button env LEGAL_PRIVACY_POLICY_KEY LEGAL_PRIVACY_POLICY_KEY
     ''privacy policy updated'' ''updating the privacy policy failed''"

definition submitSystemName :: "env \<Rightarrow> unit other_act" where
  "submitSystemName env = submit_button env ''SystemName'' ''SystemName'' ''system name updated'' ''updating the system name failed''"

definition submitLogo :: "env \<Rightarrow> unit other_act" where
  "submitLogo env = submit_button env ''Logo'' ''Logo'' ''Logo updated'' ''updating the Logo failed''"

definition submitOption :: "env \<Rightarrow> string \<Rightarrow> unit other_act" where
  "submitOption env key = submit_button env ''HomePageContent'' key ''home page updated'' ''updating the home page failed''"

definition submitAbout :: "env \<Rightarrow> unit other_act" where
  "submitAbout env = submit_button env ''About'' ''About'' ''about text updated'' ''updating the about text failed''"

definition submitFooter :: "env \<Rightarrow> unit other_act" where
  "submitFooter env = submit_button env ''Footer'' ''Footer'' ''footer updated'' ''updating the footer failed''"

section \<open>The newest release\<close>

definition release_url :: string where
  "release_url = ''https://api.github.com/repos/karlorz/auth-gateway/releases/latest''"

definition checkUpdate :: "(jv \<Rightarrow> jv + jv) \<Rightarrow> env \<Rightarrow> unit other_act" where
  "checkUpdate marked env = bnd (gets status_ctx) (\<lambda>st.
     try_finally
       (try_catch
         (sq (modify (set_busy ''CheckUpdate'' True))
         (bnd (browser_call env (Http GET release_url JUndef)) (\<lambda>res.
          if nullish res then throw type_error else
          let tag_name = opt_get res ''tag_name''; body = opt_get res ''body''; message = opt_get res ''message'' in
          if truthy message \<or> \<not> truthy tag_name
          then showError (jor message (JStr ''checking for updates failed, please retry later''))
          else if strict_eq tag_name (opt_get st ''version'')
          then showSuccess (JStr (''this is the latest version: '' @ to_str tag_name))
          else (case marked (jor body (JStr [])) of
              Inl e \<Rightarrow> throw e
            | Inr content \<Rightarrow> modify (\<lambda>s. s\<lparr>updateData := JObj [(''tag_name'', tag_name), (''content'', content)],
                 showUpdateModal := True\<rparr>)))))
         (\<lambda>_. showErr ''checking for updates failed, please retry later''))
       (modify (set_busy ''CheckUpdate'' False)))"

definition openGitHubRelease :: "unit other_act" where
  "openGitHubRelease = bnd (gets updateData) (\<lambda>d.
     emit (Opened (''https://github.com/karlorz/auth-gateway/releases/tag/'' @ to_str (opt_get d ''tag_name''))))"

definition update_onCancel :: "other_page \<Rightarrow> other_page" where
  "update_onCancel s = s\<lparr>showUpdateModal := False\<rparr>"

definition update_details :: "unit other_act" where
  "update_details = sq (modify (\<lambda>s. s\<lparr>showUpdateModal := False\<rparr>)) openGitHubRelease"

section \<open>Loading\<close>

text \<open>Only options the page knows are taken over; both forms get all of them.\<close>

definition other_item :: "jv \<Rightarrow> jv \<Rightarrow> jv \<Rightarrow> ('s, jv) act" where
  "other_item inp acc item = bnd (prop_get item ''key'') (\<lambda>k.
     ret (if to_str k \<in> set (obj_keys inp) then obj_set acc (to_str k) (opt_get item ''value'') else acc))"

definition other_getOptions :: "env \<Rightarrow> unit other_act" where
  "other_getOptions env = bnd (gets inputs) (\<lambda>inp.
     bnd (bnd (api_get env ''/api/option/'' JUndef) destruct) (\<lambda>(success, message, data).
       if truthy success
       then bnd (for_items data (other_item inp)) (\<lambda>newInputs.
            modify (\<lambda>s. s\<lparr>inputs := newInputs, general_values := newInputs, personal_values := newInputs\<rparr>))
       else showError message))"

section \<open>Lemmas\<close>

lemma submit_button_answered:
  assumes "env (trace s) (Http PUT ''/api/option/'' (option_body key (opt_get (inputs s) key))) =
      Ok (JObj [(''success'', JBool b), (''message'', JStr m)])"
  shows "submit_button env flag key ok bad s = (Inr (), s\<lparr>
      trace := trace s @ Requested (hdr_user (api s)) (Http PUT ''/api/option/'' (option_body key (opt_get (inputs s) key)))
        # (if b then [] else [Toasted TError (JStr (''Error: '' @ m))]) @ [Toasted TSuccess (JStr ok)],
      inputs := (if b then obj_set (inputs s) key (opt_get (inputs s) key) else inputs s), loading := False,
      loadingInput := obj_set (obj_set (loadingInput s) flag (JBool True)) flag (JBool False)\<rparr>)"
  using assms by (simp add: submit_button_def other_updateOption_def set_busy_def act_simps)

lemma other_items_run:
  "fold_items (other_item inp) (List.map option_item kvs) acc s =
    (Inr (fold (\<lambda>(k, v) a. if k \<in> set (obj_keys inp) then obj_set a k v else a) kvs acc), s)"
  by (induction kvs arbitrary: acc) (auto simp: other_item_def option_item_def act_simps)

lemma other_fold_get:
  "opt_get (fold (\<lambda>(k, v) a. if k \<in> set (obj_keys inp) then obj_set a k v else a) kvs acc) j =
    (case map_of (rev kvs) j of None \<Rightarrow> opt_get acc j | Some v \<Rightarrow> if j \<in> set (obj_keys inp) then v else opt_get acc j)"
  by (induction kvs arbitrary: acc) (auto simp: opt_get_obj_set map_add_def split: option.splits)

section \<open>Properties\<close>

text \<open>Every button of the page posts its own option with the text in its field, takes the text over only if the backend
  accepts it - and announces the update in either case, right after the message that refuses it.\<close>

lemma refused_setting_announced_as_updated:
  assumes "\<And>k v. env (trace s) (Http PUT ''/api/option/'' (option_body k v)) = Ok (JObj [(''success'', JBool b), (''message'', JStr m)])"
  shows "list_all (\<lambda>(save, key, ok).
      trace (snd (save env s)) = trace s @ Requested (hdr_user (api s)) (Http PUT ''/api/option/'' (option_body key (opt_get (inputs s) key)))
          # (if b then [] else [Toasted TError (JStr (''Error: '' @ m))]) @ [Toasted TSuccess (JStr ok)]
      \<and> (if b then opt_get (inputs (snd (save env s))) key = opt_get (inputs s) key else inputs (snd (save env s)) = inputs s))
    [(submitNotice, ''Notice'', ''notice updated''),
     (submitUserAgreement, LEGAL_USER_AGREEMENT_KEY, ''user agreement updated''),
     (submitPrivacyPolicy, LEGAL_PRIVACY_POLICY_KEY, ''privacy policy updated''),
     (submitSystemName, ''SystemName'', ''system name updated''), (submitLogo, ''Logo'', ''Logo updated''),
     (\<lambda>env. submitOption env ''HomePageContent'', ''HomePageContent'', ''home page updated''),
     (submitAbout, ''About'', ''about text updated''), (submitFooter, ''Footer'', ''footer updated'')]"
  unfolding list.pred_inject prod.case submitNotice_def submitUserAgreement_def submitPrivacyPolicy_def submitSystemName_def
    submitLogo_def submitOption_def submitAbout_def submitFooter_def
  by (intro conjI list.pred_inject(1); simp only: submit_button_answered[where env = env and s = s, OF assms] snd_conv) (simp_all add: opt_get_obj_set)

lemma refused_setting_announced_as_updated_example:
  "last (trace (snd (submitLogo (\<lambda>_ _. Ok (JObj [(''success'', JBool False), (''message'', JStr ''refused'')])) (other_initial blank_browser)))) =
    Toasted TSuccess (JStr ''Logo updated'')"
  using refused_setting_announced_as_updated[of "\<lambda>_ _. Ok (JObj [(''success'', JBool False), (''message'', JStr ''refused'')])"
      "other_initial blank_browser" False "''refused''"] by simp

text \<open>After loading, the page shows exactly the options it knows, each with the last value the answer lists.\<close>

lemma other_loaded:
  assumes "env (trace s) (Http GET ''/api/option/'' JUndef) =
      Ok (JObj [(''success'', JBool True), (''message'', m), (''data'', JArr (List.map option_item kvs))])"
  shows "opt_get (inputs (snd (other_getOptions env s))) k =
      (if k \<in> set (obj_keys (inputs s)) then case map_of (rev kvs) k of Some v \<Rightarrow> v | None \<Rightarrow> JUndef else JUndef)
    \<and> general_values (snd (other_getOptions env s)) = inputs (snd (other_getOptions env s))"
  using assms by (simp add: other_getOptions_def for_items_def act_simps other_items_run other_fold_get Let_def split: option.split)

text \<open>A release is offered exactly when its tag is not the running version.\<close>

lemma update_offered:
  assumes "env (trace s) (Http GET release_url JUndef) = Ok (JObj [(''tag_name'', JStr t), (''body'', JStr x)])"
    and "t \<noteq> []" and "marked (JStr x) = Inr c" and "marked (JStr []) = Inr c'" and "\<not> showUpdateModal s"
  shows "showUpdateModal (snd (checkUpdate marked env s)) \<longleftrightarrow> opt_get (status_ctx s) ''version'' \<noteq> JStr t"
  using assms by (cases "opt_get (status_ctx s) ''version''") (auto simp: checkUpdate_def act_simps Let_def jor_def set_busy_def)

end
