(* ===== verification/Two_Factor.thy ===== *)
theory Two_Factor
  imports Api Login
begin

text \<open>
  Setting up, disabling and renewing two-factor authentication: \<open>components/settings/personal/components/TwoFASetting.jsx\<close>.
  Every handler that talks to the backend is a guard and a call, and a call is what happens before its \<open>await\<close> and what
  happens after. This lets the last part of the theory interleave answers with the dialogue's other events.
\<close>

section \<open>State\<close>

record twofa_page = browser +
  loading :: bool
  status :: jv
  setupModalVisible :: bool
  enableModalVisible :: bool
  disableModalVisible :: bool
  backupModalVisible :: bool
  setupData :: jv
  verificationCode :: string
  backupCodes :: jv
  confirmDisable :: bool
  currentStep :: int

type_synonym 'a twofa_act = "(twofa_page, 'a) act"

definition twofa_initial :: "browser \<Rightarrow> twofa_page" where
  "twofa_initial b = \<lparr>store = store b, api = api b, user_ctx = user_ctx b, status_ctx = status_ctx b, trace = trace b,
     loading = False, status = JObj [(''enabled'', JBool False), (''locked'', JBool False), (''backup_codes_remaining'', JNum 0)],
     setupModalVisible = False, enableModalVisible = False, disableModalVisible = False, backupModalVisible = False,
     setupData = JNull, verificationCode = [], backupCodes = JArr [], confirmDisable = False, currentStep = 0\<rparr>"

section \<open>The four calls\<close>

datatype twofa_call = Setup | Enable string | Disable string | Regenerate string

definition code_body :: "string \<Rightarrow> jv" where
  "code_body code = JObj [(''code'', JStr code)]"

fun request_of :: "twofa_call \<Rightarrow> request" where
  "request_of Setup = Http POST ''/api/user/2fa/setup'' JUndef"
| "request_of (Enable code) = Http POST ''/api/user/2fa/enable'' (code_body code)"
| "request_of (Disable code) = Http POST ''/api/user/2fa/disable'' (code_body code)"
| "request_of (Regenerate code) = Http POST ''/api/user/2fa/backup_codes'' (code_body code)"

fun failure_text :: "twofa_call \<Rightarrow> string" where
  "failure_text Setup = ''setting up 2FA failed''"
| "failure_text (Enable code) = ''enabling 2FA failed''"
| "failure_text (Disable code) = ''disabling 2FA failed''"
| "failure_text (Regenerate code) = ''renewing the backup codes failed''"

definition fetchStatus :: "env \<Rightarrow> unit twofa_act" where
  "fetchStatus env = try_catch
     (bnd (api_get env ''/api/user/2fa/status'' JUndef) (\<lambda>d.
        bnd (prop_get d ''success'') (\<lambda>success.
        act_when (truthy success) (modify (\<lambda>s. s\<lparr>status := opt_get d ''data''\<rparr>)))))
     (\<lambda>_. showErr ''fetching the 2FA status failed'')"

text \<open>What an accepted call does; \<open>refresh\<close> is the call of \<open>fetchStatus\<close>, which nobody awaits.\<close>

fun accepted :: "unit twofa_act \<Rightarrow> twofa_call \<Rightarrow> jv \<Rightarrow> unit twofa_act" where
  "accepted refresh Setup d = modify (\<lambda>s. s\<lparr>setupData := opt_get d ''data'', setupModalVisible := True, currentStep := 0\<rparr>)"
| "accepted refresh (Enable code) d =
     sq (showSuccess (JStr ''two-factor authentication enabled!''))
    (sq (modify (\<lambda>s. s\<lparr>enableModalVisible := False, setupModalVisible := False, verificationCode := [], currentStep := 0\<rparr>))
        refresh)"
| "accepted refresh (Disable code) d =
     sq (showSuccess (JStr ''two-factor authentication disabled''))
    (sq (modify (\<lambda>s. s\<lparr>disableModalVisible := False, verificationCode := [], confirmDisable := False\<rparr>))
        refresh)"
| "accepted refresh (Regenerate code) d =
     bnd (prop_get (opt_get d ''data'') ''backup_codes'') (\<lambda>codes.
     sq (modify (\<lambda>s. s\<lparr>backupCodes := codes\<rparr>))
    (sq (showSuccess (JStr ''backup codes renewed''))
    (sq (modify (\<lambda>s. s\<lparr>verificationCode := []\<rparr>))
        refresh)))"

definition answered :: "unit twofa_act \<Rightarrow> twofa_call \<Rightarrow> jv \<Rightarrow> unit twofa_act" where
  "answered refresh c d = bnd (prop_get d ''success'') (\<lambda>success.
     if truthy success then accepted refresh c d else showError (opt_get d ''message''))"

definition post_call :: "env \<Rightarrow> twofa_call \<Rightarrow> unit twofa_act" where
  "post_call env c =
     sq (modify (\<lambda>s. s\<lparr>loading := True\<rparr>))
       (try_finally
         (try_catch (bnd (api_call env False (request_of c)) (answered (detach (fetchStatus env)) c))
            (\<lambda>_. showErr (failure_text c)))
         (modify (\<lambda>s. s\<lparr>loading := False\<rparr>)))"

section \<open>The handlers\<close>

definition handleSetup2FA :: "env \<Rightarrow> unit twofa_act" where
  "handleSetup2FA env = post_call env Setup"

definition handleEnable2FA :: "env \<Rightarrow> unit twofa_act" where
  "handleEnable2FA env = bnd (gets verificationCode) (\<lambda>code.
     if code = [] then showWarning (JStr ''enter the code'') else post_call env (Enable code))"

definition handleDisable2FA :: "env \<Rightarrow> unit twofa_act" where
  "handleDisable2FA env = bnd (gets (\<lambda>s. (verificationCode s, confirmDisable s))) (\<lambda>(code, confirmed).
     if code = [] then showWarning (JStr ''enter the code or a backup code'')
     else if \<not> confirmed then showWarning (JStr ''confirm that you know what disabling means'')
     else post_call env (Disable code))"

definition handleRegenerateBackupCodes :: "env \<Rightarrow> unit twofa_act" where
  "handleRegenerateBackupCodes env = bnd (gets verificationCode) (\<lambda>code.
     if code = [] then showWarning (JStr ''enter the code'') else post_call env (Regenerate code))"

text \<open>\<open>navigator.clipboard\<close> is undefined on pages that were not loaded securely.\<close>

definition copyTextToClipboard :: "env \<Rightarrow> bool \<Rightarrow> string \<Rightarrow> string \<Rightarrow> unit twofa_act" where
  "copyTextToClipboard env clipboard txt successMessage =
     (if \<not> clipboard then throw type_error
      else detach (try_catch (bnd (browser_call env (Clipboard_write txt)) (\<lambda>_. showSuccess (JStr successMessage)))
             (\<lambda>_. showErr ''copying failed, please copy by hand'')))"

definition join_lines :: "jv \<Rightarrow> string twofa_act" where
  "join_lines v = (case v of JArr codes \<Rightarrow> ret (join_with [char_of (10 :: nat)] (elem_strs codes)) | _ \<Rightarrow> throw type_error)"

definition copyBackupCodes :: "env \<Rightarrow> bool \<Rightarrow> unit twofa_act" where
  "copyBackupCodes env clipboard = bnd (gets backupCodes) (\<lambda>codes. bnd (join_lines codes) (\<lambda>codesText.
     copyTextToClipboard env clipboard codesText ''backup codes copied to the clipboard''))"

text \<open>The same for the codes of the set-up dialogue.\<close>

definition onCopy :: "env \<Rightarrow> bool \<Rightarrow> unit twofa_act" where
  "onCopy env clipboard = bnd (gets setupData) (\<lambda>d. bnd (prop_get d ''backup_codes'') (\<lambda>codes. bnd (join_lines codes) (\<lambda>codesText.
     copyTextToClipboard env clipboard codesText ''backup codes copied to the clipboard'')))"

section \<open>The dialogues\<close>

definition setup_onCancel :: "twofa_page \<Rightarrow> twofa_page" where
  "setup_onCancel s = s\<lparr>setupModalVisible := False, setupData := JNull, currentStep := 0, verificationCode := []\<rparr>"

definition disable_onCancel :: "twofa_page \<Rightarrow> twofa_page" where
  "disable_onCancel s = s\<lparr>disableModalVisible := False, verificationCode := [], confirmDisable := False\<rparr>"

definition backup_onCancel :: "twofa_page \<Rightarrow> twofa_page" where
  "backup_onCancel s = s\<lparr>backupModalVisible := False, verificationCode := [], backupCodes := JArr []\<rparr>"

datatype footer_button = Previous | Next | Finish | Cancel | Confirm_disable | Renew | Done

definition renderSetupModalFooter :: "twofa_page \<Rightarrow> footer_button list" where
  "renderSetupModalFooter s = (if currentStep s > 0 then [Previous] else []) @ (if currentStep s < 2 then [Next] else [Finish])"

text \<open>A disabled button is not listed.\<close>

definition renderDisableModalFooter :: "twofa_page \<Rightarrow> footer_button list" where
  "renderDisableModalFooter s = Cancel # (if \<not> confirmDisable s \<or> verificationCode s = [] then [] else [Confirm_disable])"

definition renderRegenerateModalFooter :: "twofa_page \<Rightarrow> footer_button list twofa_act" where
  "renderRegenerateModalFooter s = (case backupCodes s of
       JArr (c # cs) \<Rightarrow> ret [Done]
     | JStr (c # cs) \<Rightarrow> ret [Done]
     | JUndef \<Rightarrow> throw type_error | JNull \<Rightarrow> throw type_error
     | _ \<Rightarrow> ret (Cancel # (if verificationCode s = [] then [] else [Renew])))"

definition setup_onFinish :: "env \<Rightarrow> unit twofa_act" where
  "setup_onFinish env = bnd (gets verificationCode) (\<lambda>code.
     if code = [] then showWarning (JStr ''enter the code'') else handleEnable2FA env)"

definition go_to_step :: "int \<Rightarrow> twofa_page \<Rightarrow> twofa_page" where
  "go_to_step d s = s\<lparr>currentStep := currentStep s + d\<rparr>"

section \<open>Answers and events in any order\<close>

text \<open>
  A handler runs up to its \<open>await\<close>; until the answer arrives the user can go on using the dialogues. \<open>resume\<close> is the rest
  of the handler, and \<open>post_call_resumes\<close> says that the two halves are the handler.
\<close>

definition resume :: "unit twofa_act \<Rightarrow> bool \<Rightarrow> twofa_call \<Rightarrow> reply \<Rightarrow> unit twofa_act" where
  "resume refresh intercepted c rep =
     try_finally
       (try_catch (bnd (reply_value False intercepted rep) (answered refresh c)) (\<lambda>_. showErr (failure_text c)))
       (modify (\<lambda>s. s\<lparr>loading := False\<rparr>))"

lemma post_call_resumes:
  "post_call env c s = resume (detach (fetchStatus env)) (intercepts (api s)) c (env (trace s) (request_of c))
     (s\<lparr>loading := True, trace := trace s @ [Requested (hdr_user (api s)) (request_of c)]\<rparr>)"
  by (simp add: post_call_def resume_def reply_value_def sq_def modify_def try_finally_def try_catch_def bnd_def throw_def ret_def
      api_call_eq Let_def split: reply.split)

text \<open>The page with the calls it waits for. A button can be pressed when its dialogue shows it.\<close>

inductive twofa_step :: "twofa_page \<times> twofa_call list \<Rightarrow> twofa_page \<times> twofa_call list \<Rightarrow> bool" where
  set_up: "\<not> truthy (opt_get (status s) ''enabled'') \<Longrightarrow> twofa_step (s, ps) (s\<lparr>loading := True\<rparr>, Setup # ps)"
| finish: "setupModalVisible s \<Longrightarrow> Finish \<in> set (renderSetupModalFooter s) \<Longrightarrow> verificationCode s \<noteq> [] \<Longrightarrow>
    twofa_step (s, ps) (s\<lparr>loading := True\<rparr>, Enable (verificationCode s) # ps)"
| disable: "disableModalVisible s \<Longrightarrow> Confirm_disable \<in> set (renderDisableModalFooter s) \<Longrightarrow>
    twofa_step (s, ps) (s\<lparr>loading := True\<rparr>, Disable (verificationCode s) # ps)"
| renew: "backupModalVisible s \<Longrightarrow> renderRegenerateModalFooter s s = (Inr buttons, s) \<Longrightarrow> Renew \<in> set buttons \<Longrightarrow>
    twofa_step (s, ps) (s\<lparr>loading := True\<rparr>, Regenerate (verificationCode s) # ps)"
| answer: "c \<in> set ps \<Longrightarrow> twofa_step (s, ps) (snd (resume (ret ()) intercepted c rep s), remove1 c ps)"
| refreshed: "twofa_step (s, ps) (snd (fetchStatus env s), ps)"
| type_setup: "setupModalVisible s \<Longrightarrow> currentStep s = 2 \<Longrightarrow> length code \<le> 6 \<Longrightarrow> twofa_step (s, ps) (s\<lparr>verificationCode := code\<rparr>, ps)"
| type_disable: "disableModalVisible s \<Longrightarrow> twofa_step (s, ps) (s\<lparr>verificationCode := code\<rparr>, ps)"
| type_backup: "backupModalVisible s \<Longrightarrow> twofa_step (s, ps) (s\<lparr>verificationCode := code\<rparr>, ps)"
| tick: "disableModalVisible s \<Longrightarrow> twofa_step (s, ps) (s\<lparr>confirmDisable := b\<rparr>, ps)"
| previous: "setupModalVisible s \<Longrightarrow> Previous \<in> set (renderSetupModalFooter s) \<Longrightarrow> twofa_step (s, ps) (go_to_step (-1) s, ps)"
| next_step: "setupModalVisible s \<Longrightarrow> Next \<in> set (renderSetupModalFooter s) \<Longrightarrow> twofa_step (s, ps) (go_to_step 1 s, ps)"
| open_disable: "truthy (opt_get (status s) ''enabled'') \<Longrightarrow> twofa_step (s, ps) (s\<lparr>disableModalVisible := True\<rparr>, ps)"
| open_backup: "truthy (opt_get (status s) ''enabled'') \<Longrightarrow> twofa_step (s, ps) (s\<lparr>backupModalVisible := True\<rparr>, ps)"
| cancel_setup: "setupModalVisible s \<Longrightarrow> twofa_step (s, ps) (setup_onCancel s, ps)"
| cancel_disable: "disableModalVisible s \<Longrightarrow> twofa_step (s, ps) (disable_onCancel s, ps)"
| cancel_backup: "backupModalVisible s \<Longrightarrow> twofa_step (s, ps) (backup_onCancel s, ps)"

inductive_cases twofa_stepE: "twofa_step (s, ps) (t, qs)"

section \<open>The invariant\<close>

definition dialogue_inv :: "twofa_page \<Rightarrow> bool" where
  "dialogue_inv s = (currentStep s \<in> {0, 1, 2}
     \<and> (currentStep s = 0 \<or> setupModalVisible s)
     \<and> (verificationCode s = [] \<or> setupModalVisible s \<or> disableModalVisible s \<or> backupModalVisible s)
     \<and> (\<not> confirmDisable s \<or> disableModalVisible s))"

fun call_ok :: "twofa_call \<Rightarrow> bool" where
  "call_ok Setup = True"
| "call_ok (Enable code) = (code \<noteq> [])"
| "call_ok (Disable code) = (code \<noteq> [])"
| "call_ok (Regenerate code) = (code \<noteq> [])"

interpretation dialogue: state_rel "\<lambda>s t. dialogue_inv s \<longrightarrow> dialogue_inv t"
  by unfold_locales blast+

lemma framed_fields:
  fixes s t :: twofa_page
  assumes "browser.more t = browser.more s"
  shows "dialogue_inv t = dialogue_inv s" "setupData t = setupData s" "loading t = loading s" "status t = status s"
    "setupModalVisible t = setupModalVisible s" "verificationCode t = verificationCode s" "currentStep t = currentStep s"
  using assms by (cases s; cases t; simp add: dialogue_inv_def)+

lemma dialogue_frames: "frames m \<Longrightarrow> dialogue.obeys m"
  unfolding framed.obeys_def dialogue.obeys_def by (metis framed_fields(1))

lemma dialogue_accepted: "dialogue.obeys (accepted (ret ()) c d)"
  by (cases c; simp only: accepted.simps; intro dialogue.obeys_intros dialogue_frames frames_intros dialogue.obeys_modify)
    (simp_all add: dialogue_inv_def)

lemma frames_reply_value: "frames (reply_value False b rep)"
  unfolding reply_value_def on_rejected_def by (intro frames_intros)

lemma dialogue_resume: "dialogue.obeys (resume (ret ()) b c rep)"
  unfolding resume_def answered_def
  by (intro dialogue.obeys_intros dialogue_accepted dialogue_frames[OF frames_reply_value] dialogue_frames[OF frames_showErr]
      dialogue_frames[OF frames_showError] dialogue.obeys_modify) (simp add: dialogue_inv_def)

lemma dialogue_fetchStatus: "dialogue.obeys (fetchStatus env)"
  unfolding fetchStatus_def
  by (intro dialogue.obeys_intros dialogue_frames[OF frames_api_get(1)] dialogue_frames[OF frames_showErr] dialogue.obeys_modify)
    (simp add: dialogue_inv_def)

lemma obeyed: "dialogue.obeys m \<Longrightarrow> dialogue_inv s \<Longrightarrow> dialogue_inv (snd (m s))"
  by (simp add: dialogue.obeys_def)

lemma twofa_step_inv:
  "twofa_step x y \<Longrightarrow> dialogue_inv (fst x) \<and> list_all call_ok (snd x) \<Longrightarrow> dialogue_inv (fst y) \<and> list_all call_ok (snd y)"
proof (induction rule: twofa_step.induct)
  case (answer c ps s intercepted rep)
  then show ?case using obeyed[OF dialogue_resume] set_remove1_subset[of c ps] by (auto simp: list_all_iff)
next
  case (refreshed s ps env)
  then show ?case using obeyed[OF dialogue_fetchStatus] by simp
next
  case (renew s buttons ps)
  then have "verificationCode s \<noteq> []"
    by (auto simp: renderRegenerateModalFooter_def ret_def throw_def split: jv.splits list.splits if_splits)
  with renew show ?case by (simp add: dialogue_inv_def)
qed (auto simp: dialogue_inv_def renderSetupModalFooter_def renderDisableModalFooter_def go_to_step_def setup_onCancel_def
    disable_onCancel_def backup_onCancel_def split: if_splits)

lemma twofa_steps_inv:
  "twofa_step\<^sup>*\<^sup>* x y \<Longrightarrow> dialogue_inv (fst x) \<and> list_all call_ok (snd x) \<Longrightarrow> dialogue_inv (fst y) \<and> list_all call_ok (snd y)"
  by (induction rule: rtranclp_induct) (auto dest: twofa_step_inv)

lemma initial_inv: "dialogue_inv (twofa_initial b)"
  by (simp add: twofa_initial_def dialogue_inv_def)

section \<open>What the handlers send\<close>

lemma is_post_request_of [simp]: "is_post (Requested v (request_of c))"
  by (cases c) simp_all

lemma silent_fetchStatus: "emits (\<lambda>e. \<not> is_post e) (fetchStatus env)"
  unfolding fetchStatus_def api_get_def by (intro emits_intros) simp_all

lemma silent_accepted:
  assumes "emits (\<lambda>e. \<not> is_post e) refresh"
  shows "emits (\<lambda>e. \<not> is_post e) (accepted refresh c d)"
  by (cases c; simp only: accepted.simps showSuccess_def; intro emits_intros assms) simp_all

lemma silent_resume:
  assumes "emits (\<lambda>e. \<not> is_post e) refresh"
  shows "emits (\<lambda>e. \<not> is_post e) (resume refresh b c rep)"
  unfolding resume_def answered_def reply_value_def on_rejected_def
  by (intro emits_intros silent_accepted assms) simp_all

lemma posts_call: "posts (post_call env c) s = [Requested (hdr_user (api s)) (request_of c)]"
proof -
  let ?s = "s\<lparr>loading := True, trace := trace s @ [Requested (hdr_user (api s)) (request_of c)]\<rparr>"
  let ?m = "resume (detach (fetchStatus env)) (intercepts (api s)) c (env (trace s) (request_of c))"
  have "emits (\<lambda>e. \<not> is_post e) ?m"
    by (intro silent_resume) (unfold detach_def, intro emits_intros silent_fetchStatus)
  from emitsD[OF this, of ?s "fst (?m ?s)" "snd (?m ?s)"]
  obtain es where "trace (snd (?m ?s)) = trace ?s @ es" "list_all (\<lambda>e. \<not> is_post e) es" by auto
  then show ?thesis by (intro posts_one) (simp_all add: post_call_resumes)
qed

section \<open>Properties\<close>

text \<open>What the two-factor page changes on the backend: disabling is posted only with a code and with the confirmation
  ticked, enabling and renewing only with a code, each handler posts at most once, and it posts the code that was typed.\<close>

lemma twofa_posts_guarded:
  "posts (handleSetup2FA env) s = [Requested (hdr_user (api s)) (request_of Setup)]
   \<and> posts (handleEnable2FA env) s =
       (if verificationCode s = [] then [] else [Requested (hdr_user (api s)) (request_of (Enable (verificationCode s)))])
   \<and> posts (handleDisable2FA env) s =
       (if verificationCode s \<noteq> [] \<and> confirmDisable s
        then [Requested (hdr_user (api s)) (request_of (Disable (verificationCode s)))] else [])
   \<and> posts (handleRegenerateBackupCodes env) s =
       (if verificationCode s = [] then [] else [Requested (hdr_user (api s)) (request_of (Regenerate (verificationCode s)))])"
  by (simp add: handleSetup2FA_def handleEnable2FA_def handleDisable2FA_def handleRegenerateBackupCodes_def posts_simps posts_call)

text \<open>C4: However the answers of pending calls mix with what the user does, a typed code never outlives the dialogues, the
  confirmation is ticked only while its dialogue is open, the wizard is on one of its three steps and only while it is open, and
  no pending call carries an empty code.\<close>

theorem twofa_code_stays_in_dialogue:
  assumes "twofa_step\<^sup>*\<^sup>* (twofa_initial b, []) (s, calls)"
  shows "currentStep s \<in> {0, 1, 2}
    \<and> (currentStep s = 0 \<or> setupModalVisible s)
    \<and> (verificationCode s = [] \<or> setupModalVisible s \<or> disableModalVisible s \<or> backupModalVisible s)
    \<and> (\<not> confirmDisable s \<or> disableModalVisible s)
    \<and> list_all call_ok calls"
  using twofa_steps_inv[OF assms] initial_inv by (simp add: dialogue_inv_def)

text \<open>A run: setting up is answered while the user waits, and the wizard is taken to its last step.\<close>

lemma wizard_run:
  "\<exists>s. twofa_step\<^sup>*\<^sup>* (twofa_initial b, []) (s, []) \<and> setupModalVisible s \<and> currentStep s = 1"
proof -
  let ?i = "twofa_initial b"
  let ?s = "?i\<lparr>loading := True\<rparr>"
  let ?rep = "Ok (JObj [(''success'', JBool True), (''data'', JObj [])])"
  let ?t = "snd (resume (ret ()) True Setup ?rep ?s)"
  have t: "setupModalVisible ?t \<and> currentStep ?t = 0"
    by (simp add: resume_def reply_value_def answered_def act_simps)
  have "twofa_step (?i, []) (?s, [Setup])" by (rule set_up) (simp add: twofa_initial_def)
  moreover have "twofa_step (?s, [Setup]) (?t, [])" using answer[of Setup "[Setup]" ?s True ?rep] by simp
  moreover have "twofa_step (?t, []) (go_to_step 1 ?t, [])" using t by (intro next_step) (simp_all add: renderSetupModalFooter_def)
  ultimately have "twofa_step\<^sup>*\<^sup>* (?i, []) (go_to_step 1 ?t, [])" by (meson converse_rtranclp_into_rtranclp rtranclp.rtrancl_refl)
  then show ?thesis using t by (intro exI[of _ "go_to_step 1 ?t"]) (simp add: go_to_step_def)
qed

theorem twofa_code_stays_in_dialogue_witness:
  "\<exists>s :: twofa_page. currentStep s = 1 \<and> setupModalVisible s \<and> \<not> (confirmDisable s \<and> \<not> disableModalVisible s)"
proof -
  obtain s where s: "twofa_step\<^sup>*\<^sup>* (twofa_initial blank_browser, []) (s, [])" "setupModalVisible s" "currentStep s = 1"
    using wizard_run by blast
  show ?thesis by (rule exI[of _ s]) (use s(2,3) twofa_code_stays_in_dialogue[OF s(1)] in auto)
qed

text \<open>What the status becomes: the answer's data, and the old status when there is no answer.\<close>

definition status_after :: "reply \<Rightarrow> jv \<Rightarrow> jv" where
  "status_after rep old = (case rep of Ok d \<Rightarrow> if truthy (opt_get d ''success'') then opt_get d ''data'' else old | Rejected e \<Rightarrow> old)"

lemma fetchStatus_fields:
  "status (snd (fetchStatus env s)) = status_after (env (trace s) (Http GET ''/api/user/2fa/status'' JUndef)) (status s)
   \<and> setupModalVisible (snd (fetchStatus env s)) = setupModalVisible s \<and> verificationCode (snd (fetchStatus env s)) = verificationCode s
   \<and> currentStep (snd (fetchStatus env s)) = currentStep s \<and> setupData (snd (fetchStatus env s)) = setupData s"
proof (cases "env (trace s) (Http GET ''/api/user/2fa/status'' JUndef)")
  case (Ok d)
  then show ?thesis
    by (cases "nullish d") (auto simp: fetchStatus_def act_simps Let_def status_after_def showErr_eq nullish_def)
next
  case (Rejected e)
  obtain e' t where c: "api_call env False (Http GET ''/api/user/2fa/status'' JUndef) s = (Inl e', t)"
    using api_call_Rejected[of env s "Http GET ''/api/user/2fa/status'' JUndef" e False] Rejected
    by (cases "api_call env False (Http GET ''/api/user/2fa/status'' JUndef) s") auto
  have "browser.more t = browser.more s" using framesD[OF frames_api_call c] .
  then show ?thesis using framed_fields[of t s]
    by (simp add: fetchStatus_def api_get_def try_catch_def bnd_def c Rejected status_after_def showErr_eq emit_def modify_def del: api_call_eq)
qed

text \<open>Enabling with a code the backend accepts closes the wizard, forgets the code and returns to the first step, ends
  loading, and then shows the status the backend reports - or the old one when that second question fails.\<close>

lemma accepted_enable_closes_wizard:
  assumes "verificationCode s \<noteq> []"
    and "env (trace s) (request_of (Enable (verificationCode s))) = Ok d" and "truthy (opt_get d ''success'')"
  shows "\<exists>t asked. handleEnable2FA env s = (Inr (), t)
    \<and> \<not> setupModalVisible t \<and> verificationCode t = [] \<and> currentStep t = 0 \<and> \<not> loading t
    \<and> status t = status_after (env asked (Http GET ''/api/user/2fa/status'' JUndef)) (status s)"
proof -
  let ?s = "s\<lparr>loading := True, trace := trace s @ [Requested (hdr_user (api s)) (request_of (Enable (verificationCode s))),
      Toasted TSuccess (JStr ''two-factor authentication enabled!'')],
      enableModalVisible := False, setupModalVisible := False, verificationCode := [], currentStep := 0\<rparr>"
  let ?t = "(snd (fetchStatus env ?s))\<lparr>loading := False\<rparr>"
  have n: "\<not> nullish d" using assms(3) by (cases d) auto
  have "handleEnable2FA env s = (Inr (), ?t)"
    using assms n
    by (simp add: handleEnable2FA_def post_call_resumes resume_def reply_value_def answered_def act_simps del: request_of.simps
        split: prod.split sum.split)
  then show ?thesis using fetchStatus_fields[of env ?s] by (intro exI[of _ ?t] exI[of _ "trace ?s"]) simp
qed

lemma accepted_enable_closes_wizard_example:
  "\<exists>t. handleEnable2FA (\<lambda>_ _. Ok (JObj [(''success'', JBool True), (''data'', JObj [(''enabled'', JBool True)])]))
      ((twofa_initial blank_browser)\<lparr>setupModalVisible := True, currentStep := 2, verificationCode := ''123456''\<rparr>) = (Inr (), t)
    \<and> status t = JObj [(''enabled'', JBool True)]"
  using accepted_enable_closes_wizard[of "(twofa_initial blank_browser)\<lparr>setupModalVisible := True, currentStep := 2, verificationCode := ''123456''\<rparr>"
      "\<lambda>_ _. Ok (JObj [(''success'', JBool True), (''data'', JObj [(''enabled'', JBool True)])])"
      "JObj [(''success'', JBool True), (''data'', JObj [(''enabled'', JBool True)])]"]
  by (auto simp: status_after_def)

text \<open>The secret and the backup codes of the wizard stay in the page after it was finished; cancelling forgets them.\<close>

lemma finished_wizard_keeps_secret:
  "setupData (snd (resume (ret ()) b (Enable code) (Ok (JObj [(''success'', JBool True)])) s)) = setupData s
   \<and> setupData (setup_onCancel s) = JNull"
  by (simp add: resume_def reply_value_def answered_def act_simps setup_onCancel_def)

text \<open>Codes that arrive after their dialogue was cancelled are kept, and shown when it is opened the next time.\<close>

lemma late_codes_are_kept:
  assumes "\<not> backupModalVisible s"
  shows "let t = snd (resume (ret ()) b (Regenerate code) (Ok (JObj [(''success'', JBool True),
      (''data'', JObj [(''backup_codes'', JArr codes)])])) s) in \<not> backupModalVisible t \<and> backupCodes t = JArr codes"
  using assms by (simp add: Let_def resume_def reply_value_def answered_def act_simps)

end
