(* ===== verification/Setup_Wizard.thy ===== *)
theory Setup_Wizard
  imports Login
begin

text \<open>
  The first start of a gateway: \<open>components/setup/SetupWizard.jsx\<close> with its steps. The wizard keeps what was typed twice, in
  the React state \<open>formData\<close>, which the steps are checked against, and in the form component, whose values are posted;
  the form component is modelled as the object of its values.
\<close>

section \<open>State\<close>

record wizard = browser +
  loading :: bool
  setupStatus :: jv
  currentStep :: int
  formRef :: "jv option"
  formData :: jv

type_synonym 'a wizard_act = "(wizard, 'a) act"

definition initial_data :: jv where
  "initial_data = JObj [(''username'', JStr []), (''password'', JStr []), (''confirmPassword'', JStr []),
     (''usageMode'', JStr ''external'')]"

definition steps :: "string list" where
  "steps = [''database check'', ''administrator account'', ''usage mode'', ''completion'']"

text \<open>The state after the first render, in which the form took \<open>formData\<close> as its initial values.\<close>

definition wizard_initial :: "browser \<Rightarrow> wizard" where
  "wizard_initial b = \<lparr>store = store b, api = api b, user_ctx = user_ctx b, status_ctx = status_ctx b, trace = trace b,
     loading = False,
     setupStatus = JObj [(''status'', JBool False), (''root_init'', JBool False), (''database_type'', JStr [])],
     currentStep = 0, formRef = Some initial_data, formData = initial_data\<rparr>"

section \<open>Operations\<close>

definition setValue :: "string \<Rightarrow> jv \<Rightarrow> wizard \<Rightarrow> wizard" where
  "setValue k v s = s\<lparr>formRef := map_option (\<lambda>f. obj_set f k v) (formRef s)\<rparr>"

definition default_mode_effect :: "wizard \<Rightarrow> wizard" where
  "default_mode_effect = setValue ''usageMode'' (JStr ''external'')"

definition fetchSetupStatus :: "env \<Rightarrow> unit wizard_act" where
  "fetchSetupStatus env = try_catch
     (bnd (bnd (api_get env ''/api/setup'' JUndef) destruct) (\<lambda>(success, _, data).
       if truthy success
       then sq (modify (\<lambda>s. s\<lparr>setupStatus := data\<rparr>))
           (bnd (prop_get data ''status'') (\<lambda>st.
            if truthy st then emit (Location_set ''/'') else modify (\<lambda>s. s\<lparr>currentStep := 0\<rparr>)))
       else showErr ''fetching the setup status failed''))
     (\<lambda>_. showErr ''fetching the setup status failed'')"

text \<open>The radio group hands over an event; its \<open>target.value\<close> is the mode.\<close>

definition handleUsageModeChange :: "jv \<Rightarrow> wizard \<Rightarrow> wizard" where
  "handleUsageModeChange e s =
     (let nextMode = jcoalesce (opt_get (opt_get e ''target'') ''value'') e in
      setValue ''usageMode'' nextMode (s\<lparr>formData := obj_set (formData s) ''usageMode'' nextMode\<rparr>))"

text \<open>An input of the administrator step: the form component keeps the value and calls \<open>onChange\<close>.\<close>

definition admin_onChange :: "string \<Rightarrow> string \<Rightarrow> wizard \<Rightarrow> wizard" where
  "admin_onChange field value s =
     setValue field (JStr value) (s\<lparr>formData := obj_set (formData s) field (JStr value)\<rparr>)"

text \<open>\<open>v.length < 8\<close>: undefined is not smaller.\<close>

definition shorter_than_8 :: "jv \<Rightarrow> bool" where
  "shorter_than_8 v = (case v of JStr p \<Rightarrow> length p < 8 | JArr l \<Rightarrow> length l < 8 | _ \<Rightarrow> False)"

definition canProceedToNext :: "bool wizard_act" where
  "canProceedToNext = bnd (gets (\<lambda>s. s)) (\<lambda>s.
     let d = formData s in
     if currentStep s = 1 then
       (if truthy (opt_get (setupStatus s) ''root_init'') then ret True
        else if \<not> truthy (opt_get d ''username'') \<or> \<not> truthy (opt_get d ''password'') \<or> \<not> truthy (opt_get d ''confirmPassword'')
        then sq (showErr ''fill in the administrator account'') (ret False)
        else if \<not> strict_eq (opt_get d ''password'') (opt_get d ''confirmPassword'')
        then sq (showErr ''the two passwords differ'') (ret False)
        else if shorter_than_8 (opt_get d ''password'')
        then sq (showErr ''the password needs at least 8 characters'') (ret False)
        else ret True)
     else if currentStep s = 2 then
       (if \<not> truthy (opt_get d ''usageMode'') then sq (showErr ''choose a usage mode'') (ret False) else ret True)
     else ret True)"

definition wizard_next :: "unit wizard_act" where
  "wizard_next = bnd (gets currentStep) (\<lambda>n. bnd canProceedToNext (\<lambda>ok.
     if \<not> ok then ret () else modify (\<lambda>s. s\<lparr>currentStep := n + 1\<rparr>)))"

definition prev :: "wizard \<Rightarrow> wizard" where
  "prev s = s\<lparr>currentStep := currentStep s - 1\<rparr>"

text \<open>\<open>v.trim()\<close>: a TypeError on everything but a text.\<close>

definition blank :: "jv \<Rightarrow> bool wizard_act" where
  "blank v = (if \<not> truthy v then ret True else case v of JStr x \<Rightarrow> ret (trim x = []) | _ \<Rightarrow> throw type_error)"

definition setup_values :: "jv \<Rightarrow> jv" where
  "setup_values values =
     (let usageMode = opt_get values ''usageMode'';
          v1 = obj_set values ''SelfUseModeEnabled'' (JBool (strict_eq usageMode (JStr ''self'')));
          v2 = obj_set v1 ''DemoSiteEnabled'' (JBool (strict_eq usageMode (JStr ''demo'')))
      in obj_delete v2 ''usageMode'')"

definition post_setup :: "env \<Rightarrow> jv \<Rightarrow> unit wizard_act" where
  "post_setup env formValues =
     sq (modify (\<lambda>s. s\<lparr>loading := True\<rparr>))
       (detach
         (try_finally
           (try_catch
             (bnd (bnd (api_post env ''/api/setup'' formValues) destruct) (\<lambda>(success, message, _).
                if truthy success
                then sq (showNotice (JStr ''the system is initialised, one moment'') False) (emit (Timer 1500 ''location.reload''))
                else showError (jor message (JStr ''the initialisation failed, please retry''))))
             (\<lambda>_. sq (showErr ''the initialisation of the system failed, please retry'') (modify (\<lambda>s. s\<lparr>loading := False\<rparr>))))
           (modify (\<lambda>s. s\<lparr>loading := False\<rparr>))))"

definition wizard_onSubmit :: "env \<Rightarrow> unit wizard_act" where
  "wizard_onSubmit env = bnd (gets (\<lambda>s. s)) (\<lambda>s0.
     case formRef s0 of
       None \<Rightarrow> showErr ''form reference error, please reload''
     | Some values \<Rightarrow>
         if truthy (opt_get (setupStatus s0) ''root_init'') then post_setup env (setup_values values)
         else bnd (blank (opt_get values ''username'')) (\<lambda>noname.
           if noname then showErr ''enter the administrator name''
           else if \<not> truthy (opt_get values ''password'') \<or> shorter_than_8 (opt_get values ''password'')
           then showErr ''the password needs at least 8 characters''
           else if \<not> strict_eq (opt_get values ''password'') (opt_get values ''confirmPassword'')
           then showErr ''the two passwords differ''
           else post_setup env (setup_values values)))"

text \<open>\<open>StepNavigation\<close>: the buttons a step offers.\<close>

datatype nav_button = Backward | Onward | Initialise

definition StepNavigation :: "int \<Rightarrow> nav_button list" where
  "StepNavigation n = (if n > 0 then [Backward] else []) @ (if n < int (length steps) - 1 then [Onward] else [])
     @ (if n = int (length steps) - 1 then [Initialise] else [])"

section \<open>The wizard as a state machine\<close>

text \<open>
  The status is asked for once, when the page is mounted; its answer may come at any later moment. The second component
  says whether it is still on its way.
\<close>

inductive wizard_step :: "wizard \<times> bool \<Rightarrow> wizard \<times> bool \<Rightarrow> bool" where
  status: "wizard_step (s, True) (snd (fetchSetupStatus env s), False)"
| type_field: "currentStep s = 1 \<Longrightarrow> \<not> truthy (opt_get (setupStatus s) ''root_init'') \<Longrightarrow>
    field \<in> {''username'', ''password'', ''confirmPassword''} \<Longrightarrow> wizard_step (s, w) (admin_onChange field v s, w)"
| mode: "currentStep s = 2 \<Longrightarrow> m \<in> {''external'', ''self'', ''demo''} \<Longrightarrow>
    wizard_step (s, w) (handleUsageModeChange (JObj [(''target'', JObj [(''value'', JStr m)])]) s, w)"
| forward: "Onward \<in> set (StepNavigation (currentStep s)) \<Longrightarrow> wizard_step (s, w) (snd (wizard_next s), w)"
| backward: "Backward \<in> set (StepNavigation (currentStep s)) \<Longrightarrow> wizard_step (s, w) (prev s, w)"
| submit: "Initialise \<in> set (StepNavigation (currentStep s)) \<Longrightarrow> wizard_step (s, w) (snd (wizard_onSubmit env s), w)"

inductive_cases wizard_stepE: "wizard_step (s, w) (t, w')"

section \<open>The invariant\<close>

definition fields :: "string list" where
  "fields = [''username'', ''password'', ''confirmPassword'', ''usageMode'']"

text \<open>The two copies agree on the four fields, which are texts; the mode is one of the three.\<close>

definition in_step :: "wizard \<Rightarrow> bool" where
  "in_step s = (case formRef s of None \<Rightarrow> False | Some f \<Rightarrow>
     list_all (\<lambda>k. opt_get f k = opt_get (formData s) k \<and> type_of (opt_get (formData s) k) = ''string'') fields
     \<and> opt_get (formData s) ''usageMode'' \<in> {JStr ''external'', JStr ''self'', JStr ''demo''})"

definition credentials_ok :: "jv \<Rightarrow> bool" where
  "credentials_ok d = (truthy (opt_get d ''username'') \<and> truthy (opt_get d ''password'') \<and> \<not> shorter_than_8 (opt_get d ''password'')
     \<and> opt_get d ''confirmPassword'' = opt_get d ''password'')"

definition wizard_inv :: "wizard \<times> bool \<Rightarrow> bool" where
  "wizard_inv sw = (case sw of (s, awaited) \<Rightarrow>
     in_step s \<and> currentStep s \<in> {0, 1, 2, 3}
     \<and> (awaited \<longrightarrow> \<not> truthy (opt_get (setupStatus s) ''root_init''))
     \<and> (2 \<le> currentStep s \<longrightarrow> truthy (opt_get (setupStatus s) ''root_init'') \<or> credentials_ok (formData s)))"

lemma framed_wizard:
  fixes s t :: wizard
  assumes "browser.more t = browser.more s"
  shows "setupStatus t = setupStatus s" "currentStep t = currentStep s" "formRef t = formRef s" "formData t = formData s"
  using assms by (cases s; cases t; simp)+

text \<open>What the answer about the status may change, and that posting changes none of it.\<close>

lemma fetch_changes:
  "formRef (snd (fetchSetupStatus env s)) = formRef s \<and> formData (snd (fetchSetupStatus env s)) = formData s
   \<and> (currentStep (snd (fetchSetupStatus env s)) = 0 \<or> currentStep (snd (fetchSetupStatus env s)) = currentStep s)"
proof -
  obtain r t where c: "api_call env False (Http GET ''/api/setup'' JUndef) s = (r, t)" by fastforce
  have "browser.more t = browser.more s" using framesD[OF frames_api_call c] .
  note f = framed_wizard[OF this]
  show ?thesis
    by (cases r) (auto simp: fetchSetupStatus_def api_get_def try_catch_def bnd_def c f destruct_def throw_def ret_def sq_def modify_def
        prop_get_def emit_def showErr_eq simp del: api_call_eq)
qed

interpretation settled: state_rel "\<lambda>s t :: wizard. setupStatus t = setupStatus s \<and> currentStep t = currentStep s
    \<and> formRef t = formRef s \<and> formData t = formData s"
  by unfold_locales simp_all

lemma settled_frames: "frames m \<Longrightarrow> settled.obeys m"
  unfolding framed.obeys_def settled.obeys_def using framed_wizard by blast

lemma settled_post_setup: "settled.obeys (post_setup env v)"
  unfolding post_setup_def detach_def destruct_def showNotice_def
  by (intro settled.obeys_intros settled.obeys_modify settled_frames[OF frames_api_get(2)] settled_frames[OF frames_showErr]
      settled_frames[OF frames_showError] settled_frames[OF frames_leaves(1)]) simp_all

lemma settled_onSubmit: "settled.obeys (wizard_onSubmit env)"
proof -
  have "settled.obeys (blank v)" for v
    unfolding blank_def by (cases v) (auto intro: settled.obeys_intros)
  then show ?thesis
    unfolding wizard_onSubmit_def
    by (intro settled.obeys_intros settled_post_setup settled_frames[OF frames_showErr])
qed

lemma step_buttons:
  "Onward \<in> set (StepNavigation n) \<longleftrightarrow> n < 3" "Backward \<in> set (StepNavigation n) \<longleftrightarrow> 0 < n"
  "Initialise \<in> set (StepNavigation n) \<longleftrightarrow> n = 3"
  by (auto simp: StepNavigation_def steps_def)

lemma in_step_field:
  assumes "in_step s" and "k \<in> set fields" and "k = ''usageMode'' \<Longrightarrow> v \<in> {''external'', ''self'', ''demo''}"
  shows "in_step (setValue k (JStr v) (s\<lparr>formData := obj_set (formData s) k (JStr v)\<rparr>))"
  using assms by (auto simp: in_step_def setValue_def opt_get_obj_set list_all_iff split: option.splits)

lemma in_step_same: "formRef t = formRef s \<Longrightarrow> formData t = formData s \<Longrightarrow> in_step t = in_step s"
  by (simp add: in_step_def split: option.split)

lemma proceed_checked:
  assumes "canProceedToNext s = (Inr True, t)" and "currentStep s = 1" and "in_step s"
  shows "truthy (opt_get (setupStatus s) ''root_init'') \<or> credentials_ok (formData s)"
  using assms
  by (auto simp: canProceedToNext_def act_simps Let_def showErr_eq credentials_ok_def in_step_def fields_def split: if_splits option.splits
      elim: strict_eq.elims)

lemma proceed_keeps: "settled.obeys canProceedToNext"
  unfolding canProceedToNext_def Let_def
  by (intro settled.obeys_intros settled_frames[OF frames_showErr])

lemma next_outcome:
  "snd (wizard_next s) = snd (canProceedToNext s)
   \<or> (fst (canProceedToNext s) = Inr True \<and> snd (wizard_next s) = (snd (canProceedToNext s))\<lparr>currentStep := currentStep s + 1\<rparr>)"
  by (cases "canProceedToNext s"; cases "fst (canProceedToNext s)") (auto simp: wizard_next_def act_simps)

lemma wizard_inv_next:
  assumes "wizard_inv (s, w)" and "currentStep s < 3"
  shows "wizard_inv (snd (wizard_next s), w)"
proof -
  obtain r t where p: "canProceedToNext s = (r, t)" by fastforce
  have t: "setupStatus t = setupStatus s" "currentStep t = currentStep s" "formRef t = formRef s" "formData t = formData s"
    using settled.obeysD[OF proceed_keeps p] by simp_all
  have same: "wizard_inv (t, w)" using assms(1) t in_step_same[of t s] by (simp add: wizard_inv_def)
  have "wizard_inv (t\<lparr>currentStep := currentStep s + 1\<rparr>, w)" if "r = Inr True"
  proof -
    have "2 \<le> currentStep s + 1 \<Longrightarrow> truthy (opt_get (setupStatus s) ''root_init'') \<or> credentials_ok (formData s)"
      using proceed_checked[of s t] p that assms by (cases "currentStep s = 1") (auto simp: wizard_inv_def)
    moreover have "in_step (t\<lparr>currentStep := currentStep s + 1\<rparr>)" using same in_step_same[of "t\<lparr>currentStep := currentStep s + 1\<rparr>" t]
      by (simp add: wizard_inv_def)
    ultimately show ?thesis using assms t by (auto simp: wizard_inv_def)
  qed
  then show ?thesis using next_outcome[of s] same p by auto
qed

lemma wizard_step_inv: "wizard_step x y \<Longrightarrow> wizard_inv x \<Longrightarrow> wizard_inv y"
proof (induction rule: wizard_step.induct)
  case (status s env)
  then show ?case using fetch_changes[of env s] in_step_same[of "snd (fetchSetupStatus env s)" s] by (auto simp: wizard_inv_def)
next
  case (type_field s field w v)
  then have "in_step (admin_onChange field v s)"
    unfolding admin_onChange_def by (intro in_step_field) (auto simp: wizard_inv_def fields_def)
  with type_field show ?case by (simp add: wizard_inv_def admin_onChange_def setValue_def)
next
  case (mode s m w)
  have e: "handleUsageModeChange (JObj [(''target'', JObj [(''value'', JStr m)])]) s =
      setValue ''usageMode'' (JStr m) (s\<lparr>formData := obj_set (formData s) ''usageMode'' (JStr m)\<rparr>)"
    by (simp add: handleUsageModeChange_def jcoalesce_def Let_def)
  have "in_step (setValue ''usageMode'' (JStr m) (s\<lparr>formData := obj_set (formData s) ''usageMode'' (JStr m)\<rparr>))"
    using mode by (intro in_step_field) (auto simp: wizard_inv_def fields_def)
  with mode show ?case unfolding e by (simp add: wizard_inv_def setValue_def credentials_ok_def opt_get_obj_set)
next
  case (forward s w)
  then show ?case by (intro wizard_inv_next) (simp_all add: step_buttons)
next
  case (backward s w)
  then show ?case using in_step_same[of "prev s" s] by (auto simp: step_buttons prev_def wizard_inv_def)
next
  case (submit s w env)
  have "wizard_inv (t, w)" if "wizard_onSubmit env s = (r, t)" for r t
    using settled.obeysD[OF settled_onSubmit that] submit in_step_same[of t s] by (simp add: wizard_inv_def)
  then show ?case by (cases "wizard_onSubmit env s") simp
qed

lemma wizard_steps_inv: "wizard_step\<^sup>*\<^sup>* x y \<Longrightarrow> wizard_inv x \<Longrightarrow> wizard_inv y"
  by (induction rule: rtranclp_induct) (auto dest: wizard_step_inv)

lemma wizard_inv_initial: "wizard_inv (wizard_initial b, True)"
  by (simp add: wizard_initial_def wizard_inv_def in_step_def initial_data_def fields_def)

lemma initial_after_effect: "in_step (default_mode_effect (wizard_initial b))"
  unfolding default_mode_effect_def by (simp add: wizard_initial_def in_step_def initial_data_def fields_def setValue_def)

lemma type_of_string: "type_of v = ''string'' \<longleftrightarrow> (\<exists>x. v = JStr x)"
  by (cases v) simp_all

section \<open>What is posted\<close>

lemma posts_setup: "posts (post_setup env v) s = [Requested (hdr_user (api s)) (Http POST ''/api/setup'' v)]"
proof -
  let ?s = "s\<lparr>loading := True, trace := trace s @ [Requested (hdr_user (api s)) (Http POST ''/api/setup'' v)]\<rparr>"
  define rest :: "jv \<Rightarrow> unit wizard_act" where "rest = (\<lambda>d. bnd (destruct d) (\<lambda>(success, message, _).
      if truthy success
      then sq (showNotice (JStr ''the system is initialised, one moment'') False) (emit (Timer 1500 ''location.reload''))
      else showError (jor message (JStr ''the initialisation failed, please retry''))))"
  let ?fail = "\<lambda>_ :: jv. sq (showErr ''the initialisation of the system failed, please retry'') (modify (\<lambda>s. s\<lparr>loading := False\<rparr>))"
  let ?m = "detach (try_finally (try_catch (bnd (reply_value False (intercepts (api s)) (env (trace s) (Http POST ''/api/setup'' v))) rest)
      ?fail) (modify (\<lambda>s. s\<lparr>loading := False\<rparr>)))"
  have "post_setup env v s = detach (try_finally (try_catch (bnd (api_call env False (Http POST ''/api/setup'' v)) rest) ?fail)
      (modify (\<lambda>s. s\<lparr>loading := False\<rparr>))) (s\<lparr>loading := True\<rparr>)"
    by (simp add: post_setup_def rest_def bnd_assoc api_post_def sq_def modify_def)
  then have e: "post_setup env v s = ?m ?s"
    by (simp add: detach_def try_finally_def try_catch_def bnd_api_reply bnd_def[of "try_finally _ _"])
  have "emits (\<lambda>e. \<not> is_post e) ?m"
    unfolding rest_def reply_value_def detach_def destruct_def showNotice_def on_rejected_def by (intro emits_intros) simp_all
  from emitsD[OF this, of ?s "fst (?m ?s)" "snd (?m ?s)"]
  obtain es where "trace (snd (?m ?s)) = trace ?s @ es" "list_all (\<lambda>e. \<not> is_post e) es" by auto
  then show ?thesis by (intro posts_one) (simp_all add: e)
qed

section \<open>Properties\<close>

lemma setup_values_get:
  "opt_get (setup_values v) k =
     (if k = ''usageMode'' then JUndef
      else if k = ''DemoSiteEnabled'' then JBool (strict_eq (opt_get v ''usageMode'') (JStr ''demo''))
      else if k = ''SelfUseModeEnabled'' then JBool (strict_eq (opt_get v ''usageMode'') (JStr ''self''))
      else opt_get v k)"
  by (simp add: setup_values_def Let_def opt_get_obj_delete opt_get_obj_set)


text \<open>A run through the wizard.\<close>

definition typed_run :: "wizard list" where
  "typed_run =
    (let s0 = wizard_initial blank_browser; s1 = s0\<lparr>currentStep := 1\<rparr>;
         s2 = admin_onChange ''username'' ''root'' s1; s3 = admin_onChange ''password'' ''12345678'' s2;
         s4 = admin_onChange ''confirmPassword'' ''12345678'' s3; s5 = s4\<lparr>currentStep := 2\<rparr>;
         s6 = handleUsageModeChange (JObj [(''target'', JObj [(''value'', JStr ''self'')])]) s5
     in [s0, s1, s2, s3, s4, s5, s6, s6\<lparr>currentStep := 3\<rparr>])"

lemma typed_run_reached: "wizard_step\<^sup>*\<^sup>* (wizard_initial blank_browser, True) (last typed_run, True)"
proof -
  let ?s0 = "wizard_initial blank_browser"
  let ?s1 = "?s0\<lparr>currentStep := 1\<rparr>"
  let ?s2 = "admin_onChange ''username'' ''root'' ?s1"
  let ?s3 = "admin_onChange ''password'' ''12345678'' ?s2"
  let ?s4 = "admin_onChange ''confirmPassword'' ''12345678'' ?s3"
  let ?s5 = "?s4\<lparr>currentStep := 2\<rparr>"
  let ?s6 = "handleUsageModeChange (JObj [(''target'', JObj [(''value'', JStr ''self'')])]) ?s5"
  note simps = wizard_initial_def admin_onChange_def setValue_def step_buttons handleUsageModeChange_def Let_def initial_data_def
    wizard_next_def canProceedToNext_def act_simps shorter_than_8_def jcoalesce_def
  have "wizard_step (?s0, True) (?s1, True)" using forward[of ?s0 True] by (simp add: simps)
  moreover have "wizard_step (?s1, True) (?s2, True)" by (rule type_field) (simp_all add: simps)
  moreover have "wizard_step (?s2, True) (?s3, True)" by (rule type_field) (simp_all add: simps)
  moreover have "wizard_step (?s3, True) (?s4, True)" by (rule type_field) (simp_all add: simps)
  moreover have "wizard_step (?s4, True) (?s5, True)" using forward[of ?s4 True] by (simp add: simps)
  moreover have "wizard_step (?s5, True) (?s6, True)" by (rule mode) (simp_all add: simps)
  moreover have "wizard_step (?s6, True) (?s6\<lparr>currentStep := 3\<rparr>, True)" using forward[of ?s6 True] by (simp add: simps)
  ultimately have "wizard_step\<^sup>*\<^sup>* (?s0, True) (?s6\<lparr>currentStep := 3\<rparr>, True)"
    by (meson converse_rtranclp_into_rtranclp rtranclp.rtrancl_refl)
  then show ?thesis by (simp add: typed_run_def Let_def)
qed

lemma typed_run_data:
  "currentStep (last typed_run) = 3" "opt_get (formData (last typed_run)) ''username'' = JStr ''root''"
  "opt_get (formData (last typed_run)) ''password'' = JStr ''12345678''" "opt_get (formData (last typed_run)) ''usageMode'' = JStr ''self''"
  by (simp_all add: typed_run_def Let_def admin_onChange_def setValue_def handleUsageModeChange_def jcoalesce_def wizard_initial_def
      initial_data_def)


text \<open>The two checks differ: a name of spaces passes the administrator step and is refused at the end.\<close>

lemma blank_name_refused_late:
  "canProceedToNext (s\<lparr>currentStep := 1, setupStatus := JObj [], formData := JObj [(''username'', JStr '' ''),
      (''password'', JStr ''12345678''), (''confirmPassword'', JStr ''12345678'')]\<rparr>) =
    (Inr True, s\<lparr>currentStep := 1, setupStatus := JObj [], formData := JObj [(''username'', JStr '' ''),
      (''password'', JStr ''12345678''), (''confirmPassword'', JStr ''12345678'')]\<rparr>)
   \<and> posts (wizard_onSubmit env) (s\<lparr>setupStatus := JObj [], formRef := Some (JObj [(''username'', JStr '' '')])\<rparr>) = []"
  by (simp add: canProceedToNext_def act_simps Let_def shorter_than_8_def wizard_onSubmit_def posts_def blank_def trim_def is_ws_def)

text \<open>A status that arrives late takes the user to the first step again.\<close>

lemma late_status_restarts:
  "env (trace s) (Http GET ''/api/setup'' JUndef) = Ok (JObj [(''success'', JBool True), (''data'', JObj [(''status'', JBool False)])]) \<Longrightarrow>
   currentStep (snd (fetchSetupStatus env s)) = 0"
  by (simp add: fetchSetupStatus_def act_simps Let_def)

end
