(* ===== verification/Personal.thy ===== *)
theory Personal
  imports Account Format
begin

text \<open>
  The account page of a signed-in user: \<open>components/settings/PersonalSetting.jsx\<close> - binding mail and WeChat, the access
  token, Passkeys, the password, deleting the account and the notification settings.
\<close>

section \<open>State\<close>

record personal_page = browser +
  inputs :: jv
  status :: jv
  showChangePasswordModal :: bool
  showWeChatBindModal :: bool
  showEmailBindModal :: bool
  showAccountDeleteModal :: bool
  turnstileEnabled :: bool
  turnstileSiteKey :: jv
  turnstileToken :: string
  loading :: bool
  disableButton :: bool
  countdown :: int
  systemToken :: jv
  passkeyStatus :: jv
  passkeyRegisterLoading :: bool
  passkeyDeleteLoading :: bool
  passkeySupported :: bool
  notificationSettings :: jv

type_synonym 'a personal_act = "(personal_page, 'a) act"

definition personal_inputs :: jv where
  "personal_inputs = JObj (List.map (\<lambda>k. (k, JStr []))
     [''wechat_verification_code'', ''email_verification_code'', ''email'', ''self_account_deletion_confirmation'',
      ''original_password'', ''set_new_password'', ''set_new_password_confirmation''])"

definition default_notifications :: jv where
  "default_notifications = JObj
     [(''warningType'', JStr ''email''), (''warningThreshold'', JNum 100000), (''webhookUrl'', JStr []), (''webhookSecret'', JStr []),
      (''notificationEmail'', JStr []), (''barkUrl'', JStr []), (''gotifyUrl'', JStr []), (''gotifyToken'', JStr []),
      (''gotifyPriority'', JNum 5), (''acceptUnsetModelRatioModel'', JBool False), (''recordIpLog'', JBool False)]"

definition personal_initial :: "browser \<Rightarrow> personal_page" where
  "personal_initial b = \<lparr>store = store b, api = api b, user_ctx = user_ctx b, status_ctx = status_ctx b, trace = trace b,
     inputs = personal_inputs, status = JObj [], showChangePasswordModal = False, showWeChatBindModal = False,
     showEmailBindModal = False, showAccountDeleteModal = False, turnstileEnabled = False, turnstileSiteKey = JStr [],
     turnstileToken = [], loading = False, disableButton = False, countdown = 30, systemToken = JStr [],
     passkeyStatus = JObj [(''enabled'', JBool False)], passkeyRegisterLoading = False, passkeyDeleteLoading = False,
     passkeySupported = False, notificationSettings = default_notifications\<rparr>"

definition field :: "personal_page \<Rightarrow> string \<Rightarrow> string" where
  "field s k = to_str (opt_get (inputs s) k)"

section \<open>Loading\<close>

definition take_status :: "jv \<Rightarrow> unit personal_act" where
  "take_status d = sq (modify (\<lambda>s. s\<lparr>status := d\<rparr>)) (bnd (prop_get d ''turnstile_check'') (\<lambda>c.
     if truthy c then modify (\<lambda>s. s\<lparr>turnstileEnabled := True, turnstileSiteKey := opt_get d ''turnstile_site_key''\<rparr>)
     else modify (\<lambda>s. s\<lparr>turnstileEnabled := False, turnstileSiteKey := JStr []\<rparr>)))"

definition refresh_status :: "env \<Rightarrow> unit personal_act" where
  "refresh_status env = try_catch
     (bnd (bnd (api_get env ''/api/status'' JUndef) destruct) (\<lambda>(success, _, data).
        act_when (truthy success \<and> truthy data)
          (sq (modify (\<lambda>s. s\<lparr>status := data\<rparr>)) (sq (setStatusData data) (take_status data)))))
     (\<lambda>_. ret ())"

definition or_default :: "jv \<Rightarrow> string \<Rightarrow> jv \<Rightarrow> jv" where
  "or_default v k d = jor (opt_get v k) d"

definition loadPasskeyStatus :: "env \<Rightarrow> unit personal_act" where
  "loadPasskeyStatus env = try_catch
     (bnd (bnd (api_get env ''/api/user/passkey'' JUndef) destruct) (\<lambda>(success, message, data).
        if truthy success
        then modify (\<lambda>s. s\<lparr>passkeyStatus := JObj [(''enabled'', or_default data ''enabled'' (JBool False)),
               (''last_used_at'', or_default data ''last_used_at'' JNull),
               (''backup_eligible'', or_default data ''backup_eligible'' (JBool False)),
               (''backup_state'', or_default data ''backup_state'' (JBool False))]\<rparr>)
        else showError message))
     (\<lambda>_. ret ())"

definition getUserData :: "env \<Rightarrow> unit personal_act" where
  "getUserData env = bnd (bnd (api_get env ''/api/user/self'' JUndef) destruct) (\<lambda>(success, message, data).
     if truthy success then sq (userDispatch ''login'' data) (sq (setUserData data) (loadPasskeyStatus env))
     else showError message)"

definition personal_effect :: "env \<Rightarrow> webauthn \<Rightarrow> unit personal_act" where
  "personal_effect env w = bnd (gets (\<lambda>s. get_item s ''status'')) (\<lambda>saved.
     sq (if truthy saved then bnd (parse_json saved) take_status else ret ())
    (sq (detach (refresh_status env))
    (sq (detach (getUserData env))
        (detach (try_catch (bnd (isPasskeySupported env w) (\<lambda>b. modify (\<lambda>s. s\<lparr>passkeySupported := b\<rparr>)))
           (\<lambda>_. modify (\<lambda>s. s\<lparr>passkeySupported := False\<rparr>)))))))"

definition personal_second :: "personal_page \<Rightarrow> personal_page" where
  "personal_second s = (let (d, c) = second_passes (disableButton s, countdown s) in s\<lparr>disableButton := d, countdown := c\<rparr>)"

definition shown_notifications :: "jv \<Rightarrow> jv" where
  "shown_notifications settings = JObj
     [(''warningType'', or_default settings ''notify_type'' (JStr ''email'')),
      (''warningThreshold'', or_default settings ''quota_warning_threshold'' (JNum 500000)),
      (''webhookUrl'', or_default settings ''webhook_url'' (JStr [])),
      (''webhookSecret'', or_default settings ''webhook_secret'' (JStr [])),
      (''notificationEmail'', or_default settings ''notification_email'' (JStr [])),
      (''barkUrl'', or_default settings ''bark_url'' (JStr [])),
      (''gotifyUrl'', or_default settings ''gotify_url'' (JStr [])),
      (''gotifyToken'', or_default settings ''gotify_token'' (JStr [])),
      (''gotifyPriority'', if opt_get settings ''gotify_priority'' \<noteq> JUndef then opt_get settings ''gotify_priority'' else JNum 5),
      (''acceptUnsetModelRatioModel'', or_default settings ''accept_unset_model_ratio_model'' (JBool False)),
      (''recordIpLog'', or_default settings ''record_ip_log'' (JBool False))]"

definition settings_effect :: "unit personal_act" where
  "settings_effect = bnd (gets (\<lambda>s. opt_get (user_ctx s) ''setting'')) (\<lambda>raw.
     if truthy raw
     then bnd (parse_json raw) (\<lambda>settings. if nullish settings then throw type_error
            else modify (\<lambda>s. s\<lparr>notificationSettings := shown_notifications settings\<rparr>))
     else ret ())"

section \<open>Operations\<close>

definition personal_handleInputChange :: "string \<Rightarrow> jv \<Rightarrow> personal_page \<Rightarrow> personal_page" where
  "personal_handleInputChange name value s = s\<lparr>inputs := obj_set (inputs s) name value\<rparr>"

definition generateAccessToken :: "env \<Rightarrow> unit personal_act" where
  "generateAccessToken env = bnd (bnd (api_get env ''/api/user/token'' JUndef) destruct) (\<lambda>(success, message, data).
     if truthy success
     then sq (modify (\<lambda>s. s\<lparr>systemToken := data\<rparr>))
         (sq (copy env data) (showSuccess (JStr ''token reset and copied to the clipboard'')))
     else showError message)"

text \<open>The browser's answer to a registration: null, or the credential's members with the answers of its methods.\<close>

definition created_credential :: "jv \<Rightarrow> credential option" where
  "created_credential v = (if truthy v then Some \<lparr>cred_data = v,
     getTransports = Some (opt_get (opt_get v ''response'') ''getTransports()''),
     getClientExtensionResults = Some (opt_get v ''getClientExtensionResults()'')\<rparr> else None)"

definition register_passkey :: "env \<Rightarrow> unit personal_act" where
  "register_passkey env =
     bnd (bnd (api_post env ''/api/user/passkey/register/begin'' JUndef) destruct) (\<lambda>(success, message, data).
       if \<not> truthy success then showError (jor message (JStr ''could not start the Passkey registration''))
       else bnd (prepareCredentialCreationOptions (jor (opt_get data ''options'') (jor (opt_get data ''publicKey'') data)))
         (\<lambda>publicKey.
            bnd (browser_call env (Credential_create publicKey)) (\<lambda>credential.
            let payload = buildRegistrationResult (created_credential credential) in
            if \<not> truthy payload then showErr ''Passkey registration failed, please retry''
            else bnd (api_post env ''/api/user/passkey/register/finish'' payload) (\<lambda>finish.
              bnd (prop_get finish ''success'') (\<lambda>ok.
              if truthy ok then sq (showSuccess (JStr ''Passkey registered'')) (loadPasskeyStatus env)
              else showError (jor (opt_get finish ''message'') (JStr ''Passkey registration failed, please retry'')))))))"

definition handleRegisterPasskey :: "env \<Rightarrow> bool \<Rightarrow> unit personal_act" where
  "handleRegisterPasskey env hasPublicKeyCredential = bnd (gets passkeySupported) (\<lambda>supported.
     if \<not> supported \<or> \<not> hasPublicKeyCredential then showInfo (JStr ''this device does not support Passkey'')
     else sq (modify (\<lambda>s. s\<lparr>passkeyRegisterLoading := True\<rparr>))
       (try_finally
         (try_catch (register_passkey env)
           (\<lambda>error. if opt_get error ''name'' = JStr ''AbortError'' then showInfo (JStr ''Passkey registration cancelled'')
              else showErr ''Passkey registration failed, please retry''))
         (modify (\<lambda>s. s\<lparr>passkeyRegisterLoading := False\<rparr>))))"

definition api_delete :: "env \<Rightarrow> string \<Rightarrow> ('x browser_scheme, jv) act" where
  [act_simps]: "api_delete env url = api_call env False (Http DELETE url JUndef)"

definition handleRemovePasskey :: "env \<Rightarrow> unit personal_act" where
  "handleRemovePasskey env =
     sq (modify (\<lambda>s. s\<lparr>passkeyDeleteLoading := True\<rparr>))
       (try_finally
         (try_catch
           (bnd (bnd (api_delete env ''/api/user/passkey'') destruct) (\<lambda>(success, message, _).
              if truthy success then sq (showSuccess (JStr ''Passkey removed'')) (loadPasskeyStatus env)
              else showError (jor message (JStr ''the operation failed, please retry''))))
           (\<lambda>_. showErr ''the operation failed, please retry''))
         (modify (\<lambda>s. s\<lparr>passkeyDeleteLoading := False\<rparr>)))"

definition handleSystemTokenClick :: "env \<Rightarrow> jv \<Rightarrow> unit personal_act" where
  "handleSystemTokenClick env value = sq (copy env value) (showSuccess (JStr ''system token copied to the clipboard''))"

definition deleteAccount :: "env \<Rightarrow> unit personal_act" where
  "deleteAccount env = bnd (gets (\<lambda>s. s)) (\<lambda>s0. bnd (prop_get (user_ctx s0) ''username'') (\<lambda>username.
     if \<not> strict_eq (opt_get (inputs s0) ''self_account_deletion_confirmation'') username
     then showErr ''enter your account name to confirm''
     else bnd (bnd (api_delete env ''/api/user/self'') destruct) (\<lambda>(success, message, _).
       if truthy success
       then sq (showSuccess (JStr ''account deleted''))
           (sq (api_get env ''/api/user/logout'' JUndef)
           (sq (userDispatch ''logout'' JUndef)
           (sq (remove_item ''user'')
               (navigate ''/login''))))
       else showError message)))"

definition bindWeChat :: "env \<Rightarrow> unit personal_act" where
  "bindWeChat env = bnd (gets (\<lambda>s. s)) (\<lambda>s0.
     if opt_get (inputs s0) ''wechat_verification_code'' = JStr [] then ret ()
     else bnd (bnd (api_get env (''/api/oauth/wechat/bind?code='' @ field s0 ''wechat_verification_code'') JUndef) destruct)
       (\<lambda>(success, message, _).
          if truthy success
          then sq (showSuccess (JStr ''WeChat account bound'')) (modify (\<lambda>s. s\<lparr>showWeChatBindModal := False\<rparr>))
          else showError message))"

definition changePassword :: "env \<Rightarrow> unit personal_act" where
  "changePassword env = bnd (gets inputs) (\<lambda>i.
     let original = opt_get i ''original_password''; new = opt_get i ''set_new_password'' in
     if original = JStr [] then showErr ''enter the old password''
     else if new = JStr [] then showErr ''enter the new password''
     else if strict_eq original new then showErr ''the new password must differ from the old one''
     else if \<not> strict_eq new (opt_get i ''set_new_password_confirmation'') then showErr ''the two passwords differ''
     else sq (bnd (bnd (api_call env False (Http PUT ''/api/user/self'' (JObj [(''original_password'', original), (''password'', new)])))
                destruct) (\<lambda>(success, message, _).
            if truthy success
            then sq (showSuccess (JStr ''password changed'')) (modify (\<lambda>s. s\<lparr>showWeChatBindModal := False\<rparr>))
            else showError message))
         (modify (\<lambda>s. s\<lparr>showChangePasswordModal := False\<rparr>)))"

definition personal_sendVerificationCode :: "env \<Rightarrow> unit personal_act" where
  "personal_sendVerificationCode env = bnd (gets (\<lambda>s. s)) (\<lambda>s0.
     if opt_get (inputs s0) ''email'' = JStr [] then showErr ''enter the mail address''
     else sq (modify (\<lambda>s. s\<lparr>disableButton := True\<rparr>))
       (if turnstileEnabled s0 \<and> turnstileToken s0 = [] then showInfo turnstile_text
        else sq (modify (\<lambda>s. s\<lparr>loading := True\<rparr>))
          (sq (bnd (bnd (api_get env (''/api/verification?email='' @ field s0 ''email'' @ ''&turnstile='' @ turnstileToken s0) JUndef)
                 destruct) (\<lambda>(success, message, _).
                 if truthy success then showSuccess (JStr ''verification code sent, please check your mail'') else showError message))
              (modify (\<lambda>s. s\<lparr>loading := False\<rparr>)))))"

text \<open>The mail address is written into the user object of the context in place.\<close>

definition bindEmail :: "env \<Rightarrow> unit personal_act" where
  "bindEmail env = bnd (gets (\<lambda>s. s)) (\<lambda>s0.
     if opt_get (inputs s0) ''email_verification_code'' = JStr [] then showErr ''enter the verification code''
     else sq (modify (\<lambda>s. s\<lparr>loading := True\<rparr>))
       (sq (bnd (bnd (api_get env (''/api/oauth/email/bind?email='' @ field s0 ''email'' @ ''&code='' @ field s0 ''email_verification_code'')
               JUndef) destruct) (\<lambda>(success, message, _).
            if truthy success
            then sq (showSuccess (JStr ''mail account bound''))
                (sq (modify (\<lambda>s. s\<lparr>showEmailBindModal := False\<rparr>))
                    (if nullish (user_ctx s0) then throw type_error
                     else modify (\<lambda>s. s\<lparr>user_ctx := obj_set (user_ctx s) ''email'' (opt_get (inputs s0) ''email'')\<rparr>)))
            else showError message))
           (modify (\<lambda>s. s\<lparr>loading := False\<rparr>))))"

definition copyText :: "env \<Rightarrow> string \<Rightarrow> unit personal_act" where
  "copyText env txt = bnd (copy env (JStr txt)) (\<lambda>ok.
     if ok then showSuccess (JStr (''copied: '' @ txt)) else emit (Dialog ''could not copy to the clipboard, please copy by hand'' txt))"

definition handleNotificationSettingChange :: "string \<Rightarrow> jv \<Rightarrow> unit personal_act" where
  "handleNotificationSettingChange type value = bnd (prop_get value ''target'') (\<lambda>target.
     modify (\<lambda>s. s\<lparr>notificationSettings := obj_set (notificationSettings s) type
       (if truthy target then (if opt_get target ''value'' \<noteq> JUndef then opt_get target ''value'' else opt_get target ''checked'')
        else value)\<rparr>))"

definition sent_notifications :: "jv \<Rightarrow> jv" where
  "sent_notifications n = JObj
     [(''notify_type'', opt_get n ''warningType''), (''quota_warning_threshold'', parseFloat (opt_get n ''warningThreshold'')),
      (''webhook_url'', opt_get n ''webhookUrl''), (''webhook_secret'', opt_get n ''webhookSecret''),
      (''notification_email'', opt_get n ''notificationEmail''), (''bark_url'', opt_get n ''barkUrl''),
      (''gotify_url'', opt_get n ''gotifyUrl''), (''gotify_token'', opt_get n ''gotifyToken''),
      (''gotify_priority'', if parseInt (opt_get n ''gotifyPriority'') = JNaN then JNum 5 else parseInt (opt_get n ''gotifyPriority'')),
      (''accept_unset_model_ratio_model'', opt_get n ''acceptUnsetModelRatioModel''), (''record_ip_log'', opt_get n ''recordIpLog'')]"

definition saveNotificationSettings :: "env \<Rightarrow> unit personal_act" where
  "saveNotificationSettings env = bnd (gets notificationSettings) (\<lambda>n. try_catch
     (bnd (api_call env False (Http PUT ''/api/user/setting'' (sent_notifications n))) (\<lambda>d.
      bnd (prop_get d ''success'') (\<lambda>ok.
      if truthy ok then sq (showSuccess (JStr ''settings saved'')) (getUserData env)
      else showError (opt_get d ''message''))))
     (\<lambda>_. showErr ''saving the settings failed''))"

section \<open>Lemmas\<close>

text \<open>A failing call may forget the stored user, but not the one in the context.\<close>

interpretation user_kept: state_rel "\<lambda>s t. user_ctx t = user_ctx s"
  by unfold_locales simp_all

lemma keeps_user:
  assumes "api_call env skip r s = (x, t)"
  shows "user_ctx t = user_ctx s"
proof -
  have "user_kept.obeys (api_call env skip r)"
    unfolding api_call_def on_rejected_def showError_def Let_def emit_def remove_item_def
    by (intro user_kept.obeys_intros user_kept.obeys_modify) simp_all
  then show ?thesis using assms by (rule user_kept.obeysD)
qed

lemma silent_answer:
  "(\<And>success message data. emits P (f (success, message, data))) \<Longrightarrow> emits P (bnd (destruct d) f)"
  unfolding destruct_def by (intro emits_intros) auto

lemma requests_then:
  assumes "emits (\<lambda>e. case e of Requested u q \<Rightarrow> False | _ \<Rightarrow> True) n"
    and "\<And>x. emits (\<lambda>e. case e of Requested u q \<Rightarrow> False | _ \<Rightarrow> True) (f x)"
  shows "requests (sq (bnd (api_call env skip r) f) n) s = [Requested (hdr_user (api s)) r]"
proof -
  have "sq (bnd (api_call env skip r) f) n = bnd (api_call env skip r) (\<lambda>x. sq (f x) n)"
    by (rule ext) (simp add: sq_def bnd_def split: prod.split sum.split)
  then show ?thesis using assms by (simp add: requests_call emitted.obeys_sq)
qed

lemma second_on:
  "0 < countdown s \<Longrightarrow> disableButton s \<Longrightarrow> disableButton (personal_second s) = (countdown s \<noteq> 1)
     \<and> (countdown s \<noteq> 1 \<longrightarrow> countdown (personal_second s) = countdown s - 1)"
  by (simp add: personal_second_def second_passes_run)

lemma seconds_on:
  "disableButton s \<Longrightarrow> countdown s = 30 \<Longrightarrow> n \<le> 29 \<Longrightarrow>
   disableButton ((personal_second ^^ n) s) \<and> countdown ((personal_second ^^ n) s) = 30 - int n"
proof (induction n)
  case 0
  then show ?case by simp
next
  case (Suc n)
  then show ?case using second_on[of "(personal_second ^^ n) s"] by simp
qed

section \<open>Properties\<close>

text \<open>A password change leaves the page only when it is complete and consistent: the single request carries the old and the new
  password, which is not empty, differs from the old one and was typed twice the same; otherwise nothing is sent.\<close>

lemma password_change_checked:
  "requests (changePassword env) s =
    (let original = opt_get (inputs s) ''original_password''; new = opt_get (inputs s) ''set_new_password'' in
     if original \<noteq> JStr [] \<and> new \<noteq> JStr [] \<and> \<not> strict_eq original new
       \<and> strict_eq new (opt_get (inputs s) ''set_new_password_confirmation'')
     then [Requested (hdr_user (api s)) (Http PUT ''/api/user/self'' (JObj [(''original_password'', original), (''password'', new)]))]
     else [])"
proof -
  have quiet_rest: "emits (\<lambda>e. case e of Requested u q \<Rightarrow> False | _ \<Rightarrow> True) (if truthy success
      then sq (showSuccess m) (modify (\<lambda>s :: personal_page. s\<lparr>showWeChatBindModal := False\<rparr>)) else showError message)"
    for success message and m :: jv
    unfolding showSuccess_def by (intro emits_intros) simp_all
  show ?thesis
    unfolding changePassword_def requests_simps Let_def bnd_assoc
    by (auto simp: requests_simps intro!: requests_then silent_answer quiet_rest emits_modify)
qed

text \<open>An account is deleted only by typing its name; once the backend deleted it and the session was closed, the browser
  forgets the user and goes to the sign-in page - but when closing the session fails, the deleted user stays signed in here.\<close>

lemma account_deletion:
  assumes "user_ctx s = JObj u" and "opt_get (user_ctx s) ''username'' = JStr name"
    and "env (trace s) (Http DELETE ''/api/user/self'' JUndef) = Ok d" and "truthy (opt_get d ''success'')"
  shows "let reply = env (trace s @ [Requested (hdr_user (api s)) (Http DELETE ''/api/user/self'' JUndef),
                Toasted TSuccess (JStr ''account deleted'')]) (Http GET ''/api/user/logout'' JUndef);
        t = snd (deleteAccount env s) in
        if opt_get (inputs s) ''self_account_deletion_confirmation'' \<noteq> JStr name
        then t = s\<lparr>trace := trace s @ [Toasted TError (JStr ''Error: enter your account name to confirm'')]\<rparr>
        else if (\<exists>x. reply = Ok x)
        then user_ctx t = JUndef \<and> store t ''user'' = None \<and> last (trace t) = Navigated ''/login''
        else user_ctx t = user_ctx s"
proof -
  let ?tr = "trace s @ [Requested (hdr_user (api s)) (Http DELETE ''/api/user/self'' JUndef), Toasted TSuccess (JStr ''account deleted'')]"
  let ?q = "Http GET ''/api/user/logout'' JUndef"
  have n: "\<not> nullish d" using assms(4) by (cases d) auto
  have u: "\<not> nullish (user_ctx s)" by (simp add: assms(1))
  have eq: "strict_eq v (JStr name) \<longleftrightarrow> v = JStr name" for v by (cases v) simp_all
  let ?s = "s\<lparr>trace := ?tr\<rparr>"
  have run: "deleteAccount env s = sq (api_get env ''/api/user/logout'' JUndef)
      (sq (userDispatch ''logout'' JUndef) (sq (remove_item ''user'') (navigate ''/login''))) ?s"
    if "opt_get (inputs s) ''self_account_deletion_confirmation'' = JStr name"
    using that assms n u by (simp add: deleteAccount_def act_simps eq Let_def api_call_eq del: api_get_def split: prod.split)
  show ?thesis
  proof (cases "opt_get (inputs s) ''self_account_deletion_confirmation'' = JStr name")
    case False
    then show ?thesis using assms n u by (simp add: deleteAccount_def act_simps eq showErr_eq Let_def)
  next
    case True
    show ?thesis
    proof (cases "env ?tr ?q")
      case (Ok x)
      then show ?thesis using True run[OF True] by (simp add: act_simps Let_def)
    next
      case (Rejected e)
      obtain e' t where c: "api_call env False ?q ?s = (Inl e', t)"
        using api_call_Rejected[of env ?s ?q e False] Rejected by (cases "api_call env False ?q ?s") auto
      have "user_ctx t = user_ctx ?s" by (rule keeps_user[OF c])
      then show ?thesis using True Rejected run[OF True] by (simp add: api_get_def sq_def c Let_def del: api_call_eq)
    qed
  qed
qed

lemma account_deletion_example:
  "user_ctx (snd (deleteAccount (\<lambda>_ _. Ok (JObj [(''success'', JBool True)]))
     ((personal_initial blank_browser)\<lparr>user_ctx := JObj [(''username'', JStr ''ann'')],
        inputs := JObj [(''self_account_deletion_confirmation'', JStr ''ann'')]\<rparr>))) = JUndef"
  using account_deletion[of "(personal_initial blank_browser)\<lparr>user_ctx := JObj [(''username'', JStr ''ann'')],
        inputs := JObj [(''self_account_deletion_confirmation'', JStr ''ann'')]\<rparr>" "[(''username'', JStr ''ann'')]" "''ann''"
      "\<lambda>_ _. Ok (JObj [(''success'', JBool True)])" "JObj [(''success'', JBool True)]"]
  by (simp add: Let_def)

text \<open>Asking for a verification code before Turnstile has finished costs half a minute: nothing is sent, and the button is off
  for the next thirty seconds.\<close>

lemma early_request_blocks_button:
  assumes "turnstileEnabled s" and "turnstileToken s = []" and "opt_get (inputs s) ''email'' \<noteq> JStr []"
    and "countdown s = 30" and "n < 30"
  shows "requests (personal_sendVerificationCode env) s = []
    \<and> disableButton ((personal_second ^^ n) (snd (personal_sendVerificationCode env s)))"
proof -
  have "personal_sendVerificationCode env s = (Inr (), s\<lparr>disableButton := True, trace := trace s @ [Toasted TInfo turnstile_text]\<rparr>)"
    using assms(1-3) by (simp add: personal_sendVerificationCode_def act_simps)
  then show ?thesis using seconds_on[of "s\<lparr>disableButton := True, trace := trace s @ [Toasted TInfo turnstile_text]\<rparr>" n] assms(4,5)
    by (simp add: requests_def)
qed

lemma early_request_blocks_button_example:
  "disableButton ((personal_second ^^ 29) (snd (personal_sendVerificationCode (\<lambda>_ _. Ok JNull)
     ((personal_initial blank_browser)\<lparr>turnstileEnabled := True, inputs := JObj [(''email'', JStr ''a@b'')]\<rparr>))))"
  using early_request_blocks_button[of "(personal_initial blank_browser)\<lparr>turnstileEnabled := True, inputs := JObj [(''email'', JStr ''a@b'')]\<rparr>"
      29 "\<lambda>_ _. Ok JNull"] by (simp add: personal_initial_def)

text \<open>A rejected request for a verification code leaves the page loading.\<close>

lemma failed_code_stays_loading:
  assumes "opt_get (inputs s) ''email'' \<noteq> JStr []" and "\<not> turnstileEnabled s"
    and "\<And>tr q. env tr q = Rejected JNull"
  shows "loading (snd (personal_sendVerificationCode env s))"
  using assms by (simp add: personal_sendVerificationCode_def act_simps on_rejected_def showError_def Let_def)

text \<open>The dialogue closes on a refused change as well, and the success closes the WeChat dialogue.\<close>

lemma refused_password_closes_dialogue:
  assumes "opt_get (inputs s) ''original_password'' = JStr (a # x)" and "opt_get (inputs s) ''set_new_password'' = JStr (b # y)"
    and "a # x \<noteq> b # y" and "opt_get (inputs s) ''set_new_password_confirmation'' = JStr (b # y)"
    and "\<And>tr q. env tr q = Ok (JObj [(''success'', JBool False), (''message'', JStr m)])"
  shows "\<not> showChangePasswordModal (snd (changePassword env s))"
  using assms by (auto simp: changePassword_def act_simps Let_def)

text \<open>What the notification settings lose when they are saved and shown again: a threshold of nought.\<close>

lemma zero_threshold_becomes_default:
  "opt_get (shown_notifications (JObj [(''quota_warning_threshold'', JNum 0)])) ''warningThreshold'' = JNum 500000"
  by (simp add: shown_notifications_def or_default_def jor_def)

end
