(* ===== verification/Chats_Form.thy ===== *)
theory Chats_Form
  imports Options Json_Pretty
begin

text \<open>
  The chat applications an administrator offers: \<open>pages/Setting/Chat/SettingsChats.jsx\<close>. The list is kept as JSON text in
  \<open>inputs.Chats\<close>; the visual editor shows the entries parsed from it and writes every change to it. The form component of the JSON
  editor exists only while that editor is shown; whether the API it leaves behind still validates is the parameter \<open>stale\<close>.
\<close>

section \<open>State\<close>

record chat_config =
  cid :: int
  cname :: string
  curl :: jv

record chats_form = option_form +
  refForm :: bool
  editMode :: string
  chatConfigs :: "chat_config list"
  modalVisible :: bool
  editingConfig :: "chat_config option"
  isEdit :: bool
  searchText :: string

type_synonym 'a chats_act = "(chats_form, 'a) act"

definition Chats :: string where
  "Chats = ''Chats''"

definition chats_initial :: "browser \<Rightarrow> chats_form" where
  "chats_initial b = \<lparr>store = store b, api = api b, user_ctx = user_ctx b, status_ctx = status_ctx b, trace = trace b,
     page_inputs = JObj [(Chats, JStr ''[]'')], page_loading = False,
     form_inputs = JObj [(Chats, JStr ''[]'')], inputsRow = JObj [(Chats, JStr ''[]'')], form_loading = False,
     refForm = False, editMode = ''visual'', chatConfigs = [], modalVisible = False, editingConfig = None, isEdit = False,
     searchText = []\<rparr>"

section \<open>The text and the entries\<close>

text \<open>The first key and value of \<open>Object.keys(config)\<close> and \<open>Object.values(config)\<close>; the outer \<open>None\<close> is the TypeError on null.\<close>

definition first_entry :: "jv \<Rightarrow> (string \<times> jv) option option" where
  "first_entry v = (case v of
       JUndef \<Rightarrow> None | JNull \<Rightarrow> None
     | JObj (m # ms) \<Rightarrow> Some (Some m)
     | JArr (x # xs) \<Rightarrow> Some (Some (''0'', x))
     | JStr (c # cs) \<Rightarrow> Some (Some (''0'', JStr [c]))
     | _ \<Rightarrow> Some None)"

fun number_configs :: "int \<Rightarrow> jv list \<Rightarrow> chat_config list option" where
  "number_configs i [] = Some []"
| "number_configs i (v # vs) =
     (case first_entry v of
        None \<Rightarrow> None
      | Some e \<Rightarrow> map_option (Cons \<lparr>cid = i, cname = (case e of Some (k, x) \<Rightarrow> k | None \<Rightarrow> []),
            curl = (case e of Some (k, x) \<Rightarrow> jor x (JStr []) | None \<Rightarrow> JStr [])\<rparr>) (number_configs (i + 1) vs))"

definition jsonToConfigs :: "jv \<Rightarrow> chat_config list" where
  "jsonToConfigs jsonString =
     (case json_parse (to_str jsonString) of
        Some (JArr configs) \<Rightarrow> (case number_configs 0 configs of Some cs \<Rightarrow> cs | None \<Rightarrow> [])
      | _ \<Rightarrow> [])"

definition configsToJson :: "chat_config list \<Rightarrow> jv" where
  "configsToJson configs = json_pretty (JArr (List.map (\<lambda>c. JObj [(cname c, curl c)]) configs))"

definition syncJsonToConfigs :: "chats_form \<Rightarrow> chats_form" where
  "syncJsonToConfigs s = s\<lparr>chatConfigs := jsonToConfigs (opt_get (form_inputs s) Chats)\<rparr>"

definition syncConfigsToJson :: "chat_config list \<Rightarrow> chats_form \<Rightarrow> chats_form" where
  "syncConfigsToJson configs s = s\<lparr>form_inputs := obj_set (form_inputs s) Chats (configsToJson configs)\<rparr>"

section \<open>Saving\<close>

definition chats_onSubmit :: "(chats_form \<Rightarrow> bool) \<Rightarrow> env \<Rightarrow> unit chats_act" where
  "chats_onSubmit stale env = bnd (gets (\<lambda>s. s)) (\<lambda>s0.
     if \<not> refForm s0 then showErr ''please check the input''
     else if (if editMode s0 = ''json'' then verifyJSON (opt_get (form_inputs s0) Chats) else stale s0)
     then submit_changed env (chats_onRefresh env) (form_inputs s0) (changed_keys (form_inputs s0) (inputsRow s0))
     else showErr ''please check the input'')"

text \<open>The effects: on new options, and on a change of the text or of the mode.\<close>

fun take_options :: "string list \<Rightarrow> (string \<times> jv) list \<Rightarrow> jv \<Rightarrow> ('s, jv) act" where
  "take_options known [] acc = ret acc"
| "take_options known ((k, v) # ms) acc =
     (if k \<notin> set known then take_options known ms acc
      else if k = Chats then bnd (parse_json v) (\<lambda>x. take_options known ms (obj_set acc k (json_pretty x)))
      else take_options known ms (obj_set acc k v))"

definition chats_effect :: "unit chats_act" where
  "chats_effect = bnd (gets (\<lambda>s. (page_inputs s, form_inputs s))) (\<lambda>(options, inp).
     bnd (take_options (obj_keys inp) (members options) (JObj [])) (\<lambda>currentInputs.
     modify (\<lambda>s. s\<lparr>form_inputs := currentInputs, inputsRow := currentInputs,
       chatConfigs := jsonToConfigs (jor (opt_get currentInputs Chats) (JStr ''[]''))\<rparr>)))"

definition visual_effect :: "chats_form \<Rightarrow> chats_form" where
  "visual_effect s = (if editMode s = ''visual'' then syncJsonToConfigs s else s)"

definition change_mode :: "string \<Rightarrow> chats_form \<Rightarrow> chats_form" where
  "change_mode newMode s = s\<lparr>editMode := newMode, refForm := (refForm s \<or> newMode = ''json'')\<rparr>"

definition json_onChange :: "string \<Rightarrow> chats_form \<Rightarrow> chats_form" where
  "json_onChange value s = s\<lparr>form_inputs := obj_set (form_inputs s) Chats (JStr value)\<rparr>"

section \<open>The visual editor\<close>

definition handleAddConfig :: "chats_form \<Rightarrow> chats_form" where
  "handleAddConfig s = s\<lparr>editingConfig := Some \<lparr>cid = -1, cname = [], curl = JStr []\<rparr>, isEdit := False, modalVisible := True\<rparr>"

definition handleEditConfig :: "chat_config \<Rightarrow> chats_form \<Rightarrow> chats_form" where
  "handleEditConfig config s = s\<lparr>editingConfig := Some config, isEdit := True, modalVisible := True\<rparr>"

definition handleDeleteConfig :: "int \<Rightarrow> unit chats_act" where
  "handleDeleteConfig i =
     sq (modify (\<lambda>s. let newConfigs = filter (\<lambda>c. cid c \<noteq> i) (chatConfigs s) in
           syncConfigsToJson newConfigs (s\<lparr>chatConfigs := newConfigs\<rparr>)))
        (showSuccess (JStr ''deleted''))"

definition duplicate_name :: "chats_form \<Rightarrow> string \<Rightarrow> bool" where
  "duplicate_name s name = list_ex (\<lambda>c. cname c = name \<and> (\<not> isEdit s \<or> (case editingConfig s of Some e \<Rightarrow> cid c \<noteq> cid e | None \<Rightarrow> True)))
     (chatConfigs s)"

definition max_id :: "chat_config list \<Rightarrow> int" where
  "max_id cs = (case cs of [] \<Rightarrow> -1 | c # rest \<Rightarrow> fold (\<lambda>d m. max (cid d) m) rest (cid c))"

text \<open>The dialogue's form hands over a name and an address that are not empty.\<close>

definition modal_configs :: "string \<Rightarrow> string \<Rightarrow> chats_form \<Rightarrow> chat_config list" where
  "modal_configs name url s =
     (if isEdit s
      then List.map (\<lambda>c. case editingConfig s of
          Some e \<Rightarrow> if cid c = cid e then e\<lparr>cname := name, curl := JStr url\<rparr> else c | None \<Rightarrow> c) (chatConfigs s)
      else chatConfigs s @ [\<lparr>cid = max_id (chatConfigs s) + 1, cname = name, curl = JStr url\<rparr>])"

definition handleModalOk :: "string \<Rightarrow> string \<Rightarrow> unit chats_act" where
  "handleModalOk name url = bnd (gets (\<lambda>s. s)) (\<lambda>s0.
     if duplicate_name s0 name then showErr ''there is a chat application with this name''
     else sq (modify (\<lambda>s. syncConfigsToJson (modal_configs name url s0) (s\<lparr>chatConfigs := modal_configs name url s0\<rparr>)))
         (sq (modify (\<lambda>s. s\<lparr>modalVisible := False, editingConfig := None\<rparr>))
             (showSuccess (JStr (if isEdit s0 then ''edited'' else ''added'')))))"

definition handleModalCancel :: "chats_form \<Rightarrow> chats_form" where
  "handleModalCancel s = s\<lparr>modalVisible := False, editingConfig := None\<rparr>"

definition filteredConfigs :: "chats_form \<Rightarrow> chat_config list" where
  "filteredConfigs s = filter (\<lambda>c. searchText s = [] \<or> str_includes (to_lower (cname c)) (to_lower (searchText s))) (chatConfigs s)"

section \<open>Lemmas\<close>

fun renumber :: "int \<Rightarrow> chat_config list \<Rightarrow> chat_config list" where
  "renumber i [] = []"
| "renumber i (c # cs) = c\<lparr>cid := i\<rparr> # renumber (i + 1) cs"

definition entry :: "chat_config \<Rightarrow> string \<times> jv" where
  "entry c = (cname c, curl c)"

definition texts :: "chat_config list \<Rightarrow> bool" where
  "texts cs = list_all (\<lambda>c. type_of (curl c) = ''string'') cs"

lemma text_value: "type_of v = ''string'' \<Longrightarrow> \<exists>u. v = JStr u"
  by (cases v) simp_all

lemma renumber_entries: "List.map entry (renumber i cs) = List.map entry cs"
  by (induction cs arbitrary: i) (simp_all add: entry_def)

lemma texts_renumber: "texts (renumber i cs) = texts cs"
  by (induction cs arbitrary: i) (simp_all add: texts_def)

lemma renumber_idem [simp]: "renumber i (renumber j cs) = renumber i cs"
  by (induction cs arbitrary: i j) simp_all

lemma number_configs_entries:
  "texts cs \<Longrightarrow> number_configs i (List.map (\<lambda>c. JObj [(cname c, curl c)]) cs) = Some (renumber i cs)"
  by (induction cs arbitrary: i) (auto simp: texts_def first_entry_def jor_def dest!: text_value)

lemma configs_json_ok: "texts cs \<Longrightarrow> json_ok (JArr (List.map (\<lambda>c. JObj [(cname c, curl c)]) cs))"
  by (auto simp: texts_def list_all_iff dest!: text_value)

lemma configs_roundtrip:
  assumes "texts cs"
  shows "jsonToConfigs (configsToJson cs) = renumber 0 cs"
  using pretty_roundtrip[OF configs_json_ok[OF assms]] number_configs_entries[OF assms, of 0]
  by (simp add: jsonToConfigs_def configsToJson_def json_pretty_def del: pretty.simps)

text \<open>A list numbered by position.\<close>

lemma renumber_ge: "d \<in> set (renumber j xs) \<Longrightarrow> j \<le> cid d"
proof (induction xs arbitrary: j)
  case Nil
  then show ?case by simp
next
  case (Cons x xs)
  show ?case using Cons.IH[of "j + 1"] Cons.prems by auto
qed

lemma numbered_filter:
  "renumber i cs = cs \<Longrightarrow> k < length cs \<Longrightarrow> filter (\<lambda>c. cid c \<noteq> i + int k) cs = take k cs @ drop (Suc k) cs"
proof (induction cs arbitrary: i k)
  case Nil
  then show ?case by simp
next
  case (Cons c cs)
  have c: "cid c = i" and r: "renumber (i + 1) cs = cs" using Cons.prems(1) by (auto dest: arg_cong[where f = cid])
  have later: "i < cid d" if "d \<in> set cs" for d using renumber_ge[of d "i + 1" cs] that r by simp
  show ?case
  proof (cases k)
    case 0
    then show ?thesis using c by (auto simp: filter_id_conv dest: later)
  next
    case (Suc m)
    then show ?thesis using Cons.IH[OF r, of m] Cons.prems(2) c by (simp add: algebra_simps)
  qed
qed

lemma numbered_update:
  "renumber i cs = cs \<Longrightarrow> k < length cs \<Longrightarrow> List.map (\<lambda>c. if cid c = i + int k then d else c) cs = cs[k := d]"
proof (induction cs arbitrary: i k)
  case Nil
  then show ?case by simp
next
  case (Cons c cs)
  have c: "cid c = i" and r: "renumber (i + 1) cs = cs" using Cons.prems(1) by (auto dest: arg_cong[where f = cid])
  have later: "i < cid d" if "d \<in> set cs" for d using renumber_ge[of d "i + 1" cs] that r by simp
  show ?case
  proof (cases k)
    case 0
    then show ?thesis using c by (auto intro!: map_idI dest: later)
  next
    case (Suc m)
    then show ?thesis using Cons.IH[OF r, of m] Cons.prems(2) c by (simp add: algebra_simps)
  qed
qed

lemma numbered_nth: "renumber i cs = cs \<Longrightarrow> k < length cs \<Longrightarrow> cid (cs ! k) = i + int k"
proof (induction cs arbitrary: i k)
  case Nil
  then show ?case by simp
next
  case (Cons c cs)
  then have "cid c = i" "renumber (i + 1) cs = cs" by (auto dest: arg_cong[where f = cid])
  then show ?case using Cons.IH[of "i + 1" "k - 1"] Cons.prems(2) by (cases k) auto
qed

text \<open>In the visual editor the entries and the text agree, and the entries are numbered by position.\<close>

definition synced :: "chats_form \<Rightarrow> bool" where
  "synced s = (editMode s = ''visual'' \<and> texts (chatConfigs s) \<and> renumber 0 (chatConfigs s) = chatConfigs s
     \<and> jsonToConfigs (opt_get (form_inputs s) Chats) = chatConfigs s)"

lemma synced_after:
  assumes "texts cs" and "editMode s = ''visual''"
  shows "synced (visual_effect (syncConfigsToJson cs s))"
    and "List.map entry (chatConfigs (visual_effect (syncConfigsToJson cs s))) = List.map entry cs"
  using assms configs_roundtrip[OF assms(1)]
  by (simp_all add: visual_effect_def syncJsonToConfigs_def syncConfigsToJson_def synced_def opt_get_obj_set texts_renumber renumber_entries)

lemma dup_iff:
  "\<not> isEdit s \<Longrightarrow> duplicate_name s n \<longleftrightarrow> n \<in> fst ` set (List.map entry (chatConfigs s))"
  by (force simp: duplicate_name_def list_ex_iff entry_def)

lemma modal_ok_run:
  "snd (handleModalOk name url s) =
    (if duplicate_name s name then s\<lparr>trace := trace s @ [Toasted TError (JStr ''Error: there is a chat application with this name'')]\<rparr>
     else syncConfigsToJson (modal_configs name url s) (s\<lparr>chatConfigs := modal_configs name url s, modalVisible := False,
        editingConfig := None, trace := trace s @ [Toasted TSuccess (JStr (if isEdit s then ''edited'' else ''added''))]\<rparr>))"
  by (simp add: handleModalOk_def act_simps showErr_eq syncConfigsToJson_def)

lemma delete_run:
  "snd (handleDeleteConfig i s) = syncConfigsToJson (filter (\<lambda>c. cid c \<noteq> i) (chatConfigs s))
     (s\<lparr>chatConfigs := filter (\<lambda>c. cid c \<noteq> i) (chatConfigs s), trace := trace s @ [Toasted TSuccess (JStr ''deleted'')]\<rparr>)"
  by (simp add: handleDeleteConfig_def act_simps syncConfigsToJson_def Let_def)

text \<open>The outcome of the dialogue: nothing, or the new entries.\<close>

lemma modal_outcome:
  assumes "synced s" and "form_inputs t = form_inputs s" and "chatConfigs t = chatConfigs s" and "editMode t = ''visual''"
    and "texts (modal_configs name url t)"
  shows "synced (visual_effect (snd (handleModalOk name url t)))
    \<and> List.map entry (chatConfigs (visual_effect (snd (handleModalOk name url t)))) =
        (if duplicate_name t name then List.map entry (chatConfigs s) else List.map entry (modal_configs name url t))"
proof (cases "duplicate_name t name")
  case True
  then show ?thesis using assms(1-4)
    by (simp add: modal_ok_run visual_effect_def syncJsonToConfigs_def synced_def)
next
  case False
  then show ?thesis using synced_after[OF assms(5)] assms(4) by (simp add: modal_ok_run)
qed

lemma other_names:
  assumes "renumber 0 cs = cs" and "k < length cs"
  shows "list_ex (\<lambda>c. cname c = name \<and> cid c \<noteq> cid (cs ! k)) cs \<longleftrightarrow>
    name \<in> fst ` set (take k (List.map entry cs) @ drop (Suc k) (List.map entry cs))"
proof -
  have "take k (List.map entry cs) @ drop (Suc k) (List.map entry cs) = List.map entry (filter (\<lambda>c. cid c \<noteq> cid (cs ! k)) cs)"
    using numbered_filter[OF assms] numbered_nth[OF assms] by (simp add: take_map drop_map)
  then show ?thesis by (force simp: list_ex_iff entry_def)
qed

section \<open>Properties\<close>


definition chats_example :: chats_form where
  "chats_example = (chats_initial \<lparr>store = Map.empty, api = \<lparr>hdr_user = JNum 1, intercepts = False\<rparr>, user_ctx = JUndef,
       status_ctx = JUndef, trace = []\<rparr>)
     \<lparr>form_inputs := JObj [(Chats, configsToJson [\<lparr>cid = 0, cname = ''a'', curl = JStr ''u''\<rparr>, \<lparr>cid = 1, cname = ''b'', curl = JStr ''v''\<rparr>])],
      chatConfigs := [\<lparr>cid = 0, cname = ''a'', curl = JStr ''u''\<rparr>, \<lparr>cid = 1, cname = ''b'', curl = JStr ''v''\<rparr>]\<rparr>"

lemma chats_example_synced: "synced chats_example" "k < 2 \<Longrightarrow> k < length (chatConfigs chats_example)"
  using configs_roundtrip[of "chatConfigs chats_example"]
  by (simp_all add: synced_def chats_example_def chats_initial_def texts_def opt_get_def)


text \<open>What the visual editor alone can do: new options, the effects, its dialogues, its search box and its save button.\<close>

inductive chats_visual_step :: "(chats_form \<Rightarrow> bool) \<Rightarrow> env \<Rightarrow> chats_form \<Rightarrow> chats_form \<Rightarrow> bool" for stale env where
  options: "chats_visual_step stale env s (snd (chats_effect (s\<lparr>page_inputs := v\<rparr>)))"
| effect: "chats_visual_step stale env s (visual_effect s)"
| add: "chats_visual_step stale env s (handleAddConfig s)"
| edit: "chats_visual_step stale env s (handleEditConfig c s)"
| delete: "chats_visual_step stale env s (snd (handleDeleteConfig i s))"
| ok: "chats_visual_step stale env s (snd (handleModalOk name url s))"
| cancel: "chats_visual_step stale env s (handleModalCancel s)"
| search: "chats_visual_step stale env s (s\<lparr>searchText := t\<rparr>)"
| visual: "chats_visual_step stale env s (change_mode ''visual'' s)"
| submit: "chats_visual_step stale env s (snd (chats_onSubmit stale env s))"

definition requested :: "effect list \<Rightarrow> effect list" where
  "requested es = filter (\<lambda>e. case e of Requested u q \<Rightarrow> True | _ \<Rightarrow> False) es"

lemma requested_simps [simp]: "requested (es @ [Toasted k m]) = requested es"
  by (simp add: requested_def)

lemma take_options_state: "snd (take_options ks ms acc s) = s"
  by (induction ms arbitrary: acc) (auto simp: act_simps split: option.split)

lemma chats_effect_keeps: "trace (snd (chats_effect s)) = trace s \<and> refForm (snd (chats_effect s)) = refForm s"
  using take_options_state[of "obj_keys (form_inputs s)" "members (page_inputs s)" "JObj []" s]
  by (auto simp: chats_effect_def act_simps split: prod.split sum.split)

lemma no_form_no_save:
  "\<not> refForm s \<Longrightarrow> chats_onSubmit stale env s = (Inr (), s\<lparr>trace := trace s @ [Toasted TError (JStr ''Error: please check the input'')]\<rparr>)"
  by (simp add: chats_onSubmit_def act_simps)

lemma visual_step_keeps:
  assumes "chats_visual_step stale env s t" and "\<not> refForm s"
  shows "\<not> refForm t \<and> requested (trace t) = requested (trace s)"
  using assms
proof cases
  case (options v)
  then show ?thesis using chats_effect_keeps[of "s\<lparr>page_inputs := v\<rparr>"] assms(2) by simp
qed (use assms(2) in \<open>auto simp: visual_effect_def syncJsonToConfigs_def handleAddConfig_def handleEditConfig_def delete_run
    syncConfigsToJson_def modal_ok_run handleModalCancel_def change_mode_def no_form_no_save\<close>)

text \<open>The save button of the visual editor never saves: as long as the JSON editor was not opened there is no form to validate,
  so whatever was added, edited or deleted, saving sends no request and reports an input error.\<close>

lemma visual_editor_never_saves:
  assumes "(chats_visual_step stale env)\<^sup>*\<^sup>* (chats_initial b) s"
  shows "requested (trace s) = requested (trace b)
    \<and> trace (snd (chats_onSubmit stale env s)) = trace s @ [Toasted TError (JStr ''Error: please check the input'')]"
proof -
  have "\<not> refForm s \<and> requested (trace s) = requested (trace b)" using assms
  proof (induction rule: rtranclp_induct)
    case base
    then show ?case by (simp add: chats_initial_def)
  next
    case (step t u)
    then show ?case using visual_step_keeps[OF step(2)] by simp
  qed
  then show ?thesis by (simp add: no_form_no_save)
qed

lemma visual_editor_never_saves_example:
  "\<exists>s. chatConfigs s \<noteq> [] \<and> trace (snd (chats_onSubmit (\<lambda>s. True) (\<lambda>t r. Ok JNull) s)) =
    [Toasted TSuccess (JStr ''added''), Toasted TError (JStr ''Error: please check the input'')]"
proof -
  let ?b = "\<lparr>store = Map.empty, api = \<lparr>hdr_user = JNum 1, intercepts = False\<rparr>, user_ctx = JUndef, status_ctx = JUndef, trace = []\<rparr>"
  let ?t = "handleAddConfig (chats_initial ?b)"
  let ?s = "snd (handleModalOk ''a'' ''u'' ?t)"
  have "(chats_visual_step (\<lambda>s. True) (\<lambda>t r. Ok JNull))\<^sup>*\<^sup>* (chats_initial ?b) ?s"
    by (rule rtranclp.rtrancl_into_rtrancl[OF r_into_rtranclp]) (rule chats_visual_step.add, rule chats_visual_step.ok)
  from visual_editor_never_saves[OF this]
  show ?thesis by (intro exI[of _ ?s]) (simp add: modal_ok_run handleAddConfig_def chats_initial_def duplicate_name_def
      syncConfigsToJson_def modal_configs_def)
qed

end
