(* ===== verification/Payment_Forms.thy ===== *)
theory Payment_Forms
  imports Options Json_Pretty
begin

text \<open>
  The payment settings: the container \<open>components/settings/PaymentSetting.jsx\<close> and its four forms under
  \<open>pages/Setting/Payment\<close> (server address, Epay gateway, Stripe, Creem with its list of products). The state of a form
  is that of the other option forms; \<open>inputsRow\<close> is here what these files call \<open>originInputs\<close>.
\<close>

section \<open>PaymentSetting.jsx\<close>

definition pretty_or_text :: "jv \<Rightarrow> jv" where
  "pretty_or_text v = (case json_parse (to_str v) of Some x \<Rightarrow> json_pretty x | None \<Rightarrow> v)"

definition payment_defaults :: jv where
  "payment_defaults = JObj
    [(''ServerAddress'', JStr []), (''PayAddress'', JStr []), (''EpayId'', JStr []), (''EpayKey'', JStr []), (''Price'', JNum (73/10)),
     (''MinTopUp'', JNum 1), (''TopupGroupRatio'', JStr []), (''CustomCallbackAddress'', JStr []), (''PayMethods'', JStr []),
     (''AmountOptions'', JStr []), (''AmountDiscount'', JStr []), (''StripeApiSecret'', JStr []), (''StripeWebhookSecret'', JStr []),
     (''StripePriceId'', JStr []), (''StripeUnitPrice'', JNum 8), (''StripeMinTopUp'', JNum 1),
     (''StripePromotionCodesEnabled'', JBool False)]"

definition payment_item :: "jv \<Rightarrow> jv \<Rightarrow> jv \<Rightarrow> ('s, jv) act" where
  "payment_item inp acc item = bnd (prop_get item ''key'') (\<lambda>kv.
     let v = opt_get item ''value'' in
     if kv = JStr ''TopupGroupRatio'' then ret (obj_set acc ''TopupGroupRatio'' (pretty_or_text v))
     else if kv = JStr ''payment_setting.amount_options'' then ret (obj_set acc ''AmountOptions'' (pretty_or_text v))
     else if kv = JStr ''payment_setting.amount_discount'' then ret (obj_set acc ''AmountDiscount'' (pretty_or_text v))
     else bnd (item_key item) (\<lambda>k.
       ret (obj_set acc k
         (if k \<in> set [''Price'', ''MinTopUp'', ''StripeUnitPrice'', ''StripeMinTopUp''] then parseFloat v
          else if ends_with ''Enabled'' k then JBool (toBoolean v) else v))))"

definition payment_getOptions :: "env \<Rightarrow> ('x option_page_scheme, unit) act" where
  "payment_getOptions env = getOptions payment_item env"

definition payment_onRefresh :: "env \<Rightarrow> ('x option_page_scheme, unit) act" where
  "payment_onRefresh env = onRefresh payment_item env"

section \<open>SettingsGeneralPayment.jsx\<close>

definition strip_slash :: "jv \<Rightarrow> ('s, jv) act" where
  "strip_slash v = (if \<not> truthy v then ret (JStr [])
     else case v of JStr u \<Rightarrow> ret (JStr (removeTrailingSlash u)) | _ \<Rightarrow> throw type_error)"

definition or_empty :: "jv \<Rightarrow> string \<Rightarrow> string \<times> jv" where
  "or_empty options k = (k, jor (opt_get options k) (JStr []))"

definition address_effect :: "'x option_form_scheme \<Rightarrow> 'x option_form_scheme" where
  "address_effect s = s\<lparr>form_inputs := JObj [or_empty (page_inputs s) ''ServerAddress'']\<rparr>"

definition pay_handleFormChange :: "jv \<Rightarrow> 'x option_form_scheme \<Rightarrow> 'x option_form_scheme" where
  "pay_handleFormChange values s = s\<lparr>form_inputs := values\<rparr>"

definition submitServerAddress :: "env \<Rightarrow> 'x form_act" where
  "submitServerAddress env =
     sq (modify (\<lambda>s. s\<lparr>form_loading := True\<rparr>))
    (sq (try_catch
          (bnd (gets form_inputs) (\<lambda>inp.
           bnd (strip_slash (opt_get inp ''ServerAddress'')) (\<lambda>address.
           bnd (api_put env ''/api/option/'' (option_body ''ServerAddress'' address)) (\<lambda>d.
           bnd (prop_get d ''success'') (\<lambda>success.
             if truthy success then sq (showSuccess (JStr ''updated'')) (detach (payment_onRefresh env))
             else showError (opt_get d ''message''))))))
          (\<lambda>_. showErr ''update failed''))
        (modify (\<lambda>s. s\<lparr>form_loading := False\<rparr>)))"

section \<open>What the three gateway forms share\<close>

text \<open>\<open>v.toString()\<close> and \<open>options.push\<close> under a condition.\<close>

definition to_text :: "jv \<Rightarrow> ('s, jv) act" where
  "to_text v = (if nullish v then throw type_error else ret (JStr (to_str v)))"

definition push_if :: "bool \<Rightarrow> string \<Rightarrow> jv \<Rightarrow> (string \<times> jv) list" where
  "push_if c k v = (if c then [(k, v)] else [])"

definition pay_edited :: "jv \<Rightarrow> jv \<Rightarrow> string \<Rightarrow> bool" where
  "pay_edited origin inp k = (\<not> strict_eq (opt_get origin k) (opt_get inp k))"

definition push_edited :: "jv \<Rightarrow> jv \<Rightarrow> string \<Rightarrow> string \<Rightarrow> (string \<times> jv) list" where
  "push_edited origin inp k option = push_if (pay_edited origin inp k) option (opt_get inp k)"

definition push_typed :: "jv \<Rightarrow> string \<Rightarrow> (string \<times> jv) list" where
  "push_typed inp k = push_if (opt_get inp k \<noteq> JStr []) k (opt_get inp k)"

definition push_secret :: "jv \<Rightarrow> string \<Rightarrow> (string \<times> jv) list" where
  "push_secret inp k = push_if (truthy (opt_get inp k)) k (opt_get inp k)"

definition pay_requests :: "(string \<times> jv) list \<Rightarrow> request list" where
  "pay_requests options = List.map (\<lambda>(k, v). Http PUT ''/api/option/'' (option_body k v)) options"

text \<open>All options are sent together; each refusal is shown, and only without one the page is told that it was saved.\<close>

definition put_and_report :: "env \<Rightarrow> jv \<Rightarrow> (string \<times> jv) list \<Rightarrow> 'x form_act" where
  "put_and_report env inp options =
     bnd (promise_all env (pay_requests options)) (\<lambda>results.
     bnd (map_each (\<lambda>res. prop_get (opt_get res ''data'') ''success'') results) (\<lambda>oks.
       let errorResults = List.map fst (filter (\<lambda>p. \<not> truthy (snd p)) (zip results oks)) in
       if errorResults \<noteq> [] then for_each errorResults (\<lambda>res. showError (opt_get (opt_get res ''data'') ''message''))
       else sq (showSuccess (JStr ''updated''))
           (sq (modify (\<lambda>s. s\<lparr>inputsRow := inp\<rparr>))
               (detach (payment_onRefresh env)))))"

definition save_payment :: "env \<Rightarrow> jv \<Rightarrow> ('x option_form_scheme, (string \<times> jv) list) act \<Rightarrow> 'x form_act" where
  "save_payment env inp options =
     sq (modify (\<lambda>s. s\<lparr>form_loading := True\<rparr>))
    (sq (try_catch (bnd options (put_and_report env inp)) (\<lambda>_. showErr ''update failed''))
        (modify (\<lambda>s. s\<lparr>form_loading := False\<rparr>)))"

section \<open>SettingsPaymentGateway.jsx\<close>

definition or_number :: "jv \<Rightarrow> string \<Rightarrow> rat \<Rightarrow> string \<times> jv" where
  "or_number options k d = (k, if opt_get options k \<noteq> JUndef then parseFloat (opt_get options k) else JNum d)"

definition pretty_if_set :: "jv \<Rightarrow> string \<Rightarrow> string \<times> jv" where
  "pretty_if_set options k =
     (let v = jor (opt_get options k) (JStr []) in (k, if truthy v then pretty_or_text v else v))"

definition gateway_effect :: "'x option_form_scheme \<Rightarrow> 'x option_form_scheme" where
  "gateway_effect s =
     (let options = page_inputs s;
          c = JObj [or_empty options ''PayAddress'', or_empty options ''EpayId'', or_empty options ''EpayKey'',
            or_number options ''Price'' (73/10), or_number options ''MinTopUp'' 1, or_empty options ''TopupGroupRatio'',
            or_empty options ''CustomCallbackAddress'', or_empty options ''PayMethods'',
            pretty_if_set options ''AmountOptions'', pretty_if_set options ''AmountDiscount''] in
      s\<lparr>form_inputs := c, inputsRow := c\<rparr>)"

definition push_number :: "jv \<Rightarrow> string \<Rightarrow> ('s, (string \<times> jv) list) act" where
  "push_number inp k = (if opt_get inp k \<noteq> JStr [] then bnd (to_text (opt_get inp k)) (\<lambda>t. ret [(k, t)]) else ret [])"

definition gateway_options :: "jv \<Rightarrow> jv \<Rightarrow> ('s, (string \<times> jv) list) act" where
  "gateway_options origin inp =
     bnd (strip_slash (opt_get inp ''PayAddress'')) (\<lambda>address.
     bnd (push_number inp ''Price'') (\<lambda>price.
     bnd (push_number inp ''MinTopUp'') (\<lambda>least.
       ret ([(''PayAddress'', address)] @ push_typed inp ''EpayId''
         @ push_if (opt_get inp ''EpayKey'' \<noteq> JUndef \<and> opt_get inp ''EpayKey'' \<noteq> JStr []) ''EpayKey'' (opt_get inp ''EpayKey'')
         @ price @ least @ push_typed inp ''CustomCallbackAddress''
         @ push_edited origin inp ''TopupGroupRatio'' ''TopupGroupRatio'' @ push_edited origin inp ''PayMethods'' ''PayMethods''
         @ push_edited origin inp ''AmountOptions'' ''payment_setting.amount_options''
         @ push_edited origin inp ''AmountDiscount'' ''payment_setting.amount_discount''))))"

text \<open>The checks; an optional list may be left blank, and \<open>.trim()\<close> throws on what is no text.\<close>

definition needs_json :: "jv \<Rightarrow> jv \<Rightarrow> string \<Rightarrow> bool" where
  "needs_json origin inp k = (pay_edited origin inp k \<and> \<not> verifyJSON (opt_get inp k))"

definition needs_json_or_blank :: "jv \<Rightarrow> jv \<Rightarrow> string \<Rightarrow> ('s, bool) act" where
  "needs_json_or_blank origin inp k =
     (if \<not> pay_edited origin inp k then ret False
      else case opt_get inp k of JStr u \<Rightarrow> ret (trim u \<noteq> [] \<and> \<not> verifyJSON (JStr u)) | _ \<Rightarrow> throw type_error)"

definition submitPayAddress :: "env \<Rightarrow> 'x form_act" where
  "submitPayAddress env = bnd (gets (\<lambda>s. (page_inputs s, form_inputs s, inputsRow s))) (\<lambda>(options, inp, origin).
     if opt_get options ''ServerAddress'' = JStr [] then showErr ''please fill in the server address first''
     else if needs_json origin inp ''TopupGroupRatio'' then showErr ''the group ratios are not valid JSON''
     else if needs_json origin inp ''PayMethods'' then showErr ''the payment methods are not valid JSON''
     else bnd (needs_json_or_blank origin inp ''AmountOptions'') (\<lambda>bad. if bad then showErr ''the amounts are not a valid JSON array''
     else bnd (needs_json_or_blank origin inp ''AmountDiscount'') (\<lambda>bad'. if bad' then showErr ''the discounts are not a valid JSON object''
     else save_payment env inp (gateway_options origin inp))))"

section \<open>SettingsPaymentGatewayStripe.jsx\<close>

definition stripe_effect :: "'x option_form_scheme \<Rightarrow> 'x option_form_scheme" where
  "stripe_effect s =
     (let options = page_inputs s; promo = opt_get options ''StripePromotionCodesEnabled'';
          c = JObj [or_empty options ''StripeApiSecret'', or_empty options ''StripeWebhookSecret'', or_empty options ''StripePriceId'',
            or_number options ''StripeUnitPrice'' 8, or_number options ''StripeMinTopUp'' 1,
            (''StripePromotionCodesEnabled'', if promo \<noteq> JUndef then promo else JBool False)] in
      s\<lparr>form_inputs := c, inputsRow := c\<rparr>)"

definition stripe_options :: "jv \<Rightarrow> jv \<Rightarrow> (string \<times> jv) list" where
  "stripe_options origin inp =
     (let number = (\<lambda>k. push_if (\<not> nullish (opt_get inp k)) k (JStr (to_str (opt_get inp k))));
          promo = opt_get inp ''StripePromotionCodesEnabled'' in
      push_secret inp ''StripeApiSecret'' @ push_secret inp ''StripeWebhookSecret'' @ push_typed inp ''StripePriceId''
      @ number ''StripeUnitPrice'' @ number ''StripeMinTopUp''
      @ push_if (pay_edited origin inp ''StripePromotionCodesEnabled'' \<and> promo \<noteq> JUndef) ''StripePromotionCodesEnabled''
          (JStr (if truthy promo then ''true'' else ''false'')))"

definition submitStripeSetting :: "env \<Rightarrow> 'x form_act" where
  "submitStripeSetting env = bnd (gets (\<lambda>s. (page_inputs s, form_inputs s, inputsRow s))) (\<lambda>(options, inp, origin).
     if opt_get options ''ServerAddress'' = JStr [] then showErr ''please fill in the server address first''
     else save_payment env inp (ret (stripe_options origin inp)))"

section \<open>SettingsPaymentGatewayCreem.jsx\<close>

record creem_form = option_form +
  products :: jv
  showProductModal :: bool
  editingProduct :: "jv option"
  productForm :: jv

definition empty_product :: jv where
  "empty_product = JObj [(''name'', JStr []), (''productId'', JStr []), (''price'', JNum 0), (''quota'', JNum 0), (''currency'', JStr ''USD'')]"

definition creem_effect :: "creem_form \<Rightarrow> creem_form" where
  "creem_effect s =
     (let options = page_inputs s; stored = jor (opt_get options ''CreemProducts'') (JStr ''[]'');
          c = JObj [or_empty options ''CreemApiKey'', or_empty options ''CreemWebhookSecret'', (''CreemProducts'', stored),
            (''CreemTestMode'', JBool (opt_get options ''CreemTestMode'' = JStr ''true''))] in
      s\<lparr>form_inputs := c, inputsRow := c,
        products := (case json_parse (to_str stored) of Some ps \<Rightarrow> ps | None \<Rightarrow> JArr [])\<rparr>)"

definition creem_options :: "jv \<Rightarrow> jv \<Rightarrow> (string \<times> jv) list" where
  "creem_options inp ps =
     push_secret inp ''CreemApiKey'' @ push_secret inp ''CreemWebhookSecret''
     @ [(''CreemTestMode'', JStr (if truthy (opt_get inp ''CreemTestMode'') then ''true'' else ''false'')),
        (''CreemProducts'', json_stringify ps)]"

definition submitCreemSetting :: "env \<Rightarrow> (creem_form, unit) act" where
  "submitCreemSetting env = bnd (gets (\<lambda>s. (form_inputs s, products s))) (\<lambda>(inp, ps).
     save_payment env inp (ret (creem_options inp ps)))"

definition openProductModal :: "jv option \<Rightarrow> creem_form \<Rightarrow> creem_form" where
  "openProductModal product s = s\<lparr>editingProduct := product,
     productForm := (case product of Some p \<Rightarrow> JObj (members p) | None \<Rightarrow> empty_product), showProductModal := True\<rparr>"

definition closeProductModal :: "creem_form \<Rightarrow> creem_form" where
  "closeProductModal s = s\<lparr>showProductModal := False, editingProduct := None, productForm := empty_product\<rparr>"

definition set_product_field :: "string \<Rightarrow> jv \<Rightarrow> creem_form \<Rightarrow> creem_form" where
  "set_product_field k v s = s\<lparr>productForm := obj_set (productForm s) k v\<rparr>"

definition num_le :: "jv \<Rightarrow> rat \<Rightarrow> bool" where
  "num_le v n = (case to_num v of Some r \<Rightarrow> r \<le> n | None \<Rightarrow> False)"

definition incomplete_product :: "jv \<Rightarrow> bool" where
  "incomplete_product p = (\<not> truthy (opt_get p ''name'') \<or> \<not> truthy (opt_get p ''productId'') \<or> num_le (opt_get p ''price'') 0
     \<or> num_le (opt_get p ''quota'') 0 \<or> \<not> truthy (opt_get p ''currency''))"

text \<open>\<open>findIndex\<close>, \<open>find\<close> and \<open>filter\<close> over the entries throw on an entry that is null.\<close>

fun first_index :: "jv \<Rightarrow> nat \<Rightarrow> jv list \<Rightarrow> ('s, nat option) act" where
  "first_index v i [] = ret None"
| "first_index v i (p # ps) = bnd (prop_get p ''productId'') (\<lambda>w. if strict_eq w v then ret (Some i) else first_index v (i + 1) ps)"

definition spread_values :: "jv \<Rightarrow> jv list option" where
  "spread_values v = (case v of JArr xs \<Rightarrow> Some xs | JStr cs \<Rightarrow> Some (List.map (\<lambda>c. JStr [c]) cs) | _ \<Rightarrow> None)"

definition saveProduct :: "(creem_form, unit) act" where
  "saveProduct = bnd (gets (\<lambda>s. (productForm s, products s, editingProduct s))) (\<lambda>(pf, ps, editing).
     if incomplete_product pf then showErr ''please fill in the complete product''
     else case spread_values ps of
       Some old \<Rightarrow>
         (case editing of
            Some e \<Rightarrow> bnd (first_index (opt_get e ''productId'') 0 old) (\<lambda>i.
              modify (\<lambda>s. closeProductModal (s\<lparr>products := JArr (case i of Some j \<Rightarrow> old[j := pf] | None \<Rightarrow> old)\<rparr>)))
          | None \<Rightarrow> bnd (first_index (opt_get pf ''productId'') 0 old) (\<lambda>i.
              if i \<noteq> None then showErr ''this product id exists already''
              else modify (\<lambda>s. closeProductModal (s\<lparr>products := JArr (old @ [pf])\<rparr>))))
     | None \<Rightarrow> throw type_error)"

fun without_id :: "jv \<Rightarrow> jv list \<Rightarrow> ('s, jv list) act" where
  "without_id v [] = ret []"
| "without_id v (p # ps) = bnd (prop_get p ''productId'') (\<lambda>w.
     bnd (without_id v ps) (\<lambda>rest. ret (if strict_eq w v then rest else p # rest)))"

definition deleteProduct :: "jv \<Rightarrow> (creem_form, unit) act" where
  "deleteProduct v = bnd (gets products) (\<lambda>ps. case ps of
       JArr old \<Rightarrow> bnd (without_id v old) (\<lambda>rest. modify (\<lambda>s. s\<lparr>products := JArr rest\<rparr>))
     | _ \<Rightarrow> throw type_error)"

section \<open>Lemmas\<close>

text \<open>Products with an id that is a text, no two with the same.\<close>

definition product_id :: "jv \<Rightarrow> jv" where
  "product_id p = opt_get p ''productId''"

definition has_id :: "jv \<Rightarrow> bool" where
  "has_id p = (type_of (product_id p) = ''string'')"

lemma has_idD: "has_id p \<Longrightarrow> \<exists>u. product_id p = JStr u \<and> prop_get p ''productId'' = ret (JStr u)"
  by (cases "product_id p"; cases p) (auto simp: has_id_def product_id_def prop_get_def opt_get_def nullish_def intro!: ext)

lemma strict_eq_text: "strict_eq v (JStr u) = (v = JStr u)"
  by (cases v) simp_all

lemma first_index_run:
  "list_all has_id ps \<Longrightarrow> (\<exists>r. first_index (JStr u) i ps s = (Inr r, s) \<and>
     (case r of None \<Rightarrow> JStr u \<notin> product_id ` set ps | Some j \<Rightarrow> i \<le> j \<and> j - i < length ps \<and> product_id (ps ! (j - i)) = JStr u))"
proof (induction ps arbitrary: i)
  case Nil
  then show ?case by (simp add: ret_def)
next
  case (Cons p ps)
  obtain w where w: "product_id p = JStr w" "prop_get p ''productId'' = (ret (JStr w) :: ('a, jv) act)"
    using has_idD[of p] Cons.prems by auto
  show ?case
  proof (cases "w = u")
    case True
    then show ?thesis using w by (intro exI[of _ "Some i"]) (simp add: ret_def)
  next
    case False
    obtain r where r: "first_index (JStr u) (i + 1) ps s = (Inr r, s)"
      "case r of None \<Rightarrow> JStr u \<notin> product_id ` set ps
        | Some j \<Rightarrow> i + 1 \<le> j \<and> j - (i + 1) < length ps \<and> product_id (ps ! (j - (i + 1))) = JStr u"
      using Cons.IH[of "i + 1"] Cons.prems by auto
    have "first_index (JStr u) i (p # ps) s = (Inr r, s)" using r(1) w False by (simp add: strict_eq_text)
    moreover have "j - i = Suc (j - (i + 1))" if "i + 1 \<le> j" for j using that by simp
    ultimately show ?thesis using r(2) w False by (intro exI[of _ r]) (auto split: option.splits)
  qed
qed

lemma without_id_run: "list_all has_id ps \<Longrightarrow> without_id v ps s = (Inr (filter (\<lambda>p. \<not> strict_eq (product_id p) v) ps), s)"
proof (induction ps)
  case Nil
  then show ?case by (simp add: ret_def)
next
  case (Cons p ps)
  obtain w where w: "product_id p = JStr w" "prop_get p ''productId'' = (ret (JStr w) :: ('a, jv) act)"
    using has_idD[of p] Cons.prems by auto
  then show ?case using Cons by (simp add: bnd_def ret_def)
qed

text \<open>One step in the list of products: the buttons of a row, the dialogue and its fields (the id is disabled while editing).\<close>

inductive creem_step :: "creem_form \<Rightarrow> creem_form \<Rightarrow> bool" where
  open_new: "creem_step s (openProductModal None s)"
| open_row: "products s = JArr ps \<Longrightarrow> p \<in> set ps \<Longrightarrow> creem_step s (openProductModal (Some p) s)"
| close: "creem_step s (closeProductModal s)"
| field: "k \<noteq> ''productId'' \<Longrightarrow> creem_step s (set_product_field k v s)"
| id: "editingProduct s = None \<Longrightarrow> creem_step s (set_product_field ''productId'' (JStr u) s)"
| save: "creem_step s (snd (saveProduct s))"
| delete: "creem_step s (snd (deleteProduct v s))"

definition products_ok :: "jv set \<Rightarrow> jv list \<Rightarrow> bool" where
  "products_ok old ps = (list_all has_id ps \<and> distinct (List.map product_id ps)
     \<and> (\<forall>p \<in> set ps. p \<in> old \<or> \<not> incomplete_product p))"

definition array_ok :: "jv set \<Rightarrow> jv \<Rightarrow> bool" where
  "array_ok old v = (case v of JArr ps \<Rightarrow> products_ok old ps | _ \<Rightarrow> False)"

definition edits_entry :: "jv \<Rightarrow> jv option \<Rightarrow> bool" where
  "edits_entry pf e = (case e of Some p \<Rightarrow> product_id pf = product_id p | None \<Rightarrow> True)"

lemma creem_parts [simp]:
  "array_ok old (JArr ps) = products_ok old ps" "edits_entry pf None" "edits_entry pf (Some p) = (product_id pf = product_id p)"
  by (simp_all add: array_ok_def edits_entry_def)

definition creem_ok :: "jv set \<Rightarrow> creem_form \<Rightarrow> bool" where
  "creem_ok old s = (array_ok old (products s) \<and> has_id (productForm s) \<and> edits_entry (productForm s) (editingProduct s))"

lemma product_form_ids [simp]:
  "product_id (JObj (members p)) = product_id p" "has_id (JObj (members p)) = has_id p" "has_id empty_product"
  by (simp_all add: has_id_def product_id_def opt_get_def empty_product_def)

lemma creem_okD: "creem_ok old s \<Longrightarrow> \<exists>ps. products s = JArr ps \<and> products_ok old ps"
  by (cases "products s") (auto simp: creem_ok_def array_ok_def)

lemma products_ok_append:
  "products_ok old ps \<Longrightarrow> has_id p \<Longrightarrow> product_id p \<notin> product_id ` set ps \<Longrightarrow> \<not> incomplete_product p \<Longrightarrow> products_ok old (ps @ [p])"
  by (auto simp: products_ok_def)

lemma products_ok_update:
  assumes "products_ok old ps" and "j < length ps" and "product_id p = product_id (ps ! j)" and "\<not> incomplete_product p"
  shows "products_ok old (ps[j := p])"
proof -
  have "List.map product_id (ps[j := p]) = List.map product_id ps"
    using assms(2,3) by (simp add: map_update list_update_same_conv)
  moreover have "has_id p" using assms by (simp add: products_ok_def has_id_def list_all_length)
  ultimately show ?thesis using assms(1,4) set_update_subset_insert[of ps j p]
    by (auto simp: products_ok_def list_all_iff)
qed

lemma products_ok_filter: "products_ok old ps \<Longrightarrow> products_ok old (filter P ps)"
  by (auto simp: products_ok_def list_all_iff distinct_map intro: inj_on_subset)

lemma save_keeps:
  assumes "creem_ok old s"
  shows "creem_ok old (snd (saveProduct s))"
proof (cases "incomplete_product (productForm s)")
  case True
  then show ?thesis using assms by (simp add: saveProduct_def act_simps creem_ok_def)
next
  case False
  obtain ps where ps: "products s = JArr ps" "products_ok old ps" using creem_okD[OF assms] by auto
  have pf: "has_id (productForm s)" using assms by (simp add: creem_ok_def)
  then obtain u where u: "product_id (productForm s) = JStr u" using has_idD by blast
  have ids: "list_all has_id ps" using ps(2) by (simp add: products_ok_def)
  obtain r where r: "first_index (JStr u) 0 ps s = (Inr r, s)"
    "case r of None \<Rightarrow> JStr u \<notin> product_id ` set ps | Some j \<Rightarrow> j < length ps \<and> product_id (ps ! j) = JStr u"
    using first_index_run[OF ids, of u 0 s] by (auto split: option.splits)
  have sp: "spread_values (products s) = Some ps" using ps(1) by (simp add: spread_values_def)
  show ?thesis
  proof (cases "editingProduct s")
    case None
    then show ?thesis using False r sp ps pf u assms products_ok_append[OF ps(2) pf]
      by (cases r) (auto simp: saveProduct_def act_simps product_id_def[symmetric] closeProductModal_def creem_ok_def)
  next
    case (Some e)
    then have "product_id e = JStr u" using assms u by (simp add: creem_ok_def)
    then show ?thesis using Some False r sp ps pf u products_ok_update[OF ps(2) _ _ False]
      by (cases r) (auto simp: saveProduct_def act_simps product_id_def[symmetric] closeProductModal_def creem_ok_def)
  qed
qed

lemma delete_keeps:
  assumes "creem_ok old s"
  shows "creem_ok old (snd (deleteProduct v s))"
proof -
  obtain ps where ps: "products s = JArr ps" "products_ok old ps" using creem_okD[OF assms] by auto
  then have "list_all has_id ps" by (simp add: products_ok_def)
  then show ?thesis using ps assms products_ok_filter[OF ps(2)]
    by (simp add: deleteProduct_def act_simps without_id_run creem_ok_def)
qed

lemma creem_step_keeps:
  assumes "creem_step s t" and "creem_ok old s"
  shows "creem_ok old t"
  using assms
proof cases
  case (open_row ps p)
  then show ?thesis using assms(2) by (auto simp: openProductModal_def creem_ok_def products_ok_def list_all_iff)
next
  case save
  then show ?thesis using save_keeps[OF assms(2)] by simp
next
  case (delete v)
  then show ?thesis using delete_keeps[OF assms(2)] by simp
next
  case (field k v)
  then have "product_id (obj_set (productForm s) k v) = product_id (productForm s)"
    "has_id (obj_set (productForm s) k v) = has_id (productForm s)"
    by (simp_all add: has_id_def product_id_def opt_get_obj_set)
  then show ?thesis using field assms(2) by (cases "editingProduct s") (simp_all add: set_product_field_def creem_ok_def)
next
  case (id u)
  then show ?thesis using assms(2) by (simp add: set_product_field_def creem_ok_def has_id_def product_id_def opt_get_obj_set)
qed (use assms(2) in \<open>auto simp: openProductModal_def closeProductModal_def creem_ok_def\<close>)

section \<open>Properties\<close>

text \<open>C28: Whatever is done with the list of products - adding, editing, deleting, opening and closing the dialogue - no two products
  have the same id, and every product that was not in the list before is complete: it has a name, an id, a currency and a price and
  a quota that are not zero or less.\<close>

theorem product_ids_distinct:
  assumes "creem_step\<^sup>*\<^sup>* s t" and "creem_ok old s"
  shows "\<exists>ps. products t = JArr ps \<and> distinct (List.map product_id ps) \<and> (\<forall>p \<in> set ps. p \<in> old \<or> \<not> incomplete_product p)"
proof -
  have "creem_ok old t" using assms by (induction rule: rtranclp_induct) (auto intro: creem_step_keeps)
  from creem_okD[OF this] show ?thesis by (auto simp: products_ok_def)
qed

definition creem_example :: "jv \<Rightarrow> creem_form" where
  "creem_example ps = \<lparr>store = Map.empty, api = \<lparr>hdr_user = JNum 1, intercepts = True\<rparr>, user_ctx = JUndef, status_ctx = JUndef,
     trace = [], page_inputs = JObj [], page_loading = False, form_inputs = JObj [(''CreemTestMode'', JBool True)], inputsRow = JObj [],
     form_loading = False, products = ps, showProductModal = False, editingProduct = None, productForm = empty_product\<rparr>"

theorem product_ids_distinct_witness:
  "\<exists>t ps. creem_step\<^sup>*\<^sup>* (creem_example (JArr [])) t \<and> products t = JArr ps \<and> distinct (List.map product_id ps)
    \<and> (\<forall>p \<in> set ps. \<not> incomplete_product p)"
proof -
  let ?t = "set_product_field ''productId'' (JStr ''p'') (openProductModal None (creem_example (JArr [])))"
  have "creem_step\<^sup>*\<^sup>* (creem_example (JArr [])) (openProductModal None (creem_example (JArr [])))"
    by (rule r_into_rtranclp) (rule creem_step.open_new)
  then have "creem_step\<^sup>*\<^sup>* (creem_example (JArr [])) ?t"
    by (rule rtranclp.rtrancl_into_rtrancl) (rule creem_step.id, simp add: openProductModal_def)
  moreover from product_ids_distinct[OF this, of "{}"]
  have "\<exists>ps. products ?t = JArr ps \<and> distinct (List.map product_id ps) \<and> (\<forall>p \<in> set ps. \<not> incomplete_product p)"
    by (simp add: creem_ok_def products_ok_def creem_example_def)
  ultimately show ?thesis by blast
qed

text \<open>Saving options that the backend accepts or refuses one by one.\<close>

definition verdict :: "bool \<Rightarrow> string \<Rightarrow> jv" where
  "verdict ok m = JObj [(''success'', JBool ok), (''message'', JStr m)]"

lemma replies_fixed: "(\<And>tr r. r \<in> set rs \<Longrightarrow> env tr r = f r) \<Longrightarrow> replies env u tr rs = List.map f rs"
  by (induction rs arbitrary: tr) simp_all

lemma refused_ones:
  "List.map fst (filter (\<lambda>p. \<not> truthy (snd p)) (zip (List.map f rs) (List.map (\<lambda>r. JBool (acc r)) rs))) = List.map f (filter (\<lambda>r. \<not> acc r) rs)"
  by (induction rs) simp_all

lemma refusals_shown:
  "for_each (List.map (\<lambda>r. JObj [(''data'', verdict (acc r) (msg r))]) rs) (\<lambda>res. showError (opt_get (opt_get res ''data'') ''message'')) s =
    (Inr (), s\<lparr>trace := trace s @ List.map (\<lambda>r. Toasted TError (JStr (''Error: '' @ msg r))) rs\<rparr>)"
  by (induction rs arbitrary: s) (simp_all add: act_simps verdict_def opt_get_def)

lemma quiet_payment_refresh: "emits (\<lambda>_. True) (payment_onRefresh env)"
proof -
  have k: "emits P (item_key item)" for P :: "effect \<Rightarrow> bool" and item unfolding item_key_def
    by (intro emits_intros) (auto intro: emits_intros split: jv.split)
  have "emits (\<lambda>_. True) (payment_item inp acc x)" for inp acc x
    unfolding payment_item_def Let_def by (intro emits_intros k)
  then show ?thesis unfolding payment_onRefresh_def by (rule emits_onRefresh)
qed

lemma put_and_report_run:
  assumes "\<And>tr r. r \<in> set (pay_requests options) \<Longrightarrow> env tr r = Ok (verdict (acc r) (msg r))"
  shows "\<exists>es t. put_and_report env inp options s = (Inr (), t) \<and>
    trace t = trace s @ List.map (Requested (hdr_user (api s))) (pay_requests options) @
      (if list_all acc (pay_requests options) then Toasted TSuccess (JStr ''updated'') # es
       else List.map (\<lambda>r. Toasted TError (JStr (''Error: '' @ msg r))) (filter (\<lambda>r. \<not> acc r) (pay_requests options)))"
proof -
  let ?rs = "pay_requests options" and ?f = "\<lambda>r. JObj [(''data'', verdict (acc r) (msg r))]"
  let ?s = "s\<lparr>trace := trace s @ List.map (Requested (hdr_user (api s))) ?rs\<rparr>"
  have reps: "replies env u tr ?rs = List.map (\<lambda>r. Ok (verdict (acc r) (msg r))) ?rs" for u tr
    by (rule replies_fixed) (rule assms)
  have p: "promise_all env ?rs s = (Inr (List.map ?f ?rs), ?s)"
    using promise_all_run[of env s ?rs] unfolding reps by (simp add: answers_def response_def list_all_iff comp_def)
  have "map_each (\<lambda>res. prop_get (opt_get res ''data'') ''success'') (List.map ?f ?rs) ?s =
      (Inr (List.map (\<lambda>res. opt_get (opt_get res ''data'') ''success'') (List.map ?f ?rs)), ?s)"
    by (rule map_each_ret) (auto simp: prop_get_def ret_def verdict_def opt_get_def nullish_def)
  then have m: "map_each (\<lambda>res. prop_get (opt_get res ''data'') ''success'') (List.map ?f ?rs) ?s =
      (Inr (List.map (\<lambda>r. JBool (acc r)) ?rs), ?s)"
    by (simp add: verdict_def opt_get_def comp_def)
  show ?thesis
  proof (cases "list_all acc ?rs")
    case True
    then have none: "filter (\<lambda>r. \<not> acc r) ?rs = []" by (auto simp: list_all_iff filter_empty_conv)
    let ?t = "?s\<lparr>trace := trace ?s @ [Toasted TSuccess (JStr ''updated'')], inputsRow := inp\<rparr>"
    obtain r t where d: "detach (payment_onRefresh env) ?t = (r, t)" by (cases "detach (payment_onRefresh env) ?t")
    obtain es where es: "trace t = trace ?t @ es" using extends_detach[OF quiet_payment_refresh, of env ?t] d by auto
    have r: "r = Inr ()" using d unfolding detach_def by (auto simp: act_simps split: prod.splits sum.splits)
    have "filter (\<lambda>p. \<not> truthy (snd p)) (zip (List.map ?f ?rs) (List.map (\<lambda>r. JBool (acc r)) ?rs)) = []"
      using refused_ones[of ?f ?rs acc] none by simp
    then have "put_and_report env inp options s = (Inr (), t)"
      unfolding put_and_report_def using p m d r
      by (simp add: bnd_def sq_def showSuccess_def emit_def modify_def Let_def)
    then show ?thesis using es True by auto
  next
    case False
    then have some: "filter (\<lambda>r. \<not> acc r) ?rs \<noteq> []" by (auto simp: list_all_iff filter_empty_conv)
    have "filter (\<lambda>p. \<not> truthy (snd p)) (zip (List.map ?f ?rs) (List.map (\<lambda>r. JBool (acc r)) ?rs)) \<noteq> []"
      using refused_ones[of ?f ?rs acc] some by auto
    then have "put_and_report env inp options s = (Inr (), ?s\<lparr>trace := trace ?s @
        List.map (\<lambda>r. Toasted TError (JStr (''Error: '' @ msg r))) (filter (\<lambda>r. \<not> acc r) ?rs)\<rparr>)"
      unfolding put_and_report_def using p m some by (simp add: bnd_def refused_ones refusals_shown Let_def)
    then show ?thesis using False by auto
  qed
qed

text \<open>Saving the Stripe settings says that they were updated exactly when the backend accepted every option sent; otherwise each
  refusal is shown with the backend's own message, and nothing is announced as saved.\<close>

lemma stripe_saved_or_refused:
  assumes "opt_get (page_inputs s) ''ServerAddress'' \<noteq> JStr []"
    and "\<And>tr r. r \<in> set (pay_requests (stripe_options (inputsRow s) (form_inputs s))) \<Longrightarrow> env tr r = Ok (verdict (acc r) (msg r))"
  shows "let rs = pay_requests (stripe_options (inputsRow s) (form_inputs s)) in
    \<exists>es. trace (snd (submitStripeSetting env s)) = trace s @ List.map (Requested (hdr_user (api s))) rs @
      (if list_all acc rs then Toasted TSuccess (JStr ''updated'') # es
       else List.map (\<lambda>r. Toasted TError (JStr (''Error: '' @ msg r))) (filter (\<lambda>r. \<not> acc r) rs))"
proof -
  let ?o = "stripe_options (inputsRow s) (form_inputs s)" and ?s = "s\<lparr>form_loading := True\<rparr>"
  obtain es t where r: "put_and_report env (form_inputs s) ?o ?s = (Inr (), t)"
    "trace t = trace ?s @ List.map (Requested (hdr_user (api ?s))) (pay_requests ?o) @
      (if list_all acc (pay_requests ?o) then Toasted TSuccess (JStr ''updated'') # es
       else List.map (\<lambda>r. Toasted TError (JStr (''Error: '' @ msg r))) (filter (\<lambda>r. \<not> acc r) (pay_requests ?o)))"
    using put_and_report_run[of ?o env acc msg "form_inputs s" ?s] assms(2) by blast
  have "snd (submitStripeSetting env s) = t\<lparr>form_loading := False\<rparr>"
    using assms(1) r(1) by (simp add: submitStripeSetting_def save_payment_def act_simps)
  then show ?thesis using r(2) by (auto simp: Let_def)
qed

lemma stripe_saved_or_refused_example:
  "trace (snd (submitStripeSetting (\<lambda>tr r. Ok (verdict False ''no'')) ((creem_example JUndef)\<lparr>form_inputs := JObj [(''StripePriceId'', JStr ''p'')]\<rparr>))) =
    [Requested (JNum 1) (Http PUT ''/api/option/'' (option_body ''StripePriceId'' (JStr ''p''))), Toasted TError (JStr ''Error: no'')]"
  using stripe_saved_or_refused[of "(creem_example JUndef)\<lparr>form_inputs := JObj [(''StripePriceId'', JStr ''p'')]\<rparr>"
      "\<lambda>tr r. Ok (verdict False ''no'')" "\<lambda>r. False" "\<lambda>r. ''no''"]
  by (simp add: creem_example_def stripe_options_def pay_requests_def push_if_def push_secret_def push_typed_def pay_edited_def
      opt_get_def nullish_def Let_def)



text \<open>An edited list that is no JSON stops the save; a callback address once set cannot be cleared, as its blank value is not sent.\<close>

lemma invalid_methods_not_sent:
  assumes "needs_json (inputsRow s) (form_inputs s) ''PayMethods''" and "\<not> needs_json (inputsRow s) (form_inputs s) ''TopupGroupRatio''"
    and "opt_get (page_inputs s) ''ServerAddress'' \<noteq> JStr []"
  shows "trace (snd (submitPayAddress env s)) = trace s @ [Toasted TError (JStr ''Error: the payment methods are not valid JSON'')]"
  using assms by (simp add: submitPayAddress_def act_simps)

lemma bnd_InrD: "bnd m f s = (Inr y, t) \<Longrightarrow> \<exists>x u. m s = (Inr x, u) \<and> f x u = (Inr y, t)"
  by (auto simp: bnd_def split: prod.splits sum.splits)

lemma push_number_keys: "push_number inp k s = (Inr l, t) \<Longrightarrow> fst ` set l \<subseteq> {k}"
  by (auto simp: push_number_def to_text_def act_simps split: if_splits)

lemma push_if_keys: "k \<in> fst ` set (push_if c k' v) \<longleftrightarrow> c \<and> k = k'"
  by (cases c) (simp_all add: push_if_def)

lemma cleared_callback_not_sent:
  assumes "gateway_options origin inp s = (Inr opts, t)" and "opt_get inp ''CustomCallbackAddress'' = JStr []"
  shows "''CustomCallbackAddress'' \<notin> fst ` set opts"
proof -
  let ?list = "\<lambda>a p m. [(''PayAddress'', a)] @ push_typed inp ''EpayId''
         @ push_if (opt_get inp ''EpayKey'' \<noteq> JUndef \<and> opt_get inp ''EpayKey'' \<noteq> JStr []) ''EpayKey'' (opt_get inp ''EpayKey'')
         @ p @ m @ push_typed inp ''CustomCallbackAddress''
         @ push_edited origin inp ''TopupGroupRatio'' ''TopupGroupRatio'' @ push_edited origin inp ''PayMethods'' ''PayMethods''
         @ push_edited origin inp ''AmountOptions'' ''payment_setting.amount_options''
         @ push_edited origin inp ''AmountDiscount'' ''payment_setting.amount_discount''"
  let ?rest = "\<lambda>a p m. ret (?list a p m)"
  obtain a u where 1: "bnd (push_number inp ''Price'') (\<lambda>p. bnd (push_number inp ''MinTopUp'') (?rest a p)) u = (Inr opts, t)"
    using bnd_InrD[OF assms(1)[unfolded gateway_options_def]] by blast
  obtain p v where p: "push_number inp ''Price'' u = (Inr p, v)" and 2: "bnd (push_number inp ''MinTopUp'') (?rest a p) v = (Inr opts, t)"
    using bnd_InrD[OF 1] by blast
  obtain m w where m: "push_number inp ''MinTopUp'' v = (Inr m, w)" and o: "?rest a p m w = (Inr opts, t)"
    using bnd_InrD[OF 2] by blast
  have "''CustomCallbackAddress'' \<notin> fst ` set p" "''CustomCallbackAddress'' \<notin> fst ` set m"
    using push_number_keys[OF p] push_number_keys[OF m] by auto
  then have "''CustomCallbackAddress'' \<notin> fst ` set (?list a p m)" using assms(2)
    by (simp add: push_typed_def push_edited_def image_Un push_if_keys)
  moreover have "opts = ?list a p m" using o by (simp add: ret_def)
  ultimately show ?thesis by simp
qed

end
