(* ===== verification/Render.thy ===== *)
theory Render
  imports Format "HOL-Library.Word" "HOL-Library.List_Lexorder" "HOL-Library.Char_ord"
begin

text \<open>
  The display helpers of \<open>helpers/render.jsx\<close>: icons and categories of models, the colours derived from names, tags, the
  truncation of texts, and quotas and amounts in the currency of the site. An element is modelled by what it shows (the colour and
  the text of a tag, the path and the properties of an icon). Prices are in theory Price_Display.
\<close>

unbundle bit_operations_syntax

section \<open>Icons\<close>

definition lucide_icons :: "(string \<times> string) list" where
  "lucide_icons =
    [(''detail'', ''LayoutDashboard''), (''playground'', ''TerminalSquare''), (''chat'', ''MessageSquare''), (''token'', ''Key''),
     (''log'', ''BarChart3''), (''midjourney'', ''ImageIcon''), (''task'', ''CheckSquare''), (''topup'', ''CreditCard''),
     (''channel'', ''Layers''), (''redemption'', ''Gift''), (''user'', ''User''), (''personal'', ''User''), (''models'', ''Package''),
     (''setting'', ''Settings'')]"

text \<open>The name of the icon and its colour.\<close>

definition getLucideIcon :: "string \<Rightarrow> bool \<Rightarrow> string \<times> string" where
  "getLucideIcon key selected =
     ((case map_of lucide_icons key of Some i \<Rightarrow> i | None \<Rightarrow> ''CircleUser''),
      if selected then ''var(--semi-color-primary)'' else ''currentColor'')"

definition any_part :: "string list \<Rightarrow> string \<Rightarrow> bool" where
  "any_part parts m = list_ex (str_includes (to_lower m)) parts"

definition getModelCategories :: "(string \<times> (string \<Rightarrow> bool)) list" where
  "getModelCategories =
    [(''all'', \<lambda>m. True),
     (''openai'', \<lambda>m. any_part [''gpt'', ''dall-e'', ''whisper'', ''tts-1'', ''text-embedding-3'', ''text-moderation'', ''babbage'', ''davinci'', ''curie'', ''ada'', ''o1'', ''o3'', ''o4''] m),
     (''anthropic'', \<lambda>m. any_part [''claude''] m),
     (''gemini'', \<lambda>m. any_part [''gemini'', ''gemma'', ''learnlm'', ''text-embedding-004'', ''imagen-4'', ''veo-'', ''aqa''] m \<or> starts_with ''embedding-'' (to_lower m)),
     (''moonshot'', \<lambda>m. any_part [''moonshot'', ''kimi''] m),
     (''zhipu'', \<lambda>m. any_part [''chatglm'', ''glm-'', ''cogview'', ''cogvideo''] m),
     (''qwen'', \<lambda>m. any_part [''qwen''] m),
     (''deepseek'', \<lambda>m. any_part [''deepseek''] m),
     (''minimax'', \<lambda>m. any_part [''abab'', ''minimax''] m),
     (''baidu'', \<lambda>m. any_part [''ernie''] m),
     (''xunfei'', \<lambda>m. any_part [''spark''] m),
     (''midjourney'', \<lambda>m. any_part [''mj_''] m),
     (''tencent'', \<lambda>m. any_part [''hunyuan''] m),
     (''cohere'', \<lambda>m. any_part [''command'', ''c4ai-'', ''embed-''] m),
     (''cloudflare'', \<lambda>m. any_part [''@cf/''] m),
     (''ai360'', \<lambda>m. any_part [''360''] m),
     (''jina'', \<lambda>m. any_part [''jina''] m),
     (''mistral'', \<lambda>m. any_part [''mistral'', ''codestral'', ''pixtral'', ''voxtral'', ''magistral''] m),
     (''xai'', \<lambda>m. any_part [''grok''] m),
     (''llama'', \<lambda>m. any_part [''llama''] m),
     (''doubao'', \<lambda>m. any_part [''doubao''] m),
     (''yi'', \<lambda>m. any_part [''yi''] m)]"

definition channel_icons :: "(int \<times> string) list" where
  "channel_icons =
    [(1, ''OpenAI''), (3, ''OpenAI''), (2, ''Midjourney''), (5, ''Midjourney''), (36, ''Suno''), (4, ''Ollama''),
     (14, ''Claude.Color''), (33, ''Claude.Color''), (41, ''Gemini.Color''), (34, ''Cohere.Color''), (39, ''Cloudflare.Color''),
     (43, ''DeepSeek.Color''), (15, ''Wenxin.Color''), (46, ''Wenxin.Color''), (17, ''Qwen.Color''), (18, ''Spark.Color''),
     (16, ''Zhipu.Color''), (26, ''Zhipu.Color''), (24, ''Gemini.Color''), (11, ''Gemini.Color''), (47, ''Xinference.Color''),
     (25, ''Moonshot''), (27, ''Perplexity.Color''), (20, ''OpenRouter''), (19, ''Ai360.Color''), (23, ''Hunyuan.Color''),
     (31, ''Yi.Color''), (35, ''Minimax.Color''), (37, ''Dify.Color''), (38, ''Jina''), (40, ''SiliconCloud.Color''),
     (42, ''Mistral.Color''), (45, ''Doubao.Color''), (48, ''XAI''), (49, ''Coze''), (50, ''Kling.Color''), (51, ''Jimeng.Color''),
     (54, ''Doubao.Color''), (56, ''Replicate''), (8, ''FastGPT.Color''), (22, ''FastGPT.Color'')]"

definition getChannelIcon :: "int \<Rightarrow> string option" where
  "getChannelIcon channelType = map_of channel_icons channelType"

subsection \<open>getLobeHubIcon\<close>

text \<open>
  The icon library is the parameter \<open>lobe\<close>: for a name whether it is a component and the members it has, each with whether it
  is one, \<open>None\<close> when there is no such name. An icon is its path and its properties.
\<close>

datatype icon = LetterAvatar string | Icon "string list" jv

definition upper_char :: "char \<Rightarrow> char" where
  "upper_char c = (let n = of_char c :: nat in if 97 \<le> n \<and> n \<le> 122 then char_of (n - 32) else c)"

definition wrapped :: "char \<Rightarrow> char \<Rightarrow> string \<Rightarrow> bool" where
  "wrapped a b v = (v \<noteq> [] \<and> hd v = a \<and> last v = b)"

text \<open>\<open>v.slice(1, -1)\<close>.\<close>

definition inner :: "string \<Rightarrow> string" where
  "inner v = butlast (tl v)"

text \<open>The expression \<open>/^-?\d+(?:\.\d+)?$/\<close>.\<close>

definition decimal_text :: "string \<Rightarrow> bool" where
  "decimal_text v =
     (let s = (if v \<noteq> [] \<and> hd v = CHR ''-'' then tl v else v); rest = dropWhile is_digit s in
      takeWhile is_digit s \<noteq> [] \<and> (rest = [] \<or> (hd rest = CHR ''.'' \<and> tl rest \<noteq> [] \<and> list_all is_digit (tl rest))))"

definition parseValue :: "string \<Rightarrow> jv" where
  "parseValue raw =
     (let v0 = trim raw; v = (if wrapped CHR ''{'' CHR ''}'' v0 then trim (inner v0) else v0) in
      if wrapped CHR 0x22 CHR 0x22 v \<or> wrapped CHR 0x27 CHR 0x27 v then JStr (inner v)
      else if v = ''true'' then JBool True
      else if v = ''false'' then JBool False
      else if decimal_text v then (case str_num v of Some r \<Rightarrow> JNum r | None \<Rightarrow> JNaN)
      else JStr v)"

definition icon_prop :: "string \<Rightarrow> jv \<Rightarrow> jv" where
  "icon_prop seg props =
     (if seg = [] then props
      else case index_of ''='' seg of
        None \<Rightarrow> obj_set props (trim seg) (JBool True)
      | Some i \<Rightarrow> obj_set props (trim (take i seg)) (parseValue (trim (drop (i + 1) seg))))"

definition getLobeHubIcon :: "(string \<Rightarrow> (bool \<times> (string \<times> bool) list) option) \<Rightarrow> string \<Rightarrow> rat \<Rightarrow> icon" where
  "getLobeHubIcon lobe iconName0 default_size =
     (let iconName = trim iconName0; segments = split_on CHR ''.'' iconName; base = hd segments;
          members_of = (case lobe base of Some (c, ms) \<Rightarrow> ms | None \<Rightarrow> []);
          sub = (if length segments > 1 then map_of members_of (segments ! 1) else None);
          component = (case sub of Some c \<Rightarrow> c | None \<Rightarrow> (case lobe base of Some (c, ms) \<Rightarrow> c | None \<Rightarrow> False));
          props = fold icon_prop (drop (if sub \<noteq> None then 2 else 1) segments) (JObj []) in
      if iconName = [] then LetterAvatar ''?''
      else if \<not> component then LetterAvatar (List.map upper_char (take 1 iconName))
      else Icon (if sub \<noteq> None then [base, segments ! 1] else [base])
             (if nullish (opt_get props ''size'') then obj_set props ''size'' (JNum default_size) else props))"

section \<open>Colours\<close>

definition colors :: "string list" where
  "colors =
    [''amber'', ''blue'', ''cyan'', ''green'', ''grey'', ''indigo'', ''light-blue'', ''lime'', ''orange'', ''pink'', ''purple'',
     ''red'', ''teal'', ''violet'', ''yellow'']"

definition baseColors :: "string list" where
  "baseColors =
    [''#1664FF'', ''#1AC6FF'', ''#FF8A00'', ''#3CC780'', ''#7442D4'', ''#FFC400'', ''#304D77'', ''#B48DEB'', ''#009488'',
     ''#FF7DDA'']"

definition extendedColors :: "string list" where
  "extendedColors =
    [''#1664FF'', ''#B2CFFF'', ''#1AC6FF'', ''#94EFFF'', ''#FF8A00'', ''#FFCE7A'', ''#3CC780'', ''#B9EDCD'', ''#7442D4'',
     ''#DDC5FA'', ''#FFC400'', ''#FAE878'', ''#304D77'', ''#8B959E'', ''#B48DEB'', ''#EFE3FF'', ''#009488'', ''#59BAA8'',
     ''#FF7DDA'', ''#FFCFEE'']"

definition modelColorMap :: "(string \<times> string) list" where
  "modelColorMap =
    [(''dall-e'', ''rgb(147,112,219)''), (''dall-e-3'', ''rgb(153,50,204)''), (''gpt-3.5-turbo'', ''rgb(184,227,167)''),
     (''gpt-3.5-turbo-0613'', ''rgb(60,179,113)''), (''gpt-3.5-turbo-1106'', ''rgb(32,178,170)''),
     (''gpt-3.5-turbo-16k'', ''rgb(149,252,206)''), (''gpt-3.5-turbo-16k-0613'', ''rgb(119,255,214)''),
     (''gpt-3.5-turbo-instruct'', ''rgb(175,238,238)''), (''gpt-4'', ''rgb(135,206,235)''), (''gpt-4-0613'', ''rgb(100,149,237)''),
     (''gpt-4-1106-preview'', ''rgb(30,144,255)''), (''gpt-4-0125-preview'', ''rgb(2,177,236)''),
     (''gpt-4-turbo-preview'', ''rgb(2,177,255)''), (''gpt-4-32k'', ''rgb(104,111,238)''), (''gpt-4-32k-0613'', ''rgb(61,71,139)''),
     (''gpt-4-all'', ''rgb(65,105,225)''), (''gpt-4-gizmo-*'', ''rgb(0,0,255)''), (''gpt-4-vision-preview'', ''rgb(25,25,112)''),
     (''text-ada-001'', ''rgb(255,192,203)''), (''text-babbage-001'', ''rgb(255,160,122)''), (''text-curie-001'', ''rgb(219,112,147)''),
     (''text-davinci-003'', ''rgb(219,112,147)''), (''text-davinci-edit-001'', ''rgb(255,105,180)''),
     (''text-embedding-ada-002'', ''rgb(255,182,193)''), (''text-embedding-v1'', ''rgb(255,174,185)''),
     (''text-moderation-latest'', ''rgb(255,130,171)''), (''text-moderation-stable'', ''rgb(255,160,122)''),
     (''tts-1'', ''rgb(255,140,0)''), (''tts-1-1106'', ''rgb(255,165,0)''), (''tts-1-hd'', ''rgb(255,215,0)''),
     (''tts-1-hd-1106'', ''rgb(255,223,0)''), (''whisper-1'', ''rgb(245,245,220)''), (''claude-3-opus-20240229'', ''rgb(255,132,31)''),
     (''claude-3-sonnet-20240229'', ''rgb(253,135,93)''), (''claude-3-haiku-20240307'', ''rgb(255,175,146)''),
     (''claude-2.1'', ''rgb(255,209,190)'')]"

text \<open>The operators on 32-bit integers: their operands are converted first, the result is signed.\<close>

definition js_shl :: "int \<Rightarrow> nat \<Rightarrow> int" where
  "js_shl x n = sint (push_bit n (word_of_int x :: 32 word))"

definition js_and :: "int \<Rightarrow> int \<Rightarrow> int" where
  "js_and x y = sint ((word_of_int x :: 32 word) AND word_of_int y)"

definition charCodeAt :: "string \<Rightarrow> nat \<Rightarrow> int" where
  "charCodeAt s i = of_char (s ! i)"

definition name_hash :: "string \<Rightarrow> int" where
  "name_hash s = fold (\<lambda>i hash. let h = js_shl hash 5 - hash + charCodeAt s i in js_and h h) [0..<length s] 0"

definition modelToColor :: "string \<Rightarrow> string" where
  "modelToColor modelName =
     (case map_of modelColorMap modelName of Some c \<Rightarrow> c
      | None \<Rightarrow> let colorPalette = (if length modelName > 10 then extendedColors else baseColors) in
          colorPalette ! nat (\<bar>name_hash modelName\<bar> mod int (length colorPalette)))"

definition stringToColor :: "string \<Rightarrow> string" where
  "stringToColor str = colors ! nat (fold (\<lambda>i sum. sum + charCodeAt str i) [0..<length str] 0 mod int (length colors))"

section \<open>Tags and texts\<close>

text \<open>Colour, icon category and text of the tag of a model.\<close>

definition renderModelTag :: "string \<Rightarrow> string \<Rightarrow> string \<times> string option \<times> string" where
  "renderModelTag modelName color =
     (if color \<noteq> [] then color else stringToColor modelName,
      map_option fst (List.find (\<lambda>(key, matches). key \<noteq> ''all'' \<and> matches modelName) getModelCategories), modelName)"

definition renderText :: "string \<Rightarrow> nat \<Rightarrow> string" where
  "renderText text limit = (if length text > limit then (if limit \<ge> 3 then take (limit - 3) text else take (length text - (3 - limit)) text) @ ''...'' else text)"

definition tagColors :: "(string \<times> string) list" where
  "tagColors = [(''vip'', ''yellow''), (''pro'', ''yellow''), (''svip'', ''red''), (''premium'', ''red'')]"

definition renderGroup :: "string \<Rightarrow> (string \<times> string) list" where
  "renderGroup names =
     (if names = [] then [(''white'', ''user group'')]
      else List.map (\<lambda>g. (case map_of tagColors g of Some c \<Rightarrow> c | None \<Rightarrow> stringToColor g, g)) (sort (split_on CHR '','' names)))"

definition renderRatio :: "rat \<Rightarrow> string \<times> string" where
  "renderRatio ratio =
     (if ratio > 5 then ''red'' else if ratio > 3 then ''orange'' else if ratio > 1 then ''blue'' else ''green'',
      num_str ratio @ ''x ratio'')"

text \<open>
  \<open>truncateText\<close>: the layout of the browser is the parameter \<open>width_of\<close>, the width of a text in pixels, \<open>None\<close>
  when measuring throws; \<open>None\<close> of the loop is that exception. The interval shrinks in every round.
\<close>

function truncate_loop :: "(string \<Rightarrow> int option) \<Rightarrow> jv \<Rightarrow> string \<Rightarrow> int \<Rightarrow> int \<Rightarrow> string \<Rightarrow> string option" where
  "truncate_loop width_of maxWidth text left right result =
     (if left \<le> right
      then (let mid = (left + right) div 2; truncated = take (nat mid) text @ ''...'' in
            case width_of truncated of None \<Rightarrow> None
            | Some currentWidth \<Rightarrow>
                if num_ge maxWidth (of_int currentWidth) then truncate_loop width_of maxWidth text (mid + 1) right truncated
                else truncate_loop width_of maxWidth text left (mid - 1) result)
      else Some result)"
  by pat_completeness auto
termination
  by (relation "measure (\<lambda>(f, w, t, l, r, res). nat (r - l + 1))") auto

declare truncate_loop.simps [simp del]

definition truncateText :: "bool \<Rightarrow> rat \<Rightarrow> (string \<Rightarrow> int option) \<Rightarrow> string \<Rightarrow> jv \<Rightarrow> string" where
  "truncateText isMobileScreen innerWidth width_of text maxWidth =
     (if \<not> isMobileScreen \<or> text = [] then text
      else let actualMaxWidth = (case maxWidth of
               JStr w \<Rightarrow> if ends_with ''%'' w
                 then (case parseFloat maxWidth of JNum p \<Rightarrow> JNum (innerWidth * (p / 100)) | _ \<Rightarrow> JNaN) else maxWidth
             | _ \<Rightarrow> maxWidth) in
        case (case width_of text of None \<Rightarrow> None
              | Some width \<Rightarrow> if num_ge actualMaxWidth (of_int width) then Some text
                  else truncate_loop width_of actualMaxWidth text 0 (int (length text)) text) of
          Some r \<Rightarrow> r
        | None \<Rightarrow> if length text > 20 then take 17 text @ ''...'' else text)"

text \<open>What \<open>renderGroupOption\<close> makes of its option: the cursor, the ratio tag, and which of its handlers run.\<close>

record group_option =
  go_disabled :: bool
  go_selected :: bool
  go_focused :: bool
  go_ratio :: rat

definition renderGroupOption :: "group_option \<Rightarrow> string \<times> string \<times> (string \<times> string) option" where
  "renderGroupOption item =
     (if go_disabled item then ''not-allowed'' else ''pointer'',
      if go_selected item then ''var(--semi-color-primary-light-default)''
      else if go_focused item then ''var(--semi-color-fill-0)'' else ''transparent'',
      if go_ratio item \<noteq> 0 then Some (renderRatio (go_ratio item)) else None)"

definition option_handler_runs :: "group_option \<Rightarrow> bool \<Rightarrow> bool" where
  "option_handler_runs item given = (\<not> go_disabled item \<and> given)"

section \<open>Quotas and amounts\<close>

text \<open>Numbers as the code meets them: finite ones, the two infinities of a division by zero, and NaN.\<close>

datatype js_num = Fin rat | Inf bool | NaN

fun num_of :: "jv \<Rightarrow> js_num" where
  "num_of v = (case to_num v of Some r \<Rightarrow> Fin r | None \<Rightarrow> NaN)"

fun js_div :: "js_num \<Rightarrow> js_num \<Rightarrow> js_num" where
  "js_div (Fin x) (Fin y) = (if y \<noteq> 0 then Fin (x / y) else if x = 0 then NaN else Inf (x > 0))"
| "js_div (Fin x) (Inf b) = Fin 0"
| "js_div (Inf b) (Fin y) = Inf (if y < 0 then \<not> b else b)"
| "js_div _ _ = NaN"

fun js_mul :: "js_num \<Rightarrow> js_num \<Rightarrow> js_num" where
  "js_mul (Fin x) (Fin y) = Fin (x * y)"
| "js_mul (Fin x) (Inf b) = (if x = 0 then NaN else Inf (if x < 0 then \<not> b else b))"
| "js_mul (Inf b) (Fin x) = (if x = 0 then NaN else Inf (if x < 0 then \<not> b else b))"
| "js_mul (Inf a) (Inf b) = Inf (a = b)"
| "js_mul _ _ = NaN"

fun js_pos :: "js_num \<Rightarrow> bool" where
  "js_pos (Fin x) = (x > 0)"
| "js_pos (Inf b) = b"
| "js_pos NaN = False"

definition fixed_rat :: "nat \<Rightarrow> rat \<Rightarrow> string" where
  "fixed_rat digits x = (if x < 0 then CHR ''-'' # toFixed digits (- x) else toFixed digits x)"

fun fixed_num :: "nat \<Rightarrow> js_num \<Rightarrow> string" where
  "fixed_num digits (Fin x) = fixed_rat digits x"
| "fixed_num digits (Inf b) = (if b then ''Infinity'' else ''-Infinity'')"
| "fixed_num digits NaN = ''NaN''"

text \<open>\<open>renderNumber\<close> returns a text or the value it was given.\<close>

definition renderNumber :: "jv \<Rightarrow> jv" where
  "renderNumber num = (case to_num num of None \<Rightarrow> num
    | Some n \<Rightarrow> if n \<ge> 1000000000 then JStr (fixed_rat 1 (n / 1000000000) @ ''B'')
        else if n \<ge> 1000000 then JStr (fixed_rat 1 (n / 1000000) @ ''M'')
        else if n \<ge> 10000 then JStr (fixed_rat 1 (n / 1000) @ ''k'')
        else num)"

text \<open>What is read from \<open>localStorage\<close>: the kind of display, the status (undefined when there is none or it does not parse).\<close>

definition quotaDisplayType :: "'x browser_scheme \<Rightarrow> string" where
  "quotaDisplayType s = (case store s ''quota_display_type'' of Some d \<Rightarrow> if d = [] then ''USD'' else d | None \<Rightarrow> ''USD'')"

definition stored_status :: "'x browser_scheme \<Rightarrow> jv" where
  "stored_status s = (case store s ''status'' of Some t \<Rightarrow> (case json_parse t of Some v \<Rightarrow> v | None \<Rightarrow> JUndef) | None \<Rightarrow> JUndef)"

definition yuan :: string where
  "yuan = [char_of (165 :: nat)]"

definition generic_sign :: string where
  "generic_sign = [char_of (164 :: nat)]"

definition custom_symbol :: "'x browser_scheme \<Rightarrow> string" where
  "custom_symbol s = to_str (jor (opt_get (stored_status s) ''custom_currency_symbol'') (JStr generic_sign))"

definition renderQuotaNumberWithDigit :: "jv \<Rightarrow> nat \<Rightarrow> 'x browser_scheme \<Rightarrow> jv" where
  "renderQuotaNumberWithDigit num digits s =
     (case num of JNum n \<Rightarrow>
        (let t = fixed_rat digits n; d = quotaDisplayType s in
         JStr (if d = ''CNY'' then yuan @ t else if d = ''USD'' then ''$'' @ t
           else if d = ''CUSTOM'' then custom_symbol s @ t else t))
      | _ \<Rightarrow> JNum 0)"

text \<open>\<open>num.toFixed(2)\<close> is a text; comparing it with a number converts it again.\<close>

definition last_chars :: "nat \<Rightarrow> string \<Rightarrow> string" where
  "last_chars n s = drop (length s - n) s"

definition renderNumberWithPoint :: "rat option \<Rightarrow> string" where
  "renderNumberWithPoint num = (case num of None \<Rightarrow> [] | Some n \<Rightarrow>
     let t = fixed_rat 2 n in
     if num_ge (JStr t) 100000
     then (let whole = takeWhile (\<lambda>c. c \<noteq> CHR ''.'') t; decimalPart = dropWhile (\<lambda>c. c \<noteq> CHR ''.'') t in
           take 2 whole @ ''..'' @ last_chars 2 whole @ decimalPart)
     else t)"

definition getQuotaPerUnit :: "'x browser_scheme \<Rightarrow> js_num" where
  "getQuotaPerUnit s = num_of (parseFloat (get_item s ''quota_per_unit''))"

definition renderUnitWithQuota :: "jv \<Rightarrow> 'x browser_scheme \<Rightarrow> js_num" where
  "renderUnitWithQuota quota s = js_mul (getQuotaPerUnit s) (num_of (parseFloat quota))"

definition getQuotaWithUnit :: "js_num \<Rightarrow> nat \<Rightarrow> 'x browser_scheme \<Rightarrow> string" where
  "getQuotaWithUnit quota digits s = fixed_num digits (js_div quota (getQuotaPerUnit s))"

definition num_value :: "js_num \<Rightarrow> jv" where
  "num_value n = (case n of Fin r \<Rightarrow> JNum r | _ \<Rightarrow> JNaN)"

definition renderQuotaWithAmount :: "jv \<Rightarrow> 'x browser_scheme \<Rightarrow> jv" where
  "renderQuotaWithAmount amount s =
     (let d = quotaDisplayType s in
      if d = ''TOKENS'' then renderNumber (num_value (renderUnitWithQuota amount s))
      else if d = ''CNY'' then JStr (yuan @ to_str amount)
      else if d = ''CUSTOM'' then JStr (custom_symbol s @ to_str amount)
      else JStr (''$'' @ to_str amount))"

text \<open>Symbol, rate and kind; without a readable status the symbol of a custom currency stays the dollar sign.\<close>

definition getCurrencyConfig :: "'x browser_scheme \<Rightarrow> string \<times> jv \<times> string" where
  "getCurrencyConfig s =
     (let d = quotaDisplayType s;
          parsed = (case store s ''status'' of Some t \<Rightarrow> if t = [] then None else json_parse t | None \<Rightarrow> None) in
      if d = ''CNY'' then
        (yuan, (case parsed of Some v \<Rightarrow> jor (opt_get v ''usd_exchange_rate'') (JNum 7) | None \<Rightarrow> JNum 1), d)
      else if d = ''CUSTOM'' then
        (case parsed of
           Some v \<Rightarrow> (to_str (jor (opt_get v ''custom_currency_symbol'') (JStr generic_sign)),
                     jor (opt_get v ''custom_currency_exchange_rate'') (JNum 1), d)
         | None \<Rightarrow> (''$'', JNum 1, d))
      else (''$'', JNum 1, d))"

definition convertUSDToCurrency :: "js_num \<Rightarrow> nat \<Rightarrow> 'x browser_scheme \<Rightarrow> string" where
  "convertUSDToCurrency usdAmount digits s = (case getCurrencyConfig s of (symbol, rate, d) \<Rightarrow>
     symbol @ fixed_num digits (js_mul usdAmount (num_of rate)))"

text \<open>Symbol and rate as \<open>renderQuota\<close> reads them.\<close>

definition quota_currency :: "'x browser_scheme \<Rightarrow> string \<times> jv" where
  "quota_currency s =
     (let d = quotaDisplayType s; st = stored_status s in
      if d = ''CNY'' then (yuan, jor (opt_get st ''usd_exchange_rate'') (JNum 1))
      else if d = ''CUSTOM'' then (custom_symbol s, jor (opt_get st ''custom_currency_exchange_rate'') (JNum 1))
      else (''$'', JNum 1))"

definition renderQuota :: "jv \<Rightarrow> nat \<Rightarrow> 'x browser_scheme \<Rightarrow> jv" where
  "renderQuota quota digits s =
     (if quotaDisplayType s = ''TOKENS'' then renderNumber quota
      else case quota_currency s of (symbol, rate) \<Rightarrow>
        (let value = js_mul (js_div (num_of quota) (getQuotaPerUnit s)) (num_of rate); fixedResult = fixed_num digits value in
         if parseFloat (JStr fixedResult) = JNum 0 \<and> num_gt quota 0 \<and> js_pos value
         then JStr (symbol @ fixed_rat digits (1 / 10 ^ digits))
         else JStr (symbol @ fixedResult)))"

section \<open>Lemmas\<close>

lemma fold_positions: "fold (\<lambda>i. f (s ! i)) [0..<length s] a = fold f s a"
proof -
  have "fold f (List.map ((!) s) [0..<length s]) a = fold (\<lambda>i. f (s ! i)) [0..<length s] a"
    by (simp add: fold_map comp_def)
  then show ?thesis by (simp add: map_nth)
qed

lemma hash_step:
  fixes w :: "32 word"
  shows "(let h = js_shl (sint w) 5 - sint w + c in js_and h h) = sint (31 * w + word_of_int c)"
proof -
  have "word_of_int (sint (push_bit 5 w) - sint w + c) = push_bit 5 w - w + (word_of_int c :: 32 word)" by simp
  also have "\<dots> = 31 * w + word_of_int c" by (simp add: push_bit_eq_mult)
  finally show ?thesis by (simp add: js_shl_def js_and_def Let_def)
qed

lemma digits_val_Nil [simp]: "digits_val [] = 0"
  by (simp add: digits_val_def)

lemma digits_val_zeros: "digits_val (replicate k (CHR ''0'') @ ds) = digits_val ds"
  by (induction k) (simp_all add: digits_val_def)

lemma nat_digits_length: "n < 10 ^ d \<Longrightarrow> 0 < d \<Longrightarrow> length (nat_digits n) \<le> d"
proof (induction n arbitrary: d rule: nat_digits.induct)
  case (1 n)
  show ?case
  proof (cases "n < 10")
    case True
    then show ?thesis using 1(3) by (subst nat_digits.simps) simp
  next
    case False
    then obtain e where e: "d = Suc e" "0 < e" using 1(2,3) by (cases d; cases "d - 1") auto
    have "n div 10 < 10 ^ e" using 1(2) e by (simp add: div_less_iff_less_mult mult.commute)
    then show ?thesis using 1(1)[OF False, of e] False e by (subst nat_digits.simps) simp
  qed
qed

lemma nat_digits_are_digits: "list_all is_digit (nat_digits n)"
proof (induction n rule: nat_digits.induct)
  case (1 n)
  have d: "is_digit (digit_char k)" if "k < 10" for k using that by (simp add: is_digit_def digit_char_def)
  show ?case
  proof (cases "n < 10")
    case True
    then show ?thesis using d by (subst nat_digits.simps) simp
  next
    case False
    then show ?thesis using 1 d[of "n mod 10"] by (subst nat_digits.simps) simp
  qed
qed

lemma take_digits: "list_all is_digit ds \<Longrightarrow> (r = [] \<or> \<not> is_digit (hd r)) \<Longrightarrow>
    takeWhile is_digit (ds @ r) = ds \<and> dropWhile is_digit (ds @ r) = r"
  by (induction ds) (auto simp: takeWhile_eq_Nil_iff dropWhile_eq_self_iff)

lemma nat_split: "0 < m \<Longrightarrow> (of_nat (n div m) + of_nat (n mod m) / of_nat m :: rat) = of_nat n / of_nat m"
proof -
  assume m: "0 < m"
  have "(of_nat n :: rat) = of_nat (n div m) * of_nat m + of_nat (n mod m)"
    by (metis div_mult_mod_eq of_nat_add of_nat_mult)
  then show ?thesis using m by (simp add: add_divide_distrib)
qed

text \<open>What \<open>toFixed\<close> prints parses to the rounded number.\<close>

definition rounded :: "nat \<Rightarrow> rat \<Rightarrow> rat" where
  "rounded digits x = of_int \<lfloor>x * 10 ^ digits + 1 / 2\<rfloor> / 10 ^ digits"

lemma parse_toFixed:
  assumes "0 \<le> x"
  shows "parseFloat (JStr (toFixed d x)) = JNum (rounded d x)"
proof -
  let ?n = "nat \<lfloor>x * 10 ^ d + 1 / 2\<rfloor>"
  have n: "of_nat ?n = (of_int \<lfloor>x * 10 ^ d + 1 / 2\<rfloor> :: rat)" using assms by simp
  have dg: "list_all is_digit (nat_digits k)" for k by (rule nat_digits_are_digits)
  have ne: "\<exists>c r. nat_digits k = c # r \<and> is_digit c" for k
    using nat_digits_not_Nil[of k] dg[of k] by (cases "nat_digits k") auto
  have start: "dropWhile is_ws (nat_digits k @ r) = nat_digits k @ r"
      "hd (nat_digits k @ r) \<noteq> CHR ''-''" "hd (nat_digits k @ r) \<noteq> CHR ''+''" for k r
  proof -
    obtain c t where ct: "nat_digits k = c # t" "is_digit c" using ne by blast
    then have "\<not> is_ws c" "c \<noteq> CHR ''-''" "c \<noteq> CHR ''+''" by (auto simp: is_digit_def is_ws_def)
    with ct show "dropWhile is_ws (nat_digits k @ r) = nat_digits k @ r"
      "hd (nat_digits k @ r) \<noteq> CHR ''-''" "hd (nat_digits k @ r) \<noteq> CHR ''+''" by simp_all
  qed
  show ?thesis
  proof (cases "d = 0")
    case True
    have "takeWhile is_digit (nat_digits ?n) = nat_digits ?n" "dropWhile is_digit (nat_digits ?n) = []"
      using take_digits[OF dg[of ?n], of "[]"] by (simp_all del: takeWhile_eq_all_conv dropWhile_eq_Nil_conv)
    then show ?thesis using True n start[of ?n "[]"]
      by (simp add: parseFloat_def toFixed_def rounded_def digits_val_nat_digits p_exp_def Let_def
          del: takeWhile_eq_all_conv dropWhile_eq_Nil_conv)
  next
    case False
    let ?a = "?n div 10 ^ d" and ?b = "pad_left d (nat_digits (?n mod 10 ^ d))"
    have len: "length ?b = d" using nat_digits_length[of "?n mod 10 ^ d" d] False by (simp add: pad_left_def)
    have b: "list_all is_digit ?b" using dg[of "?n mod 10 ^ d"] by (auto simp: pad_left_def list_all_iff is_digit_def)
    have bv: "digits_val ?b = ?n mod 10 ^ d" by (simp add: pad_left_def digits_val_zeros digits_val_nat_digits)
    have tb: "takeWhile is_digit ?b = ?b" "dropWhile is_digit ?b = []" using take_digits[OF b, of "[]"] by simp_all
    have ta: "takeWhile is_digit (nat_digits ?a @ ''.'' @ ?b) = nat_digits ?a"
        "dropWhile is_digit (nat_digits ?a @ ''.'' @ ?b) = ''.'' @ ?b"
      using take_digits[OF dg[of ?a], of "''.'' @ ?b"] by (simp_all add: is_digit_def)
    have sum: "(of_nat ?a + of_nat (?n mod 10 ^ d) / 10 ^ d :: rat) = of_nat ?n / 10 ^ d"
      using nat_split[of "10 ^ d" ?n] by simp
    have "parseFloat (JStr (nat_digits ?a @ ''.'' @ ?b)) = JNum (of_nat ?a + of_nat (?n mod 10 ^ d) / 10 ^ d)"
      using start[of ?a "''.'' @ ?b"] ta tb bv len by (simp add: parseFloat_def digits_val_nat_digits p_exp_def Let_def del: takeWhile_eq_all_conv dropWhile_eq_Nil_conv)
    then show ?thesis using False n unfolding sum by (simp add: toFixed_def rounded_def Let_def)
  qed
qed

lemma hash_is_word_fold:
  "name_hash s = sint (fold (\<lambda>c h. 31 * h + word_of_int (of_char c)) s (0 :: 32 word))"
proof -
  have "fold (\<lambda>c hash. let h = js_shl hash 5 - hash + of_char c in js_and h h) s (sint w) =
      sint (fold (\<lambda>c h. 31 * h + word_of_int (of_char c)) s (w :: 32 word))" for w
    by (induction s arbitrary: w) (simp_all add: hash_step)
  from this[of 0] show ?thesis
    unfolding name_hash_def charCodeAt_def
    using fold_positions[of "\<lambda>c hash. let h = js_shl hash 5 - hash + of_char c in js_and h h" s 0] by simp
qed

text \<open>The loop of \<open>truncateText\<close>: every length below the interval fits and is recorded, none above it does.\<close>

lemma truncate_loop_result:
  fixes M :: rat
  assumes "0 \<le> left" and "left \<le> right + 1" and "right \<le> int (length text)"
    and "\<And>m n. m \<le> n \<Longrightarrow> n \<le> length text \<Longrightarrow> w (take m text @ ''...'') \<le> w (take n text @ ''...'')"
    and "\<And>m. int m < left \<Longrightarrow> of_int (w (take m text @ ''...'')) \<le> M"
    and "\<And>m. right < int m \<Longrightarrow> m \<le> length text \<Longrightarrow> M < of_int (w (take m text @ ''...''))"
    and "result = (if left = 0 then text else take (nat left - 1) text @ ''...'')"
  shows "\<exists>k \<le> length text + 1. truncate_loop (\<lambda>t. Some (w t)) (JNum M) text left right result =
      Some (if k = 0 then text else take (k - 1) text @ ''...'')
    \<and> (\<forall>m < k. of_int (w (take m text @ ''...'')) \<le> M) \<and> (\<forall>m. k \<le> m \<longrightarrow> m \<le> length text \<longrightarrow> M < of_int (w (take m text @ ''...'')))"
  using assms
proof (induction "nat (right - left + 1)" arbitrary: left right result rule: less_induct)
  case less
  show ?case
  proof (cases "left \<le> right")
    case False
    obtain k where k: "left = int k" using less.prems(1) nonneg_int_cases by blast
    have r: "right = int k - 1" using False less.prems(2) k by simp
    have "truncate_loop (\<lambda>t. Some (w t)) (JNum M) text left right result = Some result"
      using False by (subst truncate_loop.simps) simp
    moreover have "result = (if k = 0 then text else take (k - 1) text @ ''...'')" using less.prems(7) k by simp
    moreover have "\<forall>m < k. of_int (w (take m text @ ''...'')) \<le> M" using less.prems(5) k by simp
    moreover have "\<forall>m. k \<le> m \<longrightarrow> m \<le> length text \<longrightarrow> M < of_int (w (take m text @ ''...''))" using less.prems(6) r by simp
    moreover have "k \<le> length text + 1" using less.prems(3) r by simp
    ultimately show ?thesis by (intro exI[of _ k]) simp
  next
    case True
    let ?mid = "(left + right) div 2"
    have mid: "left \<le> ?mid" "?mid \<le> right" "0 \<le> ?mid" using True less.prems(1) by auto
    then have ml: "nat ?mid \<le> length text" using less.prems(3) by simp
    let ?fit = "of_int (w (take (nat ?mid) text @ ''...'')) \<le> M"
    show ?thesis
    proof (cases ?fit)
      case fit: True
      have low: "of_int (w (take m text @ ''...'')) \<le> M" if "int m < ?mid + 1" for m
      proof -
        have "w (take m text @ ''...'') \<le> w (take (nat ?mid) text @ ''...'')"
          using that mid ml by (intro less.prems(4)) auto
        then show ?thesis using fit by (meson of_int_le_iff order_trans)
      qed
      have "nat (right - (?mid + 1) + 1) < nat (right - left + 1)" using mid True by simp
      from less.hyps[OF this _ _ less.prems(3,4) low less.prems(6), of "take (nat ?mid) text @ ''...''"] mid
      have "\<exists>k \<le> length text + 1. truncate_loop (\<lambda>t. Some (w t)) (JNum M) text (?mid + 1) right (take (nat ?mid) text @ ''...'') =
          Some (if k = 0 then text else take (k - 1) text @ ''...'')
        \<and> (\<forall>m < k. of_int (w (take m text @ ''...'')) \<le> M) \<and> (\<forall>m. k \<le> m \<longrightarrow> m \<le> length text \<longrightarrow> M < of_int (w (take m text @ ''...'')))"
        by (simp add: nat_add_distrib)
      then show ?thesis using True fit by (subst truncate_loop.simps) (simp add: Let_def)
    next
      case big: False
      have high: "M < of_int (w (take m text @ ''...''))" if "?mid - 1 < int m" "m \<le> length text" for m
      proof -
        have "w (take (nat ?mid) text @ ''...'') \<le> w (take m text @ ''...'')"
          using that mid by (intro less.prems(4)) auto
        then show ?thesis using big by (meson not_le of_int_le_iff order_less_le_trans)
      qed
      have "nat (?mid - 1 - left + 1) < nat (right - left + 1)" using mid True by simp
      from less.hyps[OF this less.prems(1) _ _ less.prems(4,5) high less.prems(7)] mid less.prems(3)
      have "\<exists>k \<le> length text + 1. truncate_loop (\<lambda>t. Some (w t)) (JNum M) text left (?mid - 1) result =
          Some (if k = 0 then text else take (k - 1) text @ ''...'')
        \<and> (\<forall>m < k. of_int (w (take m text @ ''...'')) \<le> M) \<and> (\<forall>m. k \<le> m \<longrightarrow> m \<le> length text \<longrightarrow> M < of_int (w (take m text @ ''...'')))"
        by simp
      then show ?thesis using True big by (subst truncate_loop.simps) (simp add: Let_def)
    qed
  qed
qed

section \<open>Properties\<close>

text \<open>C31: The colour of a model is computed exactly as a 32-bit fold: the shifts, the subtraction and the conversion in every round
  are the hash 31 * h + c on 32-bit words, so names of any length neither overflow nor lose the result; and the index derived from
  it is always inside the palette, so that every model and every text gets a colour.\<close>

theorem model_colour_is_word_hash:
  "name_hash s = sint (fold (\<lambda>c h. 31 * h + word_of_int (of_char c)) s (0 :: 32 word))
    \<and> (case map_of modelColorMap s of Some c \<Rightarrow> modelToColor s = c
       | None \<Rightarrow> modelToColor s \<in> set (if length s > 10 then extendedColors else baseColors))
    \<and> stringToColor s \<in> set colors"
proof -
  have in_range: "n mod int (length cs) < int (length cs)" "0 \<le> n mod int (length cs)" if "cs \<noteq> []" for n and cs :: "string list"
    using that by simp_all
  have e: "extendedColors \<noteq> []" "baseColors \<noteq> []" "colors \<noteq> []" by (simp_all add: extendedColors_def baseColors_def colors_def)
  have pick: "cs ! nat (n mod int (length cs)) \<in> set cs" if "cs \<noteq> []" for n and cs :: "string list"
    using in_range[OF that, of n] by (intro nth_mem) (simp add: nat_less_iff)
  show ?thesis
  proof (intro conjI)
    show "name_hash s = sint (fold (\<lambda>c h. 31 * h + word_of_int (of_char c)) s (0 :: 32 word))"
      by (rule hash_is_word_fold)
    show "case map_of modelColorMap s of Some c \<Rightarrow> modelToColor s = c
       | None \<Rightarrow> modelToColor s \<in> set (if length s > 10 then extendedColors else baseColors)"
      using pick[OF e(1)] pick[OF e(2)] by (auto simp: modelToColor_def Let_def split: option.split)
    show "stringToColor s \<in> set colors" unfolding stringToColor_def by (rule pick[OF e(3)])
  qed
qed

text \<open>C30: On a narrow screen a text that is too wide is cut to the longest beginning that fits together with the dots, wherever the
  widths of longer beginnings are not smaller; only when not even the dots fit is the whole text shown.\<close>

theorem truncation_is_longest:
  fixes M :: rat
  assumes "text \<noteq> []" and "M < of_int (w text)"
    and "\<And>m n. m \<le> n \<Longrightarrow> n \<le> length text \<Longrightarrow> w (take m text @ ''...'') \<le> w (take n text @ ''...'')"
  shows "if M < of_int (w ''...'') then truncateText True inner_width (\<lambda>t. Some (w t)) text (JNum M) = text
    else \<exists>m \<le> length text. truncateText True inner_width (\<lambda>t. Some (w t)) text (JNum M) = take m text @ ''...''
      \<and> of_int (w (take m text @ ''...'')) \<le> M \<and> (\<forall>n. m < n \<longrightarrow> n \<le> length text \<longrightarrow> M < of_int (w (take n text @ ''...'')))"
proof -
  obtain k where k: "k \<le> length text + 1"
    "truncate_loop (\<lambda>t. Some (w t)) (JNum M) text 0 (int (length text)) text = Some (if k = 0 then text else take (k - 1) text @ ''...'')"
    "\<And>m. m < k \<Longrightarrow> of_int (w (take m text @ ''...'')) \<le> M"
    "\<And>m. k \<le> m \<Longrightarrow> m \<le> length text \<Longrightarrow> M < of_int (w (take m text @ ''...''))"
    using truncate_loop_result[of 0 "int (length text)" "text" w M "text"] assms(3) by auto
  have t: "truncateText True inner_width (\<lambda>t. Some (w t)) text (JNum M) = (if k = 0 then text else take (k - 1) text @ ''...'')"
    using assms(1,2) k(2) by (simp add: truncateText_def)
  show ?thesis
  proof (cases k)
    case 0
    then show ?thesis using t k(4)[of 0] by simp
  next
    case (Suc m)
    have "of_int (w (take m text @ ''...'')) \<le> M" using k(3) [of m] Suc by simp
    moreover have "of_int (w ''...'') \<le> M" using k(3) [of 0] Suc by simp
    moreover have "M < of_int (w (take n text @ ''...''))" if "m < n" "n \<le> length text" for n using k(4)[of n] that Suc by simp
    ultimately show ?thesis using t k(1) Suc by (auto intro!: exI[of _ m])
  qed
qed

lemma cut_widths: "m \<le> n \<Longrightarrow> n \<le> length t \<Longrightarrow> 10 * int (length (take m t @ ''...'')) \<le> 10 * int (length (take n t @ ''...''))"
  by simp

theorem truncation_is_longest_witness:
  "\<exists>m \<le> 4. truncateText True 0 (\<lambda>t. Some (10 * int (length t))) ''claude-opus'' (JNum 70) = take m ''claude-opus'' @ ''...''"
proof -
  have "\<exists>m \<le> length ''claude-opus''. truncateText True 0 (\<lambda>t. Some (10 * int (length t))) ''claude-opus'' (JNum 70) = take m ''claude-opus'' @ ''...''
      \<and> of_int (10 * int (length (take m ''claude-opus'' @ ''...''))) \<le> (70 :: rat)"
    using truncation_is_longest[of "''claude-opus''" 70 "\<lambda>t. 10 * int (length t)" 0, OF _ _ cut_widths] by auto
  then show ?thesis by (auto simp: min_def split: if_splits)
qed

lemma rounded_nonneg: "0 \<le> x \<Longrightarrow> 0 \<le> rounded d x"
  unfolding rounded_def by (intro divide_nonneg_pos) simp_all

lemma floor_examples: "\<lfloor>3 / 2 :: rat\<rfloor> = 1" "\<lfloor>2501 / 5000 :: rat\<rfloor> = 0"
  by (rule floor_unique; simp)+

text \<open>C26: A quota that is positive is never shown as zero: with a positive unit and rate the text is the currency's symbol followed by
  a number that reads as the converted amount rounded to the digits, or as the smallest amount with these digits where that is zero.\<close>

theorem positive_quota_is_visible:
  assumes "quotaDisplayType s \<noteq> ''TOKENS''" and "getQuotaPerUnit s = Fin u" and "0 < u"
    and "num_of (snd (quota_currency s)) = Fin r" and "0 < r" and "0 < q"
  shows "let v = rounded digits (q / u * r); x = (if v = 0 then 1 / 10 ^ digits else v) in
    0 < x \<and> (\<exists>t. renderQuota (JNum q) digits s = JStr (fst (quota_currency s) @ t) \<and> parseFloat (JStr t) = JNum x)"
proof -
  let ?v = "q / u * r"
  obtain sym rate where c: "quota_currency s = (sym, rate)" by (cases "quota_currency s")
  have pos: "0 < ?v" using assms(3,5,6) by simp
  have val: "js_mul (js_div (num_of (JNum q)) (getQuotaPerUnit s)) (num_of rate) = Fin ?v"
    using assms(2-5) c by simp
  have fx: "fixed_num digits (Fin ?v) = toFixed digits ?v" using pos by (simp add: fixed_rat_def)
  have pf: "parseFloat (JStr (toFixed digits ?v)) = JNum (rounded digits ?v)" using pos by (intro parse_toFixed) simp
  have least: "parseFloat (JStr (toFixed digits (1 / 10 ^ digits))) = JNum (1 / 10 ^ digits)"
    using parse_toFixed[of "1 / 10 ^ digits" digits] by (simp add: rounded_def floor_examples)
  have nonneg: "0 \<le> rounded digits ?v" using rounded_nonneg[of ?v digits] pos by simp
  have run: "renderQuota (JNum q) digits s = JStr (sym @ (if rounded digits ?v = 0 then fixed_rat digits (1 / 10 ^ digits) else toFixed digits ?v))"
    unfolding renderQuota_def using assms(1,6) c val fx pf pos by (simp add: Let_def)
  show ?thesis
  proof (cases "rounded digits ?v = 0")
    case True
    then show ?thesis using run c least by (simp add: fixed_rat_def Let_def)
  next
    case False
    then show ?thesis using run c pf nonneg by (simp add: Let_def)
  qed
qed

definition shop_browser :: "string \<Rightarrow> browser" where
  "shop_browser display = \<lparr>store = [''quota_per_unit'' \<mapsto> ''500000'', ''quota_display_type'' \<mapsto> display],
     api = \<lparr>hdr_user = JNum 1, intercepts = True\<rparr>, user_ctx = JUndef, status_ctx = JUndef, trace = []\<rparr>"

lemma shop_unit: "getQuotaPerUnit (shop_browser d) = Fin 500000"
  by (simp add: getQuotaPerUnit_def shop_browser_def get_item_def parseFloat_def is_ws_def is_digit_def digits_val_def p_exp_def)

theorem positive_quota_is_visible_witness:
  "\<exists>t. renderQuota (JNum 1) 2 (shop_browser ''USD'') = JStr (''$'' @ t) \<and> parseFloat (JStr t) = JNum (1 / 100)"
  using positive_quota_is_visible[of "shop_browser ''USD''" 500000 1 1 2] shop_unit[of "''USD''"]
  by (simp add: quota_currency_def quotaDisplayType_def shop_browser_def rounded_def floor_examples Let_def)

text \<open>The two readings of the exchange rate differ: an amount in yuan is converted with 7, a quota with 1, when the status names none.\<close>

lemma missing_rate_read_twice:
  assumes "quotaDisplayType s = ''CNY''" and "store s ''status'' = Some t" and "json_parse t = Some v"
    and "opt_get v ''usd_exchange_rate'' = JUndef" and "t \<noteq> []"
  shows "fst (snd (getCurrencyConfig s)) = JNum 7 \<and> snd (quota_currency s) = JNum 1"
  using assms by (simp add: getCurrencyConfig_def quota_currency_def stored_status_def jor_def Let_def)

text \<open>A property of an icon cannot have a decimal value: the text is split at every point.\<close>

lemma decimal_size_is_lost:
  "getLobeHubIcon (\<lambda>n. if n = ''OpenAI'' then Some (True, []) else None) ''OpenAI.size=1.5'' 14 =
    Icon [''OpenAI''] (JObj [(''size'', JNum 1), (''5'', JBool True)])"
  by (simp add: getLobeHubIcon_def icon_prop_def parseValue_def wrapped_def decimal_text_def trim_def is_ws_def is_digit_def str_num_def
      p_frac_def p_exp_def digits_val_def obj_set_def opt_get_def Let_def)

end
