(* ===== verification/Price_Display.thy ===== *)
theory Price_Display
  imports Render
begin

text \<open>
  The explanations of a charge, \<open>helpers/render.jsx\<close> from \<open>isValidGroupRatio\<close> on: the price of a call, of an audio call and of a
  Claude call, their short forms and the log lines. A paragraph is the message and the values put into it; the interpolation of
  i18next is not modelled. \<open>Money\<close> is a value printed with six digits, kept exact here.
\<close>

section \<open>Paragraphs\<close>

datatype shown = Text string | Number rat | Money js_num | Unset

datatype para = Para (message: string) (shown_values: "(string \<times> shown) list")

definition isValidGroupRatio :: "rat option \<Rightarrow> bool" where
  "isValidGroupRatio ratio = (case ratio of Some r \<Rightarrow> r \<noteq> -1 | None \<Rightarrow> False)"

text \<open>A ratio of the user's own that is no finite number is \<open>None\<close>.\<close>

definition getEffectiveRatio :: "rat \<Rightarrow> rat option \<Rightarrow> rat \<times> string \<times> bool" where
  "getEffectiveRatio groupRatio user_group_ratio =
     (let useUserGroupRatio = isValidGroupRatio user_group_ratio in
      (case user_group_ratio of Some u \<Rightarrow> if useUserGroupRatio then u else groupRatio | None \<Rightarrow> groupRatio,
       if useUserGroupRatio then ''own ratio'' else ''group ratio'', useUserGroupRatio))"

text \<open>The arguments the functions have in common.\<close>

record charge =
  inputTokens :: rat
  completionTokens :: rat
  modelRatio :: rat
  modelPrice :: rat
  completionRatio :: "rat option"
  groupRatio :: rat
  user_group_ratio :: "rat option"
  cacheTokens :: rat
  cacheRatio :: rat

record creation =
  cacheCreationTokens :: rat
  cacheCreationRatio :: rat
  cacheCreationTokens5m :: rat
  cacheCreationRatio5m :: rat
  cacheCreationTokens1h :: rat
  cacheCreationRatio1h :: rat

definition own_ratio :: "'x charge_scheme \<Rightarrow> rat" where
  "own_ratio c = fst (getEffectiveRatio (groupRatio c) (user_group_ratio c))"

definition ratio_label :: "'x charge_scheme \<Rightarrow> shown" where
  "ratio_label c = Text (fst (snd (getEffectiveRatio (groupRatio c) (user_group_ratio c))))"

definition or_zero :: "rat option \<Rightarrow> rat" where
  "or_zero r = (case r of Some x \<Rightarrow> x | None \<Rightarrow> 0)"

text \<open>Symbol and rate of the currency; \<open>money\<close> is an amount in dollars times the rate.\<close>

definition currency_sign :: "'x browser_scheme \<Rightarrow> shown" where
  "currency_sign s = Text (fst (getCurrencyConfig s))"

definition currency_rate :: "'x browser_scheme \<Rightarrow> js_num" where
  "currency_rate s = num_of (fst (snd (getCurrencyConfig s)))"

definition money :: "'x browser_scheme \<Rightarrow> rat \<Rightarrow> shown" where
  "money s x = Money (js_mul (Fin x) (currency_rate s))"

definition para_if :: "bool \<Rightarrow> para \<Rightarrow> para list" where
  "para_if b p = (if b then [p] else [])"

definition reference_only :: para where
  "reference_only = Para ''for reference only, the actual charge prevails'' []"

text \<open>The line of a call with a fixed price, the same in three functions.\<close>

definition fixed_price :: "'s browser_scheme \<Rightarrow> 'x charge_scheme \<Rightarrow> para" where
  "fixed_price s c = Para ''model price {{symbol}}{{price}} * {{ratioType}}: {{ratio}} = {{symbol}}{{total}}''
     [(''symbol'', currency_sign s), (''price'', money s (modelPrice c)), (''ratio'', Number (own_ratio c)),
      (''total'', money s (modelPrice c * own_ratio c)), (''ratioType'', ratio_label c)]"

section \<open>renderModelPriceSimple\<close>

definition renderPriceSimpleCore :: "'s browser_scheme \<Rightarrow> 'x charge_scheme \<Rightarrow> creation \<Rightarrow> bool \<Rightarrow> rat \<Rightarrow> bool \<Rightarrow> para list" where
  "renderPriceSimpleCore s c k with_img image_ratio isSystemPromptOverride =
     (if modelPrice c \<noteq> -1
      then [Para ''price {{symbol}}{{price}} * {{ratioType}}: {{ratio}}''
        [(''symbol'', currency_sign s), (''price'', money s (modelPrice c)), (''ratioType'', ratio_label c), (''ratio'', Number (own_ratio c))]]
      else
        (let hasSplit = (cacheCreationTokens5m k > 0 \<or> cacheCreationTokens1h k > 0);
             show5m = (hasSplit \<and> cacheCreationTokens5m k > 0); show1h = (hasSplit \<and> cacheCreationTokens1h k > 0);
             creation_part = (if hasSplit
               then (if show5m \<and> show1h then [''cache creation: 5m {{cacheCreationRatio5m}} / 1h {{cacheCreationRatio1h}}'']
                     else if show5m then [''cache creation: 5m {{cacheCreationRatio5m}}'']
                     else if show1h then [''cache creation: 1h {{cacheCreationRatio1h}}''] else [])
               else if cacheCreationTokens k \<noteq> 0 then [''cache creation: {{cacheCreationRatio}}''] else []);
             parts = [''model: {{ratio}}''] @ (if cacheTokens c \<noteq> 0 then [''cache: {{cacheRatio}}''] else []) @ creation_part
               @ (if with_img then [''image input: {{imageRatio}}''] else []) @ [''{{ratioType}}: {{groupRatio}}''] in
         Para (join_with '' * '' parts)
           [(''ratio'', Number (modelRatio c)), (''ratioType'', ratio_label c), (''groupRatio'', Number (own_ratio c)),
            (''cacheRatio'', Number (cacheRatio c)), (''cacheCreationRatio'', Number (cacheCreationRatio k)),
            (''cacheCreationRatio5m'', Number (cacheCreationRatio5m k)), (''cacheCreationRatio1h'', Number (cacheCreationRatio1h k)),
            (''imageRatio'', Number image_ratio)]
         # para_if isSystemPromptOverride (Para ''system prompt override'' [])))"

definition renderModelPriceSimple :: "'s browser_scheme \<Rightarrow> 'x charge_scheme \<Rightarrow> creation \<Rightarrow> bool \<Rightarrow> rat \<Rightarrow> bool \<Rightarrow> string \<Rightarrow> para list" where
  "renderModelPriceSimple s c k with_img image_ratio isSystemPromptOverride provider =
     renderPriceSimpleCore s c k with_img image_ratio isSystemPromptOverride"

section \<open>renderModelPrice\<close>

record extras =
  has_image :: bool
  imageRatio :: rat
  imageOutputTokens :: rat
  webSearch :: bool
  webSearchCallCount :: rat
  webSearchPrice :: rat
  fileSearch :: bool
  fileSearchCallCount :: rat
  fileSearchPrice :: rat
  audioInputSeperatePrice :: bool
  audioInputTokens :: rat
  audioInputPrice :: rat
  imageGenerationCall :: bool
  imageGenerationCallPrice :: rat

definition with_image :: "extras \<Rightarrow> bool" where
  "with_image e = (has_image e \<and> imageOutputTokens e > 0)"

definition effective_input :: "'x charge_scheme \<Rightarrow> extras \<Rightarrow> rat" where
  "effective_input c e =
     (let t = (if with_image e then inputTokens c - imageOutputTokens e + imageOutputTokens e * imageRatio e
               else inputTokens c - cacheTokens c + cacheTokens c * cacheRatio c) in
      if audioInputTokens e > 0 then t - audioInputTokens e else t)"

definition model_total :: "'x charge_scheme \<Rightarrow> extras \<Rightarrow> rat" where
  "model_total c e =
     (let g = own_ratio c; p = modelRatio c * 2 in
      effective_input c e / 1000000 * p * g + audioInputTokens e / 1000000 * audioInputPrice e * g
      + completionTokens c / 1000000 * (p * or_zero (completionRatio c)) * g
      + webSearchCallCount e / 1000 * webSearchPrice e * g + fileSearchCallCount e / 1000 * fileSearchPrice e * g
      + imageGenerationCallPrice e * g)"

definition input_desc :: "'s browser_scheme \<Rightarrow> 'x charge_scheme \<Rightarrow> extras \<Rightarrow> para" where
  "input_desc s c e =
     (let p = modelRatio c * 2; common = [(''symbol'', currency_sign s), (''price'', money s p)] in
      if with_image e then
        Para ''(input {{nonImageInput}} tokens + image input {{imageInput}} tokens * {{imageRatio}} / 1M tokens * {{symbol}}{{price}}''
          ([(''nonImageInput'', Number (inputTokens c - imageOutputTokens e)), (''imageInput'', Number (imageOutputTokens e)),
            (''imageRatio'', Number (imageRatio e))] @ common)
      else if cacheTokens c > 0 then
        Para ''(input {{nonCacheInput}} tokens / 1M tokens * {{symbol}}{{price}} + cache {{cacheInput}} tokens / 1M tokens * {{symbol}}{{cachePrice}}''
          ([(''nonCacheInput'', Number (inputTokens c - cacheTokens c)), (''cacheInput'', Number (cacheTokens c))] @ common
            @ [(''cachePrice'', money s (p * cacheRatio c))])
      else if audioInputSeperatePrice e \<and> audioInputTokens e > 0 then
        Para ''(input {{nonAudioInput}} tokens / 1M tokens * {{symbol}}{{price}} + audio input {{audioInput}} tokens / 1M tokens * {{symbol}}{{audioPrice}}''
          ([(''nonAudioInput'', Number (inputTokens c - audioInputTokens e)), (''audioInput'', Number (audioInputTokens e))] @ common
            @ [(''audioPrice'', money s (audioInputPrice e))])
      else Para ''(input {{input}} tokens / 1M tokens * {{symbol}}{{price}}'' ((''input'', Number (inputTokens c)) # common))"

definition output_desc :: "'s browser_scheme \<Rightarrow> 'x charge_scheme \<Rightarrow> para" where
  "output_desc s c = Para ''output {{completion}} tokens / 1M tokens * {{symbol}}{{compPrice}}) * {{ratioType}} {{ratio}}''
     [(''completion'', Number (completionTokens c)), (''symbol'', currency_sign s),
      (''compPrice'', money s (modelRatio c * 2 * or_zero (completionRatio c))), (''ratio'', Number (own_ratio c)),
      (''ratioType'', ratio_label c)]"

definition service_desc :: "'s browser_scheme \<Rightarrow> 'x charge_scheme \<Rightarrow> string \<Rightarrow> rat \<Rightarrow> rat \<Rightarrow> para" where
  "service_desc s c msg count price = Para msg
     [(''count'', Number count), (''symbol'', currency_sign s), (''price'', money s price), (''ratio'', Number (own_ratio c)),
      (''ratioType'', ratio_label c)]"

definition extra_services :: "'s browser_scheme \<Rightarrow> 'x charge_scheme \<Rightarrow> extras \<Rightarrow> para list" where
  "extra_services s c e =
     para_if (webSearch e \<and> webSearchCallCount e > 0)
       (service_desc s c '' + web search {{count}} times / 1K times * {{symbol}}{{price}} * {{ratioType}} {{ratio}}'' (webSearchCallCount e) (webSearchPrice e))
     @ para_if (fileSearch e \<and> fileSearchCallCount e > 0)
       (service_desc s c '' + file search {{count}} times / 1K times * {{symbol}}{{price}} * {{ratioType}} {{ratio}}'' (fileSearchCallCount e) (fileSearchPrice e))
     @ para_if (imageGenerationCall e \<and> imageGenerationCallPrice e > 0)
       (Para '' + image generation {{symbol}}{{price}} / 1 time * {{ratioType}} {{ratio}}''
          [(''symbol'', currency_sign s), (''price'', money s (imageGenerationCallPrice e)), (''ratio'', Number (own_ratio c)),
           (''ratioType'', ratio_label c)])"

text \<open>The unit prices, then the formula: the descriptions of input and output, the services, and the total.\<close>

definition model_unit_prices :: "'s browser_scheme \<Rightarrow> 'x charge_scheme \<Rightarrow> extras \<Rightarrow> para list" where
  "model_unit_prices s c e =
     (let p = modelRatio c * 2; cr = or_zero (completionRatio c); sign = (''symbol'', currency_sign s) in
      [Para ''input price {{symbol}}{{price}} / 1M tokens{{audioPrice}}''
         [sign, (''price'', money s p), (''audioPrice'', if audioInputSeperatePrice e then money s (audioInputPrice e) else Unset)],
       Para ''output price {{symbol}}{{price}} * {{completionRatio}} = {{symbol}}{{total}} / 1M tokens''
         [sign, (''price'', money s p), (''total'', money s (p * cr)), (''completionRatio'', Number cr)]]
      @ para_if (cacheTokens c > 0) (Para ''cache price {{symbol}}{{price}} * {{cacheRatio}} = {{symbol}}{{total}} / 1M tokens''
         [sign, (''price'', money s p), (''total'', money s (p * cacheRatio c)), (''cacheRatio'', Number (cacheRatio c))])
      @ para_if (with_image e) (Para ''image input price {{symbol}}{{price}} * {{ratio}} = {{symbol}}{{total}} / 1M tokens''
         [sign, (''price'', money s (p * imageRatio e)), (''ratio'', Number (own_ratio c)),
          (''total'', money s (p * imageRatio e * own_ratio c)), (''imageRatio'', Number (imageRatio e))])
      @ para_if (webSearch e \<and> webSearchCallCount e > 0)
         (Para ''web search price {{symbol}}{{price}} / 1K times'' [sign, (''price'', money s (webSearchPrice e))])
      @ para_if (fileSearch e \<and> fileSearchCallCount e > 0)
         (Para ''file search price {{symbol}}{{price}} / 1K times'' [sign, (''price'', money s (fileSearchPrice e))])
      @ para_if (imageGenerationCall e \<and> imageGenerationCallPrice e > 0)
         (Para ''image generation {{symbol}}{{price}} / 1 time'' [sign, (''price'', money s (imageGenerationCallPrice e))]))"

definition renderModelPrice :: "'s browser_scheme \<Rightarrow> 'x charge_scheme \<Rightarrow> extras \<Rightarrow> para list" where
  "renderModelPrice s c e =
     (if modelPrice c \<noteq> -1 then [fixed_price s c]
      else model_unit_prices s c e @ [input_desc s c e, output_desc s c] @ extra_services s c e
        @ [Para '' = {{symbol}}{{total}}'' [(''symbol'', currency_sign s), (''total'', money s (model_total c e))], reference_only])"

section \<open>renderLogContent\<close>

definition shown_ratio :: "rat option \<Rightarrow> shown" where
  "shown_ratio r = (case r of Some x \<Rightarrow> Number x | None \<Rightarrow> Unset)"

definition renderLogContent :: "'s browser_scheme \<Rightarrow> 'x charge_scheme \<Rightarrow> extras \<Rightarrow> para" where
  "renderLogContent s c e =
     (let ratios = [(''modelRatio'', Number (modelRatio c)), (''cacheRatio'', Number (cacheRatio c)),
            (''completionRatio'', shown_ratio (completionRatio c))];
          own = [(''ratioType'', ratio_label c), (''ratio'', Number (own_ratio c))] in
      if modelPrice c \<noteq> -1 then
        Para ''model price {{symbol}}{{price}}, {{ratioType}} {{ratio}}'' ([(''symbol'', currency_sign s), (''price'', money s (modelPrice c))] @ own)
      else if has_image e then
        Para ''model ratio {{modelRatio}}, cache ratio {{cacheRatio}}, output ratio {{completionRatio}}, image ratio {{imageRatio}}, {{ratioType}} {{ratio}}''
          (ratios @ [(''imageRatio'', Number (imageRatio e))] @ own)
      else if webSearch e then
        Para ''model ratio {{modelRatio}}, cache ratio {{cacheRatio}}, output ratio {{completionRatio}}, {{ratioType}} {{ratio}}, web search called {{webSearchCallCount}} times''
          (ratios @ own @ [(''webSearchCallCount'', Number (webSearchCallCount e))])
      else Para ''model ratio {{modelRatio}}, cache ratio {{cacheRatio}}, output ratio {{completionRatio}}, {{ratioType}} {{ratio}}'' (ratios @ own))"

section \<open>renderAudioModelPrice\<close>

record audio_charge = charge +
  audioIn :: rat
  audioCompletionTokens :: rat
  audioRatio :: jv
  audioCompletionRatio :: rat

text \<open>\<open>parseFloat(audioRatio).toFixed(6)\<close> is a text, shown as it is and converted again where it is multiplied.\<close>

definition audio_ratio_text :: "audio_charge \<Rightarrow> string" where
  "audio_ratio_text c = fixed_num 6 (num_of (parseFloat (audioRatio c)))"

definition audio_factor :: "audio_charge \<Rightarrow> js_num" where
  "audio_factor c = num_of (JStr (audio_ratio_text c))"

definition js_add :: "js_num \<Rightarrow> js_num \<Rightarrow> js_num" where
  "js_add a b = (case (a, b) of (Fin x, Fin y) \<Rightarrow> Fin (x + y)
     | (Inf x, Inf y) \<Rightarrow> if x = y then Inf x else NaN | (Inf x, Fin y) \<Rightarrow> Inf x | (Fin x, Inf y) \<Rightarrow> Inf y | _ \<Rightarrow> NaN)"

definition money_num :: "'s browser_scheme \<Rightarrow> js_num \<Rightarrow> shown" where
  "money_num s n = Money (js_mul n (currency_rate s))"

definition text_total :: "audio_charge \<Rightarrow> rat" where
  "text_total c =
     (let g = own_ratio c; p = modelRatio c * 2 in
      (inputTokens c - cacheTokens c + cacheTokens c * cacheRatio c) / 1000000 * p * g
      + completionTokens c / 1000000 * (p * or_zero (completionRatio c)) * g)"

definition audio_total :: "audio_charge \<Rightarrow> js_num" where
  "audio_total c =
     (let g = own_ratio c; p = modelRatio c * 2 in
      js_add (js_mul (Fin (audioIn c / 1000000 * p * g)) (audio_factor c))
        (js_mul (Fin (audioCompletionTokens c / 1000000 * p * audioCompletionRatio c * g)) (audio_factor c)))"

definition audio_unit_prices :: "'s browser_scheme \<Rightarrow> audio_charge \<Rightarrow> para list" where
  "audio_unit_prices s c =
     (let p = modelRatio c * 2; cr = or_zero (completionRatio c); sign = (''symbol'', currency_sign s);
          a = audio_factor c; shown_a = Text (audio_ratio_text c) in
      [Para ''prompt price {{symbol}}{{price}} / 1M tokens'' [sign, (''price'', money s p)],
       Para ''completion price {{symbol}}{{price}} * {{completionRatio}} = {{symbol}}{{total}} / 1M tokens''
         [sign, (''price'', money s p), (''total'', money s (p * cr)), (''completionRatio'', Number cr)]]
      @ para_if (cacheTokens c > 0) (Para ''cache price {{symbol}}{{price}} * {{cacheRatio}} = {{symbol}}{{total}} / 1M tokens''
         [sign, (''price'', money s p), (''total'', money s (p * cacheRatio c)), (''cacheRatio'', Number (cacheRatio c))])
      @ [Para ''audio prompt price {{symbol}}{{price}} * {{audioRatio}} = {{symbol}}{{total}} / 1M tokens''
           [sign, (''price'', money s p), (''total'', money_num s (js_mul (Fin p) a)), (''audioRatio'', shown_a)],
         Para ''audio completion price {{symbol}}{{price}} * {{audioRatio}} * {{audioCompRatio}} = {{symbol}}{{total}} / 1M tokens''
           [sign, (''price'', money s p), (''total'', money_num s (js_mul (Fin (p * audioCompletionRatio c)) a)),
            (''audioRatio'', shown_a), (''audioCompRatio'', Number (audioCompletionRatio c))]])"

definition text_line :: "'s browser_scheme \<Rightarrow> audio_charge \<Rightarrow> para" where
  "text_line s c =
     (let p = modelRatio c * 2; sign = (''symbol'', currency_sign s);
          tail = [(''completion'', Number (completionTokens c)), (''compPrice'', money s (p * or_zero (completionRatio c))),
                  (''total'', money s (text_total c))] in
      if cacheTokens c > 0 then
        Para ''text prompt {{nonCacheInput}} tokens / 1M tokens * {{symbol}}{{price}} + cache {{cacheInput}} tokens / 1M tokens * {{symbol}}{{cachePrice}} + text completion {{completion}} tokens / 1M tokens * {{symbol}}{{compPrice}} = {{symbol}}{{total}}''
          ([(''nonCacheInput'', Number (inputTokens c - cacheTokens c)), (''cacheInput'', Number (cacheTokens c)), sign,
            (''cachePrice'', money s (p * cacheRatio c)), (''price'', money s p)] @ tail)
      else
        Para ''text prompt {{input}} tokens / 1M tokens * {{symbol}}{{price}} + text completion {{completion}} tokens / 1M tokens * {{symbol}}{{compPrice}} = {{symbol}}{{total}}''
          ([(''input'', Number (inputTokens c)), sign, (''price'', money s p)] @ tail))"

definition audio_line :: "'s browser_scheme \<Rightarrow> audio_charge \<Rightarrow> para" where
  "audio_line s c =
     (let p = modelRatio c * 2 in
      Para ''audio prompt {{input}} tokens / 1M tokens * {{symbol}}{{audioInputPrice}} + audio completion {{completion}} tokens / 1M tokens * {{symbol}}{{audioCompPrice}} = {{symbol}}{{total}}''
        [(''input'', Number (audioIn c)), (''completion'', Number (audioCompletionTokens c)), (''symbol'', currency_sign s),
         (''audioInputPrice'', money_num s (js_mul (Fin p) (audio_factor c))),
         (''audioCompPrice'', money_num s (js_mul (Fin (p * audioCompletionRatio c)) (audio_factor c))),
         (''total'', money_num s (audio_total c))])"

definition renderAudioModelPrice :: "'s browser_scheme \<Rightarrow> audio_charge \<Rightarrow> para list" where
  "renderAudioModelPrice s c =
     (if modelPrice c \<noteq> -1 then [fixed_price s c]
      else audio_unit_prices s c @ [text_line s c, audio_line s c,
        Para ''total: text {{textPrice}} + audio {{audioPrice}} = {{symbol}}{{total}}''
          [(''symbol'', currency_sign s), (''total'', money_num s (js_add (Fin (text_total c)) (audio_total c))),
           (''textPrice'', money s (text_total c)), (''audioPrice'', money_num s (audio_total c))], reference_only])"

definition renderQuotaWithPrompt :: "jv \<Rightarrow> nat \<Rightarrow> 's browser_scheme \<Rightarrow> string" where
  "renderQuotaWithPrompt quota digits s =
     (if quotaDisplayType s \<noteq> ''TOKENS'' then ''equivalent amount: '' @ to_str (renderQuota quota digits s) else [])"

section \<open>renderClaudeModelPrice\<close>

definition splits :: "creation \<Rightarrow> bool" where
  "splits k = (cacheCreationTokens5m k > 0 \<or> cacheCreationTokens1h k > 0)"

definition shows_5m :: "creation \<Rightarrow> bool" where
  "shows_5m k = (splits k \<and> cacheCreationTokens5m k > 0)"

definition shows_1h :: "creation \<Rightarrow> bool" where
  "shows_1h k = (splits k \<and> cacheCreationTokens1h k > 0)"

definition shows_legacy :: "creation \<Rightarrow> bool" where
  "shows_legacy k = (\<not> splits k \<and> cacheCreationTokens k > 0)"

definition claude_total :: "'x charge_scheme \<Rightarrow> creation \<Rightarrow> rat" where
  "claude_total c k =
     (let g = own_ratio c; p = modelRatio c * 2;
          legacy = (if splits k then 0 else cacheCreationTokens k);
          effective = inputTokens c + cacheTokens c * cacheRatio c + legacy * cacheCreationRatio k
            + cacheCreationTokens5m k * cacheCreationRatio5m k + cacheCreationTokens1h k * cacheCreationRatio1h k in
      effective / 1000000 * p * g + completionTokens c / 1000000 * (p * or_zero (completionRatio c)) * g)"

definition segment :: "'s browser_scheme \<Rightarrow> string \<Rightarrow> rat \<Rightarrow> rat \<Rightarrow> rat option \<Rightarrow> para" where
  "segment s msg tokens unit ratio = Para msg
     ([(''tokens'', Number tokens), (''symbol'', currency_sign s), (''price'', money s unit)]
      @ (case ratio of Some r \<Rightarrow> [(''ratio'', Number r)] | None \<Rightarrow> []))"

definition claude_segments :: "'s browser_scheme \<Rightarrow> 'x charge_scheme \<Rightarrow> creation \<Rightarrow> para list" where
  "claude_segments s c k =
     (let p = modelRatio c * 2; with_ratio = '' {{tokens}} tokens / 1M tokens * {{symbol}}{{price}} (ratio: {{ratio}})'' in
      [segment s ''prompt {{input}} tokens / 1M tokens * {{symbol}}{{price}}'' (inputTokens c) p None]
      @ para_if (cacheTokens c > 0) (segment s (''cache'' @ with_ratio) (cacheTokens c) (p * cacheRatio c) (Some (cacheRatio c)))
      @ para_if (shows_legacy k) (segment s (''cache creation'' @ with_ratio) (cacheCreationTokens k) (p * cacheCreationRatio k) (Some (cacheCreationRatio k)))
      @ para_if (shows_5m k) (segment s (''5m cache creation'' @ with_ratio) (cacheCreationTokens5m k) (p * cacheCreationRatio5m k) (Some (cacheCreationRatio5m k)))
      @ para_if (shows_1h k) (segment s (''1h cache creation'' @ with_ratio) (cacheCreationTokens1h k) (p * cacheCreationRatio1h k) (Some (cacheCreationRatio1h k)))
      @ [segment s ''completion {{completion}} tokens / 1M tokens * {{symbol}}{{price}}'' (completionTokens c) (p * or_zero (completionRatio c)) None])"

definition unit_line :: "'s browser_scheme \<Rightarrow> string \<Rightarrow> rat \<Rightarrow> rat \<Rightarrow> para" where
  "unit_line s msg p ratio = Para (msg @ '' {{symbol}}{{price}} * {{ratio}} = {{symbol}}{{total}} / 1M tokens'')
     [(''symbol'', currency_sign s), (''price'', money s p), (''ratio'', Number ratio), (''total'', money s (p * ratio))]"

definition claude_unit_prices :: "'s browser_scheme \<Rightarrow> 'x charge_scheme \<Rightarrow> creation \<Rightarrow> para list" where
  "claude_unit_prices s c k =
     (let p = modelRatio c * 2; five = p * cacheCreationRatio5m k; one = p * cacheCreationRatio1h k in
      [Para ''prompt price {{symbol}}{{price}} / 1M tokens'' [(''symbol'', currency_sign s), (''price'', money s p)],
       unit_line s ''completion price'' p (or_zero (completionRatio c))]
      @ para_if (cacheTokens c > 0) (unit_line s ''cache price'' p (cacheRatio c))
      @ para_if (shows_legacy k) (unit_line s ''cache creation price'' p (cacheCreationRatio k))
      @ para_if (shows_5m k) (unit_line s ''5m cache creation price'' p (cacheCreationRatio5m k))
      @ para_if (shows_1h k) (unit_line s ''1h cache creation price'' p (cacheCreationRatio1h k))
      @ para_if (shows_5m k \<and> shows_1h k)
          (Para ''cache creation total: 5m {{symbol}}{{five}} + 1h {{symbol}}{{one}} = {{symbol}}{{total}} / 1M tokens''
            [(''symbol'', currency_sign s), (''five'', money s five), (''one'', money s one),
             (''total'', Money (js_add (js_mul (Fin five) (currency_rate s)) (js_mul (Fin one) (currency_rate s))))]))"

text \<open>The last line: the segments joined by plus signs, times the ratio, and the total.\<close>

definition claude_formula :: "'s browser_scheme \<Rightarrow> 'x charge_scheme \<Rightarrow> creation \<Rightarrow> para" where
  "claude_formula s c k = Para ''{{breakdown}} * {{ratioType}} {{ratio}} = {{symbol}}{{total}}''
     [(''ratioType'', ratio_label c), (''ratio'', Number (own_ratio c)), (''symbol'', currency_sign s), (''total'', money s (claude_total c k))]"

definition renderClaudeModelPrice :: "'s browser_scheme \<Rightarrow> 'x charge_scheme \<Rightarrow> creation \<Rightarrow> para list" where
  "renderClaudeModelPrice s c k =
     (if modelPrice c \<noteq> -1 then [fixed_price s c]
      else claude_unit_prices s c k @ claude_segments s c k @ [claude_formula s c k, reference_only])"

definition renderClaudeLogContent :: "'s browser_scheme \<Rightarrow> 'x charge_scheme \<Rightarrow> creation \<Rightarrow> para list" where
  "renderClaudeLogContent s c k =
     (let own = [(''ratioType'', ratio_label c), (''ratio'', Number (own_ratio c))] in
      if modelPrice c \<noteq> -1
      then [Para ''model price {{symbol}}{{price}}, {{ratioType}} {{ratio}}'' ([(''symbol'', currency_sign s), (''price'', money s (modelPrice c))] @ own)]
      else
        (let creation_part =
           (if shows_5m k \<and> shows_1h k then Para ''cache creation ratio 5m {{cacheCreationRatio5m}} / 1h {{cacheCreationRatio1h}}''
               [(''cacheCreationRatio5m'', Number (cacheCreationRatio5m k)), (''cacheCreationRatio1h'', Number (cacheCreationRatio1h k))]
            else if shows_5m k then Para ''cache creation ratio 5m {{cacheCreationRatio5m}}'' [(''cacheCreationRatio5m'', Number (cacheCreationRatio5m k))]
            else if shows_1h k then Para ''cache creation ratio 1h {{cacheCreationRatio1h}}'' [(''cacheCreationRatio1h'', Number (cacheCreationRatio1h k))]
            else Para ''cache creation ratio {{cacheCreationRatio}}'' [(''cacheCreationRatio'', Number (cacheCreationRatio k))]) in
         [Para ''model ratio {{modelRatio}}'' [(''modelRatio'', Number (modelRatio c))],
          Para ''output ratio {{completionRatio}}'' [(''completionRatio'', shown_ratio (completionRatio c))],
          Para ''cache ratio {{cacheRatio}}'' [(''cacheRatio'', Number (cacheRatio c))],
          creation_part, Para ''{{ratioType}} {{ratio}}'' own]))"

section \<open>Reading a formula\<close>

text \<open>The number a paragraph shows under a name, before rounding.\<close>

definition num_shown :: "para \<Rightarrow> string \<Rightarrow> rat" where
  "num_shown p k = (case map_of (shown_values p) k of Some (Number x) \<Rightarrow> x | Some (Money (Fin x)) \<Rightarrow> x | _ \<Rightarrow> 0)"

definition names :: "para \<Rightarrow> string \<Rightarrow> bool" where
  "names p k = (k \<in> fst ` set (shown_values p))"

text \<open>The value of a term of the formulas: tokens per million times a unit price.\<close>

definition term_value :: "para \<Rightarrow> string \<Rightarrow> string \<Rightarrow> rat" where
  "term_value p tokens unit = num_shown p tokens / 1000000 * num_shown p unit"

definition input_value :: "para \<Rightarrow> rat" where
  "input_value p =
     (if names p ''nonImageInput''
      then (num_shown p ''nonImageInput'' + num_shown p ''imageInput'' * num_shown p ''imageRatio'') / 1000000 * num_shown p ''price''
      else if names p ''nonCacheInput'' then term_value p ''nonCacheInput'' ''price'' + term_value p ''cacheInput'' ''cachePrice''
      else if names p ''nonAudioInput'' then term_value p ''nonAudioInput'' ''price'' + term_value p ''audioInput'' ''audioPrice''
      else term_value p ''input'' ''price'')"

definition service_value :: "para \<Rightarrow> rat" where
  "service_value p = (if names p ''count'' then num_shown p ''count'' / 1000 else 1) * num_shown p ''price'' * num_shown p ''ratio''"

lemma num_shown_simps [simp]:
  "num_shown (Para m ((k, Number x) # vs)) k = x" "num_shown (Para m ((k, Money (Fin x)) # vs)) k = x"
  "j \<noteq> k \<Longrightarrow> num_shown (Para m ((j, v) # vs)) k = num_shown (Para m vs) k"
  by (simp_all add: num_shown_def)

lemma names_simps [simp]: "names (Para m []) k = False" "names (Para m ((j, v) # vs)) k = (j = k \<or> names (Para m vs) k)"
  by (auto simp: names_def)

lemma money_rate: "currency_rate s = Fin r \<Longrightarrow> money s x = Money (Fin (x * r))"
  by (simp add: money_def)

lemma segment_value: "currency_rate s = Fin r \<Longrightarrow> term_value (segment s m t u x) ''tokens'' ''price'' = t / 1000000 * u * r"
  by (simp add: term_value_def segment_def money_rate)

lemma cached_sum: "(a - c) / n * (p * r) + c / n * (p * k * r) = ((a - c + c * k) / n * p + 0) * r" for a c n p r k :: rat
  by (simp add: add_divide_distrib diff_divide_distrib algebra_simps)

lemma audio_sum: "(a - c) / n * (p * r) + c / n * (k * r) = ((a - c) / n * p + c / n * k) * r" for a c n p r k :: rat
  by (simp add: algebra_simps)

lemma total_sum:
  "(e / n * p * g + a / n * ap * g + t / n * o' * g + w / m * wp * g + f / m * fp * g + i * g) * r =
   ((e / n * p + a / n * ap) * r + t / n * o' * r) * g + (w / m * (wp * r) * g + (f / m * (fp * r) * g + i * r * g))"
  for e n p g a ap t o' w m wp f fp i r :: rat
  by (simp add: algebra_simps)

lemma shown_if_counted: "0 \<le> n \<Longrightarrow> b \<or> n = 0 \<Longrightarrow> (n = 0 \<Longrightarrow> x = 0) \<Longrightarrow> (if b \<and> 0 < n then x else 0) = x" for n x :: rat
  by auto

lemma sum_para_if: "(\<Sum>p\<leftarrow>para_if b q. f p) = (if b then f q else 0)"
  by (simp add: para_if_def)

section \<open>Properties\<close>

text \<open>C24: The explanation of a Claude charge adds up: the prompt, cache, cache-creation and completion segments it lists, each tokens
  per million times the unit price shown, sum to the total divided by the ratio shown - none of the parts of the total is hidden
  and none is listed twice, whichever kinds of cache creation occur.\<close>

theorem claude_breakdown_adds_up:
  assumes "currency_rate s = Fin r" and "modelPrice c = -1"
    and "0 \<le> cacheTokens c" and "0 \<le> cacheCreationTokens k" and "0 \<le> cacheCreationTokens5m k" and "0 \<le> cacheCreationTokens1h k"
  shows "renderClaudeModelPrice s c k = claude_unit_prices s c k @ claude_segments s c k @ [claude_formula s c k, reference_only]
    \<and> num_shown (claude_formula s c k) ''total'' =
        (\<Sum>p\<leftarrow>claude_segments s c k. term_value p ''tokens'' ''price'') * num_shown (claude_formula s c k) ''ratio''"
proof
  show "renderClaudeModelPrice s c k = claude_unit_prices s c k @ claude_segments s c k @ [claude_formula s c k, reference_only]"
    using assms(2) by (simp add: renderClaudeModelPrice_def)
  let ?p = "modelRatio c * 2" and ?legacy = "if splits k then 0 else cacheCreationTokens k"
  have part: "(if 0 < t then t / 1000000 * u * r else 0) = t / 1000000 * u * r" if "0 \<le> t" for t u :: rat using that by auto
  have "shows_5m k = (0 < cacheCreationTokens5m k)" "shows_1h k = (0 < cacheCreationTokens1h k)"
    by (auto simp: shows_5m_def shows_1h_def splits_def)
  moreover have "(if shows_legacy k then cacheCreationTokens k / 1000000 * (?p * cacheCreationRatio k) * r else 0) =
      ?legacy / 1000000 * (?p * cacheCreationRatio k) * r"
    using assms(4) by (auto simp: shows_legacy_def)
  ultimately have sum: "(\<Sum>p\<leftarrow>claude_segments s c k. term_value p ''tokens'' ''price'') =
      inputTokens c / 1000000 * ?p * r + cacheTokens c / 1000000 * (?p * cacheRatio c) * r + ?legacy / 1000000 * (?p * cacheCreationRatio k) * r
      + cacheCreationTokens5m k / 1000000 * (?p * cacheCreationRatio5m k) * r + cacheCreationTokens1h k / 1000000 * (?p * cacheCreationRatio1h k) * r
      + completionTokens c / 1000000 * (?p * or_zero (completionRatio c)) * r"
    unfolding claude_segments_def Let_def
    by (simp only: map_append sum_list_append list.map sum_list.Cons sum_list.Nil sum_para_if segment_value[OF assms(1)]
        part[OF assms(3)] part[OF assms(5)] part[OF assms(6)] add.right_neutral add.assoc)
  have "(\<Sum>p\<leftarrow>claude_segments s c k. term_value p ''tokens'' ''price'') * own_ratio c = claude_total c k * r"
    unfolding sum claude_total_def Let_def by (simp only: add_divide_distrib times_divide_eq_left times_divide_eq_right distrib_left distrib_right mult.assoc mult.commute mult.left_commute)
  then show "num_shown (claude_formula s c k) ''total'' =
        (\<Sum>p\<leftarrow>claude_segments s c k. term_value p ''tokens'' ''price'') * num_shown (claude_formula s c k) ''ratio''"
    by (simp add: claude_formula_def money_rate[OF assms(1)])
qed


definition charge_example :: charge where
  "charge_example = \<lparr>inputTokens = 1000, completionTokens = 200, modelRatio = 5 / 2, modelPrice = -1, completionRatio = Some 4,
     groupRatio = 1, user_group_ratio = Some (1 / 2), cacheTokens = 400, cacheRatio = 1 / 10\<rparr>"

definition creation_example :: creation where
  "creation_example = \<lparr>cacheCreationTokens = 30, cacheCreationRatio = 5 / 4, cacheCreationTokens5m = 10, cacheCreationRatio5m = 5 / 4,
     cacheCreationTokens1h = 20, cacheCreationRatio1h = 2\<rparr>"

definition extras_example :: extras where
  "extras_example = \<lparr>has_image = False, imageRatio = 1, imageOutputTokens = 0, webSearch = True, webSearchCallCount = 2, webSearchPrice = 10,
     fileSearch = False, fileSearchCallCount = 0, fileSearchPrice = 0, audioInputSeperatePrice = False, audioInputTokens = 0,
     audioInputPrice = 0, imageGenerationCall = False, imageGenerationCallPrice = 0\<rparr>"

lemma dollar_rate: "currency_rate (shop_browser ''USD'') = Fin 1"
  by (simp add: currency_rate_def getCurrencyConfig_def quotaDisplayType_def shop_browser_def Let_def)

theorem claude_breakdown_adds_up_witness:
  "num_shown (claude_formula (shop_browser ''USD'') charge_example creation_example) ''total'' =
    (\<Sum>p\<leftarrow>claude_segments (shop_browser ''USD'') charge_example creation_example. term_value p ''tokens'' ''price'')
      * num_shown (claude_formula (shop_browser ''USD'') charge_example creation_example) ''ratio''"
proof -
  have "modelPrice charge_example = -1" "0 \<le> cacheTokens charge_example" "0 \<le> cacheCreationTokens creation_example"
    "0 \<le> cacheCreationTokens5m creation_example" "0 \<le> cacheCreationTokens1h creation_example"
    by (simp_all add: charge_example_def creation_example_def)
  from claude_breakdown_adds_up[OF dollar_rate this] show ?thesis by (rule conjunct2)
qed


text \<open>With image input the discount on cached tokens is lost from the estimate; the formula shown agrees with it, both ignore the cache.\<close>

lemma image_ignores_cache: "with_image e \<Longrightarrow> model_total (c\<lparr>cacheTokens := t\<rparr>) e = model_total c e"
  by (simp add: model_total_def effective_input_def own_ratio_def Let_def)

text \<open>The text part of an audio charge is shown as a formula without the group ratio that its total contains.\<close>

lemma audio_text_omits_ratio:
  assumes "currency_rate s = Fin r" and "cacheTokens c = 0"
  shows "num_shown (text_line s c) ''total'' =
    (term_value (text_line s c) ''input'' ''price'' + term_value (text_line s c) ''completion'' ''compPrice'') * own_ratio c"
  using assms(2) by (simp add: text_line_def term_value_def money_rate[OF assms(1)] text_total_def Let_def algebra_simps)

text \<open>A ratio of the user's own replaces the group's unless it is -1.\<close>

lemma own_ratio_wins: "own_ratio c = (case user_group_ratio c of Some u \<Rightarrow> if u = -1 then groupRatio c else u | None \<Rightarrow> groupRatio c)"
  by (simp add: own_ratio_def getEffectiveRatio_def isValidGroupRatio_def Let_def split: option.split)

end
