(* ===== verification/Word_Spans.thy ===== *)
theory Word_Spans
  imports Js_Base
begin

text \<open>
  \<open>rehypeSplitWordsIntoSpans\<close> of \<open>helpers/render.jsx\<close>: while an answer is streamed, the words of a rendered text become
  elements of their own, and those that were not there before get the class of the fade-in. The segmenter of the browser is the
  parameter \<open>segment\<close>: its words, or \<open>None\<close> where it does not exist. The traversal (unist-util-visit) meets an element
  before its children.
\<close>

section \<open>The tree\<close>

datatype node = Elem (tag: string) (classes: "string list") (children: "node list") | TextNode string

definition splits_words :: "string \<Rightarrow> bool" where
  "splits_words t = (t \<in> set [''p'', ''h1'', ''h2'', ''h3'', ''h4'', ''h5'', ''h6'', ''li'', ''strong''])"

definition fade_class :: "nat \<Rightarrow> nat \<Rightarrow> string list" where
  "fade_class previous pos = (if pos \<ge> previous then [''animate-fade-in''] else [])"

fun word_spans :: "nat \<Rightarrow> nat \<Rightarrow> string list \<Rightarrow> node list \<times> nat" where
  "word_spans previous pos [] = ([], pos)"
| "word_spans previous pos (w # ws) =
     (if w = [] then word_spans previous pos ws
      else case word_spans previous (pos + length w) ws of (ns, end) \<Rightarrow>
        (Elem ''span'' (fade_class previous pos) [TextNode w] # ns, end))"

text \<open>What replaces a child of a paragraph, and the position after it.\<close>

fun wrap_child :: "(string \<Rightarrow> string list option) \<Rightarrow> nat \<Rightarrow> nat \<Rightarrow> node \<Rightarrow> node list \<times> nat" where
  "wrap_child segment previous pos (Elem t c ns) = ([Elem t c ns], pos)"
| "wrap_child segment previous pos (TextNode v) =
     (case segment v of
        Some ws \<Rightarrow> word_spans previous pos ws
      | None \<Rightarrow> ([if pos \<ge> previous then Elem ''span'' [''animate-fade-in''] [TextNode v] else TextNode v], pos + length v))"

fun wrap_children :: "(string \<Rightarrow> string list option) \<Rightarrow> nat \<Rightarrow> nat \<Rightarrow> node list \<Rightarrow> node list list \<times> nat" where
  "wrap_children segment previous pos [] = ([], pos)"
| "wrap_children segment previous pos (n # ns) =
     (case wrap_child segment previous pos n of (r, p) \<Rightarrow>
        case wrap_children segment previous p ns of (rs, q) \<Rightarrow> (r # rs, q))"

text \<open>
  The element's own texts are replaced first, then its child elements are visited; the new spans are no elements that split words.
\<close>

fun visit_node :: "(string \<Rightarrow> string list option) \<Rightarrow> nat \<Rightarrow> nat \<Rightarrow> node \<Rightarrow> node \<times> nat"
  and visit_kids :: "(string \<Rightarrow> string list option) \<Rightarrow> nat \<Rightarrow> nat \<Rightarrow> node list \<Rightarrow> node list list \<Rightarrow> node list \<times> nat" where
  "visit_node segment previous pos (TextNode v) = (TextNode v, pos)"
| "visit_node segment previous pos (Elem t c ns) =
     (case (if splits_words t then wrap_children segment previous pos ns else (List.map (\<lambda>n. [n]) ns, pos)) of (rs, p) \<Rightarrow>
        case visit_kids segment previous p ns rs of (ns', q) \<Rightarrow> (Elem t c ns', q))"
| "visit_kids segment previous pos [] rs = ([], pos)"
| "visit_kids segment previous pos (TextNode v # ns) rs =
     (case visit_kids segment previous pos ns (tl rs) of (ns', q) \<Rightarrow> (hd rs @ ns', q))"
| "visit_kids segment previous pos (Elem t c ks # ns) rs =
     (case visit_node segment previous pos (Elem t c ks) of (n', p) \<Rightarrow>
        case visit_kids segment previous p ns (tl rs) of (ns', q) \<Rightarrow> (n' # ns', q))"

definition rehypeSplitWordsIntoSpans :: "(string \<Rightarrow> string list option) \<Rightarrow> nat \<Rightarrow> node \<Rightarrow> node" where
  "rehypeSplitWordsIntoSpans segment previousContentLength tree = fst (visit_node segment previousContentLength 0 tree)"

section \<open>Lemmas\<close>

text \<open>The text of a tree, as the reader sees it.\<close>

fun text_of :: "node \<Rightarrow> string" and texts_of :: "node list \<Rightarrow> string" where
  "text_of (TextNode v) = v"
| "text_of (Elem t c ns) = texts_of ns"
| "texts_of [] = []"
| "texts_of (n # ns) = text_of n @ texts_of ns"

lemma texts_of_append [simp]: "texts_of (xs @ ys) = texts_of xs @ texts_of ys"
  by (induction xs) simp_all

lemma word_spans_text:
  "word_spans previous pos ws = (ns, q) \<Longrightarrow> texts_of ns = concat ws \<and> q = pos + length (concat ws)"
proof (induction ws arbitrary: pos ns q)
  case (Cons w ws)
  then show ?case by (cases "word_spans previous (pos + length w) ws") (fastforce split: if_splits)
qed simp

definition keeps_text :: "(string \<Rightarrow> string list option) \<Rightarrow> bool" where
  "keeps_text segment = (\<forall>v. case segment v of Some ws \<Rightarrow> concat ws = v | None \<Rightarrow> True)"

lemma keeps_textD: "keeps_text segment \<Longrightarrow> segment v = Some ws \<Longrightarrow> concat ws = v"
  by (auto simp: keeps_text_def dest!: spec[of _ v])

lemma wrap_child_text:
  assumes "keeps_text segment" and "wrap_child segment previous pos n = (r, q)"
  shows "texts_of r = text_of n"
proof (cases n)
  case (TextNode v)
  show ?thesis
  proof (cases "segment v")
    case None
    then show ?thesis using assms(2) TextNode by auto
  next
    case (Some ws)
    then show ?thesis using assms(2) TextNode word_spans_text[of previous pos ws r q] keeps_textD[OF assms(1) Some] by simp
  qed
qed (use assms(2) in auto)

lemma wrap_children_text:
  assumes "keeps_text segment"
  shows "wrap_children segment previous pos ns = (rs, q) \<Longrightarrow> list_all2 (\<lambda>r n. texts_of r = text_of n) rs ns"
  by (induction ns arbitrary: pos rs q) (auto split: prod.splits dest: wrap_child_text[OF assms])

lemma single_texts: "list_all2 (\<lambda>r n. texts_of r = text_of n) (List.map (\<lambda>n. [n]) ns) ns"
  by (induction ns) simp_all

lemma visit_text:
  "keeps_text segment \<Longrightarrow> text_of (fst (visit_node segment previous pos n)) = text_of n"
  "keeps_text segment \<Longrightarrow> list_all2 (\<lambda>r n. texts_of r = text_of n) rs ns \<Longrightarrow>
    texts_of (fst (visit_kids segment previous pos ns rs)) = texts_of ns"
proof (induction segment previous pos n and segment previous pos ns rs rule: visit_node_visit_kids.induct)
  case (2 segment previous pos t c ns)
  obtain rs p where r: "(if splits_words t then wrap_children segment previous pos ns else (List.map (\<lambda>n. [n]) ns, pos)) = (rs, p)"
    by (cases "if splits_words t then wrap_children segment previous pos ns else (List.map (\<lambda>n. [n]) ns, pos)")
  have "list_all2 (\<lambda>r n. texts_of r = text_of n) rs ns"
  proof (cases "splits_words t")
    case True
    then show ?thesis using wrap_children_text[OF "2.prems", of previous pos ns rs p] r by simp
  next
    case False
    then show ?thesis using r single_texts by auto
  qed
  then have "texts_of (fst (visit_kids segment previous p ns rs)) = texts_of ns" using "2.IH"[OF r[symmetric] "2.prems"] by simp
  then show ?case using r by (cases "visit_kids segment previous p ns rs") simp
next
  case (4 segment previous pos v ns rs)
  then show ?case by (cases rs) (auto split: prod.splits)
next
  case (5 segment previous pos t c ks ns rs)
  obtain n' p where n: "visit_node segment previous pos (Elem t c ks) = (n', p)"
    by (cases "visit_node segment previous pos (Elem t c ks)")
  obtain r rs' where rs: "rs = r # rs'" "list_all2 (\<lambda>r n. texts_of r = text_of n) rs' ns" using "5.prems"(2) by (cases rs) auto
  have "texts_of (fst (visit_kids segment previous p ns (tl rs))) = texts_of ns"
    using "5.IH"(2)[OF n[symmetric] "5.prems"(1)] rs by simp
  moreover have "text_of n' = texts_of ks" using "5.IH"(1)[OF "5.prems"(1)] n by simp
  ultimately show ?case using n rs by (cases "visit_kids segment previous p ns rs'") (simp del: visit_node.simps)
qed simp_all

section \<open>Properties\<close>

text \<open>The children a paragraph of plain texts gets: each word in a span that fades in exactly when it starts where new text begins.\<close>

definition word_span :: "nat \<Rightarrow> nat \<Rightarrow> node \<Rightarrow> bool" where
  "word_span previous pos n = (\<exists>w. n = Elem ''span'' (fade_class previous pos) [TextNode w])"

fun words_from :: "nat \<Rightarrow> nat \<Rightarrow> node list \<Rightarrow> bool" where
  "words_from previous pos [] = True"
| "words_from previous pos (n # ns) = (word_span previous pos n \<and> words_from previous (pos + length (text_of n)) ns)"

lemma words_from_append [simp]:
  "words_from previous pos (xs @ ys) = (words_from previous pos xs \<and> words_from previous (pos + length (texts_of xs)) ys)"
  by (induction xs arbitrary: pos) (auto simp: add.assoc)

lemma word_spans_words: "word_spans previous pos ws = (ns, q) \<Longrightarrow> words_from previous pos ns"
proof (induction ws arbitrary: pos ns q)
  case (Cons w ws)
  then show ?case by (cases "word_spans previous (pos + length w) ws") (fastforce simp: word_span_def split: if_splits)
qed simp

lemma plain_kids: "visit_kids segment previous p (List.map TextNode vs) rs = (ns, q) \<Longrightarrow> length rs = length vs \<Longrightarrow> ns = concat rs \<and> q = p"
proof (induction vs arbitrary: rs ns q)
  case (Cons v vs)
  then show ?case by (cases rs; cases "visit_kids segment previous p (List.map TextNode vs) (tl rs)") auto
qed simp

lemma wrap_plain:
  assumes "keeps_text segment" and "\<And>v. segment v \<noteq> None"
  shows "wrap_children segment previous pos (List.map TextNode vs) = (rs, q) \<Longrightarrow> length rs = length vs \<and> words_from previous pos (concat rs)"
proof (induction vs arbitrary: pos rs q)
  case (Cons v vs)
  obtain ws where ws: "segment v = Some ws" using assms(2)[of v] by auto
  obtain r p where r: "word_spans previous pos ws = (r, p)" by (cases "word_spans previous pos ws")
  obtain rs' q' where t: "wrap_children segment previous p (List.map TextNode vs) = (rs', q')"
    by (cases "wrap_children segment previous p (List.map TextNode vs)")
  show ?case using Cons.prems ws r t Cons.IH[OF t] word_spans_words[OF r] word_spans_text[OF r] by auto
qed simp

text \<open>Splitting a streamed answer into words changes nothing of its text, for any tree of elements; and in a paragraph of plain
  text every word becomes a span that fades in if and only if it starts at or after the text that was there before.\<close>

lemma streamed_words_fade_in:
  assumes "keeps_text segment"
  shows "text_of (rehypeSplitWordsIntoSpans segment previous tree) = text_of tree
    \<and> ((\<forall>v. segment v \<noteq> None) \<and> splits_words t \<longrightarrow>
        words_from previous 0 (children (rehypeSplitWordsIntoSpans segment previous (Elem t c (List.map TextNode vs)))))"
proof (intro conjI impI)
  show "text_of (rehypeSplitWordsIntoSpans segment previous tree) = text_of tree"
    unfolding rehypeSplitWordsIntoSpans_def by (rule visit_text(1)[OF assms])
  assume a: "(\<forall>v. segment v \<noteq> None) \<and> splits_words t"
  obtain rs p where r: "wrap_children segment previous 0 (List.map TextNode vs) = (rs, p)"
    by (cases "wrap_children segment previous 0 (List.map TextNode vs)")
  obtain ns q where k: "visit_kids segment previous p (List.map TextNode vs) rs = (ns, q)"
    by (cases "visit_kids segment previous p (List.map TextNode vs) rs")
  show "words_from previous 0 (children (rehypeSplitWordsIntoSpans segment previous (Elem t c (List.map TextNode vs))))"
    using a r k wrap_plain[OF assms _ r] plain_kids[OF k] by (simp add: rehypeSplitWordsIntoSpans_def)
qed

text \<open>A segmenter for the examples: every character is a word.\<close>

definition letters :: "string \<Rightarrow> string list option" where
  "letters v = Some (List.map (\<lambda>c. [c]) v)"

lemma letters_keep: "keeps_text letters" "letters v \<noteq> None"
proof -
  have "concat (List.map (\<lambda>c. [c]) v) = v" for v :: string by (induction v) simp_all
  then show "keeps_text letters" "letters v \<noteq> None" by (simp_all add: keeps_text_def letters_def)
qed

lemma streamed_words_fade_in_example:
  "words_from 1 0 (children (rehypeSplitWordsIntoSpans letters 1 (Elem ''p'' [] (List.map TextNode [''ab'']))))"
  using streamed_words_fade_in[OF letters_keep(1), of 1 "TextNode []" "''p''" "[]" "[''ab'']"] letters_keep(2)
  by (simp add: splits_words_def)

text \<open>Positions follow the traversal, not the text: the words of an inner element are counted after those behind it.\<close>

lemma inner_words_counted_late:
  "rehypeSplitWordsIntoSpans letters 2 (Elem ''p'' [] [TextNode ''a'', Elem ''strong'' [] [TextNode ''b''], TextNode ''c'']) =
    Elem ''p'' [] [Elem ''span'' [] [TextNode ''a''], Elem ''strong'' [] [Elem ''span'' [''animate-fade-in''] [TextNode ''b'']],
      Elem ''span'' [] [TextNode ''c'']]"
  by (simp add: rehypeSplitWordsIntoSpans_def letters_def splits_words_def fade_class_def)

end
