(* ===== verification/Dashboard_Data.thy ===== *)
theory Dashboard_Data
  imports Render Login "HOL-Library.Multiset"
begin

text \<open>
  The usage dashboard: \<open>helpers/dashboard.jsx\<close>, \<open>hooks/dashboard/useDashboardData.js\<close>, \<open>useDashboardCharts.jsx\<close> and
  \<open>useDashboardStats.jsx\<close>. A \<open>Map\<close> is the list of its entries in insertion order, a \<open>Set\<close> the list of its
  elements; numbers of the records are \<open>None\<close> when NaN (a member that is missing). The time zone is the parameter \<open>tz\<close>,
  \<open>Date.parse\<close> the parameter \<open>date_parse\<close>, and the order of \<open>localeCompare\<close> the parameter \<open>collate\<close>.
\<close>

section \<open>Times\<close>

definition time_intervals :: "(string \<times> nat \<times> nat) list" where
  "time_intervals = [(''hour'', 3600, 60), (''day'', 86400, 1440), (''week'', 604800, 10080)]"

definition getTimeInterval :: "string \<Rightarrow> bool \<Rightarrow> nat" where
  "getTimeInterval timeType isSeconds =
     (case (case map_of time_intervals timeType of Some i \<Rightarrow> i | None \<Rightarrow> (3600, 60)) of (seconds, minutes) \<Rightarrow>
        if isSeconds then seconds else minutes)"

definition getDefaultTime :: "'x browser_scheme \<Rightarrow> string" where
  "getDefaultTime s = (case store s ''data_export_default_time'' of Some t \<Rightarrow> if t = [] then ''hour'' else t | None \<Rightarrow> ''hour'')"

text \<open>\<open>now\<close> in seconds.\<close>

definition getInitialTimestamp :: "(int \<Rightarrow> int) \<Rightarrow> int \<Rightarrow> 'x browser_scheme \<Rightarrow> string" where
  "getInitialTimestamp tz now s =
     (let d = getDefaultTime s in
      timestamp2string tz (if d = ''hour'' then now - 86400 else if d = ''week'' then now - 86400 * 30 else now - 86400 * 7))"

section \<open>Maps and sets\<close>

type_synonym num = "rat option"

definition nplus :: "num \<Rightarrow> num \<Rightarrow> num" where
  "nplus a b = (case (a, b) of (Some x, Some y) \<Rightarrow> Some (x + y) | _ \<Rightarrow> None)"

definition num_or_zero :: "num \<Rightarrow> rat" where
  "num_or_zero n = (case n of Some x \<Rightarrow> x | None \<Rightarrow> 0)"

definition map_has :: "('k \<times> 'v) list \<Rightarrow> 'k \<Rightarrow> bool" where
  "map_has m k = (map_of m k \<noteq> None)"

definition init_entry :: "'k \<Rightarrow> ('k \<times> num) list \<Rightarrow> ('k \<times> num) list" where
  "init_entry k m = (if map_has m k then m else AList.update k (Some 0) m)"

definition updateMapValue :: "('k \<times> num) list \<Rightarrow> 'k \<Rightarrow> num \<Rightarrow> ('k \<times> num) list" where
  "updateMapValue m k v = (let m' = init_entry k m in
     AList.update k (nplus (case map_of m' k of Some x \<Rightarrow> x | None \<Rightarrow> None) v) m')"

definition initializeMaps :: "'k \<Rightarrow> ('k \<times> num) list list \<Rightarrow> ('k \<times> num) list list" where
  "initializeMaps k maps = List.map (init_entry k) maps"

definition set_add :: "'a \<Rightarrow> 'a list \<Rightarrow> 'a list" where
  "set_add x xs = (if x \<in> set xs then xs else xs @ [x])"

definition js_set :: "'a list \<Rightarrow> 'a list" where
  "js_set xs = fold set_add xs []"

section \<open>Usage records and their totals\<close>

record usage =
  created_at :: rat
  model_name :: string
  quota :: num
  count :: num
  token_used :: num

definition usage_of :: "jv \<Rightarrow> usage" where
  "usage_of v = (let n = (\<lambda>k. to_num (opt_get v k)) in
     \<lparr>created_at = num_or_zero (n ''created_at''), model_name = to_str (opt_get v ''model_name''), quota = n ''quota'', count = n ''count'',
      token_used = n ''token_used''\<rparr>)"

definition time_key :: "(int \<Rightarrow> int) \<Rightarrow> string \<Rightarrow> usage \<Rightarrow> string" where
  "time_key tz mode item = timestamp2string1 tz \<lfloor>created_at item\<rfloor> mode"

record raw_result =
  totalQuota :: num
  totalTimes :: num
  totalTokens :: num
  uniqueModels :: "string list"
  timePoints :: "string list"
  timeQuotaMap :: "(string \<times> num) list"
  timeTokensMap :: "(string \<times> num) list"
  timeCountMap :: "(string \<times> num) list"

definition raw_step :: "(int \<Rightarrow> int) \<Rightarrow> string \<Rightarrow> usage \<Rightarrow> raw_result \<Rightarrow> raw_result" where
  "raw_step tz mode item r =
     (let k = time_key tz mode item;
          maps = initializeMaps k [timeQuotaMap r, timeTokensMap r, timeCountMap r] in
      \<lparr>totalQuota = nplus (totalQuota r) (quota item), totalTimes = nplus (totalTimes r) (count item),
       totalTokens = nplus (totalTokens r) (token_used item), uniqueModels = set_add (model_name item) (uniqueModels r),
       timePoints = set_add k (timePoints r),
       timeQuotaMap = updateMapValue (maps ! 0) k (quota item),
       timeTokensMap = updateMapValue (maps ! 1) k (token_used item),
       timeCountMap = updateMapValue (maps ! 2) k (count item)\<rparr>)"

definition raw_initial :: raw_result where
  "raw_initial = \<lparr>totalQuota = Some 0, totalTimes = Some 0, totalTokens = Some 0, uniqueModels = [], timePoints = [],
     timeQuotaMap = [], timeTokensMap = [], timeCountMap = []\<rparr>"

definition processRawData :: "(int \<Rightarrow> int) \<Rightarrow> usage list \<Rightarrow> string \<Rightarrow> raw_result" where
  "processRawData tz data mode = (let r = fold (raw_step tz mode) data raw_initial in r\<lparr>timePoints := sort (timePoints r)\<rparr>)"

record trend =
  trend_times :: "rat list"
  trend_consumeQuota :: "rat list"
  trend_tokens :: "rat list"
  trend_rpm :: "num list"
  trend_tpm :: "num list"

definition map_get :: "('k \<times> num) list \<Rightarrow> 'k \<Rightarrow> num" where
  "map_get m k = (case map_of m k of Some x \<Rightarrow> x | None \<Rightarrow> None)"

definition per_interval :: "nat \<Rightarrow> num \<Rightarrow> num" where
  "per_interval i n = map_option (\<lambda>x. x / of_nat i) n"

definition calculateTrendData ::
  "string list \<Rightarrow> (string \<times> num) list \<Rightarrow> (string \<times> num) list \<Rightarrow> (string \<times> num) list \<Rightarrow> string \<Rightarrow> trend" where
  "calculateTrendData points quotas tokens counts mode =
     (let rate = (\<lambda>m. if length points \<ge> 2 then List.map (\<lambda>t. per_interval (getTimeInterval mode False) (map_get m t)) points else []) in
      \<lparr>trend_times = List.map (\<lambda>t. num_or_zero (map_get counts t)) points,
       trend_consumeQuota = List.map (\<lambda>t. num_or_zero (map_get quotas t)) points,
       trend_tokens = List.map (\<lambda>t. num_or_zero (map_get tokens t)) points,
       trend_rpm = rate counts, trend_tpm = rate tokens\<rparr>)"

section \<open>Aggregation by time and model\<close>

record cell =
  cell_time :: string
  cell_model :: string
  cell_quota :: num
  cell_count :: num

definition agg_key :: "string \<Rightarrow> string \<Rightarrow> string" where
  "agg_key t m = t @ ''-'' @ m"

definition agg_step :: "(int \<Rightarrow> int) \<Rightarrow> string \<Rightarrow> usage \<Rightarrow> (string \<times> cell) list \<Rightarrow> (string \<times> cell) list" where
  "agg_step tz mode item acc =
     (let t = time_key tz mode item; m = model_name item; k = agg_key t m;
          existing = (case map_of acc k of Some c \<Rightarrow> c
            | None \<Rightarrow> \<lparr>cell_time = t, cell_model = m, cell_quota = Some 0, cell_count = Some 0\<rparr>) in
      AList.update k (existing\<lparr>cell_quota := nplus (cell_quota existing) (quota item),
        cell_count := nplus (cell_count existing) (count item)\<rparr>) acc)"

definition aggregateDataByTimeAndModel :: "(int \<Rightarrow> int) \<Rightarrow> usage list \<Rightarrow> string \<Rightarrow> (string \<times> cell) list" where
  "aggregateDataByTimeAndModel tz data mode = fold (agg_step tz mode) data []"

definition MAX_TREND_POINTS :: nat where
  "MAX_TREND_POINTS = 7"

text \<open>The callers pass at least one record.\<close>

definition last_time :: "usage list \<Rightarrow> rat" where
  "last_time data = (case data of [] \<Rightarrow> 0 | d # ds \<Rightarrow> fold (\<lambda>x m. max (created_at x) m) ds (created_at d))"

definition generateChartTimePoints :: "(int \<Rightarrow> int) \<Rightarrow> (string \<times> cell) list \<Rightarrow> usage list \<Rightarrow> string \<Rightarrow> string list" where
  "generateChartTimePoints tz aggregated data mode =
     (let points = js_set (List.map (\<lambda>p. cell_time (snd p)) aggregated) in
      if length points < MAX_TREND_POINTS
      then List.map (\<lambda>i. timestamp2string1 tz \<lfloor>last_time data - (6 - of_nat i) * of_nat (getTimeInterval mode True)\<rfloor> mode) [0..<MAX_TREND_POINTS]
      else points)"

section \<open>useDashboardCharts.jsx\<close>

record line_point =
  Time :: string
  Model :: string
  rawQuota :: rat
  Usage :: jv
  TimeSum :: rat

record chart_data =
  cd_trend :: trend
  modelColors :: "(string \<times> string) list"
  pieData :: "(string \<times> num) list"
  lineData :: "line_point list"
  modelLineData :: "(string \<times> string \<times> rat) list"
  rankData :: "(string \<times> num) list"
  consumeQuota :: num
  times :: num
  consumeTokens :: num

text \<open>The fallback to \<open>modelColors\<close> is never used: the caller passes none.\<close>

definition generateModelColors :: "string list \<Rightarrow> (string \<times> string) list \<Rightarrow> (string \<times> string) list" where
  "generateModelColors models known = List.map (\<lambda>m. (m,
     case map_of modelColorMap m of Some c \<Rightarrow> c | None \<Rightarrow> (case map_of known m of Some c \<Rightarrow> c | None \<Rightarrow> modelToColor m))) models"

definition model_totals :: "(string \<times> cell) list \<Rightarrow> (string \<times> num) list" where
  "model_totals aggregated = fold (\<lambda>p m. updateMapValue m (cell_model (snd p)) (cell_count (snd p))) aggregated []"

definition cell_at :: "(string \<times> cell) list \<Rightarrow> string \<Rightarrow> string \<Rightarrow> cell option" where
  "cell_at aggregated t m = map_of aggregated (agg_key t m)"

definition raw_quota :: "(string \<times> cell) list \<Rightarrow> string \<Rightarrow> string \<Rightarrow> rat" where
  "raw_quota aggregated t m = (case cell_at aggregated t m of Some c \<Rightarrow> num_or_zero (cell_quota c) | None \<Rightarrow> 0)"

definition raw_count :: "(string \<times> cell) list \<Rightarrow> string \<Rightarrow> string \<Rightarrow> rat" where
  "raw_count aggregated t m = (case cell_at aggregated t m of Some c \<Rightarrow> num_or_zero (cell_count c) | None \<Rightarrow> 0)"

definition time_data :: "'x browser_scheme \<Rightarrow> (string \<times> cell) list \<Rightarrow> string list \<Rightarrow> string \<Rightarrow> line_point list" where
  "time_data s aggregated models t =
     (let total = (\<Sum>m\<leftarrow>models. raw_quota aggregated t m) in
      List.map (\<lambda>m. let q = raw_quota aggregated t m in
        \<lparr>Time = t, Model = m, rawQuota = q, Usage = (if q \<noteq> 0 then JStr (getQuotaWithUnit (Fin q) 4 s) else JNum 0), TimeSum = total\<rparr>)
        (sort_key (\<lambda>m. - raw_quota aggregated t m) models))"

definition descending :: "(string \<times> num) list \<Rightarrow> (string \<times> num) list" where
  "descending = sort_key (\<lambda>p. - num_or_zero (snd p))"

definition updateChartData :: "(int \<Rightarrow> int) \<Rightarrow> (string \<Rightarrow> rat) \<Rightarrow> 'x browser_scheme \<Rightarrow> string \<Rightarrow> usage list \<Rightarrow> chart_data" where
  "updateChartData tz collate s mode data =
     (let r = processRawData tz data mode; aggregated = aggregateDataByTimeAndModel tz data mode;
          points = generateChartTimePoints tz aggregated data mode in
      \<lparr>cd_trend = calculateTrendData (timePoints r) (timeQuotaMap r) (timeTokensMap r) (timeCountMap r) mode,
       modelColors = generateModelColors (uniqueModels r) [],
       pieData = descending (model_totals aggregated),
       lineData = sort_key (\<lambda>p. collate (Time p)) (concat (List.map (time_data s aggregated (uniqueModels r)) points)),
       modelLineData = sort_key (\<lambda>p. collate (fst p))
         (concat (List.map (\<lambda>t. List.map (\<lambda>m. (t, m, raw_count aggregated t m)) (uniqueModels r)) points)),
       rankData = descending (model_totals aggregated),
       consumeQuota = totalQuota r, times = totalTimes r, consumeTokens = totalTokens r\<rparr>)"

text \<open>The tooltip of a point in time: its entries by quota, each shown in the currency, and the sum of the point above them.\<close>

definition tooltip_sum :: "(string \<times> rat \<times> rat) list \<Rightarrow> rat" where
  "tooltip_sum entries = fold (\<lambda>(key, value, total) sum. if key = ''others'' then sum else if total \<noteq> 0 then total else sum) entries 0"

definition updateContent :: "'x browser_scheme \<Rightarrow> (string \<times> rat \<times> rat) list \<Rightarrow> (string \<times> jv) list" where
  "updateContent s entries =
     (let es = sort_key (\<lambda>(key, value, total). - value) entries in
      (''total'', renderQuota (JNum (tooltip_sum es)) 4 s)
      # List.map (\<lambda>(key, value, total). (key, if key = ''others'' then JNum value else renderQuota (JNum value) 4 s)) es)"

section \<open>useDashboardData.js\<close>

record dashboard = browser +
  dash_loading :: bool
  searchModalVisible :: bool
  dash_inputs :: jv
  dataExportDefaultTime :: string
  quotaData :: jv
  charts :: "chart_data option"
  uptimeData :: jv
  uptimeLoading :: bool
  activeUptimeTab :: jv

type_synonym 'a dash_act = "(dashboard, 'a) act"

definition dash_field :: "dashboard \<Rightarrow> string \<Rightarrow> string" where
  "dash_field s k = to_str (opt_get (dash_inputs s) k)"

definition initial_inputs :: "(int \<Rightarrow> int) \<Rightarrow> int \<Rightarrow> 'x browser_scheme \<Rightarrow> jv" where
  "initial_inputs tz now s = JObj
     [(''username'', JStr []), (''token_name'', JStr []), (''model_name'', JStr []), (''start_timestamp'', JStr (getInitialTimestamp tz now s)),
      (''end_timestamp'', JStr (timestamp2string tz (now + 3600))), (''channel'', JStr []), (''data_export_default_time'', JStr [])]"

definition dash_handleInputChange :: "jv \<Rightarrow> string \<Rightarrow> unit dash_act" where
  "dash_handleInputChange value name =
     (if name = ''data_export_default_time''
      then sq (modify (\<lambda>s. s\<lparr>dataExportDefaultTime := to_str value\<rparr>)) (set_item ''data_export_default_time'' value)
      else modify (\<lambda>s. s\<lparr>dash_inputs := obj_set (dash_inputs s) name value\<rparr>))"

definition seconds_text :: "rat option \<Rightarrow> string" where
  "seconds_text ms = (case ms of Some m \<Rightarrow> num_str (m / 1000) | None \<Rightarrow> ''NaN'')"

definition data_url :: "(string \<Rightarrow> rat option) \<Rightarrow> bool \<Rightarrow> dashboard \<Rightarrow> string" where
  "data_url date_parse isAdminUser s =
     (let span = ''start_timestamp='' @ seconds_text (date_parse (dash_field s ''start_timestamp'')) @ ''&end_timestamp=''
            @ seconds_text (date_parse (dash_field s ''end_timestamp'')) @ ''&default_time='' @ dataExportDefaultTime s in
      if isAdminUser then ''/api/data/?username='' @ dash_field s ''username'' @ ''&'' @ span else ''/api/data/self/?'' @ span)"

definition empty_usage :: "rat \<Rightarrow> jv" where
  "empty_usage now = JObj [(''count'', JNum 0), (''model_name'', JStr ''no data''), (''quota'', JNum 0), (''created_at'', JNum now)]"

text \<open>
  \<open>setQuotaData(data)\<close> and the changes made to the same array afterwards: what the state holds is the sorted array.
  \<open>now\<close> is the time of the render in seconds.
\<close>

definition loaded_items :: "rat \<Rightarrow> jv list \<Rightarrow> jv list" where
  "loaded_items now items = sort_key (\<lambda>v. num_or_zero (to_num (opt_get v ''created_at''))) (if items = [] then [empty_usage now] else items)"

definition loadQuotaData :: "env \<Rightarrow> (string \<Rightarrow> rat option) \<Rightarrow> bool \<Rightarrow> rat \<Rightarrow> jv list dash_act" where
  "loadQuotaData env date_parse isAdminUser now =
     sq (modify (\<lambda>s. s\<lparr>dash_loading := True\<rparr>))
    (try_finally
      (bnd (gets (data_url date_parse isAdminUser)) (\<lambda>url.
       bnd (bnd (api_get env url JUndef) destruct) (\<lambda>(success, message, data).
         if truthy success
         then (case data of
             JArr items \<Rightarrow> sq (modify (\<lambda>s. s\<lparr>quotaData := JArr (loaded_items now items)\<rparr>)) (ret (loaded_items now items))
           | _ \<Rightarrow> sq (modify (\<lambda>s. s\<lparr>quotaData := data\<rparr>)) (throw type_error))
         else sq (showError message) (ret []))))
      (modify (\<lambda>s. s\<lparr>dash_loading := False\<rparr>)))"

definition loadUptimeData :: "env \<Rightarrow> unit dash_act" where
  "loadUptimeData env =
     sq (modify (\<lambda>s. s\<lparr>uptimeLoading := True\<rparr>))
    (try_finally
      (try_catch
        (bnd (gets activeUptimeTab) (\<lambda>tab.
         bnd (bnd (api_get env ''/api/uptime/status'' JUndef) destruct) (\<lambda>(success, message, data).
           if truthy success
           then sq (modify (\<lambda>s. s\<lparr>uptimeData := jor data (JArr [])\<rparr>))
               (case data of JArr (d # ds) \<Rightarrow> act_when (\<not> truthy tab)
                    (bnd (prop_get d ''categoryName'') (\<lambda>c. modify (\<lambda>s. s\<lparr>activeUptimeTab := c\<rparr>)))
                  | _ \<Rightarrow> ret ())
           else showError message)))
        (\<lambda>_. ret ()))
      (modify (\<lambda>s. s\<lparr>uptimeLoading := False\<rparr>)))"

definition dash_getUserData :: "env \<Rightarrow> unit dash_act" where
  "dash_getUserData env = bnd (bnd (api_get env ''/api/user/self'' JUndef) destruct) (\<lambda>(success, message, data).
     if truthy success then userDispatch ''login'' data else showError message)"

definition dash_refresh :: "env \<Rightarrow> (string \<Rightarrow> rat option) \<Rightarrow> bool \<Rightarrow> rat \<Rightarrow> jv list dash_act" where
  "dash_refresh env date_parse isAdminUser now =
     bnd (loadQuotaData env date_parse isAdminUser now) (\<lambda>data. sq (loadUptimeData env) (ret data))"

definition handleSearchConfirm ::
  "env \<Rightarrow> (int \<Rightarrow> int) \<Rightarrow> (string \<Rightarrow> rat option) \<Rightarrow> (string \<Rightarrow> rat) \<Rightarrow> bool \<Rightarrow> rat \<Rightarrow> unit dash_act" where
  "handleSearchConfirm env tz date_parse collate isAdminUser now =
     bnd (dash_refresh env date_parse isAdminUser now) (\<lambda>data.
     sq (act_when (data \<noteq> [])
          (modify (\<lambda>s. s\<lparr>charts := Some (updateChartData tz collate s (dataExportDefaultTime s) (List.map usage_of data))\<rparr>)))
        (modify (\<lambda>s. s\<lparr>searchModalVisible := False\<rparr>)))"

definition showSearchModal :: "dashboard \<Rightarrow> dashboard" where
  "showSearchModal s = s\<lparr>searchModalVisible := True\<rparr>"

definition handleCloseModal :: "dashboard \<Rightarrow> dashboard" where
  "handleCloseModal s = s\<lparr>searchModalVisible := False\<rparr>"

text \<open>Calls and tokens per minute of the chosen span.\<close>

definition per_minute :: "num \<Rightarrow> rat option \<Rightarrow> string" where
  "per_minute n minutes = (case (n, minutes) of
       (Some x, Some m) \<Rightarrow> (case js_div (Fin x) (Fin m) of NaN \<Rightarrow> ''0'' | q \<Rightarrow> fixed_num 3 q)
     | _ \<Rightarrow> ''0'')"

definition performanceMetrics :: "(string \<Rightarrow> rat option) \<Rightarrow> num \<Rightarrow> num \<Rightarrow> dashboard \<Rightarrow> string \<times> string" where
  "performanceMetrics date_parse calls tokens s =
     (let minutes = (case (date_parse (dash_field s ''end_timestamp''), date_parse (dash_field s ''start_timestamp'')) of
            (Some e, Some b) \<Rightarrow> Some ((e - b) / 60000) | _ \<Rightarrow> None) in
      (per_minute calls minutes, per_minute tokens minutes))"

definition getGreeting :: "int \<Rightarrow> dashboard \<Rightarrow> string" where
  "getGreeting hours s =
     (let greeting = (if hours \<ge> 5 \<and> hours < 12 then ''good morning'' else if hours \<ge> 12 \<and> hours < 14 then ''good noon''
            else if hours \<ge> 14 \<and> hours < 18 then ''good afternoon'' else ''good evening'') in
      greeting @ '', '' @ to_str (jor (opt_get (user_ctx s) ''username'') (JStr [])))"

definition panel_enabled :: "dashboard \<Rightarrow> string \<Rightarrow> bool" where
  "panel_enabled s k = truthy (jcoalesce (opt_get (status_ctx s) k) (JBool True))"

definition hasInfoPanels :: "dashboard \<Rightarrow> bool" where
  "hasInfoPanels s = (panel_enabled s ''announcements_enabled'' \<or> panel_enabled s ''faq_enabled'' \<or> panel_enabled s ''uptime_kuma_enabled'')"

section \<open>useDashboardStats.jsx\<close>

text \<open>The eight figures, in their order.\<close>

definition groupedStatsData :: "num \<Rightarrow> num \<Rightarrow> num \<Rightarrow> string \<times> string \<Rightarrow> (rat \<Rightarrow> string) \<Rightarrow> dashboard \<Rightarrow> (string \<times> jv) list" where
  "groupedStatsData q n tokens metrics locale_text s =
     [(''current balance'', renderQuota (opt_get (user_ctx s) ''quota'') 2 s),
      (''used so far'', renderQuota (opt_get (user_ctx s) ''used_quota'') 2 s),
      (''requests'', opt_get (user_ctx s) ''request_count''),
      (''counted requests'', case n of Some x \<Rightarrow> JNum x | None \<Rightarrow> JNaN),
      (''counted quota'', renderQuota (case q of Some x \<Rightarrow> JNum x | None \<Rightarrow> JNaN) 2 s),
      (''counted tokens'', case tokens of Some x \<Rightarrow> JStr (locale_text x) | None \<Rightarrow> JNum 0),
      (''average RPM'', JStr (fst metrics)), (''average TPM'', JStr (snd metrics))]"

section \<open>The panels of helpers/dashboard.jsx\<close>

definition uptime_status_map :: "(int \<times> string \<times> string) list" where
  "uptime_status_map = [(1, ''#10b981'', ''available''), (0, ''#ef4444'', ''abnormal''), (2, ''#f59e0b'', ''high latency''),
     (3, ''#3b82f6'', ''in maintenance'')]"

definition getUptimeStatusColor :: "int \<Rightarrow> string" where
  "getUptimeStatusColor code = (case map_of uptime_status_map code of Some (c, t) \<Rightarrow> c | None \<Rightarrow> ''#8b9aa7'')"

definition getUptimeStatusText :: "int \<Rightarrow> string" where
  "getUptimeStatusText code = (case map_of uptime_status_map code of Some (c, t) \<Rightarrow> t | None \<Rightarrow> ''unknown'')"

record monitor =
  mon_group :: string
  mon_name :: string
  mon_status :: int
  mon_uptime :: "rat option"

definition add_monitor :: "monitor \<Rightarrow> (string \<times> monitor list) list \<Rightarrow> (string \<times> monitor list) list" where
  "add_monitor m acc = AList.update (mon_group m) ((case map_of acc (mon_group m) of Some l \<Rightarrow> l | None \<Rightarrow> []) @ [m]) acc"

text \<open>Groups in the order of their first monitor (names that are array indexes would come first); an entry shows name, percentage, text and colour. No monitors: the empty panel.\<close>

definition renderMonitorList :: "monitor list \<Rightarrow> (string \<times> (string \<times> string \<times> string \<times> string) list) list" where
  "renderMonitorList monitors = List.map (\<lambda>(g, ms). (g, List.map (\<lambda>m.
       (mon_name m, fixed_rat 2 ((case mon_uptime m of Some u \<Rightarrow> u | None \<Rightarrow> 0) * 100) @ ''%'',
        getUptimeStatusText (mon_status m), getUptimeStatusColor (mon_status m))) ms)) (fold add_monitor monitors [])"

definition handleCopyUrl :: "env \<Rightarrow> (string \<Rightarrow> bool dash_act) \<Rightarrow> string \<Rightarrow> unit dash_act" where
  "handleCopyUrl env copy_text url = bnd (copy_text url) (\<lambda>ok. act_when ok (showSuccess (JStr ''copied'')))"

definition handleSpeedTest :: "(string \<Rightarrow> string) \<Rightarrow> string \<Rightarrow> unit dash_act" where
  "handleSpeedTest encodeURIComponent apiUrl = emit (Opened (''https://www.tcptest.cn/http/'' @ encodeURIComponent apiUrl))"

section \<open>Reference: grouping\<close>

definition nsum :: "num list \<Rightarrow> num" where
  "nsum ns = fold (\<lambda>n acc. nplus acc n) ns (Some 0)"

text \<open>The values of the records by key, in the order in which the keys occur first.\<close>

definition group_sum :: "('a \<Rightarrow> 'k) \<Rightarrow> ('a \<Rightarrow> num) \<Rightarrow> 'a list \<Rightarrow> ('k \<times> num) list" where
  "group_sum key val xs = List.map (\<lambda>k. (k, nsum (List.map val (filter (\<lambda>x. key x = k) xs)))) (js_set (List.map key xs))"

lemma js_set_snoc [simp]: "js_set (xs @ [x]) = set_add x (js_set xs)"
  by (simp add: js_set_def)

lemma js_set_Nil [simp]: "js_set [] = []"
  by (simp add: js_set_def)

lemma set_js_set [simp]: "set (js_set xs) = set xs"
  by (induction xs rule: rev_induct) (auto simp: set_add_def)

lemma distinct_js_set [simp]: "distinct (js_set xs)"
  by (induction xs rule: rev_induct) (simp_all add: set_add_def)

lemma nsum_snoc [simp]: "nsum (xs @ [x]) = nplus (nsum xs) x"
  by (simp add: nsum_def)

lemma nsum_Nil [simp]: "nsum [] = Some 0"
  by (simp add: nsum_def)

lemma update_map_entries:
  "distinct ks \<Longrightarrow> AList.update k v (List.map (\<lambda>k. (k, f k)) ks) = List.map (\<lambda>j. (j, if j = k then v else f j)) (set_add k ks)"
  by (induction ks) (auto simp: set_add_def)

lemma map_of_entries: "map_of (List.map (\<lambda>k. (k, f k)) ks) k = (if k \<in> set ks then Some (f k) else None)"
  by (induction ks) auto

lemma init_entries:
  "distinct ks \<Longrightarrow> init_entry k (List.map (\<lambda>k. (k, f k)) ks) = List.map (\<lambda>j. (j, if j \<in> set ks then f j else Some 0)) (set_add k ks)"
  by (auto simp: init_entry_def map_has_def map_of_entries update_map_entries set_add_def)

lemma set_add_absorb: "k \<in> set xs \<Longrightarrow> set_add k xs = xs"
  by (simp add: set_add_def)

lemma update_entries:
  "distinct ks \<Longrightarrow> updateMapValue (List.map (\<lambda>k. (k, f k)) ks) k v =
    List.map (\<lambda>j. (j, if j = k then nplus (if k \<in> set ks then f k else Some 0) v else f j)) (set_add k ks)"
proof -
  assume d: "distinct ks"
  have d': "distinct (set_add k ks)" using d by (simp add: set_add_def)
  have "k \<in> set (set_add k ks)" by (simp add: set_add_def)
  then show ?thesis unfolding updateMapValue_def init_entries[OF d] Let_def
    by (auto simp: update_map_entries[OF d'] map_of_entries set_add_absorb) (auto simp: set_add_def split: if_splits)
qed

lemma no_such: "k \<notin> f ` set xs \<Longrightarrow> filter (\<lambda>x. f x = k) xs = []"
  by (induction xs) auto

lemma nsum_one: "nsum [x] = nplus (Some 0) x"
  by (simp add: nsum_def)

text \<open>Adding a value under its key extends the grouping; creating the key first makes no difference.\<close>

lemma group_sum_snoc: "updateMapValue (group_sum key val xs) (key x) (val x) = group_sum key val (xs @ [x])"
proof -
  have e: "filter (\<lambda>y. key y = k) xs = []" if "k \<notin> key ` set xs" for k using that by (auto simp: filter_empty_conv)
  show ?thesis unfolding group_sum_def update_entries[OF distinct_js_set] by (auto simp: e nsum_one)
qed

lemma update_after_init: "updateMapValue (init_entry k (List.map (\<lambda>k. (k, f k)) (js_set xs))) k v = updateMapValue (List.map (\<lambda>k. (k, f k)) (js_set xs)) k v"
proof -
  have d: "distinct (set_add k (js_set xs))" by (simp add: set_add_def)
  show ?thesis unfolding init_entries[OF distinct_js_set] update_entries[OF d] update_entries[OF distinct_js_set]
    by (auto simp: set_add_absorb set_add_def)
qed

lemma group_step: "updateMapValue (init_entry (key x) (group_sum key val xs)) (key x) (val x) = group_sum key val (xs @ [x])"
  unfolding group_sum_snoc[symmetric] by (simp add: group_sum_def update_after_init)

definition usage_totals :: "(int \<Rightarrow> int) \<Rightarrow> usage list \<Rightarrow> string \<Rightarrow> raw_result" where
  "usage_totals tz data mode =
     (let by_time = (\<lambda>val. group_sum (time_key tz mode) val data) in
      \<lparr>totalQuota = nsum (List.map quota data), totalTimes = nsum (List.map count data), totalTokens = nsum (List.map token_used data),
       uniqueModels = js_set (List.map model_name data), timePoints = js_set (List.map (time_key tz mode) data),
       timeQuotaMap = by_time quota, timeTokensMap = by_time token_used, timeCountMap = by_time count\<rparr>)"

lemma raw_fold: "fold (raw_step tz mode) data raw_initial = usage_totals tz data mode"
proof (induction data rule: rev_induct)
  case Nil
  then show ?case by (simp add: raw_initial_def usage_totals_def group_sum_def)
next
  case (snoc x data)
  then show ?case by (simp add: raw_step_def usage_totals_def initializeMaps_def group_step Let_def)
qed

section \<open>Reference: one cell for each time and model\<close>

text \<open>The keys of points in time all have the same length, so that the texts they are joined into determine time and model.\<close>

lemma div_bounds: "k * (x div k) \<le> x" "x < k * (x div k) + k" if "0 < k" for k x :: int
proof -
  have "k * (x div k) + x mod k = x" "0 \<le> x mod k" "x mod k < k" using that by simp_all
  then show "k * (x div k) \<le> x" "x < k * (x div k) + k" by linarith+
qed

lemma civil_bounds:
  fixes doe A B C yoe q h doy mp w d :: int
  assumes "0 \<le> doe" "doe < 146097" "1460 * A \<le> doe" "doe < 1460 * A + 1460" "36524 * B \<le> doe" "doe < 36524 * B + 36524"
    and "146096 * C \<le> doe" "doe < 146096 * C + 146096" "365 * yoe \<le> doe - A + B - C" "doe - A + B - C < 365 * yoe + 365"
    and "4 * q \<le> yoe" "yoe < 4 * q + 4" "100 * h \<le> yoe" "yoe < 100 * h + 100" "doy = doe - (365 * yoe + q - h)"
    and "153 * mp \<le> 5 * doy + 2" "5 * doy + 2 < 153 * mp + 153" "5 * w \<le> 153 * mp + 2" "153 * mp + 2 < 5 * w + 5" "d = doy - w + 1"
  shows "-1 \<le> mp" "mp \<le> 23" "0 \<le> d" "d < 100"
proof -
  have B: "0 \<le> B" "B \<le> 4" using assms(1,2,5,6) by linarith+
  have C: "0 \<le> C" "C \<le> 1" using assms(1,2,7,8) by linarith+
  have A: "0 \<le> A" "A \<le> 100" using assms(1-4) by linarith+
  have y: "-1 \<le> yoe" "yoe \<le> 401" using assms(1,2,9,10) A B C by linarith+
  have h: "-1 \<le> h" "h \<le> 4" using y assms(13,14) by linarith+
  have "1460 * q \<le> 1459 * A + 1463" using assms(3,4,9,11) B C by linarith
  then have qA: "q \<le> A + 1" using A by linarith
  have lo: "-7 \<le> doy" using assms(9,15) qA h B C by linarith
  have hi: "doy \<le> 700" using assms(10,12,15) A B C h y by linarith
  show "-1 \<le> mp" "mp \<le> 23" using lo hi assms(16,17) by linarith+
  show "0 \<le> d" "d < 100" using assms(16-20) by linarith+
qed

lemma civil_fields:
  assumes "civil z = (y, m, d)"
  shows "0 \<le> m \<and> m < 100 \<and> 0 \<le> d \<and> d < 100"
proof -
  define doe where "doe = (z + 719468) mod 146097"
  define yoe where "yoe = (doe - doe div 1460 + doe div 36524 - doe div 146096) div 365"
  define doy where "doy = doe - (365 * yoe + yoe div 4 - yoe div 100)"
  define mp where "mp = (5 * doy + 2) div 153"
  have e: "m = (if mp < 10 then mp + 3 else mp - 9)" "d = doy - (153 * mp + 2) div 5 + 1"
    using assms unfolding civil_def Let_def prod.inject mp_def doy_def yoe_def doe_def by (elim conjE, simp only:)+
  have doe: "0 \<le> doe" "doe < 146097" by (simp_all add: doe_def)
  note b = civil_bounds[of doe "doe div 1460" "doe div 36524" "doe div 146096" yoe "yoe div 4" "yoe div 100" doy mp "(153 * mp + 2) div 5" d,
      OF doe div_bounds[of 1460] div_bounds[of 36524] div_bounds[of 146096] _ _ div_bounds[of 4] div_bounds[of 100] doy_def]
  have y: "365 * yoe \<le> doe - doe div 1460 + doe div 36524 - doe div 146096"
      "doe - doe div 1460 + doe div 36524 - doe div 146096 < 365 * yoe + 365"
    unfolding yoe_def by (rule div_bounds; simp)+
  have m: "153 * mp \<le> 5 * doy + 2" "5 * doy + 2 < 153 * mp + 153" unfolding mp_def by (rule div_bounds; simp)+
  have "-1 \<le> mp" "mp \<le> 23" "0 \<le> d" "d < 100"
    using b[OF _ _ _ _ _ _ y _ _ _ _ m div_bounds[of 5] e(2)] by simp_all
  then show ?thesis unfolding e(1) by auto
qed

lemma two_digits_length: "0 \<le> n \<Longrightarrow> n < 100 \<Longrightarrow> length (two_digits (int_str n)) = 2"
proof -
  assume n: "0 \<le> n" "n < 100"
  then have "length (nat_digits (nat n)) \<le> 2" by (intro nat_digits_length) auto
  moreover have "length (nat_digits (nat n)) \<noteq> 0" by simp
  ultimately have "length (nat_digits (nat n)) = 1 \<or> length (nat_digits (nat n)) = 2" by linarith
  then show ?thesis using n by (auto simp: two_digits_def int_str_def)
qed

lemma date_fields:
  "length (two_digits (int_str (getMonth (new_Date tz ms) + 1))) = 2" "length (two_digits (int_str (getDate (new_Date tz ms)))) = 2"
  "length (two_digits (int_str (getHours (new_Date tz ms)))) = 2"
proof -
  obtain y m d where c: "civil ((ms + tz ms) div 1000 div 86400) = (y, m, d)" by (cases "civil ((ms + tz ms) div 1000 div 86400)")
  from civil_fields[OF c] c
  show "length (two_digits (int_str (getMonth (new_Date tz ms) + 1))) = 2" "length (two_digits (int_str (getDate (new_Date tz ms)))) = 2"
    by (simp_all add: new_Date_def Let_def two_digits_length)
  have "0 \<le> (ms + tz ms) div 1000 mod 86400" "(ms + tz ms) div 1000 mod 86400 < 86400" by simp_all
  then have "0 \<le> (ms + tz ms) div 1000 mod 86400 div 3600" "(ms + tz ms) div 1000 mod 86400 div 3600 < 100" by linarith+
  with c show "length (two_digits (int_str (getHours (new_Date tz ms)))) = 2" by (simp add: new_Date_def Let_def two_digits_length)
qed

lemma key_length: "length (timestamp2string1 tz ts mode) = (if mode = ''hour'' then 11 else if mode = ''week'' then 13 else 5)"
  by (simp add: timestamp2string1_def date_fields Let_def)

definition cell_key :: "(int \<Rightarrow> int) \<Rightarrow> string \<Rightarrow> usage \<Rightarrow> string \<times> string" where
  "cell_key tz mode x = (time_key tz mode x, model_name x)"

lemma agg_key_inj: "length t = length t' \<Longrightarrow> agg_key t m = agg_key t' m' \<longleftrightarrow> t = t' \<and> m = m'"
  by (auto simp: agg_key_def)

definition cells :: "(int \<Rightarrow> int) \<Rightarrow> usage list \<Rightarrow> string \<Rightarrow> (string \<times> cell) list" where
  "cells tz data mode = List.map (\<lambda>p. (agg_key (fst p) (snd p),
     let own = filter (\<lambda>x. cell_key tz mode x = p) data in
     \<lparr>cell_time = fst p, cell_model = snd p, cell_quota = nsum (List.map quota own), cell_count = nsum (List.map count own)\<rparr>))
     (js_set (List.map (cell_key tz mode) data))"

lemma update_keyed:
  "distinct ks \<Longrightarrow> (\<And>j. j \<in> set ks \<Longrightarrow> g j = g k \<Longrightarrow> j = k) \<Longrightarrow>
    AList.update (g k) v (List.map (\<lambda>k. (g k, f k)) ks) = List.map (\<lambda>j. (g j, if j = k then v else f j)) (set_add k ks)"
  by (induction ks) (auto simp: set_add_def)

lemma map_of_keyed:
  "(\<And>j. j \<in> set ks \<Longrightarrow> g j = g k \<Longrightarrow> j = k) \<Longrightarrow> map_of (List.map (\<lambda>k. (g k, f k)) ks) (g k) = (if k \<in> set ks then Some (f k) else None)"
  by (induction ks) force+

lemma agg_fold: "aggregateDataByTimeAndModel tz data mode = cells tz data mode"
proof (induction data rule: rev_induct)
  case Nil
  then show ?case by (simp add: aggregateDataByTimeAndModel_def cells_def)
next
  case (snoc x data)
  let ?k = "cell_key tz mode x" and ?g = "\<lambda>p. agg_key (fst p) (snd p)" and ?ks = "js_set (List.map (cell_key tz mode) data)"
  let ?f = "\<lambda>p. let own = filter (\<lambda>x. cell_key tz mode x = p) data in
     \<lparr>cell_time = fst p, cell_model = snd p, cell_quota = nsum (List.map quota own), cell_count = nsum (List.map count own)\<rparr>"
  have inj: "j = ?k" if "j \<in> set ?ks" "?g j = ?g ?k" for j
    using that agg_key_inj[of "fst j" "fst ?k" "snd j" "snd ?k"] by (auto simp: cell_key_def time_key_def key_length)
  have e: "filter (\<lambda>y. cell_key tz mode y = ?k) data = []" if "?k \<notin> cell_key tz mode ` set data"
    using that by (rule no_such)
  have "aggregateDataByTimeAndModel tz (data @ [x]) mode = agg_step tz mode x (List.map (\<lambda>p. (?g p, ?f p)) ?ks)"
    using snoc unfolding aggregateDataByTimeAndModel_def cells_def by simp
  also have "\<dots> = List.map (\<lambda>j. (?g j, if j = ?k then (let c = (if ?k \<in> set ?ks then ?f ?k else
        \<lparr>cell_time = fst ?k, cell_model = snd ?k, cell_quota = Some 0, cell_count = Some 0\<rparr>) in
        c\<lparr>cell_quota := nplus (cell_quota c) (quota x), cell_count := nplus (cell_count c) (count x)\<rparr>) else ?f j)) (set_add ?k ?ks)"
    using map_of_keyed[of ?ks ?g ?k ?f, OF inj] update_keyed[of ?ks ?g ?k _ ?f, OF distinct_js_set inj]
    by (simp add: agg_step_def Let_def cell_key_def)
  also have "\<dots> = cells tz (data @ [x]) mode"
    unfolding cells_def by (auto simp: Let_def e nsum_one)
  finally show ?case .
qed

section \<open>Sums over the charts\<close>

lemma nsum_total: "list_all (\<lambda>n. n \<noteq> None) ns \<Longrightarrow> nsum ns = Some (\<Sum>n\<leftarrow>ns. num_or_zero n)"
  by (induction ns rule: rev_induct) (auto simp: nplus_def num_or_zero_def)

lemma sum_sorted: "(\<Sum>x\<leftarrow>sort_key g xs. f x) = (\<Sum>x\<leftarrow>xs. f x)" for f :: "'a \<Rightarrow> rat"
  by (metis mset_map mset_sort sum_mset_sum_list)

lemma sum_by_key:
  fixes v :: "'a \<Rightarrow> rat"
  assumes "distinct ks" and "key ` set xs \<subseteq> set ks"
  shows "(\<Sum>k\<leftarrow>ks. \<Sum>x\<leftarrow>filter (\<lambda>x. key x = k) xs. v x) = (\<Sum>x\<leftarrow>xs. v x)"
  using assms(2)
proof (induction xs)
  case (Cons x xs)
  have "(\<Sum>k\<leftarrow>ks. \<Sum>y\<leftarrow>filter (\<lambda>y. key y = k) (x # xs). v y) =
      (\<Sum>k\<leftarrow>ks. (if key x = k then v x else 0) + (\<Sum>y\<leftarrow>filter (\<lambda>y. key y = k) xs. v y))"
    by (intro arg_cong[where f = sum_list] map_cong refl) simp
  also have "\<dots> = (\<Sum>k\<leftarrow>ks. if key x = k then v x else 0) + (\<Sum>y\<leftarrow>xs. v y)"
    using Cons by (simp add: sum_list_addf)
  also have "(\<Sum>k\<leftarrow>ks. if key x = k then v x else 0) = v x"
    using Cons.prems assms(1) by (simp add: sum_list_distinct_conv_sum_set)
  finally show ?case by simp
qed simp

lemma quota_cell:
  assumes "length t = length (timestamp2string1 tz 0 mode)"
  shows "raw_quota (cells tz data mode) t m = num_or_zero (nsum (List.map quota (filter (\<lambda>x. cell_key tz mode x = (t, m)) data)))"
    and "raw_count (cells tz data mode) t m = num_or_zero (nsum (List.map count (filter (\<lambda>x. cell_key tz mode x = (t, m)) data)))"
proof -
  let ?g = "\<lambda>p. agg_key (fst p) (snd p)" and ?ks = "js_set (List.map (cell_key tz mode) data)"
  let ?f = "\<lambda>p. let own = filter (\<lambda>x. cell_key tz mode x = p) data in
     \<lparr>cell_time = fst p, cell_model = snd p, cell_quota = nsum (List.map quota own), cell_count = nsum (List.map count own)\<rparr>"
  have inj: "j = (t, m)" if "j \<in> set ?ks" "?g j = ?g (t, m)" for j
    using that agg_key_inj[of "fst j" t "snd j" m] assms by (auto simp: cell_key_def time_key_def key_length)
  have e: "filter (\<lambda>y. cell_key tz mode y = (t, m)) data = []" if "(t, m) \<notin> cell_key tz mode ` set data"
    using that by (rule no_such)
  have "cell_at (cells tz data mode) t m = (if (t, m) \<in> set ?ks then Some (let own = filter (\<lambda>x. cell_key tz mode x = (t, m)) data in
     \<lparr>cell_time = t, cell_model = m, cell_quota = nsum (List.map quota own), cell_count = nsum (List.map count own)\<rparr>) else None)"
    unfolding cell_at_def cells_def using map_of_keyed[of ?ks ?g "(t, m)" ?f, OF inj] by simp
  then show "raw_quota (cells tz data mode) t m = num_or_zero (nsum (List.map quota (filter (\<lambda>x. cell_key tz mode x = (t, m)) data)))"
    "raw_count (cells tz data mode) t m = num_or_zero (nsum (List.map count (filter (\<lambda>x. cell_key tz mode x = (t, m)) data)))"
    by (auto simp: raw_quota_def raw_count_def Let_def e num_or_zero_def)
qed

lemma nsum_values:
  "list_all (\<lambda>x. v x \<noteq> None) xs \<Longrightarrow> num_or_zero (nsum (List.map v (filter P xs))) = (\<Sum>x\<leftarrow>filter P xs. num_or_zero (v x))"
  using nsum_total[of "List.map v (filter P xs)"] by (auto simp: list_all_iff comp_def num_or_zero_def)

text \<open>Over all points and models the cells add up to the records, when every record's point is among the points.\<close>

lemma sum_of_cells:
  fixes val :: "usage \<Rightarrow> num"
  assumes "list_all (\<lambda>x. val x \<noteq> None) data" and "distinct points" and "set (List.map (time_key tz mode) data) \<subseteq> set points"
  shows "(\<Sum>t\<leftarrow>points. \<Sum>m\<leftarrow>js_set (List.map model_name data). num_or_zero (nsum (List.map val (filter (\<lambda>x. cell_key tz mode x = (t, m)) data))))
    = (\<Sum>x\<leftarrow>data. num_or_zero (val x))"
proof -
  have "(\<Sum>m\<leftarrow>js_set (List.map model_name data). num_or_zero (nsum (List.map val (filter (\<lambda>x. cell_key tz mode x = (t, m)) data)))) =
      (\<Sum>x\<leftarrow>filter (\<lambda>x. time_key tz mode x = t) data. num_or_zero (val x))" for t
  proof -
    have "filter (\<lambda>x. cell_key tz mode x = (t, m)) data = filter (\<lambda>x. model_name x = m) (filter (\<lambda>x. time_key tz mode x = t) data)" for m
      by (auto simp: cell_key_def intro!: filter_cong)
    then show ?thesis
      using sum_by_key[of "js_set (List.map model_name data)" model_name "filter (\<lambda>x. time_key tz mode x = t) data" "\<lambda>x. num_or_zero (val x)"]
        nsum_values[OF assms(1)] by (auto simp: cell_key_def conj_commute)
  qed
  then show ?thesis
    using sum_by_key[of points "time_key tz mode" data "\<lambda>x. num_or_zero (val x)"] assms(2,3) by simp
qed

lemma cells_times: "set (List.map (\<lambda>p. cell_time (snd p)) (cells tz data mode)) = set (List.map (time_key tz mode) data)"
  by (auto simp: cells_def cell_key_def image_image Let_def)

lemma same_size: "set xs = set ys \<Longrightarrow> length (js_set xs) = length (js_set ys)"
  by (metis distinct_card distinct_js_set set_js_set)

lemma points_kept:
  assumes "7 \<le> length (js_set (List.map (time_key tz mode) data))"
  shows "generateChartTimePoints tz (cells tz data mode) data mode = js_set (List.map (\<lambda>p. cell_time (snd p)) (cells tz data mode))"
  using assms same_size[OF cells_times[of tz data mode]] by (simp add: generateChartTimePoints_def MAX_TREND_POINTS_def Let_def)

lemma sum_concat: "(\<Sum>x\<leftarrow>concat xss. f x) = (\<Sum>xs\<leftarrow>xss. \<Sum>x\<leftarrow>xs. f x)" for f :: "'a \<Rightarrow> rat"
  by (induction xss) simp_all

lemma time_data_sum: "(\<Sum>p\<leftarrow>time_data s agg models t. rawQuota p) = (\<Sum>m\<leftarrow>models. raw_quota agg t m)"
  by (simp add: time_data_def Let_def comp_def sum_sorted)

lemma model_totals_grouped: "model_totals agg = group_sum (\<lambda>p. cell_model (snd p)) (\<lambda>p. cell_count (snd p)) agg"
  unfolding model_totals_def
proof (induction agg rule: rev_induct)
  case (snoc p agg)
  then show ?case using group_sum_snoc[of "\<lambda>p. cell_model (snd p)" "\<lambda>p. cell_count (snd p)" agg p] by simp
qed (simp add: group_sum_def)

lemma nsum_defined: "list_all (\<lambda>n. n \<noteq> None) ns \<Longrightarrow> nsum ns \<noteq> None"
  by (simp add: nsum_total)

lemma cells_count:
  assumes "list_all (\<lambda>x. count x \<noteq> None) data"
  shows "list_all (\<lambda>p. cell_count (snd p) \<noteq> None) (cells tz data mode)"
    and "(\<Sum>p\<leftarrow>cells tz data mode. num_or_zero (cell_count (snd p))) = (\<Sum>x\<leftarrow>data. num_or_zero (count x))"
proof -
  show "list_all (\<lambda>p. cell_count (snd p) \<noteq> None) (cells tz data mode)"
  proof -
    have "nsum (List.map count (filter P data)) \<noteq> None" for P
      by (rule nsum_defined) (use assms in \<open>auto simp: list_all_iff\<close>)
    then show ?thesis by (simp add: cells_def Let_def list_all_iff del: not_None_eq)
  qed
  show "(\<Sum>p\<leftarrow>cells tz data mode. num_or_zero (cell_count (snd p))) = (\<Sum>x\<leftarrow>data. num_or_zero (count x))"
    using sum_by_key[of "js_set (List.map (cell_key tz mode) data)" "cell_key tz mode" data "\<lambda>x. num_or_zero (count x)"] nsum_values[OF assms]
    by (simp add: cells_def Let_def comp_def)
qed

lemma pie_sum:
  assumes "list_all (\<lambda>p. cell_count (snd p) \<noteq> None) agg"
  shows "(\<Sum>p\<leftarrow>model_totals agg. num_or_zero (snd p)) = (\<Sum>p\<leftarrow>agg. num_or_zero (cell_count (snd p)))"
  using sum_by_key[of "js_set (List.map (\<lambda>p. cell_model (snd p)) agg)" "\<lambda>p. cell_model (snd p)" agg "\<lambda>p. num_or_zero (cell_count (snd p))"]
    nsum_values[OF assms] by (simp add: model_totals_grouped group_sum_def comp_def)

section \<open>Properties\<close>

text \<open>C22: One pass over the usage records computes exactly the grouping it stands for: the totals are the sums over all records, every
  map holds for each point in time the sum over the records of that point, the models are the ones that occur, and the points in
  time are the ones that occur, each once and in ascending order.\<close>

theorem raw_data_is_grouping:
  "processRawData tz data mode = (usage_totals tz data mode)\<lparr>timePoints := sort (js_set (List.map (time_key tz mode) data))\<rparr>
    \<and> sorted (timePoints (processRawData tz data mode)) \<and> distinct (timePoints (processRawData tz data mode))
    \<and> set (timePoints (processRawData tz data mode)) = time_key tz mode ` set data"
  unfolding processRawData_def Let_def raw_fold by (simp add: usage_totals_def Let_def)


definition week_example :: "usage list" where
  "week_example = List.map (\<lambda>i. \<lparr>created_at = of_int i, model_name = ''m'', quota = Some 10, count = Some 1, token_used = Some 5\<rparr>)
     [0, 86400, 172800, 259200, 345600, 432000, 518400]"

lemma first_days: "civil 0 = (1970,1,1)" "civil 1 = (1970,1,2)" "civil 2 = (1970,1,3)" "civil 3 = (1970,1,4)" "civil 4 = (1970,1,5)"
    "civil 5 = (1970,1,6)" "civil 6 = (1970,1,7)"
  by code_simp+

lemma first_digits: "two_digits (int_str 1) = ''01''" "two_digits (int_str 2) = ''02''" "two_digits (int_str 3) = ''03''"
    "two_digits (int_str 4) = ''04''" "two_digits (int_str 5) = ''05''" "two_digits (int_str 6) = ''06''" "two_digits (int_str 7) = ''07''"
  by code_simp+

lemma week_keys: "List.map (\<lambda>i. timestamp2string1 (\<lambda>_. 0) i ''day'') [0, 86400, 172800, 259200, 345600, 432000, 518400] =
    [''01-01'', ''01-02'', ''01-03'', ''01-04'', ''01-05'', ''01-06'', ''01-07'']"
  by (simp add: timestamp2string1_def new_Date_def first_days first_digits Let_def)


text \<open>With fewer points the time axis is made up from the last record: an earlier record outside it is missing from the chart.\<close>

lemma old_usage_missing:
  assumes "data \<noteq> []" and "length (js_set (List.map (time_key tz mode) data)) < 7"
    and "\<And>i. i < 7 \<Longrightarrow> timestamp2string1 tz \<lfloor>last_time data - (6 - of_nat i) * of_nat (getTimeInterval mode True)\<rfloor> mode \<noteq> t"
  shows "t \<notin> set (generateChartTimePoints tz (aggregateDataByTimeAndModel tz data mode) data mode)"
proof
  assume "t \<in> set (generateChartTimePoints tz (aggregateDataByTimeAndModel tz data mode) data mode)"
  then obtain i where "i < 7" "t = timestamp2string1 tz \<lfloor>last_time data - (6 - of_nat i) * of_nat (getTimeInterval mode True)\<rfloor> mode"
    using assms(2) same_size[OF cells_times[of tz data mode]]
    by (auto simp: generateChartTimePoints_def MAX_TREND_POINTS_def agg_fold Let_def)
  with assms(3)[of i] show False by simp
qed

end
