(* ===== verification/Ratio_Forms.thy ===== *)
theory Ratio_Forms
  imports Options Json_Pretty
begin

text \<open>
  The option pages whose texts are JSON: the containers \<open>RatioSetting.jsx\<close>, \<open>ModelSetting.jsx\<close> and \<open>RateLimitSetting.jsx\<close>
  of \<open>components/settings\<close>, and the forms inside them under \<open>pages/Setting/Ratio\<close>, \<open>Model\<close> and \<open>RateLimit\<close>. The form library
  runs the validators of the fields on the values shown, which are \<open>form_inputs\<close>. (No page of this version mounts the containers.)
\<close>

section \<open>The containers\<close>

definition ratio_item :: "jv \<Rightarrow> jv \<Rightarrow> jv \<Rightarrow> ('s, jv) act" where
  "ratio_item inp acc item = bnd (prop_get item ''value'') (\<lambda>v. case v of
       JStr t \<Rightarrow>
         (let shown = (if starts_with ''{'' t \<or> starts_with ''['' t
                       then (case json_parse t of Some x \<Rightarrow> json_pretty x | None \<Rightarrow> v) else v);
              k = opt_get item ''key'' in
          ret (obj_set acc (to_str k)
            (if k = JStr ''DefaultUseAutoGroup'' \<or> k = JStr ''ExposeRatioEnabled'' then JBool (toBoolean shown) else shown)))
     | _ \<Rightarrow> throw type_error)"

definition json_text_keys :: "string list" where
  "json_text_keys = [''gemini.safety_settings'', ''gemini.version_settings'', ''claude.model_headers_settings'',
     ''claude.default_max_tokens'', ''gemini.supported_imagine_models'', ''global.thinking_model_blacklist'']"

text \<open>\<open>JSON.stringify(JSON.parse(v), null, 2)\<close> without a \<open>try\<close>.\<close>

definition reformatted :: "jv \<Rightarrow> ('s, jv) act" where
  "reformatted v = bnd (parse_json v) (\<lambda>x. ret (json_pretty x))"

definition model_item :: "jv \<Rightarrow> jv \<Rightarrow> jv \<Rightarrow> ('s, jv) act" where
  "model_item inp acc item = bnd (prop_get item ''key'') (\<lambda>kv.
     bnd (if kv \<in> JStr ` set json_text_keys \<and> opt_get item ''value'' \<noteq> JStr [] then reformatted (opt_get item ''value'')
          else ret (opt_get item ''value'')) (\<lambda>v.
     bnd (item_key item) (\<lambda>k.
       ret (obj_set acc k (if ends_with ''Enabled'' k \<or> ends_with ''enabled'' k then JBool (toBoolean v) else v)))))"

definition rate_limit_item :: "jv \<Rightarrow> jv \<Rightarrow> jv \<Rightarrow> ('s, jv) act" where
  "rate_limit_item inp acc item = bnd (prop_get item ''key'') (\<lambda>kv.
     bnd (if kv = JStr ''ModelRequestRateLimitGroup'' then reformatted (opt_get item ''value'') else ret (opt_get item ''value'')) (\<lambda>v.
     bnd (item_key item) (\<lambda>k.
       ret (obj_set acc k (if ends_with ''Enabled'' k then JBool (toBoolean v) else v)))))"

definition ratio_getOptions :: "env \<Rightarrow> ('x option_page_scheme, unit) act" where
  "ratio_getOptions env = getOptions ratio_item env"
definition ratio_onRefresh :: "env \<Rightarrow> ('x option_page_scheme, unit) act" where
  "ratio_onRefresh env = onRefresh ratio_item env"
definition model_getOptions :: "env \<Rightarrow> ('x option_page_scheme, unit) act" where
  "model_getOptions env = getOptions model_item env"
definition model_onRefresh :: "env \<Rightarrow> ('x option_page_scheme, unit) act" where
  "model_onRefresh env = onRefresh model_item env"
definition rate_limit_getOptions :: "env \<Rightarrow> ('x option_page_scheme, unit) act" where
  "rate_limit_getOptions env = getOptions rate_limit_item env"
definition rate_limit_onRefresh :: "env \<Rightarrow> ('x option_page_scheme, unit) act" where
  "rate_limit_onRefresh env = onRefresh rate_limit_item env"

section \<open>Sending and answering\<close>

definition option_puts :: "(string \<times> jv) list \<Rightarrow> request list" where
  "option_puts kvs = List.map (\<lambda>(k, v). Http PUT ''/api/option/'' (option_body k v)) kvs"

text \<open>The first answer that is a refusal: its message.\<close>

fun first_refusal :: "jv list \<Rightarrow> ('s, jv option) act" where
  "first_refusal [] = ret None"
| "first_refusal (res # rs) = bnd (prop_get (opt_get res ''data'') ''success'') (\<lambda>success.
     if truthy success then first_refusal rs else ret (Some (opt_get (opt_get res ''data'') ''message'')))"

definition checked_answer :: "'x form_act \<Rightarrow> 'x form_act \<Rightarrow> jv list \<Rightarrow> 'x form_act" where
  "checked_answer incomplete refreshes res =
     (if JUndef \<in> set res then incomplete
      else bnd (first_refusal res) (\<lambda>r. case r of
        Some m \<Rightarrow> showError m | None \<Rightarrow> sq (showSuccess (JStr ''saved'')) (detach refreshes)))"

definition send_options :: "string \<Rightarrow> env \<Rightarrow> (string \<times> jv) list \<Rightarrow> (jv list \<Rightarrow> 'x form_act) \<Rightarrow> 'x form_act" where
  "send_options failed env kvs answer =
     sq (modify (\<lambda>s. s\<lparr>form_loading := True\<rparr>))
        (try_finally
          (try_catch (bnd (promise_all env (option_puts kvs)) answer) (\<lambda>_. showErr failed))
          (modify (\<lambda>s. s\<lparr>form_loading := False\<rparr>)))"

abbreviation put_options :: "env \<Rightarrow> (string \<times> jv) list \<Rightarrow> (jv list \<Rightarrow> 'x form_act) \<Rightarrow> 'x form_act" where
  "put_options \<equiv> send_options ''saving failed, please retry''"

text \<open>\<open>compareObjects\<close>, the warning without a change, and the queue of requests; \<open>as_sent\<close> is how a value is converted.\<close>

definition put_changed :: "env \<Rightarrow> (string \<Rightarrow> jv \<Rightarrow> jv) \<Rightarrow> (nat \<Rightarrow> jv list \<Rightarrow> 'x form_act) \<Rightarrow> 'x form_act" where
  "put_changed env as_sent answer = bnd (gets (\<lambda>s. (form_inputs s, inputsRow s))) (\<lambda>(inp, row).
     let ks = changed_keys inp row in
     if ks = [] then showWarning (JStr ''you do not seem to have changed anything'')
     else put_options env (List.map (\<lambda>k. (k, as_sent k (opt_get inp k))) ks) (answer (length ks)))"

section \<open>The ratio forms\<close>

definition ratio_texts :: "string list" where
  "ratio_texts = [''ModelPrice'', ''ModelRatio'', ''CacheRatio'', ''CompletionRatio'', ''ImageRatio'', ''AudioRatio'', ''AudioCompletionRatio'']"

definition model_ratio_valid :: "jv \<Rightarrow> bool" where
  "model_ratio_valid inp = list_all (\<lambda>k. verifyJSON (opt_get inp k)) ratio_texts"

definition group_texts :: "string list" where
  "group_texts = [''GroupRatio'', ''UserUsableGroups'', ''GroupGroupRatio'', ''group_ratio_setting.group_special_usable_group'']"

definition auto_groups_valid :: "jv \<Rightarrow> bool" where
  "auto_groups_valid v = (\<not> truthy v \<or> trim (to_str v) = []
     \<or> (case json_parse (to_str v) of Some (JArr gs) \<Rightarrow> list_all (\<lambda>g. type_of g = ''string'') gs | _ \<Rightarrow> False))"

definition group_ratio_valid :: "jv \<Rightarrow> bool" where
  "group_ratio_valid inp = (list_all (\<lambda>k. verifyJSON (opt_get inp k)) group_texts \<and> auto_groups_valid (opt_get inp ''AutoGroups''))"

definition ratio_answer :: "env \<Rightarrow> nat \<Rightarrow> jv list \<Rightarrow> 'x form_act" where
  "ratio_answer env n = checked_answer
     (showErr (if n > 1 then ''some options were not saved, please retry'' else ''saving failed'')) (ratio_onRefresh env)"

definition model_ratio_onSubmit :: "env \<Rightarrow> 'x form_act" where
  "model_ratio_onSubmit env = bnd (gets form_inputs) (\<lambda>inp.
     if model_ratio_valid inp then put_changed env (\<lambda>_. sent_value) (ratio_answer env) else showErr ''please check the input'')"

definition group_ratio_onSubmit :: "env \<Rightarrow> 'x form_act" where
  "group_ratio_onSubmit env = bnd (gets form_inputs) (\<lambda>inp.
     if group_ratio_valid inp then put_changed env (\<lambda>_. sent_value) (ratio_answer env) else showErr ''please check the input'')"

definition resetModelRatio :: "env \<Rightarrow> 'x form_act" where
  "resetModelRatio env = try_catch
     (bnd (api_post env ''/api/option/rest_model_ratio'' JUndef) (\<lambda>d.
      bnd (prop_get d ''success'') (\<lambda>success.
        if truthy success then sq (showSuccess (opt_get d ''message'')) (detach (ratio_onRefresh env))
        else showError (opt_get d ''message''))))
     showError"

definition model_ratio_effect :: "'x option_form_scheme \<Rightarrow> 'x option_form_scheme" where
  "model_ratio_effect = load_form"
definition group_ratio_effect :: "'x option_form_scheme \<Rightarrow> 'x option_form_scheme" where
  "group_ratio_effect = load_form"

section \<open>The model forms\<close>

text \<open>Their answers are counted but not read, as in the other settings forms.\<close>

definition as_text :: "string \<Rightarrow> jv \<Rightarrow> jv" where
  "as_text k v = JStr (to_str v)"

definition gemini_defaults :: jv where
  "gemini_defaults = JObj
    [(''gemini.safety_settings'', JStr []), (''gemini.version_settings'', JStr []), (''gemini.supported_imagine_models'', JStr []),
     (''gemini.thinking_adapter_enabled'', JBool False), (''gemini.thinking_adapter_budget_tokens_percentage'', JNum (6/10)),
     (''gemini.function_call_thought_signature_enabled'', JBool True)]"

definition gemini_valid :: "jv \<Rightarrow> bool" where
  "gemini_valid inp = list_all (\<lambda>k. verifyJSON (opt_get inp k))
     [''gemini.safety_settings'', ''gemini.version_settings'', ''gemini.supported_imagine_models'']"

definition gemini_onSubmit :: "env \<Rightarrow> 'x form_act" where
  "gemini_onSubmit env = bnd (gets form_inputs) (\<lambda>inp.
     if gemini_valid inp then put_changed env as_text (\<lambda>n. saved_answer n (model_onRefresh env)) else showErr ''please check the input'')"

definition gemini_effect :: "'x option_form_scheme \<Rightarrow> 'x option_form_scheme" where
  "gemini_effect s =
     (let c = obj_spread gemini_defaults (filter (\<lambda>m. fst m \<in> set (obj_keys gemini_defaults)) (members (page_inputs s))) in
      s\<lparr>form_inputs := c, inputsRow := c\<rparr>)"

definition claude_onSubmit :: "env \<Rightarrow> 'x form_act" where
  "claude_onSubmit env = put_changed env as_text (\<lambda>n. saved_answer n (model_onRefresh env))"

definition claude_effect :: "'x option_form_scheme \<Rightarrow> 'x option_form_scheme" where
  "claude_effect = load_form"

definition global_defaults :: jv where
  "global_defaults = JObj
    [(''global.pass_through_request_enabled'', JBool False), (''global.thinking_model_blacklist'', JStr ''[]''),
     (''general_setting.ping_interval_enabled'', JBool False), (''general_setting.ping_interval_seconds'', JNum 60)]"

definition normalizeValueBeforeSave :: "string \<Rightarrow> jv \<Rightarrow> jv" where
  "normalizeValueBeforeSave k v =
     (if k = ''global.thinking_model_blacklist''
      then (if (case v of JStr t \<Rightarrow> trim t | _ \<Rightarrow> []) = [] then JStr ''[]'' else v) else v)"

definition global_onSubmit :: "env \<Rightarrow> 'x form_act" where
  "global_onSubmit env = put_changed env (\<lambda>k v. JStr (to_str (normalizeValueBeforeSave k v)))
     (\<lambda>n. saved_answer n (model_onRefresh env))"

definition global_value :: "jv \<Rightarrow> string \<Rightarrow> jv" where
  "global_value options k =
     (let v = opt_get options k; d = opt_get global_defaults k in
      if v = JUndef then d
      else if k = ''global.thinking_model_blacklist''
      then (if truthy v \<and> trim (to_str v) \<noteq> [] then (case json_parse (to_str v) of Some x \<Rightarrow> json_pretty x | None \<Rightarrow> d) else d)
      else v)"

definition global_effect :: "'x option_form_scheme \<Rightarrow> 'x option_form_scheme" where
  "global_effect s = (let c = JObj (List.map (\<lambda>k. (k, global_value (page_inputs s) k)) (obj_keys global_defaults)) in
     s\<lparr>form_inputs := c, inputsRow := c\<rparr>)"

section \<open>The rate limits\<close>

definition rate_limit_onSubmit :: "env \<Rightarrow> 'x form_act" where
  "rate_limit_onSubmit env = put_changed env (\<lambda>_. sent_value) (\<lambda>n. checked_answer
     (if n = 1 then ret () else showErr ''some options were not saved, please retry'') (rate_limit_onRefresh env))"

definition rate_limit_effect :: "'x option_form_scheme \<Rightarrow> 'x option_form_scheme" where
  "rate_limit_effect = load_form"

text \<open>A number field stores \<open>String(value)\<close>.\<close>

definition rate_limit_number :: "string \<Rightarrow> jv \<Rightarrow> 'x option_form_scheme \<Rightarrow> 'x option_form_scheme" where
  "rate_limit_number k v s = handleFieldChange k (JStr (to_str v)) s"

section \<open>Lemmas\<close>

definition refusal_of :: "reply \<Rightarrow> jv option" where
  "refusal_of rep = (let d = opt_get (response rep) ''data'' in
     if truthy (opt_get d ''success'') then None else Some (opt_get d ''message''))"

definition has_body :: "reply \<Rightarrow> bool" where
  "has_body rep = (case rep of Ok d \<Rightarrow> \<not> nullish d | Rejected e \<Rightarrow> False)"

text \<open>The message of the first refusal, as a function of the answers.\<close>

fun refused_first :: "reply list \<Rightarrow> jv option" where
  "refused_first [] = None"
| "refused_first (r # rs) = (case refusal_of r of Some m \<Rightarrow> Some m | None \<Rightarrow> refused_first rs)"

lemma first_refusal_run:
  "list_all has_body reps \<Longrightarrow> first_refusal (List.map response reps) s = (Inr (refused_first reps), s)"
proof (induction reps)
  case Nil
  then show ?case by (simp add: ret_def)
next
  case (Cons r rs)
  then obtain d where "r = Ok d" "\<not> nullish d" by (cases r) (auto simp: has_body_def)
  with Cons show ?case by (simp add: response_def refusal_of_def act_simps Let_def)
qed

lemma has_body_answers: "list_all has_body reps \<Longrightarrow> answers reps"
  by (auto simp: answers_def has_body_def list_all_iff split: reply.splits)

lemma items_keep_state:
  "snd (model_item inp acc item s) = s" "snd (ratio_item inp acc item s) = s" "snd (rate_limit_item inp acc item s) = s"
  by (auto simp: model_item_def ratio_item_def rate_limit_item_def reformatted_def item_key_def act_simps Let_def
      split: jv.split option.split prod.split sum.split)

lemma fold_items_keep_state:
  assumes "\<And>acc x s. snd (f acc x s) = s"
  shows "snd (fold_items f items acc s) = s"
proof (induction items arbitrary: acc s)
  case Nil
  then show ?case by (simp add: ret_def)
next
  case (Cons x xs)
  have "snd (f acc x s) = s" by (rule assms)
  then show ?case using Cons by (cases "f acc x s"; cases "fst (f acc x s)") (auto simp: bnd_def)
qed

text \<open>One entry that cannot be read makes reading the whole list fail.\<close>

lemma fold_items_fail:
  assumes "\<And>acc x s. snd (f acc x s) = s" and "x \<in> set items" and "\<And>acc s. \<exists>e. f acc x s = (Inl e, s)"
  shows "\<exists>e. fold_items f items acc s = (Inl e, s)"
  using assms(2)
proof (induction items arbitrary: acc)
  case Nil
  then show ?case by simp
next
  case (Cons y ys)
  obtain r t where r: "f acc y s = (r, t)" by fastforce
  then have t: "t = s" using assms(1)[of acc y s] by simp
  show ?case
  proof (cases r)
    case (Inl e)
    then show ?thesis using r t by (simp add: bnd_def)
  next
    case (Inr v)
    then have "x \<noteq> y" using assms(3)[of acc s] r by auto
    then show ?thesis using Cons r t Inr by (simp add: bnd_def)
  qed
qed

lemma unreadable_text:
  assumes "k \<in> set json_text_keys" and "t \<noteq> []" and "json_parse t = None" and "opt_get item ''key'' = JStr k" and "opt_get item ''value'' = JStr t"
  shows "\<exists>e. model_item inp acc item s = (Inl e, s)"
proof -
  have "\<not> nullish item" using assms(4) by (cases item) auto
  then show ?thesis using assms by (simp add: model_item_def reformatted_def act_simps)
qed

lemma quiet_items: "emits P (model_item inp acc item)" "emits P (ratio_item inp acc item)" "emits P (rate_limit_item inp acc item)"
  unfolding emitted.obeys_def items_keep_state by (simp_all add: emitted_def)

lemma quiet_model_onRefresh: "quiet (model_onRefresh env)" "quiet (ratio_onRefresh env)" "quiet (rate_limit_onRefresh env)"
  unfolding model_onRefresh_def ratio_onRefresh_def rate_limit_onRefresh_def by (intro emits_onRefresh quiet_items)+

text \<open>
  What a save leaves alone: a relation that holds whenever only the trace, the storage, the page's options and the busy flags
  change is kept by every form's save and by every refresh.
\<close>

locale form_frame = state_rel R
  for R :: "'x option_form_scheme \<Rightarrow> 'x option_form_scheme \<Rightarrow> bool" +
  assumes R_trace: "R s (s\<lparr>trace := tr\<rparr>)" and R_store: "R s (s\<lparr>store := st\<rparr>)" and R_page: "R s (s\<lparr>page_inputs := v\<rparr>)"
    and R_busy: "R s (s\<lparr>page_loading := b\<rparr>)" and R_loading: "R s (s\<lparr>form_loading := b\<rparr>)"
begin

lemma obeys_emit: "obeys (emit e)"
  unfolding emit_def by (intro obeys_modify R_trace)

lemma obeys_toasts: "obeys (showSuccess m)" "obeys (showWarning m)" "obeys (showErr x)"
  unfolding showSuccess_def showWarning_def showErr_eq by (rule obeys_emit)+

lemma obeys_showError: "obeys (showError e)"
  unfolding showError_def Let_def remove_item_def by (intro obeys_intros obeys_emit obeys_modify R_store)

lemma obeys_api_call: "obeys (api_call env skip r)"
  unfolding api_call_def on_rejected_def by (intro obeys_intros obeys_emit obeys_showError)

lemma obeys_send_all: "obeys (send_all env rs)"
  by (induction rs) (auto intro!: obeys_intros obeys_emit)

lemma obeys_map_each: "(\<And>x. obeys (f x)) \<Longrightarrow> obeys (map_each f xs)"
  by (induction xs) (auto intro!: obeys_intros)

lemma obeys_promise_all: "obeys (promise_all env rs)"
  unfolding promise_all_def settle_reply_def on_rejected_def
  by (intro obeys_intros obeys_send_all obeys_map_each obeys_showError)

lemma obeys_onRefresh:
  assumes "\<And>inp acc x s. snd (f inp acc x s) = s"
  shows "obeys (onRefresh f env)"
proof -
  have "obeys (for_items data (f inp))" for data inp
    unfolding for_items_def obeys_def by (cases data) (auto simp: throw_def R_refl fold_items_keep_state[OF assms])
  then show ?thesis
    unfolding onRefresh_def getOptions_def api_get_def destruct_def
    by (intro obeys_intros obeys_modify obeys_api_call obeys_toasts obeys_showError R_page R_busy)
qed

lemma obeys_detach: "obeys m \<Longrightarrow> obeys (detach m)"
  unfolding detach_def by (intro obeys_intros)

lemma obeys_first_refusal: "obeys (first_refusal res)"
  by (induction res) (auto intro!: obeys_intros)

lemma obeys_checked_answer: "obeys m \<Longrightarrow> obeys n \<Longrightarrow> obeys (checked_answer m n res)"
  unfolding checked_answer_def by (intro obeys_intros obeys_first_refusal obeys_showError obeys_toasts obeys_detach)

lemma obeys_put_options: "(\<And>res. obeys (answer res)) \<Longrightarrow> obeys (send_options failed env kvs answer)"
  unfolding send_options_def by (intro obeys_intros obeys_modify obeys_promise_all obeys_toasts R_loading)

end

text \<open>The interface's first client: saving a form leaves its inputs to the administrator.\<close>

interpretation inputs_kept: form_frame "\<lambda>s t. form_inputs t = form_inputs s \<and> inputsRow t = inputsRow s"
  by unfold_locales simp_all

lemma save_keeps_inputs:
  fixes s :: "'x option_form_scheme"
  shows "form_inputs (snd (rate_limit_onSubmit env s)) = form_inputs s"
proof -
  have r: "inputs_kept.obeys (rate_limit_onRefresh env :: 'x form_act)"
    unfolding rate_limit_onRefresh_def by (intro inputs_kept.obeys_onRefresh items_keep_state)
  have "inputs_kept.obeys (rate_limit_onSubmit env :: 'x form_act)"
    unfolding rate_limit_onSubmit_def put_changed_def Let_def
    by (intro inputs_kept.obeys_intros inputs_kept.obeys_toasts inputs_kept.obeys_put_options inputs_kept.obeys_checked_answer r)
  then show ?thesis by (simp add: inputs_kept.obeys_def)
qed

text \<open>The group limits are parsed even when they are empty, which the form may store.\<close>

lemma empty_limits_fail:
  "\<exists>e. rate_limit_item inp acc (JObj [(''key'', JStr ''ModelRequestRateLimitGroup''), (''value'', JStr [])]) s = (Inl e, s)"
proof -
  have "json_parse [] = None" by code_simp
  then show ?thesis by (simp add: rate_limit_item_def reformatted_def act_simps)
qed

text \<open>Saving with answers on the wire, up to the toast.\<close>

lemma put_options_run:
  assumes "answers reps" and "reps = replies env (hdr_user (api s)) (trace s) (option_puts kvs)"
    and "t = s\<lparr>form_loading := True, trace := trace s @ List.map (Requested (hdr_user (api s))) (option_puts kvs)\<rparr>"
    and "answer (List.map response reps) t = (Inr (), u)"
  shows "send_options failed env kvs answer s = (Inr (), u\<lparr>form_loading := False\<rparr>)"
proof -
  have "promise_all env (option_puts kvs) (s\<lparr>form_loading := True\<rparr>) = (Inr (List.map response reps), t)"
    using promise_all_run[of env "s\<lparr>form_loading := True\<rparr>" "option_puts kvs"] assms(1-3) by simp
  then show ?thesis using assms(4) by (simp add: send_options_def act_simps)
qed

lemma detach_returns: "fst (detach m s) = Inr ()"
  by (auto simp: act_simps split: prod.split sum.split)

lemma put_options_checked:
  assumes "list_all has_body reps" and "reps = replies env (hdr_user (api s)) (trace s) (option_puts kvs)" and "quiet refreshes"
    and "pred_option (\<lambda>m. type_of m = ''string'') (refused_first reps)"
  shows "\<exists>es. trace (snd (put_options env kvs (checked_answer incomplete refreshes) s)) =
    trace s @ List.map (Requested (hdr_user (api s))) (option_puts kvs)
      @ (case refused_first reps of Some m \<Rightarrow> [Toasted TError (JStr (''Error: '' @ to_str m))] | None \<Rightarrow> Toasted TSuccess (JStr ''saved'') # es)"
proof -
  let ?t = "s\<lparr>form_loading := True, trace := trace s @ List.map (Requested (hdr_user (api s))) (option_puts kvs)\<rparr>"
  note ans = has_body_answers[OF assms(1)]
  note def = responses_defined[OF ans]
  show ?thesis
  proof (cases "refused_first reps")
    case (Some m)
    then obtain x where x: "m = JStr x" using assms(4) by (cases m) auto
    have "checked_answer incomplete refreshes (List.map response reps) ?t
        = (Inr (), ?t\<lparr>trace := trace ?t @ [Toasted TError (JStr (''Error: '' @ x))]\<rparr>)"
      using def Some x by (simp add: checked_answer_def bnd_def first_refusal_run[OF assms(1)] showError_JStr emit_def modify_def)
    from put_options_run[of reps env s kvs ?t "checked_answer incomplete refreshes", OF ans assms(2) refl this]
    show ?thesis using Some x by simp
  next
    case None
    let ?u = "?t\<lparr>trace := trace ?t @ [Toasted TSuccess (JStr ''saved'')]\<rparr>"
    obtain es where es: "trace (snd (detach refreshes ?u)) = trace ?u @ es" using quiet_snd[OF quiet_detach[OF assms(3)]] by blast
    have "checked_answer incomplete refreshes (List.map response reps) ?t = (Inr (), snd (detach refreshes ?u))"
      using def None detach_returns[of refreshes ?u]
      by (simp add: checked_answer_def bnd_def sq_def first_refusal_run[OF assms(1)] showSuccess_def emit_def modify_def prod_eq_iff)
    from put_options_run[of reps env s kvs ?t "checked_answer incomplete refreshes", OF ans assms(2) refl this]
    show ?thesis using None es by simp
  qed
qed

text \<open>Whatever the answers are, the requests are on the wire first.\<close>

lemma queue_sends:
  "\<exists>es. trace (snd (promise_all env rs s)) = trace s @ List.map (Requested (hdr_user (api s))) rs @ es"
proof -
  let ?t = "s\<lparr>trace := trace s @ List.map (Requested (hdr_user (api s))) rs\<rparr>"
  let ?rest = "bnd (map_each settle_reply (replies env (hdr_user (api s)) (trace s) rs)) (\<lambda>res.
     case first_rejection res of Some e \<Rightarrow> throw e | None \<Rightarrow> ret (fulfilled res))"
  have "quiet ?rest" unfolding settle_reply_def on_rejected_def by (intro emits_intros) simp_all
  from quiet_snd[OF this, of ?t] obtain es where "trace (snd (?rest ?t)) = trace ?t @ es" by blast
  moreover have "promise_all env rs s = ?rest ?t" by (simp add: promise_all_def bnd_def send_all_run)
  ultimately show ?thesis by simp
qed

lemma put_options_sends:
  assumes "\<And>res. quiet (answer res)"
  shows "\<exists>es. trace (snd (send_options failed env kvs answer s)) = trace s @ List.map (Requested (hdr_user (api s))) (option_puts kvs) @ es"
proof -
  let ?s = "s\<lparr>form_loading := True\<rparr>"
  let ?finish = "modify (\<lambda>s. s\<lparr>form_loading := False\<rparr>)"
  obtain r t where p: "promise_all env (option_puts kvs) ?s = (r, t)" by fastforce
  then obtain es where es: "trace t = trace s @ List.map (Requested (hdr_user (api s))) (option_puts kvs) @ es"
    using queue_sends[of env "option_puts kvs" ?s] by auto
  have q: "\<exists>es. trace (snd (try_finally (try_catch (answer x) (\<lambda>_. showErr m)) ?finish t)) = trace t @ es" for x m
    by (rule quiet_snd) (intro emits_intros assms; simp)
  have "\<exists>es. trace (snd (try_finally (showErr m) ?finish t)) = trace t @ es" for m
    by (rule quiet_snd) (intro emits_intros; simp)
  then show ?thesis using es q p
    by (cases r) (fastforce simp: send_options_def sq_def modify_def bnd_def try_catch_def try_finally_def)+
qed

lemma quiet_first_refusal [emits_intros]: "emits P (first_refusal res)"
  by (induction res) (auto intro!: emits_intros)

lemma quiet_checked_answer:
  assumes "quiet m" and "quiet n"
  shows "quiet (checked_answer m n res)"
  unfolding checked_answer_def showSuccess_def by (intro emits_intros quiet_detach assms) simp_all

section \<open>Properties\<close>

text \<open>Saving the model ratios reads the answers: with valid texts every changed option is put, and then either the first
  refusal is shown with the backend's message, or - when there is none - the options are announced as saved.\<close>

lemma ratio_refusal_is_shown:
  assumes "model_ratio_valid (form_inputs s)" and "changed_keys (form_inputs s) (inputsRow s) = k # ks"
    and "puts = option_puts (List.map (\<lambda>j. (j, sent_value (opt_get (form_inputs s) j))) (k # ks))"
    and "reps = replies env (hdr_user (api s)) (trace s) puts" and "list_all has_body reps"
    and "pred_option (\<lambda>m. type_of m = ''string'') (refused_first reps)"
  shows "\<exists>es. trace (snd (model_ratio_onSubmit env s)) = trace s @ List.map (Requested (hdr_user (api s))) puts
      @ (case refused_first reps of Some m \<Rightarrow> [Toasted TError (JStr (''Error: '' @ to_str m))] | None \<Rightarrow> Toasted TSuccess (JStr ''saved'') # es)"
proof -
  have "model_ratio_onSubmit env s = put_options env (List.map (\<lambda>j. (j, sent_value (opt_get (form_inputs s) j))) (k # ks))
      (ratio_answer env (length (k # ks))) s"
    using assms(1,2) by (simp add: model_ratio_onSubmit_def put_changed_def bnd_def gets_def Let_def)
  then show ?thesis
    using put_options_checked[OF assms(5) assms(4)[unfolded assms(3)] quiet_model_onRefresh(2) assms(6)] assms(3)
    by (simp add: ratio_answer_def)
qed

text \<open>Texts that are no JSON are not sent.\<close>

lemma invalid_ratios_not_sent:
  "\<not> model_ratio_valid (form_inputs s) \<Longrightarrow> model_ratio_onSubmit env s = showErr ''please check the input'' s"
  "\<not> group_ratio_valid (form_inputs s) \<Longrightarrow> group_ratio_onSubmit env s = showErr ''please check the input'' s"
  by (simp_all add: model_ratio_onSubmit_def group_ratio_onSubmit_def bnd_def gets_def)

text \<open>C37: The Claude form sends a text that is no JSON, and a stored text of that kind locks the page: every later refresh whose
  answer lists it fails, keeps the old options and only says that the refresh failed, so nothing can be loaded to repair it.\<close>

theorem unvalidated_text_locks_page:
  assumes "changed_keys (form_inputs s) (inputsRow s) = [''claude.default_max_tokens'']"
    and "opt_get (form_inputs s) ''claude.default_max_tokens'' = JStr text" and "text \<noteq> []" and "json_parse text = None"
    and "env (trace s) (Http PUT ''/api/option/'' (option_body ''claude.default_max_tokens'' (JStr text))) = Ok d"
  shows "(\<exists>es. trace (snd (claude_onSubmit env s)) = trace s
      @ Requested (hdr_user (api s)) (Http PUT ''/api/option/'' (option_body ''claude.default_max_tokens'' (JStr text)))
      # Toasted TSuccess (JStr ''saved'') # es)
    \<and> (\<forall>env' (p :: 'y option_page_scheme) m items. env' (trace p) (Http GET ''/api/option/'' JUndef)
          = Ok (JObj [(''success'', JBool True), (''message'', m), (''data'', JArr items)])
        \<and> JObj [(''key'', JStr ''claude.default_max_tokens''), (''value'', JStr text)] \<in> set items \<longrightarrow>
      page_inputs (snd (model_onRefresh env' p)) = page_inputs p
      \<and> trace (snd (model_onRefresh env' p)) = trace p @ [Requested (hdr_user (api p)) (Http GET ''/api/option/'' JUndef),
          Toasted TError (JStr ''Error: refresh failed'')])"
proof -
  let ?kvs = "[(''claude.default_max_tokens'', JStr text)]"
  let ?t = "s\<lparr>form_loading := True, trace := trace s @ List.map (Requested (hdr_user (api s))) (option_puts ?kvs)\<rparr>"
  let ?u = "?t\<lparr>trace := trace ?t @ [Toasted TSuccess (JStr ''saved'')]\<rparr>"
  let ?reps = "replies env (hdr_user (api s)) (trace s) (option_puts ?kvs)"
  have ans: "answers ?reps" using assms(5) by (simp add: option_puts_def answers_def)
  obtain es where es: "trace (snd (detach (model_onRefresh env) ?u)) = trace ?u @ es"
    using quiet_snd[OF quiet_detach[OF quiet_model_onRefresh(1)]] by blast
  have "saved_answer 1 (model_onRefresh env) (List.map response ?reps) ?t = (Inr (), snd (detach (model_onRefresh env) ?u))"
    using responses_defined[OF ans] detach_returns[of "model_onRefresh env" ?u]
    by (simp add: saved_answer_def sq_def showSuccess_def emit_def modify_def prod_eq_iff)
  from put_options_run[of ?reps env s ?kvs ?t "saved_answer 1 (model_onRefresh env)", OF ans refl refl this]
  have "trace (snd (claude_onSubmit env s)) = trace ?u @ es"
    using assms(1,2) es by (simp add: claude_onSubmit_def put_changed_def bnd_def gets_def Let_def as_text_def)
  then have sent: "\<exists>es. trace (snd (claude_onSubmit env s)) = trace s
      @ Requested (hdr_user (api s)) (Http PUT ''/api/option/'' (option_body ''claude.default_max_tokens'' (JStr text)))
      # Toasted TSuccess (JStr ''saved'') # es"
    by (auto simp: option_puts_def)
  have locked: "page_inputs (snd (model_onRefresh env' p)) = page_inputs p
      \<and> trace (snd (model_onRefresh env' p)) = trace p @ [Requested (hdr_user (api p)) (Http GET ''/api/option/'' JUndef),
          Toasted TError (JStr ''Error: refresh failed'')]"
    if a: "env' (trace p) (Http GET ''/api/option/'' JUndef) = Ok (JObj [(''success'', JBool True), (''message'', m), (''data'', JArr items)])"
      "JObj [(''key'', JStr ''claude.default_max_tokens''), (''value'', JStr text)] \<in> set items" for env' m items and p :: "'y option_page_scheme"
  proof -
    let ?p = "p\<lparr>page_loading := True, trace := trace p @ [Requested (hdr_user (api p)) (Http GET ''/api/option/'' JUndef)]\<rparr>"
    have "\<exists>e. fold_items (model_item inp) items acc ?p = (Inl e, ?p)" for inp acc
      by (rule fold_items_fail[OF items_keep_state(1) a(2)])
        (rule unreadable_text[of "''claude.default_max_tokens''" "text"]; simp add: assms(3,4) json_text_keys_def)
    then obtain e where "fold_items (model_item (page_inputs p)) items (JObj []) ?p = (Inl e, ?p)" by blast
    then show ?thesis using a(1) by (simp add: model_onRefresh_def onRefresh_def getOptions_def for_items_def act_simps)
  qed
  show ?thesis using sent locked by blast
qed

definition ratio_example :: option_form where
  "ratio_example = form_example JUndef (JObj (List.map (\<lambda>k. (k, JStr ''{}'')) ratio_texts))
     (JObj ((''ModelPrice'', JStr ''{ }'') # List.map (\<lambda>k. (k, JStr ''{}'')) (tl ratio_texts)))"

lemma ratio_example_valid: "model_ratio_valid (form_inputs ratio_example)"
    "changed_keys (form_inputs ratio_example) (inputsRow ratio_example) = [''ModelPrice'']"
  by code_simp+

lemma ratio_refusal_is_shown_example:
  "trace (snd (model_ratio_onSubmit (\<lambda>_ _. Ok (JObj [(''success'', JBool False), (''message'', JStr ''refused'')])) ratio_example)) =
    [Requested (JNum 1) (Http PUT ''/api/option/'' (option_body ''ModelPrice'' (JStr ''{}''))), Toasted TError (JStr ''Error: refused'')]"
  using ratio_refusal_is_shown[OF ratio_example_valid refl refl, of "\<lambda>_ _. Ok (JObj [(''success'', JBool False), (''message'', JStr ''refused'')])"]
  by (simp add: ratio_example_def form_example_def option_puts_def has_body_def refusal_of_def response_def Let_def sent_value_def ratio_texts_def)

theorem unvalidated_text_locks_page_witness:
  "page_inputs (snd (model_onRefresh (\<lambda>_ _. Ok (JObj [(''success'', JBool True), (''message'', JStr []),
       (''data'', JArr [JObj [(''key'', JStr ''claude.default_max_tokens''), (''value'', JStr ''x'')]])])) ratio_example)) = JUndef"
proof -
  have n: "json_parse ''x'' = None" by code_simp
  have c: "changed_keys (JObj [(''claude.default_max_tokens'', JStr ''x'')]) (JObj [(''claude.default_max_tokens'', JStr ''{}'')])
      = [''claude.default_max_tokens'']" by code_simp
  show ?thesis
    using unvalidated_text_locks_page[of "form_example JUndef (JObj [(''claude.default_max_tokens'', JStr ''x'')])
        (JObj [(''claude.default_max_tokens'', JStr ''{}'')])" "''x''" "\<lambda>_ _. Ok JNull" JNull, THEN conjunct2,
        THEN spec[of _ "\<lambda>_ _. Ok (JObj [(''success'', JBool True), (''message'', JStr []),
          (''data'', JArr [JObj [(''key'', JStr ''claude.default_max_tokens''), (''value'', JStr ''x'')]])])"],
        THEN spec[of _ ratio_example]] n c
    by (simp add: form_example_def ratio_example_def)
qed

end
