(* ===== verification/Ratio_Editors.thy ===== *)
theory Ratio_Editors
  imports Ratio_Forms
begin

text \<open>
  The two editors of model prices: \<open>pages/Setting/Ratio/ModelSettingsVisualEditor.jsx\<close>, which edits all models at once, and
  \<open>ModelRationNotSetEditor.jsx\<close>, which lists the enabled models that have no price yet. Three options are edited together:
  \<open>ModelPrice\<close>, \<open>ModelRatio\<close> and \<open>CompletionRatio\<close>, each the text of an object from model names to numbers (a text that is an
  array or a string is read like an object without members). What the form of the dialogue shows is presentation; its fields
  write to \<open>currentModel\<close>. \<open>form_loading\<close> is the editors' \<open>loading\<close>.
\<close>

section \<open>Reading the three options\<close>

definition parse_option :: "jv \<Rightarrow> string \<Rightarrow> jv option" where
  "parse_option options k = json_parse (to_str (jor (opt_get options k) (JStr ''{}'')))"

record priced =
  mname :: jv
  m_price :: jv
  m_ratio :: jv
  m_completion :: jv

record priced_model = priced +
  hasConflict :: bool

definition conflict :: "jv \<Rightarrow> jv \<Rightarrow> jv \<Rightarrow> bool" where
  "conflict price ratio completion = (price \<noteq> JStr [] \<and> (ratio \<noteq> JStr [] \<or> completion \<noteq> JStr []))"

definition or_blank :: "jv \<Rightarrow> string \<Rightarrow> jv" where
  "or_blank v k = (if opt_get v k = JUndef then JStr [] else opt_get v k)"

definition loaded_model :: "jv \<Rightarrow> jv \<Rightarrow> jv \<Rightarrow> string \<Rightarrow> priced_model" where
  "loaded_model p r c name = \<lparr>mname = JStr name, m_price = or_blank p name, m_ratio = or_blank r name, m_completion = or_blank c name,
     hasConflict = conflict (or_blank p name) (or_blank r name) (or_blank c name)\<rparr>"

text \<open>\<open>new Set\<close> of a list keeps the first of equal elements.\<close>

definition firsts :: "'a list \<Rightarrow> 'a list" where
  "firsts xs = rev (remdups (rev xs))"

definition loaded_models :: "jv \<Rightarrow> jv \<Rightarrow> jv \<Rightarrow> priced_model list" where
  "loaded_models p r c = List.map (loaded_model p r c) (firsts (obj_keys p @ obj_keys r @ obj_keys c))"

text \<open>The three objects, unless a text is no JSON or is \<open>null\<close> (both end in the \<open>catch\<close>).\<close>

definition three_maps :: "jv \<Rightarrow> (jv \<times> jv \<times> jv) option" where
  "three_maps options =
     (case (parse_option options ''ModelPrice'', parse_option options ''ModelRatio'', parse_option options ''CompletionRatio'') of
        (Some p, Some r, Some c) \<Rightarrow> Some (p, r, c) | _ \<Rightarrow> None)"

section \<open>Sending the three options\<close>

definition put_model :: "'x priced_scheme \<Rightarrow> jv \<times> jv \<times> jv \<Rightarrow> jv \<times> jv \<times> jv" where
  "put_model m out = (case out of (p, r, c) \<Rightarrow>
     let k = to_str (mname m) in
     if m_price m \<noteq> JStr [] then (obj_set p k (parseFloat (m_price m)), r, c)
     else (p, if m_ratio m \<noteq> JStr [] then obj_set r k (parseFloat (m_ratio m)) else r,
           if m_completion m \<noteq> JStr [] then obj_set c k (parseFloat (m_completion m)) else c))"

definition final_output :: "jv \<times> jv \<times> jv \<Rightarrow> (string \<times> jv) list" where
  "final_output out = (case out of (p, r, c) \<Rightarrow>
     [(''ModelPrice'', json_pretty p), (''ModelRatio'', json_pretty r), (''CompletionRatio'', json_pretty c)])"

definition editor_answer :: "'x form_act \<Rightarrow> jv list \<Rightarrow> 'x form_act" where
  "editor_answer done = checked_answer (showErr ''some options were not saved, please retry'') done"

section \<open>ModelSettingsVisualEditor.jsx\<close>

record visual_editor = option_form +
  models :: "priced_model list"
  visible :: bool
  isEditMode :: bool
  currentModel :: jv
  searchText :: string
  currentPage :: nat
  pricingMode :: string
  pricingSubMode :: string
  conflictOnly :: bool

definition models_effect :: "visual_editor \<Rightarrow> visual_editor" where
  "models_effect s = (case three_maps (page_inputs s) of
       Some (p, r, c) \<Rightarrow> if nullish p \<or> nullish r \<or> nullish c then s else s\<lparr>models := loaded_models p r c\<rparr>
     | None \<Rightarrow> s)"

definition getPagedData :: "'a list \<Rightarrow> nat \<Rightarrow> nat \<Rightarrow> 'a list" where
  "getPagedData data page per = take per (drop ((page - 1) * per) data)"

text \<open>\<open>model.name.includes\<close> is a TypeError (\<open>None\<close>) on a name that is no text.\<close>

fun filter_models :: "string \<Rightarrow> bool \<Rightarrow> priced_model list \<Rightarrow> priced_model list option" where
  "filter_models text only [] = Some []"
| "filter_models text only (m # ms) =
     (case (if text = [] then Some True else case mname m of JStr n \<Rightarrow> Some (str_includes n text) | _ \<Rightarrow> None) of
        None \<Rightarrow> None
      | Some b \<Rightarrow> map_option (\<lambda>rest. if b \<and> (only \<longrightarrow> hasConflict m) then m # rest else rest) (filter_models text only ms))"

definition filteredModels :: "visual_editor \<Rightarrow> priced_model list option" where
  "filteredModels s = filter_models (searchText s) (conflictOnly s) (models s)"

definition visual_page :: "visual_editor \<Rightarrow> priced_model list option" where
  "visual_page s = map_option (\<lambda>ms. getPagedData ms (currentPage s) 10) (filteredModels s)"

definition visual_output :: "priced_model list \<Rightarrow> jv \<times> jv \<times> jv" where
  "visual_output ms = fold put_model ms (JObj [], JObj [], JObj [])"

definition visual_SubmitData :: "env \<Rightarrow> (visual_editor, unit) act" where
  "visual_SubmitData env = bnd (gets models) (\<lambda>ms.
     put_options env (final_output (visual_output ms)) (editor_answer (ratio_onRefresh env)))"

definition isNaN :: "jv \<Rightarrow> bool" where
  "isNaN v = (to_num v = None)"

definition set_field :: "string \<Rightarrow> jv \<Rightarrow> 'x priced_scheme \<Rightarrow> 'x priced_scheme" where
  "set_field field v m =
     (if field = ''price'' then m\<lparr>m_price := v\<rparr> else if field = ''ratio'' then m\<lparr>m_ratio := v\<rparr> else m\<lparr>m_completion := v\<rparr>)"

definition with_conflict :: "priced_model \<Rightarrow> priced_model" where
  "with_conflict m = m\<lparr>hasConflict := conflict (m_price m) (m_ratio m) (m_completion m)\<rparr>"

definition updateModel :: "jv \<Rightarrow> string \<Rightarrow> jv \<Rightarrow> (visual_editor, unit) act" where
  "updateModel name field v =
     (if isNaN v then showErr ''please enter a number''
      else modify (\<lambda>s. s\<lparr>models := List.map (\<lambda>m. if \<not> strict_eq (mname m) name then m else with_conflict (set_field field v m)) (models s)\<rparr>))"

definition deleteModel :: "jv \<Rightarrow> visual_editor \<Rightarrow> visual_editor" where
  "deleteModel name s = s\<lparr>models := filter (\<lambda>m. \<not> strict_eq (mname m) name) (models s)\<rparr>"

subsection \<open>The dialogue\<close>

definition js_num_op :: "(rat \<Rightarrow> rat \<Rightarrow> rat) \<Rightarrow> jv \<Rightarrow> jv \<Rightarrow> jv" where
  "js_num_op f a b = (case (a, b) of (JNum x, JNum y) \<Rightarrow> JNum (f x y) | _ \<Rightarrow> JNaN)"

definition calculateRatioFromTokenPrice :: "jv \<Rightarrow> jv" where
  "calculateRatioFromTokenPrice p = js_num_op (/) p (JNum 2)"

definition calculateTokenPriceFromRatio :: "jv \<Rightarrow> jv" where
  "calculateTokenPriceFromRatio r = js_num_op (*) r (JNum 2)"

definition calculateCompletionRatioFromPrices :: "jv \<Rightarrow> jv \<Rightarrow> (visual_editor, jv) act" where
  "calculateCompletionRatioFromPrices mp cp =
     (if \<not> truthy mp \<or> mp = JStr ''0'' then sq (showErr ''the model price must not be 0'') (ret (JStr []))
      else ret (js_num_op (/) cp mp))"

definition is_positive :: "jv \<Rightarrow> bool" where
  "is_positive v = num_gt v 0"

definition handleTokenPriceChange :: "jv \<Rightarrow> visual_editor \<Rightarrow> visual_editor" where
  "handleTokenPriceChange v s =
     (let n = obj_set (obj_set (JObj (members (currentModel s))) ''tokenPrice'' v) ''ratio'' (JNum 0) in
      s\<lparr>currentModel := (if \<not> isNaN v \<and> v \<noteq> JStr [] then obj_set n ''ratio'' (calculateRatioFromTokenPrice (parseFloat v)) else n)\<rparr>)"

definition handleCompletionTokenPriceChange :: "jv \<Rightarrow> (visual_editor, unit) act" where
  "handleCompletionTokenPriceChange v = bnd (gets currentModel) (\<lambda>cur.
     let n = obj_set (obj_set (JObj (members cur)) ''completionTokenPrice'' v) ''completionRatio'' (JNum 0);
         mp = parseFloat (opt_get cur ''tokenPrice'') in
     if \<not> isNaN v \<and> v \<noteq> JStr [] \<and> truthy (opt_get cur ''tokenPrice'') \<and> is_positive mp
     then bnd (calculateCompletionRatioFromPrices mp (parseFloat v)) (\<lambda>x. modify (\<lambda>s. s\<lparr>currentModel := obj_set n ''completionRatio'' x\<rparr>))
     else modify (\<lambda>s. s\<lparr>currentModel := n\<rparr>))"

definition model_of_values :: "jv \<Rightarrow> priced_model" where
  "model_of_values v = (let f = (\<lambda>k. jor (opt_get v k) (JStr [])) in
     with_conflict \<lparr>mname = opt_get v ''name'', m_price = f ''price'', m_ratio = f ''ratio'', m_completion = f ''completionRatio'', hasConflict = False\<rparr>)"

fun first_named :: "jv \<Rightarrow> priced_model list \<Rightarrow> nat option" where
  "first_named n [] = None"
| "first_named n (m # ms) = (if strict_eq (mname m) n then Some 0 else map_option Suc (first_named n ms))"

definition addOrUpdateModel :: "jv \<Rightarrow> (visual_editor, unit) act" where
  "addOrUpdateModel v = bnd (gets models) (\<lambda>ms. case first_named (opt_get v ''name'') ms of
       Some i \<Rightarrow> sq (modify (\<lambda>s. s\<lparr>models := (models s)[i := model_of_values v], visible := False\<rparr>)) (showSuccess (JStr ''updated''))
     | None \<Rightarrow>
         if list_ex (\<lambda>m. strict_eq (mname m) (opt_get v ''name'')) ms then showErr ''the model name exists already''
         else sq (modify (\<lambda>s. s\<lparr>models := model_of_values v # models s, visible := False\<rparr>)) (showSuccess (JStr ''added'')))"

definition resetModalState :: "visual_editor \<Rightarrow> visual_editor" where
  "resetModalState s = s\<lparr>currentModel := JNull, pricingMode := ''per-token'', pricingSubMode := ''ratio'', isEditMode := False\<rparr>"

definition record_values :: "priced_model \<Rightarrow> jv" where
  "record_values m = JObj [(''name'', mname m), (''price'', m_price m), (''ratio'', m_ratio m), (''completionRatio'', m_completion m),
     (''hasConflict'', JBool (hasConflict m))]"

text \<open>The token prices that belong to the ratios of a model.\<close>

definition with_token_prices :: "jv \<Rightarrow> jv" where
  "with_token_prices v =
     (if truthy (opt_get v ''ratio'') then
        (let v1 = obj_set v ''tokenPrice'' (JStr (to_str (calculateTokenPriceFromRatio (parseFloat (opt_get v ''ratio''))))) in
         if truthy (opt_get v ''completionRatio'')
         then obj_set v1 ''completionTokenPrice''
                (JStr (to_str (js_num_op (*) (parseFloat (opt_get v1 ''tokenPrice'')) (parseFloat (opt_get v ''completionRatio'')))))
         else v1)
      else v)"

definition editModel :: "priced_model \<Rightarrow> visual_editor \<Rightarrow> visual_editor" where
  "editModel m s = s\<lparr>isEditMode := True, pricingMode := (if m_price m \<noteq> JStr [] then ''per-request'' else ''per-token''),
     pricingSubMode := ''ratio'', currentModel := with_token_prices (record_values m), visible := True\<rparr>"

definition open_add_model :: "visual_editor \<Rightarrow> visual_editor" where
  "open_add_model s = (resetModalState s)\<lparr>visible := True\<rparr>"

definition modal_onCancel :: "visual_editor \<Rightarrow> visual_editor" where
  "modal_onCancel s = (resetModalState s)\<lparr>visible := False\<rparr>"

definition token_ratios :: "jv \<Rightarrow> jv" where
  "token_ratios v =
     (let tp = parseFloat (opt_get v ''tokenPrice'');
          v1 = obj_set v ''ratio'' (JStr (to_str (js_num_op (/) tp (JNum 2)))) in
      if truthy (opt_get v ''completionTokenPrice'') \<and> truthy (opt_get v ''tokenPrice'') \<and> is_positive tp
      then obj_set v1 ''completionRatio'' (JStr (to_str (js_num_op (/) (parseFloat (opt_get v ''completionTokenPrice'')) tp)))
      else v1)"

definition values_to_save :: "string \<Rightarrow> string \<Rightarrow> jv \<Rightarrow> jv" where
  "values_to_save mode sub cur =
     (let v = JObj (members cur);
          v1 = (if mode = ''per-token'' \<and> sub = ''token-price'' \<and> truthy (opt_get cur ''tokenPrice'') then token_ratios v else v) in
      if mode = ''per-token'' then obj_set v1 ''price'' (JStr [])
      else obj_set (obj_set v1 ''ratio'' (JStr [])) ''completionRatio'' (JStr []))"

definition modal_onOk :: "(visual_editor, unit) act" where
  "modal_onOk = bnd (gets (\<lambda>s. (currentModel s, pricingMode s, pricingSubMode s))) (\<lambda>(cur, mode, sub).
     act_when (truthy cur) (addOrUpdateModel (values_to_save mode sub cur)))"

definition set_model_field :: "string \<Rightarrow> jv \<Rightarrow> visual_editor \<Rightarrow> visual_editor" where
  "set_model_field k v s = s\<lparr>currentModel := obj_set (JObj (members (currentModel s))) k v\<rparr>"

definition set_pricing_mode :: "string \<Rightarrow> visual_editor \<Rightarrow> visual_editor" where
  "set_pricing_mode m s = s\<lparr>pricingMode := m\<rparr>"

definition set_sub_mode :: "string \<Rightarrow> visual_editor \<Rightarrow> visual_editor" where
  "set_sub_mode m s = s\<lparr>pricingSubMode := m, currentModel :=
     (if truthy (currentModel s) \<and> pricingSubMode s = ''ratio'' \<and> m = ''token-price''
      then with_token_prices (currentModel s) else currentModel s)\<rparr>"

definition visual_search :: "string \<Rightarrow> visual_editor \<Rightarrow> visual_editor" where
  "visual_search text s = s\<lparr>searchText := text, currentPage := 1\<rparr>"

definition visual_conflicts :: "bool \<Rightarrow> visual_editor \<Rightarrow> visual_editor" where
  "visual_conflicts b s = s\<lparr>conflictOnly := b, currentPage := 1\<rparr>"

section \<open>The visual editor: lemmas\<close>

text \<open>A model's name is a text, or undefined where a model was added without one.\<close>

definition text_or_none :: "jv \<Rightarrow> bool" where
  "text_or_none v = (v = JUndef \<or> type_of v = ''string'')"

lemma text_or_none_eq: "text_or_none v \<Longrightarrow> strict_eq v w = (v = w)"
  by (cases v; cases w) (auto simp: text_or_none_def)

definition flag_ok :: "priced_model \<Rightarrow> bool" where
  "flag_ok m = (hasConflict m = conflict (m_price m) (m_ratio m) (m_completion m))"

definition models_ok :: "priced_model list \<Rightarrow> bool" where
  "models_ok ms = (distinct (List.map mname ms) \<and> list_all (\<lambda>m. text_or_none (mname m) \<and> flag_ok m) ms)"

definition visual_ok :: "visual_editor \<Rightarrow> bool" where
  "visual_ok s = (models_ok (models s) \<and> text_or_none (opt_get (currentModel s) ''name''))"

lemma distinct_firsts [simp]: "distinct (firsts xs)"
  by (simp add: firsts_def)

lemma set_firsts [simp]: "set (firsts xs) = set xs"
  by (simp add: firsts_def)

lemma models_ok_loaded: "models_ok (loaded_models p r c)"
  by (auto simp: models_ok_def loaded_models_def loaded_model_def distinct_map inj_on_def list_all_iff text_or_none_def flag_ok_def)

lemma with_conflict_simps [simp]:
  "mname (with_conflict m) = mname m" "flag_ok (with_conflict m)" "mname (set_field f v m) = mname m"
  "mname (model_of_values v) = opt_get v ''name''" "flag_ok (model_of_values v)"
  by (simp_all add: with_conflict_def flag_ok_def set_field_def model_of_values_def Let_def)

lemma models_ok_map:
  assumes "models_ok ms" and "\<And>m. mname (f m) = mname m" and "\<And>m. flag_ok m \<Longrightarrow> flag_ok (f m)"
  shows "models_ok (List.map f ms)"
  using assms by (auto simp: models_ok_def list_all_iff comp_def)

lemma models_ok_filter: "models_ok ms \<Longrightarrow> models_ok (filter P ms)"
  by (auto simp: models_ok_def list_all_iff distinct_map intro: inj_on_subset)

lemma first_named_spec:
  "list_all (\<lambda>m. text_or_none (mname m)) ms \<Longrightarrow>
   (case first_named n ms of None \<Rightarrow> n \<notin> mname ` set ms | Some i \<Rightarrow> i < length ms \<and> mname (ms ! i) = n)"
  by (induction ms) (auto simp: text_or_none_eq split: option.splits)

lemma models_ok_update:
  assumes "models_ok ms" and "i < length ms" and "mname (ms ! i) = mname x" and "flag_ok x" and "text_or_none (mname x)"
  shows "models_ok (ms[i := x])"
proof -
  have "List.map mname (ms[i := x]) = List.map mname ms"
    using assms(2,3) by (simp add: map_update list_update_same_conv)
  then show ?thesis using assms set_update_subset_insert[of ms i x] by (auto simp: models_ok_def list_all_iff)
qed

lemma add_or_update_keeps:
  assumes "models_ok (models s)" and "text_or_none (opt_get v ''name'')" and "text_or_none (opt_get (currentModel s) ''name'')"
  shows "visual_ok (snd (addOrUpdateModel v s))"
proof -
  have n: "list_all (\<lambda>m. text_or_none (mname m)) (models s)" using assms(1) by (auto simp: models_ok_def list_all_iff)
  show ?thesis
  proof (cases "first_named (opt_get v ''name'') (models s)")
    case (Some i)
    then have "i < length (models s)" "mname (models s ! i) = opt_get v ''name''"
      using first_named_spec[OF n, of "opt_get v ''name''"] by auto
    then have "models_ok ((models s)[i := model_of_values v])" using assms(1,2) by (intro models_ok_update) simp_all
    then show ?thesis using Some assms(3) by (simp add: addOrUpdateModel_def visual_ok_def act_simps)
  next
    case None
    then have "opt_get v ''name'' \<notin> mname ` set (models s)" using first_named_spec[OF n, of "opt_get v ''name''"] by simp
    then have "models_ok (model_of_values v # models s)" using assms(1,2) by (simp add: models_ok_def)
    then show ?thesis using None assms by (simp add: addOrUpdateModel_def visual_ok_def act_simps)
  qed
qed

lemma name_kept [simp]:
  "opt_get (with_token_prices v) ''name'' = opt_get v ''name''" "opt_get (token_ratios v) ''name'' = opt_get v ''name''"
  "opt_get (values_to_save mode sub v) ''name'' = opt_get v ''name''"
  by (simp_all add: with_token_prices_def token_ratios_def values_to_save_def opt_get_obj_set Let_def)

interpretation visual: form_frame "\<lambda>s t :: visual_editor. models t = models s \<and> currentModel t = currentModel s"
  by unfold_locales simp_all

lemma visual_submit_keeps: "models (snd (visual_SubmitData env s)) = models s \<and> currentModel (snd (visual_SubmitData env s)) = currentModel s"
proof -
  have "visual.obeys (visual_SubmitData env)"
    unfolding visual_SubmitData_def editor_answer_def ratio_onRefresh_def
    by (intro visual.obeys_intros visual.obeys_put_options visual.obeys_checked_answer visual.obeys_toasts visual.obeys_onRefresh items_keep_state)
  then show ?thesis by (simp add: visual.obeys_def)
qed

text \<open>What can happen in the editor: new options from the page, the cells and buttons of the table, the dialogue, saving.\<close>

inductive visual_step :: "env \<Rightarrow> visual_editor \<Rightarrow> visual_editor \<Rightarrow> bool" for env where
  options: "visual_step env s (models_effect (s\<lparr>page_inputs := v\<rparr>))"
| cell: "visual_step env s (snd (updateModel n f v s))"
| delete: "visual_step env s (deleteModel n s)"
| add: "visual_step env s (open_add_model s)"
| edit: "m \<in> set (models s) \<Longrightarrow> visual_step env s (editModel m s)"
| cancel: "visual_step env s (modal_onCancel s)"
| ok: "visual_step env s (snd (modal_onOk s))"
| name: "visual_step env s (set_model_field ''name'' (JStr u) s)"
| field: "k \<noteq> ''name'' \<Longrightarrow> visual_step env s (set_model_field k v s)"
| token_price: "visual_step env s (handleTokenPriceChange v s)"
| completion_price: "visual_step env s (snd (handleCompletionTokenPriceChange v s))"
| mode: "visual_step env s (set_pricing_mode md s)"
| sub_mode: "visual_step env s (set_sub_mode md s)"
| search: "visual_step env s (visual_search u s)"
| conflicts: "visual_step env s (visual_conflicts b s)"
| turn: "visual_step env s (s\<lparr>currentPage := n\<rparr>)"
| submit: "visual_step env s (snd (visual_SubmitData env s))"

lemma visual_step_ok:
  assumes "visual_step env s t" and "visual_ok s"
  shows "visual_ok t"
  using assms
proof (cases rule: visual_step.cases)
  case (options v)
  then show ?thesis using assms(2) by (auto simp: models_effect_def visual_ok_def models_ok_loaded split: option.split)
next
  case (cell n f v)
  show ?thesis
  proof (cases "isNaN v")
    case False
    then have "models_ok (models t)" "currentModel t = currentModel s"
      using assms(2) unfolding cell by (auto simp: updateModel_def act_simps visual_ok_def intro!: models_ok_map)
    then show ?thesis using assms(2) by (simp add: visual_ok_def)
  qed (use cell assms(2) in \<open>simp add: updateModel_def act_simps visual_ok_def\<close>)
next
  case (edit m)
  then have "text_or_none (mname m)" using assms(2) by (auto simp: visual_ok_def models_ok_def list_all_iff)
  then show ?thesis using assms(2) edit by (simp add: editModel_def visual_ok_def record_values_def)
next
  case ok
  have "visual_ok (snd (addOrUpdateModel (values_to_save md sub (currentModel s)) s))" for md sub
    using assms(2) by (intro add_or_update_keeps) (simp_all add: visual_ok_def)
  then show ?thesis using assms(2) ok by (simp add: modal_onOk_def act_simps)
next
  case (completion_price v)
  show ?thesis using assms(2) completion_price
    by (auto simp: handleCompletionTokenPriceChange_def calculateCompletionRatioFromPrices_def act_simps Let_def visual_ok_def opt_get_obj_set)
next
  case submit
  then show ?thesis using assms(2) visual_submit_keeps[of env s] by (simp add: visual_ok_def)
qed (simp_all add: visual_ok_def deleteModel_def models_ok_filter open_add_model_def modal_onCancel_def resetModalState_def set_model_field_def
    handleTokenPriceChange_def set_pricing_mode_def set_sub_mode_def visual_search_def visual_conflicts_def opt_get_obj_set text_or_none_def Let_def)

section \<open>Saving: lemmas\<close>

text \<open>The three objects after saving a list of models with distinct names, by name.\<close>

definition price_of :: "'x priced_scheme \<Rightarrow> jv option" where
  "price_of m = (if m_price m \<noteq> JStr [] then Some (parseFloat (m_price m)) else None)"

definition ratio_of :: "'x priced_scheme \<Rightarrow> jv option" where
  "ratio_of m = (if m_price m = JStr [] \<and> m_ratio m \<noteq> JStr [] then Some (parseFloat (m_ratio m)) else None)"

definition completion_of :: "'x priced_scheme \<Rightarrow> jv option" where
  "completion_of m = (if m_price m = JStr [] \<and> m_completion m \<noteq> JStr [] then Some (parseFloat (m_completion m)) else None)"

definition assigned :: "('x priced_scheme \<Rightarrow> jv option) \<Rightarrow> 'x priced_scheme list \<Rightarrow> jv \<Rightarrow> jv" where
  "assigned f ms v = fold (\<lambda>m v. case f m of Some x \<Rightarrow> obj_set v (to_str (mname m)) x | None \<Rightarrow> v) ms v"

lemma put_models_assigned:
  "fold put_model ms (p, r, c) = (assigned price_of ms p, assigned ratio_of ms r, assigned completion_of ms c)"
  by (induction ms arbitrary: p r c) (auto simp: put_model_def assigned_def price_of_def ratio_of_def completion_of_def Let_def)

lemma assigned_get:
  "distinct (List.map (\<lambda>m. to_str (mname m)) ms) \<Longrightarrow>
   opt_get (assigned f ms v) n = (case filter (\<lambda>m. to_str (mname m) = n) ms of
     [] \<Rightarrow> opt_get v n | m # _ \<Rightarrow> (case f m of Some x \<Rightarrow> x | None \<Rightarrow> opt_get v n))"
proof (induction ms arbitrary: v)
  case Nil
  then show ?case by (simp add: assigned_def)
next
  case (Cons m ms)
  have none: "filter (\<lambda>x. to_str (mname x) = n) ms = []" if "to_str (mname m) = n"
    using Cons.prems that by (auto simp: filter_empty_conv) (metis image_eqI)
  have "assigned f (m # ms) v = assigned f ms (case f m of Some x \<Rightarrow> obj_set v (to_str (mname m)) x | None \<Rightarrow> v)"
    by (simp add: assigned_def)
  then show ?case using Cons none by (auto simp: opt_get_obj_set split: option.split list.split)
qed

lemma assigned_loaded:
  assumes "\<And>n. f (loaded_model p r c n) = g n" and "\<And>n. n \<notin> set (obj_keys p @ obj_keys r @ obj_keys c) \<Longrightarrow> g n = None"
  shows "opt_get (assigned f (loaded_models p r c) v) n = (case g n of Some x \<Rightarrow> x | None \<Rightarrow> opt_get v n)"
proof -
  let ?ns = "firsts (obj_keys p @ obj_keys r @ obj_keys c)"
  have m: "to_str (mname (loaded_model p r c j)) = j" for j by (simp add: loaded_model_def)
  have d: "distinct (List.map (\<lambda>m. to_str (mname m)) (loaded_models p r c))"
    by (simp add: loaded_models_def comp_def m)
  have one: "filter (\<lambda>j. j = n) ns = (if n \<in> set ns then [n] else [])" if "distinct ns" for ns
    using that by (induction ns) auto
  have "filter (\<lambda>m. to_str (mname m) = n) (loaded_models p r c) = List.map (loaded_model p r c) (filter (\<lambda>j. j = n) ?ns)"
    by (simp add: loaded_models_def filter_map comp_def m)
  then show ?thesis using assigned_get[OF d, of f v n] assms by (auto simp: one split: option.split)
qed

text \<open>A value whose text reads as the value itself, as every number of the options does.\<close>

definition reads_itself :: "jv \<Rightarrow> bool" where
  "reads_itself v = (parseFloat v = v)"

lemma reads_itself_number: "reads_itself v \<Longrightarrow> v \<noteq> JUndef \<and> v \<noteq> JStr t"
  by (cases v) (auto simp: reads_itself_def parseFloat_def Let_def split: if_splits)

lemma member_reads:
  assumes "list_all (\<lambda>m. reads_itself (snd m)) (members v)"
  shows "(or_blank v n = JStr [] \<longleftrightarrow> opt_get v n = JUndef) \<and> (opt_get v n \<noteq> JUndef \<longrightarrow> parseFloat (or_blank v n) = opt_get v n)"
proof (cases "opt_get v n = JUndef")
  case False
  then have "reads_itself (opt_get v n)" using opt_get_members[of v n] assms by (auto simp: list_all_iff)
  then show ?thesis using False reads_itself_number by (simp add: or_blank_def reads_itself_def)
qed (simp add: or_blank_def)

section \<open>The visual editor: properties\<close>

text \<open>C34: However the table and the dialogue of the visual editor are used - new options, typing in a cell, adding, editing, deleting,
  switching between ratios and token prices, saving - no two models have the same name, and the mark for contradictory settings is
  on exactly the models that have both a fixed price and a ratio.\<close>

theorem visual_models_consistent:
  assumes "(visual_step env)\<^sup>*\<^sup>* s t" and "models s = []" and "currentModel s = JNull"
  shows "distinct (List.map mname (models t))
    \<and> (\<forall>m \<in> set (models t). hasConflict m \<longleftrightarrow> m_price m \<noteq> JStr [] \<and> (m_ratio m \<noteq> JStr [] \<or> m_completion m \<noteq> JStr []))"
proof -
  have "visual_ok s" using assms(2,3) by (simp add: visual_ok_def models_ok_def text_or_none_def)
  with assms(1) have "visual_ok t" by (induction rule: rtranclp_induct) (auto intro: visual_step_ok)
  then show ?thesis by (auto simp: visual_ok_def models_ok_def list_all_iff flag_ok_def conflict_def)
qed

text \<open>C35: Applying the visual editor without a change keeps every fixed price, and keeps the ratios of a model exactly if it has no
  fixed price: contradictory settings are resolved in favour of the price, nothing else is lost, and these three objects are what
  is sent, whatever the backend answers.\<close>

theorem untouched_prices_are_kept:
  assumes "three_maps (page_inputs s) = Some (p, r, c)" and "\<not> nullish p" and "\<not> nullish r" and "\<not> nullish c"
    and "list_all (\<lambda>m. reads_itself (snd m)) (members p)" and "list_all (\<lambda>m. reads_itself (snd m)) (members r)"
    and "list_all (\<lambda>m. reads_itself (snd m)) (members c)"
  shows "\<exists>P R C es. trace (snd (visual_SubmitData env (models_effect s))) = trace s
      @ List.map (Requested (hdr_user (api s))) (option_puts [(''ModelPrice'', json_pretty P), (''ModelRatio'', json_pretty R), (''CompletionRatio'', json_pretty C)])
      @ es
    \<and> (\<forall>n. opt_get P n = opt_get p n \<and> opt_get R n = (if opt_get p n = JUndef then opt_get r n else JUndef)
          \<and> opt_get C n = (if opt_get p n = JUndef then opt_get c n else JUndef))"
proof -
  let ?ms = "loaded_models p r c" and ?o = "JObj []"
  let ?P = "assigned price_of ?ms ?o" and ?R = "assigned ratio_of ?ms ?o" and ?C = "assigned completion_of ?ms ?o"
  have m: "models_effect s = s\<lparr>models := ?ms\<rparr>" using assms(1-4) by (simp add: models_effect_def)
  have q: "quiet (editor_answer (ratio_onRefresh env) res :: (visual_editor, unit) act)" for res
    unfolding editor_answer_def by (intro quiet_checked_answer quiet_model_onRefresh emits_intros) simp
  obtain es where sent: "trace (snd (visual_SubmitData env (models_effect s))) = trace s
      @ List.map (Requested (hdr_user (api s))) (option_puts (final_output (?P, ?R, ?C))) @ es"
    using put_options_sends[of "editor_answer (ratio_onRefresh env)", OF q, of _ env "final_output (?P, ?R, ?C)" "s\<lparr>models := ?ms\<rparr>"]
    by (auto simp: visual_SubmitData_def bnd_def gets_def m visual_output_def put_models_assigned)
  let ?d = "\<lambda>v n. if opt_get v n = JUndef then None else Some (opt_get v n)"
  let ?e = "\<lambda>v n. if opt_get p n = JUndef then ?d v n else None"
  have none: "opt_get v n = JUndef" if "n \<notin> set (obj_keys v)" for v n using that by (rule opt_get_no_key)
  have f: "price_of (loaded_model p r c n) = ?d p n" "ratio_of (loaded_model p r c n) = ?e r n"
    "completion_of (loaded_model p r c n) = ?e c n" for n
    using member_reads[OF assms(5), of n] member_reads[OF assms(6), of n] member_reads[OF assms(7), of n]
    by (auto simp: price_of_def ratio_of_def completion_of_def loaded_model_def)
  have "opt_get ?P n = (case ?d p n of Some x \<Rightarrow> x | None \<Rightarrow> opt_get ?o n)" for n
    by (rule assigned_loaded[of price_of p r c "?d p" ?o n, OF f(1)]) (auto simp: none)
  moreover have "opt_get ?R n = (case ?e r n of Some x \<Rightarrow> x | None \<Rightarrow> opt_get ?o n)" for n
    by (rule assigned_loaded[of ratio_of p r c "?e r" ?o n, OF f(2)]) (auto simp: none)
  moreover have "opt_get ?C n = (case ?e c n of Some x \<Rightarrow> x | None \<Rightarrow> opt_get ?o n)" for n
    by (rule assigned_loaded[of completion_of p r c "?e c" ?o n, OF f(3)]) (auto simp: none)
  ultimately have "\<forall>n. opt_get ?P n = opt_get p n \<and> opt_get ?R n = (if opt_get p n = JUndef then opt_get r n else JUndef)
      \<and> opt_get ?C n = (if opt_get p n = JUndef then opt_get c n else JUndef)"
    by simp
  then show ?thesis using sent unfolding final_output_def prod.case by blast
qed

text \<open>A model that is free by its ratio 0 loses the ratio when its dialogue is confirmed without a change.\<close>

lemma zero_ratio_is_lost:
  "let m = loaded_model (JObj []) (JObj [(''free'', JNum 0)]) (JObj []) ''free'';
       saved = model_of_values (values_to_save ''per-token'' ''ratio'' (with_token_prices (record_values m))) in
   m_ratio m = JNum 0 \<and> mname saved = JStr ''free'' \<and> m_ratio saved = JStr [] \<and> ratio_of saved = None"
  by (simp add: loaded_model_def or_blank_def with_token_prices_def record_values_def values_to_save_def model_of_values_def with_conflict_def
      ratio_of_def jor_def Let_def)

text \<open>The cells refuse text that is no number, the dialogue does not: what is sent for it is \<open>null\<close>.\<close>

lemma dialogue_takes_any_text:
  "fst (updateModel n f (JStr ''x'') s) = Inr () \<and> models (snd (updateModel n f (JStr ''x'') s)) = models s"
  "ratio_of (model_of_values (values_to_save ''per-token'' ''ratio'' (JObj [(''name'', JStr ''m''), (''ratio'', JStr ''x'')]))) = Some JNaN"
  "pretty 0 JNaN = ''null''"
proof -
  have "to_num (JStr ''x'') = None" and nan: "parseFloat (JStr ''x'') = JNaN" by code_simp+
  then show "fst (updateModel n f (JStr ''x'') s) = Inr () \<and> models (snd (updateModel n f (JStr ''x'') s)) = models s"
    by (simp add: updateModel_def isNaN_def act_simps)
  show "ratio_of (model_of_values (values_to_save ''per-token'' ''ratio'' (JObj [(''name'', JStr ''m''), (''ratio'', JStr ''x'')]))) = Some JNaN"
    using nan by (simp add: values_to_save_def model_of_values_def with_conflict_def ratio_of_def jor_def Let_def)
qed simp


definition editor_example :: "jv \<Rightarrow> visual_editor" where
  "editor_example options = \<lparr>store = Map.empty, api = \<lparr>hdr_user = JNum 1, intercepts = True\<rparr>, user_ctx = JUndef, status_ctx = JUndef,
     trace = [], page_inputs = options, page_loading = False, form_inputs = JObj [], inputsRow = JObj [], form_loading = False,
     models = [], visible = False, isEditMode = False, currentModel = JNull, searchText = [], currentPage = 1,
     pricingMode = ''per-token'', pricingSubMode = ''ratio'', conflictOnly = False\<rparr>"

definition prices_example :: jv where
  "prices_example = JObj [(''ModelPrice'', JStr ''{\"a\": 1}''), (''ModelRatio'', JStr ''{\"a\": 2, \"b\": 3}''), (''CompletionRatio'', JStr ''{}'')]"

lemma prices_example_maps: "three_maps prices_example = Some (JObj [(''a'', JNum 1)], JObj [(''a'', JNum 2), (''b'', JNum 3)], JObj [])"
  by code_simp

lemma small_numbers_read: "reads_itself (JNum 1)" "reads_itself (JNum 2)" "reads_itself (JNum 3)"
  by code_simp+

theorem visual_models_consistent_witness:
  "distinct (List.map mname (models (models_effect ((editor_example JUndef)\<lparr>page_inputs := prices_example\<rparr>))))"
  using visual_models_consistent[OF r_into_rtranclp[of "visual_step (\<lambda>_ _. Ok JNull)", OF visual_step.options[of _ "editor_example JUndef" prices_example]]]
  by (simp add: editor_example_def)

theorem untouched_prices_are_kept_witness:
  "\<exists>P R C es. trace (snd (visual_SubmitData (\<lambda>_ _. Ok JNull) (models_effect (editor_example prices_example)))) =
      List.map (Requested (JNum 1)) (option_puts [(''ModelPrice'', json_pretty P), (''ModelRatio'', json_pretty R), (''CompletionRatio'', json_pretty C)]) @ es
    \<and> opt_get P ''a'' = JNum 1 \<and> opt_get R ''a'' = JUndef \<and> opt_get R ''b'' = JNum 3"
proof -
  have e: "three_maps (page_inputs (editor_example prices_example)) = Some (JObj [(''a'', JNum 1)], JObj [(''a'', JNum 2), (''b'', JNum 3)], JObj [])"
      "trace (editor_example prices_example) = []" "hdr_user (api (editor_example prices_example)) = JNum 1"
    using prices_example_maps by (simp_all add: editor_example_def)
  obtain P R C es where w: "trace (snd (visual_SubmitData (\<lambda>_ _. Ok JNull) (models_effect (editor_example prices_example)))) =
      List.map (Requested (JNum 1)) (option_puts [(''ModelPrice'', json_pretty P), (''ModelRatio'', json_pretty R), (''CompletionRatio'', json_pretty C)]) @ es"
    "\<And>n. opt_get P n = opt_get (JObj [(''a'', JNum 1)]) n \<and> opt_get R n =
       (if opt_get (JObj [(''a'', JNum 1)]) n = JUndef then opt_get (JObj [(''a'', JNum 2), (''b'', JNum 3)]) n else JUndef)"
    using untouched_prices_are_kept[OF e(1), of "\<lambda>_ _. Ok JNull"] small_numbers_read unfolding e(2,3) by auto
  show ?thesis
    by (rule exI[of _ P], rule exI[of _ R], rule exI[of _ C], rule exI[of _ es]) (use w(1) w(2)[of "''a''"] w(2)[of "''b''"] in simp)
qed

end
