(* ===== verification/Unset_Prices.thy ===== *)
theory Unset_Prices
  imports Ratio_Editors
begin

text \<open>
  \<open>pages/Setting/Ratio/ModelRationNotSetEditor.jsx\<close>: the enabled models that have neither a price nor a ratio, with the table,
  the dialogue that adds a model, the batch dialogue, and saving, which merges the rows into the three options as they are.
\<close>

record unset_editor = option_form +
  unset_models :: "priced list"
  addVisible :: bool
  batchVisible :: bool
  newModel :: jv
  unset_search :: string
  unset_currentPage :: nat
  unset_pageSize :: nat
  enabledModels :: jv
  selectedRowKeys :: "jv list"
  batchFillType :: string
  batchFillValue :: jv
  batchRatioValue :: jv
  batchCompletionRatioValue :: jv

type_synonym 'a unset_act = "(unset_editor, 'a) act"

definition getAllEnabledModels :: "env \<Rightarrow> unit unset_act" where
  "getAllEnabledModels env = try_catch
     (bnd (bnd (api_get env ''/api/channel/models_enabled'' JUndef) destruct) (\<lambda>(success, message, data).
        if truthy success then modify (\<lambda>s. s\<lparr>enabledModels := data\<rparr>) else showError message))
     (\<lambda>_. showErr ''loading the enabled models failed'')"

definition unset_row :: "jv \<Rightarrow> jv \<Rightarrow> jv \<Rightarrow> jv \<Rightarrow> priced" where
  "unset_row p r c name = (let f = (\<lambda>v. jor (opt_get v (to_str name)) (JStr [])) in
     \<lparr>mname = name, m_price = f p, m_ratio = f r, m_completion = f c\<rparr>)"

text \<open>Looking up a name in an option that is \<open>null\<close> throws: \<open>None\<close>.\<close>

definition unset_rows :: "jv \<Rightarrow> jv \<Rightarrow> jv \<Rightarrow> jv list \<Rightarrow> priced list option" where
  "unset_rows p r c names =
     (let unset = filter (\<lambda>n. opt_get p (to_str n) = JUndef \<and> opt_get r (to_str n) = JUndef) names in
      if names \<noteq> [] \<and> (nullish p \<or> nullish r) \<or> unset \<noteq> [] \<and> nullish c then None else Some (List.map (unset_row p r c) unset))"

definition unset_effect :: "unset_editor \<Rightarrow> unset_editor" where
  "unset_effect s = (case (three_maps (page_inputs s), enabledModels s) of
       (Some (p, r, c), JArr names) \<Rightarrow> (case unset_rows p r c names of
          Some rows \<Rightarrow> s\<lparr>unset_models := rows, selectedRowKeys := []\<rparr> | None \<Rightarrow> s)
     | _ \<Rightarrow> s)"

fun rows_named :: "string \<Rightarrow> 'x priced_scheme list \<Rightarrow> 'x priced_scheme list option" where
  "rows_named text [] = Some []"
| "rows_named text (m # ms) =
     (case (if text = [] then Some True else case mname m of JStr n \<Rightarrow> Some (str_includes n text) | _ \<Rightarrow> None) of
        None \<Rightarrow> None
      | Some b \<Rightarrow> map_option (\<lambda>rest. if b then m # rest else rest) (rows_named text ms))"

definition unset_filtered :: "unset_editor \<Rightarrow> priced list option" where
  "unset_filtered s = rows_named (unset_search s) (unset_models s)"

definition unset_page :: "unset_editor \<Rightarrow> priced list option" where
  "unset_page s = map_option (\<lambda>ms. getPagedData ms (unset_currentPage s) (unset_pageSize s)) (unset_filtered s)"

text \<open>\<open>rows\<close> is the filtered list of the last rendering.\<close>

definition handlePageSizeChange :: "priced list \<Rightarrow> nat \<Rightarrow> unset_editor \<Rightarrow> unset_editor" where
  "handlePageSizeChange rows per s =
     (let totalPages = (length rows + per - 1) div per; t = s\<lparr>unset_pageSize := per\<rparr> in
      if unset_currentPage s > totalPages then t\<lparr>unset_currentPage := (if totalPages = 0 then 1 else totalPages)\<rparr> else t)"

section \<open>Saving\<close>

text \<open>Assigning into an option that is \<open>null\<close> throws.\<close>

definition assigns_into_null :: "'x priced_scheme list \<Rightarrow> jv \<times> jv \<times> jv \<Rightarrow> bool" where
  "assigns_into_null ms out = (case out of (p, r, c) \<Rightarrow>
     list_ex (\<lambda>m. price_of m \<noteq> None \<and> nullish p \<or> ratio_of m \<noteq> None \<and> nullish r \<or> completion_of m \<noteq> None \<and> nullish c) ms)"

definition reload_all :: "env \<Rightarrow> unit unset_act" where
  "reload_all env = sq (detach (ratio_onRefresh env)) (detach (getAllEnabledModels env))"

definition unset_SubmitData :: "env \<Rightarrow> unit unset_act" where
  "unset_SubmitData env = sq (modify (\<lambda>s. s\<lparr>form_loading := True\<rparr>))
     (bnd (gets (\<lambda>s. (three_maps (page_inputs s), unset_models s))) (\<lambda>(maps, ms). case maps of
        None \<Rightarrow> throw syntax_error
      | Some out \<Rightarrow>
          if assigns_into_null ms out then sq (showErr ''saving failed, please retry'') (modify (\<lambda>s. s\<lparr>form_loading := False\<rparr>))
          else put_options env (final_output (fold put_model ms out)) (editor_answer (reload_all env))))"

section \<open>Editing\<close>

definition unset_updateModel :: "jv \<Rightarrow> string \<Rightarrow> jv \<Rightarrow> unit unset_act" where
  "unset_updateModel name field v =
     (if v \<noteq> JStr [] \<and> isNaN v then showErr ''please enter a number''
      else modify (\<lambda>s. s\<lparr>unset_models := List.map (\<lambda>m. if strict_eq (mname m) name then set_field field v m else m) (unset_models s)\<rparr>))"

definition addModel :: "jv \<Rightarrow> unit unset_act" where
  "addModel v = bnd (gets unset_models) (\<lambda>ms.
     if list_ex (\<lambda>m. strict_eq (mname m) (opt_get v ''name'')) ms then showErr ''the model name exists already''
     else (let f = (\<lambda>k. jor (opt_get v k) (JStr [])) in
       sq (modify (\<lambda>s. s\<lparr>unset_models := \<lparr>mname = opt_get v ''name'', m_price = f ''price'', m_ratio = f ''ratio'',
             m_completion = f ''completionRatio''\<rparr> # unset_models s, addVisible := False\<rparr>))
          (showSuccess (JStr ''added''))))"

definition add_onOk :: "unit unset_act" where
  "add_onOk = bnd (gets newModel) (\<lambda>v. act_when (truthy v) (addModel v))"

definition new_model_field :: "string \<Rightarrow> jv \<Rightarrow> unset_editor \<Rightarrow> unset_editor" where
  "new_model_field k v s = s\<lparr>newModel := obj_set (JObj (members (newModel s))) k v\<rparr>"

definition switch_price_mode :: "bool \<Rightarrow> unset_editor \<Rightarrow> unset_editor" where
  "switch_price_mode b s = s\<lparr>newModel := obj_spread (JObj (members (newModel s)))
     [(''price'', JStr []), (''ratio'', JStr []), (''completionRatio'', JStr []), (''priceMode'', JBool b)]\<rparr>"

text \<open>The batch dialogue: the checks, the row after filling, and the announcement (a notification, recorded like a success toast).\<close>

definition batch_problem :: "unset_editor \<Rightarrow> string option" where
  "batch_problem s =
     (if selectedRowKeys s = [] then Some ''please select the models first''
      else if batchFillType s = ''bothRatio'' then
        (if batchRatioValue s = JStr [] \<or> batchCompletionRatioValue s = JStr [] then Some ''please enter both ratios''
         else if isNaN (batchRatioValue s) \<or> isNaN (batchCompletionRatioValue s) then Some ''please enter a valid number'' else None)
      else if batchFillValue s = JStr [] then Some ''please enter a value''
      else if isNaN (batchFillValue s) then Some ''please enter a valid number'' else None)"

definition filled_row :: "unset_editor \<Rightarrow> priced \<Rightarrow> priced" where
  "filled_row s m =
     (if batchFillType s = ''price'' then m\<lparr>m_price := batchFillValue s, m_ratio := JStr [], m_completion := JStr []\<rparr>
      else if batchFillType s = ''ratio'' then m\<lparr>m_price := JStr [], m_ratio := batchFillValue s\<rparr>
      else if batchFillType s = ''completionRatio'' then m\<lparr>m_price := JStr [], m_completion := batchFillValue s\<rparr>
      else if batchFillType s = ''bothRatio''
      then m\<lparr>m_price := JStr [], m_ratio := batchRatioValue s, m_completion := batchCompletionRatioValue s\<rparr>
      else m)"

definition batch_type_text :: "string \<Rightarrow> string" where
  "batch_type_text ty = (if ty = ''price'' then ''fixed price'' else if ty = ''ratio'' then ''model ratio''
     else if ty = ''completionRatio'' then ''completion ratio'' else ''model ratio and completion ratio'')"

definition handleBatchFill :: "unit unset_act" where
  "handleBatchFill = bnd (gets (\<lambda>s. s)) (\<lambda>s0. case batch_problem s0 of
       Some m \<Rightarrow> showErr m
     | None \<Rightarrow>
         sq (modify (\<lambda>s. s\<lparr>unset_models := List.map (\<lambda>m. if list_ex (strict_eq (mname m)) (selectedRowKeys s0) then filled_row s0 m else m)
                (unset_models s), batchVisible := False\<rparr>))
            (showSuccess (JStr (batch_type_text (batchFillType s0) @ '' set for '' @ nat_digits (length (selectedRowKeys s0)) @ '' models''))))"

definition handleBatchTypeChange :: "string \<Rightarrow> unset_editor \<Rightarrow> unset_editor" where
  "handleBatchTypeChange ty s = (let t = s\<lparr>batchFillType := ty\<rparr> in
     if ty \<noteq> ''bothRatio'' then t\<lparr>batchFillValue := JStr []\<rparr>
     else t\<lparr>batchRatioValue := JStr [], batchCompletionRatioValue := JStr []\<rparr>)"

section \<open>Lemmas\<close>

text \<open>After a change of the page size the page shown exists, unless the list is empty.\<close>

lemma page_in_range:
  assumes "0 < per" and "1 \<le> unset_currentPage s"
  shows "1 \<le> unset_currentPage (handlePageSizeChange rows per s)"
    and "rows \<noteq> [] \<Longrightarrow> getPagedData rows (unset_currentPage (handlePageSizeChange rows per s)) per \<noteq> []"
proof -
  let ?t = "handlePageSizeChange rows per s" and ?n = "(length rows + per - 1) div per"
  show "1 \<le> unset_currentPage ?t" using assms(2) by (simp add: handlePageSizeChange_def Let_def)
  assume r: "rows \<noteq> []"
  then obtain k where k: "length rows = Suc k" by (cases rows) auto
  then have n: "?n = Suc (k div per)" using assms(1) by (simp add: div_add_self2)
  then have "unset_currentPage ?t - 1 \<le> k div per" by (auto simp: handlePageSizeChange_def Let_def)
  then have "(unset_currentPage ?t - 1) * per \<le> k" by (metis div_times_less_eq_dividend le_trans mult_le_mono1)
  then show "getPagedData rows (unset_currentPage ?t) per \<noteq> []" using assms(1) k by (simp add: getPagedData_def)
qed

lemma filter_own: "distinct (List.map f xs) \<Longrightarrow> x \<in> set xs \<Longrightarrow> filter (\<lambda>y. f y = f x) xs = [x]"
proof (induction xs)
  case (Cons y ys)
  then show ?case by (cases "f y = f x") (auto simp: filter_empty_conv image_iff eq_commute)
qed simp

lemma quiet_reload_all: "quiet (reload_all env)"
  unfolding reload_all_def getAllEnabledModels_def api_get_def destruct_def
  by (intro emits_intros quiet_detach quiet_model_onRefresh) simp_all

section \<open>Properties\<close>

text \<open>C36: Saving the models without a price writes exactly these models: the price, ratio and completion ratio of every other model
  are sent as they were, a row with a fixed price gets that price, a row without one gets the ratios that were typed, and a row
  that was left blank changes nothing.\<close>

theorem unset_rows_only_added:
  assumes "three_maps (page_inputs s) = Some (p, r, c)" and "\<not> nullish p" and "\<not> nullish r" and "\<not> nullish c"
    and "distinct (List.map (\<lambda>m. to_str (mname m)) (unset_models s))"
  shows "\<exists>P R C es. trace (snd (unset_SubmitData env s)) = trace s
      @ List.map (Requested (hdr_user (api s))) (option_puts [(''ModelPrice'', json_pretty P), (''ModelRatio'', json_pretty R), (''CompletionRatio'', json_pretty C)])
      @ es
    \<and> (\<forall>n. n \<notin> (\<lambda>m. to_str (mname m)) ` set (unset_models s) \<longrightarrow> opt_get P n = opt_get p n \<and> opt_get R n = opt_get r n \<and> opt_get C n = opt_get c n)
    \<and> (\<forall>m \<in> set (unset_models s). let n = to_str (mname m); set_to = (\<lambda>x old. case x of Some v \<Rightarrow> v | None \<Rightarrow> old) in
          opt_get P n = set_to (price_of m) (opt_get p n) \<and> opt_get R n = set_to (ratio_of m) (opt_get r n)
          \<and> opt_get C n = set_to (completion_of m) (opt_get c n))"
proof -
  let ?ms = "unset_models s" and ?name = "\<lambda>m. to_str (mname m)"
  let ?P = "assigned price_of ?ms p" and ?R = "assigned ratio_of ?ms r" and ?C = "assigned completion_of ?ms c"
  have q: "quiet (editor_answer (reload_all env) res)" for res
    unfolding editor_answer_def by (intro quiet_checked_answer quiet_reload_all emits_intros) simp
  have "\<not> assigns_into_null ?ms (p, r, c)" using assms(2-4) by (simp add: assigns_into_null_def list_ex_iff)
  then have "unset_SubmitData env s = put_options env (final_output (?P, ?R, ?C)) (editor_answer (reload_all env)) (s\<lparr>form_loading := True\<rparr>)"
    using assms(1) by (simp add: unset_SubmitData_def sq_def modify_def bnd_def gets_def put_models_assigned)
  then obtain es where sent: "trace (snd (unset_SubmitData env s)) = trace s
      @ List.map (Requested (hdr_user (api s))) (option_puts (final_output (?P, ?R, ?C))) @ es"
    using put_options_sends[of "editor_answer (reload_all env)", OF q, of _ env "final_output (?P, ?R, ?C)" "s\<lparr>form_loading := True\<rparr>"] by auto
  have other: "filter (\<lambda>m. ?name m = n) ?ms = []" if "n \<notin> ?name ` set ?ms" for n using that by (auto simp: filter_empty_conv)
  have own: "filter (\<lambda>x. ?name x = ?name m) ?ms = [m]" if "m \<in> set ?ms" for m
    using filter_own[OF assms(5) that] .
  have "\<forall>n. n \<notin> ?name ` set ?ms \<longrightarrow> opt_get ?P n = opt_get p n \<and> opt_get ?R n = opt_get r n \<and> opt_get ?C n = opt_get c n"
    by (simp add: assigned_get[OF assms(5)] other)
  moreover have "\<forall>m \<in> set ?ms. let n = ?name m; set_to = (\<lambda>x old. case x of Some v \<Rightarrow> v | None \<Rightarrow> old) in
      opt_get ?P n = set_to (price_of m) (opt_get p n) \<and> opt_get ?R n = set_to (ratio_of m) (opt_get r n)
      \<and> opt_get ?C n = set_to (completion_of m) (opt_get c n)"
    by (simp add: assigned_get[OF assms(5)] own Let_def)
  ultimately show ?thesis using sent unfolding final_output_def prod.case by blast
qed


definition unset_example :: unset_editor where
  "unset_example = \<lparr>store = Map.empty, api = \<lparr>hdr_user = JNum 1, intercepts = True\<rparr>, user_ctx = JUndef, status_ctx = JUndef,
     trace = [], page_inputs = prices_example, page_loading = False, form_inputs = JObj [], inputsRow = JObj [], form_loading = False,
     unset_models = [\<lparr>mname = JStr ''x'', m_price = JStr ''3'', m_ratio = JStr [], m_completion = JStr []\<rparr>], addVisible = False,
     batchVisible = False, newModel = JNull, unset_search = [], unset_currentPage = 1, unset_pageSize = 10, enabledModels = JArr [],
     selectedRowKeys = [], batchFillType = ''ratio'', batchFillValue = JStr [], batchRatioValue = JStr [], batchCompletionRatioValue = JStr []\<rparr>"

theorem unset_rows_only_added_witness:
  "\<exists>P R C es. trace (snd (unset_SubmitData (\<lambda>_ _. Ok JNull) unset_example)) =
      List.map (Requested (JNum 1)) (option_puts [(''ModelPrice'', json_pretty P), (''ModelRatio'', json_pretty R), (''CompletionRatio'', json_pretty C)]) @ es
    \<and> opt_get P ''x'' = JNum 3 \<and> opt_get P ''a'' = JNum 1 \<and> opt_get R ''b'' = JNum 3"
proof -
  have e: "three_maps (page_inputs unset_example) = Some (JObj [(''a'', JNum 1)], JObj [(''a'', JNum 2), (''b'', JNum 3)], JObj [])"
      "trace unset_example = []" "hdr_user (api unset_example) = JNum 1"
      "unset_models unset_example = [\<lparr>mname = JStr ''x'', m_price = JStr ''3'', m_ratio = JStr [], m_completion = JStr []\<rparr>]"
    using prices_example_maps by (simp_all add: unset_example_def)
  have d: "distinct (List.map (\<lambda>m. to_str (mname m)) (unset_models unset_example))" by (simp add: e(4))
  have three: "parseFloat (JStr ''3'') = JNum 3" by code_simp
  from unset_rows_only_added[OF e(1) nullish_simps(7) nullish_simps(7) nullish_simps(7) d, of "\<lambda>_ _. Ok JNull"]
  obtain P R C es where w: "trace (snd (unset_SubmitData (\<lambda>_ _. Ok JNull) unset_example)) = trace unset_example
      @ List.map (Requested (hdr_user (api unset_example)))
          (option_puts [(''ModelPrice'', json_pretty P), (''ModelRatio'', json_pretty R), (''CompletionRatio'', json_pretty C)]) @ es"
    and other: "\<forall>n. n \<notin> (\<lambda>m. to_str (mname m)) ` set (unset_models unset_example) \<longrightarrow> opt_get P n = opt_get (JObj [(''a'', JNum 1)]) n
      \<and> opt_get R n = opt_get (JObj [(''a'', JNum 2), (''b'', JNum 3)]) n \<and> opt_get C n = opt_get (JObj []) n"
    and row: "\<forall>m \<in> set (unset_models unset_example). let n = to_str (mname m); set_to = (\<lambda>x old. case x of Some v \<Rightarrow> v | None \<Rightarrow> old) in
          opt_get P n = set_to (price_of m) (opt_get (JObj [(''a'', JNum 1)]) n)
          \<and> opt_get R n = set_to (ratio_of m) (opt_get (JObj [(''a'', JNum 2), (''b'', JNum 3)]) n)
          \<and> opt_get C n = set_to (completion_of m) (opt_get (JObj []) n)"
    by blast
  have "opt_get P ''x'' = JNum 3" using row three by (simp add: e(4) price_of_def Let_def)
  then show ?thesis
    by (intro exI[of _ P] exI[of _ R] exI[of _ C] exI[of _ es]) (use w spec[OF other, of "''a''"] spec[OF other, of "''b''"] in \<open>simp add: e(2-4)\<close>)
qed

end
