(* ===== verification/Ratio_Sync.thy ===== *)
theory Ratio_Sync
  imports Ratio_Editors
begin

text \<open>
  \<open>pages/Setting/Ratio/UpstreamRatioSync.jsx\<close>: ratios are fetched from other channels, compared with the own ones, chosen cell by
  cell, and written to four options; and the selection of channels in \<open>components/settings/ChannelSelectorModal.jsx\<close>. The choices
  (\<open>resolutions\<close>) and the rows of the table are lists in the order of insertion. The differences are an object
  (model, then type of ratio) of objects with the members \<open>current\<close>, \<open>upstreams\<close> and \<open>confidence\<close>, as the backend sends them.
\<close>

type_synonym choices = "(string \<times> (string \<times> jv) list) list"

record sync_page = option_form +
  modalVisible :: bool
  syncLoading :: bool
  allChannels :: "jv list"
  selectedChannelIds :: "jv list"
  channelEndpoints :: jv
  differences :: jv
  resolutions :: choices
  hasSynced :: bool
  sync_currentPage :: nat
  sync_pageSize :: nat
  searchKeyword :: string
  ratioTypeFilter :: string
  confirmVisible :: bool
  conflictItems :: "jv list"

type_synonym 'a sync_act = "(sync_page, 'a) act"

section \<open>Channels\<close>

definition DEFAULT_ENDPOINT :: string where
  "DEFAULT_ENDPOINT = ''/api/ratio_config''"

definition transfer_item :: "jv \<Rightarrow> jv" where
  "transfer_item channel = JObj [(''key'', opt_get channel ''id''), (''label'', opt_get channel ''name''), (''value'', opt_get channel ''id''),
     (''disabled'', JBool False), (''_originalData'', channel)]"

definition official :: "jv \<Rightarrow> jv \<Rightarrow> jv \<Rightarrow> bool" where
  "official i base name = (i = JNum (-100) \<or> base = JStr ''https://basellm.github.io'' \<or> name = JStr ''official ratio preset'')"

definition merge_endpoint :: "jv \<Rightarrow> jv \<Rightarrow> jv" where
  "merge_endpoint channel merged =
     (let i = opt_get channel ''key''; base = jor (opt_get (opt_get channel ''_originalData'') ''base_url'') (JStr []);
          name = jor (opt_get channel ''label'') (JStr []) in
      if truthy (opt_get merged (to_str i)) then merged
      else obj_set merged (to_str i)
        (JStr (if official i base name then ''/llm-metadata/api/newapi/ratio_config-v1-base.json'' else DEFAULT_ENDPOINT)))"

definition fetchAllChannels :: "env \<Rightarrow> unit sync_act" where
  "fetchAllChannels env = sq (modify (\<lambda>s. s\<lparr>form_loading := True\<rparr>))
     (try_finally
       (try_catch
         (bnd (api_get env ''/api/ratio_sync/channels'' JUndef) (\<lambda>d.
          bnd (prop_get d ''success'') (\<lambda>success.
            if truthy success then
              (case jor (opt_get d ''data'') (JArr []) of
                 JArr channels \<Rightarrow> if list_ex nullish channels then throw type_error
                   else (let items = List.map transfer_item channels in
                     modify (\<lambda>s. s\<lparr>allChannels := items,
                       channelEndpoints := fold merge_endpoint items (JObj (members (channelEndpoints s)))\<rparr>))
               | _ \<Rightarrow> throw type_error)
            else showError (opt_get d ''message''))))
         (\<lambda>error. bnd (prop_get error ''message'') (\<lambda>m. showErr (''loading the channels failed: '' @ to_str m))))
       (modify (\<lambda>s. s\<lparr>form_loading := False\<rparr>)))"

definition open_selector :: "env \<Rightarrow> unit sync_act" where
  "open_selector env = bnd (gets allChannels) (\<lambda>chs. sq (modify (\<lambda>s. s\<lparr>modalVisible := True\<rparr>))
     (act_when (chs = []) (detach (fetchAllChannels env))))"

definition updateChannelEndpoint :: "jv \<Rightarrow> jv \<Rightarrow> sync_page \<Rightarrow> sync_page" where
  "updateChannelEndpoint channelId ep s =
     s\<lparr>channelEndpoints := obj_set (JObj (members (channelEndpoints s))) (to_str channelId) ep\<rparr>"

definition upstream_of :: "jv \<Rightarrow> jv \<Rightarrow> jv" where
  "upstream_of endpoints ch = JObj [(''id'', opt_get ch ''id''), (''name'', opt_get ch ''name''), (''base_url'', opt_get ch ''base_url''),
     (''endpoint'', jor (opt_get endpoints (to_str (opt_get ch ''id''))) (JStr DEFAULT_ENDPOINT))]"

text \<open>The answer of a fetch: members that are undefined get defaults, a list of results that is no list throws.\<close>

definition or_default :: "jv \<Rightarrow> string \<Rightarrow> jv \<Rightarrow> jv" where
  "or_default v k d = (if opt_get v k = JUndef then d else opt_get v k)"

definition take_differences :: "jv \<Rightarrow> unit sync_act" where
  "take_differences data = (if nullish data then throw type_error else
     (let dmap = or_default data ''differences'' (JObj []) in
      case or_default data ''test_results'' (JArr []) of
        JArr rs \<Rightarrow> if list_ex nullish rs then throw type_error
          else (let errorResults = filter (\<lambda>r. opt_get r ''status'' = JStr ''error'') rs in
            sq (act_when (errorResults \<noteq> []) (showWarning (JStr (''some channels failed: ''
                  @ join_with '', '' (List.map (\<lambda>r. to_str (opt_get r ''name'') @ '': '' @ to_str (opt_get r ''error'')) errorResults)))))
           (sq (modify (\<lambda>s. s\<lparr>differences := dmap, resolutions := [], hasSynced := True\<rparr>))
               (if nullish dmap then throw type_error
                else act_when (obj_keys dmap = []) (showSuccess (JStr ''no different ratios, nothing to do'')))))
      | _ \<Rightarrow> throw type_error))"

definition fetchRatiosFromChannels :: "env \<Rightarrow> jv list \<Rightarrow> unit sync_act" where
  "fetchRatiosFromChannels env channelList = sq (modify (\<lambda>s. s\<lparr>syncLoading := True\<rparr>))
     (bnd (gets channelEndpoints) (\<lambda>endpoints.
      try_finally
        (try_catch
          (bnd (api_post env ''/api/ratio_sync/fetch''
                 (JObj [(''upstreams'', JArr (List.map (upstream_of endpoints) channelList)), (''timeout'', JNum 10)])) (\<lambda>d.
           bnd (prop_get d ''success'') (\<lambda>success.
             if \<not> truthy success then sq (showError (jor (opt_get d ''message'') (JStr ''the request failed''))) (modify (\<lambda>s. s\<lparr>syncLoading := False\<rparr>))
             else take_differences (opt_get d ''data''))))
          (\<lambda>e. bnd (prop_get e ''message'') (\<lambda>m. showErr (''the request to the backend failed: '' @ to_str m))))
        (modify (\<lambda>s. s\<lparr>syncLoading := False\<rparr>))))"

definition confirmChannelSelection :: "env \<Rightarrow> unit sync_act" where
  "confirmChannelSelection env = bnd (gets (\<lambda>s. (allChannels s, selectedChannelIds s))) (\<lambda>(chs, ids).
     let selected = List.map (\<lambda>ch. opt_get ch ''_originalData'') (filter (\<lambda>ch. list_ex (strict_eq (opt_get ch ''value'')) ids) chs) in
     if selected = [] then showWarning (JStr ''please select at least one channel'')
     else sq (modify (\<lambda>s. s\<lparr>modalVisible := False\<rparr>)) (detach (fetchRatiosFromChannels env selected)))"

subsection \<open>ChannelSelectorModal.jsx\<close>

definition isOfficialChannel :: "jv \<Rightarrow> bool" where
  "isOfficialChannel ch = official
     (jcoalesce (opt_get ch ''key'') (jcoalesce (opt_get ch ''value'') (opt_get (opt_get ch ''_originalData'') ''id'')))
     (jor (opt_get (opt_get ch ''_originalData'') ''base_url'') (JStr [])) (jor (opt_get ch ''label'') (JStr []))"

text \<open>The texts are searched without regard to case; the official channels come first, otherwise the order stays.\<close>

definition selector_rows :: "string \<Rightarrow> jv list \<Rightarrow> jv list" where
  "selector_rows text chs =
     (let low = to_lower (trim text); shown = (\<lambda>v. to_lower (to_str (jor v (JStr []))));
          matched = (if low = [] then chs else filter (\<lambda>ch. str_includes (shown (opt_get ch ''label'')) low
             \<or> str_includes (shown (opt_get (opt_get ch ''_originalData'') ''base_url'')) low) chs) in
      sort_key (\<lambda>ch. if isOfficialChannel ch then 0 else 1 :: nat) matched)"

definition endpoint_type :: "jv \<Rightarrow> string" where
  "endpoint_type ep = (if ep = JStr ''/api/ratio_config'' then ''ratio_config'' else if ep = JStr ''/api/pricing'' then ''pricing'' else ''custom'')"

definition channel_id :: "jv \<Rightarrow> jv" where
  "channel_id ch = jor (opt_get ch ''key'') (opt_get ch ''value'')"

definition handleTypeChange :: "jv \<Rightarrow> string \<Rightarrow> sync_page \<Rightarrow> sync_page" where
  "handleTypeChange ch ty s =
     (let current = jor (opt_get (channelEndpoints s) (to_str (channel_id ch))) (JStr []) in
      if ty = ''ratio_config'' then updateChannelEndpoint (channel_id ch) (JStr ''/api/ratio_config'') s
      else if ty = ''pricing'' then updateChannelEndpoint (channel_id ch) (JStr ''/api/pricing'') s
      else if endpoint_type current \<noteq> ''custom'' then updateChannelEndpoint (channel_id ch) (JStr []) s else s)"

section \<open>Choosing\<close>

definition getBillingCategory :: "string \<Rightarrow> string" where
  "getBillingCategory ratioType = (if ratioType = ''model_price'' then ''price'' else ''ratio'')"

definition pick :: "string \<Rightarrow> string \<Rightarrow> jv \<Rightarrow> choices \<Rightarrow> choices" where
  "pick model ratioType v res =
     (let old = (case map_of res model of Some r \<Rightarrow> r | None \<Rightarrow> []);
          kept = filter (\<lambda>(rt, x). getBillingCategory rt = getBillingCategory ratioType) old in
      AList.update model (AList.update ratioType v kept) res)"

definition selectValue :: "string \<Rightarrow> string \<Rightarrow> jv \<Rightarrow> sync_page \<Rightarrow> sync_page" where
  "selectValue model ratioType v s = s\<lparr>resolutions := pick model ratioType v (resolutions s)\<rparr>"

definition unpick :: "string \<Rightarrow> string \<Rightarrow> choices \<Rightarrow> choices" where
  "unpick model ratioType res = (case map_of res model of
       None \<Rightarrow> res
     | Some r \<Rightarrow> (let r' = AList.delete ratioType r in if r' = [] then AList.delete model res else AList.update model r' res))"

record diff_row =
  row_model :: string
  row_type :: string
  row_current :: jv
  row_upstreams :: jv
  row_confidence :: jv
  billingConflict :: bool

definition difference_rows :: "jv \<Rightarrow> diff_row list" where
  "difference_rows dmap = concat (List.map (\<lambda>(model, types).
     (let has = (\<lambda>rt. rt \<in> set (obj_keys types));
          conflicting = (has ''model_price'' \<and> list_ex has [''model_ratio'', ''completion_ratio'', ''cache_ratio'']) in
      List.map (\<lambda>(rt, diff). \<lparr>row_model = model, row_type = rt, row_current = opt_get diff ''current'', row_upstreams = opt_get diff ''upstreams'',
        row_confidence = jor (opt_get diff ''confidence'') (JObj []), billingConflict = conflicting\<rparr>) (members types))) (members dmap))"

definition filtered_rows :: "sync_page \<Rightarrow> diff_row list" where
  "filtered_rows s =
     (let kw = searchKeyword s; ty = ratioTypeFilter s in
      if trim kw = [] \<and> ty = [] then difference_rows (differences s)
      else filter (\<lambda>r. (trim kw = [] \<or> str_includes (to_lower (row_model r)) (trim (to_lower kw))) \<and> (ty = [] \<or> row_type r = ty))
             (difference_rows (differences s)))"

definition upstreamNames :: "diff_row list \<Rightarrow> string list" where
  "upstreamNames rows = firsts (concat (List.map (\<lambda>r. obj_keys (row_upstreams r)) rows))"

definition getCurrentPageData :: "sync_page \<Rightarrow> diff_row list" where
  "getCurrentPageData s = getPagedData (filtered_rows s) (sync_currentPage s) (sync_pageSize s)"

definition selectable :: "jv \<Rightarrow> bool" where
  "selectable v = (\<not> nullish v \<and> v \<noteq> JStr ''same'')"

definition is_selected :: "choices \<Rightarrow> diff_row \<Rightarrow> jv \<Rightarrow> bool" where
  "is_selected res r v = (case map_of res (row_model r) of None \<Rightarrow> False
     | Some rs \<Rightarrow> (case map_of rs (row_type r) of None \<Rightarrow> False | Some w \<Rightarrow> strict_eq w v))"

text \<open>The numbers of cells of a channel that can be selected and that are.\<close>

definition channelStats :: "choices \<Rightarrow> diff_row list \<Rightarrow> string \<Rightarrow> nat \<times> nat" where
  "channelStats res rows up =
     (let cells = filter (\<lambda>r. selectable (opt_get (row_upstreams r) up)) rows in
      (length cells, length (filter (\<lambda>r. is_selected res r (opt_get (row_upstreams r) up)) cells)))"

definition handleBulkSelect :: "diff_row list \<Rightarrow> string \<Rightarrow> bool \<Rightarrow> sync_page \<Rightarrow> sync_page" where
  "handleBulkSelect rows up checked s = s\<lparr>resolutions :=
     (if checked
      then fold (\<lambda>r res. let v = opt_get (row_upstreams r) up in
             if selectable v then pick (row_model r) (row_type r) v res else res) rows (resolutions s)
      else fold (\<lambda>r. unpick (row_model r) (row_type r)) rows (resolutions s))\<rparr>"

definition cell_onChange :: "diff_row \<Rightarrow> jv \<Rightarrow> bool \<Rightarrow> sync_page \<Rightarrow> sync_page" where
  "cell_onChange r v checked s =
     (if checked then selectValue (row_model r) (row_type r) v s
      else s\<lparr>resolutions := unpick (row_model r) (row_type r) (resolutions s)\<rparr>)"

text \<open>The channels whose value for a row is not to be trusted; without one the row is marked as reliable.\<close>

definition untrustedSources :: "diff_row \<Rightarrow> string list" where
  "untrustedSources r = List.map fst (filter (\<lambda>(name, v). v = JBool False) (members (row_confidence r)))"

section \<open>Applying\<close>

text \<open>The four options; \<open>None\<close> is the SyntaxError of \<open>JSON.parse\<close>, which nothing catches.\<close>

definition sync_keys :: "string list" where
  "sync_keys = [''ModelRatio'', ''CompletionRatio'', ''CacheRatio'', ''ModelPrice'']"

definition current_ratios :: "jv \<Rightarrow> (string \<times> jv) list option" where
  "current_ratios options = those (List.map (\<lambda>k. map_option (Pair k) (parse_option options k)) sync_keys)"

definition ratios_at :: "(string \<times> jv) list \<Rightarrow> string \<Rightarrow> jv" where
  "ratios_at cur k = (case map_of cur k of Some v \<Rightarrow> v | None \<Rightarrow> JUndef)"

fun first_set :: "(string \<times> jv) list \<Rightarrow> string \<Rightarrow> string list \<Rightarrow> ('s, bool) act" where
  "first_set cur model [] = ret False"
| "first_set cur model (k # ks) = bnd (prop_get (ratios_at cur k) model) (\<lambda>v. if v \<noteq> JUndef then ret True else first_set cur model ks)"

definition getLocalBillingCategory :: "(string \<times> jv) list \<Rightarrow> string \<Rightarrow> ('s, string option) act" where
  "getLocalBillingCategory cur model = bnd (first_set cur model [''ModelPrice'']) (\<lambda>priced.
     if priced then ret (Some ''price'')
     else bnd (first_set cur model [''ModelRatio'', ''CompletionRatio'', ''CacheRatio'']) (\<lambda>b. ret (if b then Some ''ratio'' else None)))"

definition findSourceChannel :: "jv \<Rightarrow> string \<Rightarrow> string \<Rightarrow> jv \<Rightarrow> string" where
  "findSourceChannel dmap model ratioType v =
     (let d = opt_get (opt_get dmap model) ratioType in
      if truthy (opt_get dmap model) \<and> truthy d
      then (case filter (\<lambda>(name, w). strict_eq w v) (members (jor (opt_get d ''upstreams'') (JObj []))) of
              (name, w) # _ \<Rightarrow> name | [] \<Rightarrow> ''unknown'')
      else ''unknown'')"

definition or_dash :: "jv \<Rightarrow> string" where
  "or_dash v = to_str (jcoalesce v (JStr ''-''))"

definition ratio_desc :: "jv \<Rightarrow> jv \<Rightarrow> string" where
  "ratio_desc ratio completion = ''model ratio : '' @ or_dash ratio @ [CHR 0x0A] @ ''completion ratio : '' @ or_dash completion"

definition new_category :: "(string \<times> jv) list \<Rightarrow> string" where
  "new_category ratios = (if ''model_price'' \<in> fst ` set ratios then ''price'' else ''ratio'')"

definition conflict_of :: "(string \<times> jv) list \<Rightarrow> jv \<Rightarrow> string \<times> (string \<times> jv) list \<Rightarrow> ('s, jv option) act" where
  "conflict_of cur dmap choice = (case choice of (model, ratios) \<Rightarrow>
     bnd (getLocalBillingCategory cur model) (\<lambda>localCat.
       let newCat = new_category ratios; chosen = ratios_at ratios; now = (\<lambda>k. opt_get (ratios_at cur k) model) in
       case localCat of
         None \<Rightarrow> ret None
       | Some l \<Rightarrow> if l = newCat then ret None
           else ret (Some (JObj
             [(''channel'', JStr (join_with '', '' (firsts (List.map (\<lambda>(rt, v). findSourceChannel dmap model rt v) ratios)))),
              (''model'', JStr model),
              (''current'', JStr (if l = ''price'' then ''fixed price : '' @ to_str (now ''ModelPrice'')
                 else ratio_desc (now ''ModelRatio'') (now ''CompletionRatio''))),
              (''newVal'', JStr (if newCat = ''price'' then ''fixed price : '' @ to_str (chosen ''model_price'')
                 else ratio_desc (chosen ''model_ratio'') (chosen ''completion_ratio'')))]))))"

subsection \<open>The maps that are written\<close>

definition upper_first :: "string \<Rightarrow> string" where
  "upper_first w = (case w of [] \<Rightarrow> []
     | c # cs \<Rightarrow> (let n = (of_char c :: nat) in if 97 \<le> n \<and> n \<le> 122 then char_of (n - 32) else c) # cs)"

definition option_key :: "string \<Rightarrow> string" where
  "option_key ratioType = concat (List.map upper_first (split_on CHR ''_'' ratioType))"

definition change_map :: "string \<Rightarrow> (jv \<Rightarrow> jv) \<Rightarrow> (string \<times> jv) list \<Rightarrow> (string \<times> jv) list" where
  "change_map k f maps = List.map (\<lambda>(j, v). (j, if j = k then f v else v)) maps"

text \<open>Assigning into a map that does not exist is a TypeError: \<open>None\<close>.\<close>

fun put_values :: "string \<Rightarrow> (string \<times> jv) list \<Rightarrow> (string \<times> jv) list \<Rightarrow> (string \<times> jv) list option" where
  "put_values model [] maps = Some maps"
| "put_values model ((rt, v) # rs) maps =
     (if option_key rt \<in> fst ` set maps
      then put_values model rs (change_map (option_key rt) (\<lambda>m. obj_set m model (parseFloat v)) maps) else None)"

definition clear_other :: "string \<Rightarrow> (string \<times> jv) list \<Rightarrow> (string \<times> jv) list \<Rightarrow> (string \<times> jv) list" where
  "clear_other model ratios maps =
     (let types = List.map fst ratios; drop_model = (\<lambda>k. change_map k (\<lambda>m. obj_delete m model));
          maps1 = (if ''model_price'' \<in> set types
            then drop_model ''CacheRatio'' (drop_model ''CompletionRatio'' (drop_model ''ModelRatio'' maps)) else maps) in
      if list_ex (\<lambda>rt. rt \<noteq> ''model_price'') types then drop_model ''ModelPrice'' maps1 else maps1)"

fun final_ratios :: "choices \<Rightarrow> (string \<times> jv) list \<Rightarrow> (string \<times> jv) list option" where
  "final_ratios [] maps = Some maps"
| "final_ratios ((model, ratios) # rest) maps =
     (case put_values model ratios (clear_other model ratios maps) of None \<Rightarrow> None | Some m \<Rightarrow> final_ratios rest m)"

definition spread_maps :: "(string \<times> jv) list \<Rightarrow> (string \<times> jv) list" where
  "spread_maps cur = List.map (\<lambda>(k, v). (k, JObj (members v))) cur"

text \<open>After success the applied choices leave the table.\<close>

definition remove_difference :: "string \<Rightarrow> string \<Rightarrow> jv \<Rightarrow> jv" where
  "remove_difference model rt dmap =
     (let types = opt_get dmap model in
      if truthy types \<and> truthy (opt_get types rt)
      then (let types' = obj_delete types rt in if obj_keys types' = [] then obj_delete dmap model else obj_set dmap model types')
      else dmap)"

definition remove_applied :: "choices \<Rightarrow> jv \<Rightarrow> jv" where
  "remove_applied res dmap = fold (\<lambda>(model, ratios) d. fold (\<lambda>rt. remove_difference model rt) (List.map fst ratios) d) res (JObj (members dmap))"

definition sync_answer :: "env \<Rightarrow> choices \<Rightarrow> jv list \<Rightarrow> unit sync_act" where
  "sync_answer env res results = bnd (first_refusal results) (\<lambda>r. case r of
       None \<Rightarrow> sq (showSuccess (JStr ''synchronised''))
              (sq (detach (ratio_onRefresh env))
                  (modify (\<lambda>s. s\<lparr>differences := remove_applied res (differences s), resolutions := []\<rparr>)))
     | Some m \<Rightarrow> showErr ''some options were not saved'')"

definition performSync :: "env \<Rightarrow> (string \<times> jv) list \<Rightarrow> unit sync_act" where
  "performSync env cur = bnd (gets resolutions) (\<lambda>res. case final_ratios res (spread_maps cur) of
       None \<Rightarrow> throw type_error
     | Some maps \<Rightarrow> send_options ''saving failed'' env (List.map (\<lambda>(k, v). (k, json_pretty v)) maps) (sync_answer env res))"

definition applySync :: "env \<Rightarrow> unit sync_act" where
  "applySync env = bnd (gets (\<lambda>s. (current_ratios (page_inputs s), resolutions s, differences s))) (\<lambda>(cur, res, dmap). case cur of
       None \<Rightarrow> throw syntax_error
     | Some ratios \<Rightarrow> bnd (map_each (conflict_of ratios dmap) res) (\<lambda>found.
         let conflicts = List.map the (filter (\<lambda>c. c \<noteq> None) found) in
         if conflicts \<noteq> [] then modify (\<lambda>s. s\<lparr>conflictItems := conflicts, confirmVisible := True\<rparr>)
         else performSync env ratios))"

definition confirm_onOk :: "env \<Rightarrow> unit sync_act" where
  "confirm_onOk env = sq (modify (\<lambda>s. s\<lparr>confirmVisible := False\<rparr>)) (bnd (gets (\<lambda>s. current_ratios (page_inputs s))) (\<lambda>cur. case cur of
       None \<Rightarrow> throw syntax_error | Some ratios \<Rightarrow> performSync env ratios))"

section \<open>Choosing: lemmas\<close>

text \<open>The choices of one model: at least one, each type once, and all of one way of billing.\<close>

definition entry_ok :: "(string \<times> jv) list \<Rightarrow> bool" where
  "entry_ok rs = (rs \<noteq> [] \<and> distinct (List.map fst rs)
     \<and> (''model_price'' \<in> fst ` set rs \<longrightarrow> fst ` set rs = {''model_price''}))"

definition choices_ok :: "choices \<Rightarrow> bool" where
  "choices_ok res = (distinct (List.map fst res) \<and> list_all (\<lambda>(m, rs). entry_ok rs) res)"

lemma update_member: "(j, w) \<in> set (AList.update k v al) \<Longrightarrow> j = k \<and> w = v \<or> (j, w) \<in> set al"
  by (induction al) (auto split: if_splits)

lemma choices_ok_update: "choices_ok res \<Longrightarrow> entry_ok rs \<Longrightarrow> choices_ok (AList.update m rs res)"
  by (fastforce simp: choices_ok_def list_all_iff distinct_update dest: update_member)

lemma delete_member: "x \<in> set (AList.delete k al) \<Longrightarrow> x \<in> set al"
  by (simp add: AList.delete_eq)

lemma choices_ok_delete: "choices_ok res \<Longrightarrow> choices_ok (AList.delete m res)"
  by (auto simp: choices_ok_def list_all_iff distinct_delete dest: delete_member)

lemma chosen_entry: "choices_ok res \<Longrightarrow> map_of res m = Some rs \<Longrightarrow> entry_ok rs"
  by (auto simp: choices_ok_def list_all_iff dest: map_of_SomeD)

lemma pick_ok:
  assumes "choices_ok res"
  shows "choices_ok (pick m rt v res)"
proof -
  let ?old = "case map_of res m of Some r \<Rightarrow> r | None \<Rightarrow> []"
  let ?kept = "filter (\<lambda>(t, x). getBillingCategory t = getBillingCategory rt) ?old"
  have d: "distinct (List.map fst ?old)" using chosen_entry[OF assms, of m] by (cases "map_of res m") (auto simp: entry_ok_def)
  have "distinct (List.map fst ?kept)" using d by (auto simp: distinct_map intro: inj_on_subset)
  moreover have "AList.update rt v ?kept \<noteq> []" by (cases ?kept) auto
  moreover have "(t = ''model_price'') = (rt = ''model_price'')" if "t \<in> fst ` set ?kept" for t
    using that by (auto simp: getBillingCategory_def split: if_splits)
  ultimately have "entry_ok (AList.update rt v ?kept)" by (auto simp: entry_ok_def distinct_update dom_update)
  then show ?thesis using choices_ok_update[OF assms] by (simp add: pick_def Let_def)
qed

lemma unpick_ok:
  assumes "choices_ok res"
  shows "choices_ok (unpick m rt res)"
proof (cases "map_of res m")
  case None
  then show ?thesis using assms by (simp add: unpick_def)
next
  case (Some r)
  have "entry_ok (AList.delete rt r)" if "AList.delete rt r \<noteq> []"
    using chosen_entry[OF assms Some] that by (auto simp: entry_ok_def distinct_delete delete_keys[symmetric] dest: delete_member)
  then show ?thesis using Some assms choices_ok_update choices_ok_delete by (simp add: unpick_def Let_def)
qed

interpretation chosen: form_frame "\<lambda>s t :: sync_page. resolutions t = resolutions s \<or> resolutions t = []"
  by unfold_locales auto

lemma obeys_fetches:
  "chosen.obeys (fetchAllChannels env)" "chosen.obeys (fetchRatiosFromChannels env l)"
proof -
  have f: "chosen.obeys (modify f)" if "\<And>s. resolutions (f s) = resolutions s" for f :: "sync_page \<Rightarrow> sync_page"
    using that by (intro chosen.obeys_modify) simp
  show a: "chosen.obeys (fetchAllChannels env)"
    unfolding fetchAllChannels_def api_get_def Let_def
    by (intro chosen.obeys_intros chosen.obeys_api_call chosen.obeys_toasts chosen.obeys_showError f)
      (auto split: jv.split intro!: chosen.obeys_intros f)
  have t: "chosen.obeys (take_differences d)" for d
    unfolding take_differences_def Let_def
    by (auto split: jv.split intro!: chosen.obeys_intros chosen.obeys_toasts chosen.obeys_modify)
  show "chosen.obeys (fetchRatiosFromChannels env l)"
    unfolding fetchRatiosFromChannels_def api_post_def
    by (intro chosen.obeys_intros chosen.obeys_api_call chosen.obeys_toasts chosen.obeys_showError f t) simp_all
qed

lemma obeys_applying:
  "chosen.obeys (performSync env cur)" "chosen.obeys (confirm_onOk env)" "chosen.obeys (applySync env)"
proof -
  have f: "chosen.obeys (modify f)" if "\<And>s. resolutions (f s) = resolutions s \<or> resolutions (f s) = []" for f :: "sync_page \<Rightarrow> sync_page"
    using that by (intro chosen.obeys_modify) simp
  have ans: "chosen.obeys (sync_answer env res rs)" for res rs
    unfolding sync_answer_def ratio_onRefresh_def
    by (intro chosen.obeys_intros chosen.obeys_first_refusal chosen.obeys_toasts chosen.obeys_detach chosen.obeys_onRefresh items_keep_state f) simp
  have p: "chosen.obeys (performSync env c)" for c
    unfolding performSync_def by (intro chosen.obeys_intros chosen.obeys_put_options ans)
  then show "chosen.obeys (performSync env cur)" .
  show "chosen.obeys (confirm_onOk env)"
    unfolding confirm_onOk_def by (intro chosen.obeys_intros p f) simp_all
  have fs: "chosen.obeys (first_set cur m ks)" for cur m ks
    by (induction ks) (auto intro!: chosen.obeys_intros)
  have c: "chosen.obeys (conflict_of cur d x)" for cur d x
    unfolding conflict_of_def getLocalBillingCategory_def Let_def by (intro chosen.obeys_intros fs)
  show "chosen.obeys (applySync env)"
    unfolding applySync_def Let_def by (intro chosen.obeys_intros chosen.obeys_map_each c p f) simp_all
qed

text \<open>What can happen on the page: fetching, choosing, searching, applying.\<close>

inductive sync_step :: "env \<Rightarrow> sync_page \<Rightarrow> sync_page \<Rightarrow> bool" for env where
  channels: "sync_step env s (snd (fetchAllChannels env s))"
| endpoint: "sync_step env s (updateChannelEndpoint i ep s)"
| mark: "sync_step env s (s\<lparr>selectedChannelIds := ids\<rparr>)"
| fetch: "sync_step env s (snd (confirmChannelSelection env s))"
| cell: "sync_step env s (cell_onChange r v b s)"
| bulk: "sync_step env s (handleBulkSelect (filtered_rows s) up b s)"
| search: "sync_step env s (s\<lparr>searchKeyword := u, ratioTypeFilter := w, sync_currentPage := 1\<rparr>)"
| options: "sync_step env s (s\<lparr>page_inputs := v\<rparr>)"
| apply_choices: "sync_step env s (snd (applySync env s))"
| confirm: "sync_step env s (snd (confirm_onOk env s))"

lemma choices_ok_after:
  assumes "chosen.obeys m" and "choices_ok (resolutions s)"
  shows "choices_ok (resolutions (snd (m s)))"
proof -
  have "resolutions (snd (m s)) = resolutions s \<or> resolutions (snd (m s)) = []" using assms(1) by (simp add: chosen.obeys_def)
  then show ?thesis using assms(2) by (auto simp: choices_ok_def)
qed

lemma sync_step_keeps:
  assumes "sync_step env s t" and "choices_ok (resolutions s)"
  shows "choices_ok (resolutions t)"
  using assms
proof (cases rule: sync_step.cases)
  case fetch
  have "chosen.obeys (confirmChannelSelection env)"
    unfolding confirmChannelSelection_def Let_def
    by (intro chosen.obeys_intros chosen.obeys_toasts chosen.obeys_detach obeys_fetches chosen.obeys_modify) simp
  then show ?thesis using fetch assms(2) by (simp add: choices_ok_after)
next
  case (bulk up b)
  have "choices_ok (fold (\<lambda>r res. let v = opt_get (row_upstreams r) up in
      if selectable v then pick (row_model r) (row_type r) v res else res) rows res)" if "choices_ok res" for rows :: "diff_row list" and res
    using that by (induction rows arbitrary: res) (auto simp: pick_ok Let_def)
  moreover have "choices_ok (fold (\<lambda>r. unpick (row_model r) (row_type r)) rows res)" if "choices_ok res" for rows :: "diff_row list" and res
    using that by (induction rows arbitrary: res) (auto simp: unpick_ok)
  ultimately show ?thesis using bulk assms(2) by (simp add: handleBulkSelect_def)
qed (simp_all add: choices_ok_after obeys_fetches obeys_applying updateChannelEndpoint_def cell_onChange_def selectValue_def pick_ok unpick_ok)

section \<open>Applying: lemmas\<close>

text \<open>The value a map holds for a model.\<close>

definition held :: "(string \<times> jv) list \<Rightarrow> string \<Rightarrow> string \<Rightarrow> jv" where
  "held maps k model = opt_get (ratios_at maps k) model"

definition ratio_types :: "string list" where
  "ratio_types = [''model_ratio'', ''completion_ratio'', ''cache_ratio'', ''model_price'']"

lemma option_keys: "List.map option_key ratio_types = sync_keys" "distinct sync_keys"
  by code_simp+

lemma option_key_inj: "inj_on option_key (set ratio_types)"
proof -
  have "distinct (List.map option_key ratio_types)" unfolding option_keys(1) by (rule option_keys(2))
  then show ?thesis by (simp add: distinct_map)
qed

lemma option_key_in: "rt \<in> set ratio_types \<Longrightarrow> option_key rt \<in> set sync_keys"
  using option_keys(1) by (metis image_eqI image_set)

lemma change_map_keys [simp]: "List.map fst (change_map k f maps) = List.map fst maps"
  by (simp add: change_map_def comp_def case_prod_beta)

lemma keys_of_map: "List.map fst xs = ks \<Longrightarrow> fst ` set xs = set ks"
  by (metis list.set_map)

lemma map_of_change: "map_of (change_map j f maps) k = map_option (\<lambda>v. if k = j then f v else v) (map_of maps k)"
  by (induction maps) (auto simp: change_map_def)

lemma ratios_at_change: "k \<in> fst ` set maps \<Longrightarrow> ratios_at (change_map j f maps) k = (if k = j then f (ratios_at maps k) else ratios_at maps k)"
  using map_of_eq_None_iff[of maps k] by (cases "map_of maps k") (auto simp: ratios_at_def map_of_change)

lemma held_put:
  "k \<in> fst ` set maps \<Longrightarrow> held (change_map j (\<lambda>m. obj_set m model x) maps) k n = (if k = j \<and> n = model then x else held maps k n)"
  by (simp add: held_def ratios_at_change opt_get_obj_set)

lemma held_drop:
  "k \<in> fst ` set maps \<Longrightarrow> held (change_map j (\<lambda>m. obj_delete m model) maps) k n = (if k = j \<and> n = model then JUndef else held maps k n)"
  by (simp add: held_def ratios_at_change opt_get_obj_delete)

lemma image_change_map: "fst ` set (change_map j f maps) = fst ` set maps"
  by (simp add: change_map_def image_image case_prod_beta)

lemma three_ifs: "(if p \<and> n then x else if q \<and> n then x else if r \<and> n then x else y) = (if n \<and> (r \<or> q \<or> p) then x else y)"
  by (cases n; cases p; cases q; cases r; simp only: simp_thms if_True if_False)

lemma held_drop_three:
  assumes "k \<in> fst ` set maps"
  shows "held (change_map a (\<lambda>m. obj_delete m model) (change_map b (\<lambda>m. obj_delete m model) (change_map c (\<lambda>m. obj_delete m model) maps))) k n
    = (if n = model \<and> (k = c \<or> k = b \<or> k = a) then JUndef else held maps k n)"
proof -
  let ?c = "change_map c (\<lambda>m. obj_delete m model) maps"
  let ?b = "change_map b (\<lambda>m. obj_delete m model) ?c"
  have c: "k \<in> fst ` set ?c" unfolding image_change_map by (rule assms)
  have b: "k \<in> fst ` set ?b" unfolding image_change_map by (rule assms)
  show ?thesis unfolding held_drop[OF b] held_drop[OF c] held_drop[OF assms] by (rule three_ifs)
qed

lemma put_values_run:
  assumes "List.map fst maps = sync_keys" and "distinct (List.map fst rs)" and "fst ` set rs \<subseteq> set ratio_types"
  shows "\<exists>out. put_values model rs maps = Some out \<and> List.map fst out = sync_keys
    \<and> (\<forall>(rt, v) \<in> set rs. held out (option_key rt) model = parseFloat v)
    \<and> (\<forall>k n. k \<in> set sync_keys \<longrightarrow> n \<noteq> model \<or> k \<notin> option_key ` fst ` set rs \<longrightarrow> held out k n = held maps k n)"
  using assms
proof (induction rs arbitrary: maps)
  case Nil
  then show ?case by simp
next
  case (Cons p rs)
  obtain rt v where p: "p = (rt, v)" by (cases p)
  let ?m = "change_map (option_key rt) (\<lambda>m. obj_set m model (parseFloat v)) maps"
  have keys: "fst ` set maps = set sync_keys" using Cons.prems(1) by (rule keys_of_map)
  have k: "option_key rt \<in> set sync_keys" using Cons.prems(3) p by (auto intro: option_key_in)
  have prems: "List.map fst ?m = sync_keys" "distinct (List.map fst rs)" "fst ` set rs \<subseteq> set ratio_types"
    using Cons.prems p by simp_all
  obtain out where out: "put_values model rs ?m = Some out" "List.map fst out = sync_keys"
    "\<forall>(rt, v) \<in> set rs. held out (option_key rt) model = parseFloat v"
    "\<forall>k n. k \<in> set sync_keys \<longrightarrow> n \<noteq> model \<or> k \<notin> option_key ` fst ` set rs \<longrightarrow> held out k n = held ?m k n"
    using Cons.IH[OF prems] by blast
  have fresh: "option_key rt \<notin> option_key ` fst ` set rs"
  proof
    assume "option_key rt \<in> option_key ` fst ` set rs"
    then obtain t where "t \<in> fst ` set rs" "option_key t = option_key rt" by (metis imageE)
    moreover from this have "t \<in> set ratio_types" "rt \<in> set ratio_types" using Cons.prems(3) p by auto
    ultimately have "t = rt" "t \<in> fst ` set rs" using inj_onD[OF option_key_inj] by blast+
    then show False using Cons.prems(2) p by simp
  qed
  have "held out (option_key rt) model = held ?m (option_key rt) model" using out(4) fresh k by blast
  also have "\<dots> = parseFloat v" using k keys by (simp only: held_put simp_thms if_True)
  finally have "held out (option_key rt) model = parseFloat v" .
  moreover have "held out j n = held maps j n" if j: "j \<in> set sync_keys" "n \<noteq> model \<or> j \<notin> option_key ` fst ` set (p # rs)" for j n
  proof -
    have "n \<noteq> model \<or> j \<notin> option_key ` fst ` set rs" using j(2) by auto
    then have "held out j n = held ?m j n" using out(4) j(1) by blast
    moreover have "\<not> (j = option_key rt \<and> n = model)" using j(2) p by auto
    ultimately show ?thesis using j(1) keys by (simp only: held_put if_False)
  qed
  moreover have "put_values model (p # rs) maps = Some out" using out(1) k unfolding p keys[symmetric] by (simp only: put_values.simps if_True)
  moreover have "\<forall>(t, w) \<in> set (p # rs). held out (option_key t) model = parseFloat w"
    using out(3) calculation(1) p by auto
  ultimately show ?case using out(2) by blast
qed

definition ratio_keys :: "string list" where
  "ratio_keys = [''ModelRatio'', ''CompletionRatio'', ''CacheRatio'']"

lemma clear_other_run:
  assumes "List.map fst maps = sync_keys" and "entry_ok rs"
  shows "List.map fst (clear_other model rs maps) = sync_keys
    \<and> (\<forall>k \<in> set sync_keys. \<forall>n. held (clear_other model rs maps) k n =
        (if n = model \<and> (if ''model_price'' \<in> fst ` set rs then k \<in> set ratio_keys else k = ''ModelPrice'') then JUndef else held maps k n))"
proof -
  have keys: "fst ` set maps = set sync_keys" using assms(1) by (rule keys_of_map)
  have t: "list_ex (\<lambda>rt. rt \<noteq> ''model_price'') (List.map fst rs) \<longleftrightarrow> ''model_price'' \<notin> fst ` set rs"
  proof (cases "''model_price'' \<in> fst ` set rs")
    case True
    then have "fst ` set rs = {''model_price''}" using assms(2) by (simp add: entry_ok_def)
    then show ?thesis using True by (auto simp: list_ex_iff)
  next
    case False
    then show ?thesis using assms(2) by (cases rs) (auto simp: entry_ok_def)
  qed
  show ?thesis
  proof (cases "''model_price'' \<in> fst ` set rs")
    case True
    then have c: "clear_other model rs maps = change_map ''CacheRatio'' (\<lambda>m. obj_delete m model)
        (change_map ''CompletionRatio'' (\<lambda>m. obj_delete m model) (change_map ''ModelRatio'' (\<lambda>m. obj_delete m model) maps))"
      using t unfolding clear_other_def Let_def by simp
    have "held (clear_other model rs maps) k n = (if n = model \<and> k \<in> set ratio_keys then JUndef else held maps k n)"
      if "k \<in> set sync_keys" for k n
    proof -
      have "k \<in> fst ` set maps" using that keys by simp
      from held_drop_three[OF this] show ?thesis unfolding c ratio_keys_def by (simp only: list.set insert_iff empty_iff simp_thms)
    qed
    then show ?thesis using True assms(1) by (simp add: c)
  next
    case False
    then have c: "clear_other model rs maps = change_map ''ModelPrice'' (\<lambda>m. obj_delete m model) maps"
      using t unfolding clear_other_def Let_def by simp
    have "held (clear_other model rs maps) k n = (if n = model \<and> k = ''ModelPrice'' then JUndef else held maps k n)"
      if "k \<in> set sync_keys" for k n
      using that unfolding c by (simp only: held_drop keys) simp
    then show ?thesis using False assms(1) by (simp add: c)
  qed
qed

text \<open>A model with choices is billed the one way that was chosen, with the values chosen.\<close>

definition billed_as :: "(string \<times> jv) list \<Rightarrow> string \<Rightarrow> (string \<times> jv) list \<Rightarrow> bool" where
  "billed_as maps model rs =
     (list_all (\<lambda>(rt, v). held maps (option_key rt) model = parseFloat v) rs
      \<and> (if ''model_price'' \<in> fst ` set rs then list_all (\<lambda>k. held maps k model = JUndef) ratio_keys else held maps ''ModelPrice'' model = JUndef))"

lemma key_facts:
  "option_key ''model_price'' = ''ModelPrice''" "set ratio_keys \<subseteq> set sync_keys" "''ModelPrice'' \<notin> set ratio_keys" "''ModelPrice'' \<in> set sync_keys"
proof -
  show "option_key ''model_price'' = ''ModelPrice''" by code_simp
qed (simp_all add: ratio_keys_def sync_keys_def)

lemma price_key: "rt \<in> set ratio_types \<Longrightarrow> option_key rt = ''ModelPrice'' \<longleftrightarrow> rt = ''model_price''"
  using inj_onD[OF option_key_inj, of rt "''model_price''"] key_facts(1) by (auto simp: ratio_types_def)

lemma billed_entry:
  assumes "List.map fst maps = sync_keys" and "entry_ok rs" and "fst ` set rs \<subseteq> set ratio_types"
  shows "\<exists>out. put_values model rs (clear_other model rs maps) = Some out \<and> List.map fst out = sync_keys \<and> billed_as out model rs
    \<and> (\<forall>k \<in> set sync_keys. \<forall>n. n \<noteq> model \<longrightarrow> held out k n = held maps k n)"
proof -
  note c = clear_other_run[OF assms(1,2), of model]
  have d: "distinct (List.map fst rs)" using assms(2) by (simp add: entry_ok_def)
  obtain out where out: "put_values model rs (clear_other model rs maps) = Some out" "List.map fst out = sync_keys"
    "\<forall>(rt, v) \<in> set rs. held out (option_key rt) model = parseFloat v"
    "\<forall>k n. k \<in> set sync_keys \<longrightarrow> n \<noteq> model \<or> k \<notin> option_key ` fst ` set rs \<longrightarrow> held out k n = held (clear_other model rs maps) k n"
    using put_values_run[OF conjunct1[OF c] d assms(3), of model] by blast
  have "if ''model_price'' \<in> fst ` set rs then list_all (\<lambda>k. held out k model = JUndef) ratio_keys else held out ''ModelPrice'' model = JUndef"
  proof (cases "''model_price'' \<in> fst ` set rs")
    case True
    then have only: "option_key ` fst ` set rs = {''ModelPrice''}" using assms(2) key_facts(1) by (simp add: entry_ok_def)
    have "held out k model = JUndef" if k: "k \<in> set ratio_keys" for k
    proof -
      have s: "k \<in> set sync_keys" using k key_facts(2) by blast
      moreover have "k \<notin> option_key ` fst ` set rs" using k key_facts(3) unfolding only by blast
      ultimately have "held out k model = held (clear_other model rs maps) k model" using out(4) by blast
      then show ?thesis using c s k True by simp
    qed
    then show ?thesis using True by (simp add: list_all_iff)
  next
    case False
    have "''ModelPrice'' \<notin> option_key ` fst ` set rs"
    proof
      assume "''ModelPrice'' \<in> option_key ` fst ` set rs"
      then obtain rt where rt: "''ModelPrice'' = option_key rt" "rt \<in> fst ` set rs" by (rule imageE)
      then have "rt = ''model_price''" using price_key[of rt] subsetD[OF assms(3) rt(2)] by (simp only: simp_thms)
      then show False using False rt(2) by blast
    qed
    then have "held out ''ModelPrice'' model = held (clear_other model rs maps) ''ModelPrice'' model"
      using out(4) key_facts(4) by blast
    then show ?thesis using False c key_facts(4) by simp
  qed
  then have "billed_as out model rs" using out(3) by (auto simp: billed_as_def list_all_iff)
  moreover have "\<forall>k \<in> set sync_keys. \<forall>n. n \<noteq> model \<longrightarrow> held out k n = held maps k n" using out(4) c by simp
  ultimately show ?thesis using out(1,2) by blast
qed

lemma billed_as_kept:
  assumes "billed_as maps m rs" and "\<forall>k \<in> set sync_keys. held out k m = held maps k m" and "fst ` set rs \<subseteq> set ratio_types"
  shows "billed_as out m rs"
proof -
  have "option_key rt \<in> set sync_keys" if "(rt, v) \<in> set rs" for rt v using that assms(3) by (force intro: option_key_in)
  then show ?thesis using assms(1,2) key_facts(2,4) by (auto simp: billed_as_def list_all_iff subset_iff split: if_splits)
qed

lemma final_ratios_run:
  assumes "List.map fst maps = sync_keys" and "choices_ok res" and "\<forall>(m, rs) \<in> set res. fst ` set rs \<subseteq> set ratio_types"
  shows "\<exists>out. final_ratios res maps = Some out \<and> List.map fst out = sync_keys \<and> (\<forall>(m, rs) \<in> set res. billed_as out m rs)
    \<and> (\<forall>k \<in> set sync_keys. \<forall>n. n \<notin> fst ` set res \<longrightarrow> held out k n = held maps k n)"
  using assms
proof (induction res arbitrary: maps)
  case Nil
  then show ?case by simp
next
  case (Cons p res)
  obtain m rs where p: "p = (m, rs)" by (cases p)
  have rs: "entry_ok rs" "fst ` set rs \<subseteq> set ratio_types" "m \<notin> fst ` set res" using Cons.prems p by (auto simp: choices_ok_def)
  obtain mid where mid: "put_values m rs (clear_other m rs maps) = Some mid" "List.map fst mid = sync_keys" "billed_as mid m rs"
    "\<forall>k \<in> set sync_keys. \<forall>n. n \<noteq> m \<longrightarrow> held mid k n = held maps k n"
    using billed_entry[OF Cons.prems(1) rs(1,2), of m] by blast
  have "choices_ok res" using Cons.prems(2) by (simp add: choices_ok_def)
  then obtain out where out: "final_ratios res mid = Some out" "List.map fst out = sync_keys" "\<forall>(m, rs) \<in> set res. billed_as out m rs"
    "\<forall>k \<in> set sync_keys. \<forall>n. n \<notin> fst ` set res \<longrightarrow> held out k n = held mid k n"
    using Cons.IH[OF mid(2)] Cons.prems(3) by auto
  have "billed_as out m rs" using billed_as_kept[OF mid(3) _ rs(2)] out(4) rs(3) by blast
  then show ?case using mid out p by auto
qed

lemma current_keys: "current_ratios options = Some cur \<Longrightarrow> List.map fst cur = sync_keys"
  by (auto simp: current_ratios_def sync_keys_def split: option.splits)

lemma spread_held: "held (spread_maps cur) k n = held cur k n"
  by (induction cur) (auto simp: held_def spread_maps_def ratios_at_def)

lemma spread_keys: "List.map fst (spread_maps cur) = List.map fst cur"
  by (induction cur) (auto simp: spread_maps_def)

text \<open>Whether a choice changes the way a model is billed at present.\<close>

definition contradicts :: "(string \<times> jv) list \<Rightarrow> string \<times> (string \<times> jv) list \<Rightarrow> bool" where
  "contradicts cur choice = (case choice of (model, rs) \<Rightarrow>
     (let priced = (held cur ''ModelPrice'' model \<noteq> JUndef); rated = list_ex (\<lambda>k. held cur k model \<noteq> JUndef) ratio_keys in
      if ''model_price'' \<in> fst ` set rs then \<not> priced \<and> rated else priced))"

definition readable :: "(string \<times> jv) list \<Rightarrow> bool" where
  "readable cur = (List.map fst cur = sync_keys \<and> list_all (\<lambda>k. \<not> nullish (ratios_at cur k)) sync_keys)"

lemma first_set_run:
  assumes "readable cur"
  shows "set ks \<subseteq> set sync_keys \<Longrightarrow> first_set cur model ks s = (Inr (list_ex (\<lambda>k. held cur k model \<noteq> JUndef) ks), s)"
proof (induction ks)
  case Nil
  then show ?case by (simp add: ret_def)
next
  case (Cons k ks)
  then have "\<not> nullish (ratios_at cur k)" using assms by (simp add: readable_def list_all_iff)
  then show ?case using Cons by (simp add: act_simps held_def)
qed

lemma conflict_run:
  assumes "readable cur"
  shows "\<exists>c. conflict_of cur dmap x s = (Inr c, s) \<and> (c \<noteq> None \<longleftrightarrow> contradicts cur x)
    \<and> (\<forall>i. c = Some i \<longrightarrow> opt_get i ''model'' = JStr (fst x))"
proof -
  obtain m rs where x: "x = (m, rs)" by (cases x)
  have "set [''ModelPrice''] \<subseteq> set sync_keys" "set ratio_keys \<subseteq> set sync_keys" using key_facts(2,4) by simp_all
  then have run: "first_set cur m [''ModelPrice''] s = (Inr (held cur ''ModelPrice'' m \<noteq> JUndef), s)"
      "first_set cur m ratio_keys s = (Inr (list_ex (\<lambda>k. held cur k m \<noteq> JUndef) ratio_keys), s)"
    using first_set_run[OF assms, of "[''ModelPrice'']" m s] first_set_run[OF assms, of ratio_keys m s]
    by (simp_all only: list_ex_Nil_iff list_ex_Cons_iff simp_thms)
  let ?cat = "if held cur ''ModelPrice'' m \<noteq> JUndef then Some ''price''
      else if list_ex (\<lambda>k. held cur k m \<noteq> JUndef) ratio_keys then Some ''ratio'' else None"
  have cat: "getLocalBillingCategory cur m s = (Inr ?cat, s)"
    unfolding getLocalBillingCategory_def ratio_keys_def[symmetric] by (simp only: bnd_def run prod.case sum.case) (simp add: ret_def bnd_def run(2))
  have gets_model: "opt_get (JObj [(''channel'', a), (''model'', b), (''current'', c), (''newVal'', d)]) ''model'' = b" for a b c d
    by (simp add: opt_get_def)
  consider "?cat = None" | "?cat = Some (new_category rs)" | l where "?cat = Some l" "l \<noteq> new_category rs" by fast
  then show ?thesis
  proof cases
    case 1
    then show ?thesis unfolding x conflict_of_def prod.case bnd_def cat
      by (simp add: ret_def contradicts_def split: if_splits)
  next
    case 2
    then show ?thesis unfolding x conflict_of_def prod.case bnd_def cat
      by (simp add: ret_def contradicts_def new_category_def split: if_splits)
  next
    case 3
    then have "contradicts cur (m, rs)" by (auto simp: contradicts_def new_category_def split: if_splits)
    then show ?thesis unfolding x conflict_of_def prod.case bnd_def cat Let_def
      using 3 by (simp add: ret_def gets_model)
  qed
qed

lemma conflicts_run:
  assumes "readable cur"
  shows "\<exists>cs. map_each (conflict_of cur dmap) res s = (Inr cs, s)
    \<and> List.map (\<lambda>i. opt_get i ''model'') (List.map the (filter (\<lambda>c. c \<noteq> None) cs)) = List.map (JStr \<circ> fst) (filter (contradicts cur) res)"
proof (induction res)
  case Nil
  then show ?case by (simp add: ret_def)
next
  case (Cons x res)
  obtain c where c: "conflict_of cur dmap x s = (Inr c, s)" "c \<noteq> None \<longleftrightarrow> contradicts cur x"
      "\<forall>i. c = Some i \<longrightarrow> opt_get i ''model'' = JStr (fst x)"
    using conflict_run[OF assms, of dmap x s] by blast
  from Cons.IH obtain cs where cs: "map_each (conflict_of cur dmap) res s = (Inr cs, s)"
      "List.map (\<lambda>i. opt_get i ''model'') (List.map the (filter (\<lambda>c. c \<noteq> None) cs)) = List.map (JStr \<circ> fst) (filter (contradicts cur) res)"
    by blast
  have "map_each (conflict_of cur dmap) (x # res) s = (Inr (c # cs), s)" using c(1) cs(1) by (simp add: bnd_def ret_def)
  then show ?case using c(2,3) cs(2) by (cases c) auto
qed

text \<open>Two rows, each offered by a channel of its own: marking both channels and clearing one clears both.\<close>

definition offer :: "string \<Rightarrow> (string \<times> jv) list \<Rightarrow> diff_row" where
  "offer m ups = \<lparr>row_model = m, row_type = ''model_ratio'', row_current = JNull, row_upstreams = JObj ups, row_confidence = JObj [],
     billingConflict = False\<rparr>"

lemma clearing_one_channel_clears_others:
  fixes s :: sync_page
  assumes "resolutions s = []"
  shows "let rows = [offer ''a'' [(''X'', JNum 1), (''Y'', JNull)], offer ''b'' [(''X'', JStr ''same''), (''Y'', JNum 5)]];
        both = handleBulkSelect rows ''Y'' True (handleBulkSelect rows ''X'' True s) in
    channelStats (resolutions both) rows ''X'' = (1, 1) \<and> map_of (resolutions both) ''b'' = Some [(''model_ratio'', JNum 5)]
    \<and> resolutions (handleBulkSelect rows ''X'' False both) = []"
proof -
  have "pick ''a'' ''model_ratio'' (JNum 1) [] = [(''a'', [(''model_ratio'', JNum 1)])]"
    "pick ''b'' ''model_ratio'' (JNum 5) [(''a'', [(''model_ratio'', JNum 1)])] = [(''a'', [(''model_ratio'', JNum 1)]), (''b'', [(''model_ratio'', JNum 5)])]"
    "unpick ''a'' ''model_ratio'' [(''a'', [(''model_ratio'', JNum 1)]), (''b'', [(''model_ratio'', JNum 5)])] = [(''b'', [(''model_ratio'', JNum 5)])]"
    "unpick ''b'' ''model_ratio'' [(''b'', [(''model_ratio'', JNum 5)])] = []"
    by (simp_all add: pick_def unpick_def Let_def)
  then show ?thesis using assms
    by (simp add: handleBulkSelect_def offer_def opt_get_def selectable_def channelStats_def is_selected_def Let_def)
qed

section \<open>Properties\<close>

text \<open>C32: However ratios were fetched, chosen and dropped before - cell by cell or for a whole channel - confirming writes four maps in
  which every chosen model is billed in exactly one way: its fixed price or ratios are the values chosen and the other kind is gone.
  Models without a choice keep what they had. No answer of the backend changes what is written.\<close>

theorem synced_models_billed_one_way:
  assumes "(sync_step env)\<^sup>*\<^sup>* s t" and "resolutions s = []" and "current_ratios (page_inputs t) = Some cur"
    and "\<forall>(m, rs) \<in> set (resolutions t). fst ` set rs \<subseteq> set ratio_types"
  shows "\<exists>out es. trace (snd (confirm_onOk env t)) = trace t
      @ List.map (Requested (hdr_user (api t))) (option_puts (List.map (\<lambda>(k, v). (k, json_pretty v)) out)) @ es
    \<and> List.map fst out = sync_keys \<and> (\<forall>(m, rs) \<in> set (resolutions t). billed_as out m rs)
    \<and> (\<forall>k \<in> set sync_keys. \<forall>n. n \<notin> fst ` set (resolutions t) \<longrightarrow> held out k n = held cur k n)"
proof -
  have "choices_ok (resolutions t)" using assms(1)
    by (induction rule: rtranclp_induct) (auto simp: assms(2) choices_ok_def[of "[]"] intro: sync_step_keeps)
  moreover have "List.map fst (spread_maps cur) = sync_keys" by (simp add: spread_keys current_keys[OF assms(3)])
  ultimately obtain out where out: "final_ratios (resolutions t) (spread_maps cur) = Some out" "List.map fst out = sync_keys"
    "\<forall>(m, rs) \<in> set (resolutions t). billed_as out m rs"
    "\<forall>k \<in> set sync_keys. \<forall>n. n \<notin> fst ` set (resolutions t) \<longrightarrow> held out k n = held cur k n"
    using final_ratios_run[of "spread_maps cur" "resolutions t"] assms(4) by (auto simp: spread_held)
  let ?t = "t\<lparr>confirmVisible := False\<rparr>"
  have q: "quiet (sync_answer env (resolutions t) rs)" for rs
    unfolding sync_answer_def showSuccess_def by (intro emits_intros quiet_detach quiet_model_onRefresh) simp_all
  obtain es where "trace (snd (send_options ''saving failed'' env (List.map (\<lambda>(k, v). (k, json_pretty v)) out) (sync_answer env (resolutions t)) ?t)) =
      trace t @ List.map (Requested (hdr_user (api t))) (option_puts (List.map (\<lambda>(k, v). (k, json_pretty v)) out)) @ es"
    using put_options_sends[of "sync_answer env (resolutions t)", OF q, of "''saving failed''" env "List.map (\<lambda>(k, v). (k, json_pretty v)) out" ?t] by auto
  then have "trace (snd (confirm_onOk env t)) = trace t
      @ List.map (Requested (hdr_user (api t))) (option_puts (List.map (\<lambda>(k, v). (k, json_pretty v)) out)) @ es"
    using out(1) assms(3) by (simp add: confirm_onOk_def performSync_def sq_def modify_def bnd_def gets_def)
  then show ?thesis using out(2-4) by blast
qed

text \<open>C33: Applying asks first exactly when a choice would change how some model is billed at present - from ratios to a fixed price
  or back. Then nothing is sent and no choice is lost: only the dialogue opens, listing these models in the order of the choices.
  Otherwise the choices are written at once.\<close>

theorem apply_asks_before_switching:
  assumes "current_ratios (page_inputs t) = Some cur" and "readable cur"
  shows "\<exists>items. List.map (\<lambda>i. opt_get i ''model'') items = List.map (JStr \<circ> fst) (filter (contradicts cur) (resolutions t))
    \<and> applySync env t = (if list_ex (contradicts cur) (resolutions t) then (Inr (), t\<lparr>conflictItems := items, confirmVisible := True\<rparr>)
        else performSync env cur t)"
proof -
  obtain cs where cs: "map_each (conflict_of cur (differences t)) (resolutions t) t = (Inr cs, t)"
      "List.map (\<lambda>i. opt_get i ''model'') (List.map the (filter (\<lambda>c. c \<noteq> None) cs)) = List.map (JStr \<circ> fst) (filter (contradicts cur) (resolutions t))"
    using conflicts_run[OF assms(2), of "differences t" "resolutions t" t] by blast
  let ?items = "List.map the (filter (\<lambda>c. c \<noteq> None) cs)"
  have "?items = [] \<longleftrightarrow> filter (contradicts cur) (resolutions t) = []" using arg_cong[OF cs(2), of length] by (simp only: length_map length_0_conv[symmetric])
  then have "?items \<noteq> [] \<longleftrightarrow> list_ex (contradicts cur) (resolutions t)" by (simp only: filter_empty_conv list_ex_iff) blast
  then have "applySync env t = (if list_ex (contradicts cur) (resolutions t) then (Inr (), t\<lparr>conflictItems := ?items, confirmVisible := True\<rparr>)
        else performSync env cur t)"
    using cs(1) assms(1) by (simp add: applySync_def bnd_def gets_def modify_def Let_def)
  then show ?thesis using cs(2) by blast
qed

definition sync_example :: sync_page where
  "sync_example = \<lparr>store = Map.empty, api = \<lparr>hdr_user = JNum 1, intercepts = True\<rparr>, user_ctx = JUndef, status_ctx = JUndef,
     trace = [], page_inputs = JObj [(''ModelRatio'', JStr ''{\"a\": 2}'')], page_loading = False, form_inputs = JObj [], inputsRow = JObj [],
     form_loading = False, modalVisible = False, syncLoading = False, allChannels = [], selectedChannelIds = [], channelEndpoints = JObj [],
     differences = JObj [], resolutions = [], hasSynced = False, sync_currentPage = 1, sync_pageSize = 10, searchKeyword = [],
     ratioTypeFilter = [], confirmVisible = False, conflictItems = []\<rparr>"

definition price_row :: diff_row where
  "price_row = \<lparr>row_model = ''a'', row_type = ''model_price'', row_current = JNull, row_upstreams = JObj [(''X'', JNum 3)],
     row_confidence = JObj [], billingConflict = False\<rparr>"

definition price_chosen :: sync_page where
  "price_chosen = cell_onChange price_row (JNum 3) True sync_example"

lemma price_chosen_facts:
  "resolutions price_chosen = [(''a'', [(''model_price'', JNum 3)])]" "trace price_chosen = []" "hdr_user (api price_chosen) = JNum 1"
  "current_ratios (page_inputs price_chosen) =
     Some [(''ModelRatio'', JObj [(''a'', JNum 2)]), (''CompletionRatio'', JObj []), (''CacheRatio'', JObj []), (''ModelPrice'', JObj [])]"
proof -
  show "resolutions price_chosen = [(''a'', [(''model_price'', JNum 3)])]" "trace price_chosen = []" "hdr_user (api price_chosen) = JNum 1"
    by (simp_all add: price_chosen_def cell_onChange_def selectValue_def pick_def price_row_def sync_example_def Let_def)
  have p: "page_inputs price_chosen = JObj [(''ModelRatio'', JStr ''{\"a\": 2}'')]"
    by (simp add: price_chosen_def cell_onChange_def selectValue_def sync_example_def)
  show "current_ratios (page_inputs price_chosen) =
     Some [(''ModelRatio'', JObj [(''a'', JNum 2)]), (''CompletionRatio'', JObj []), (''CacheRatio'', JObj []), (''ModelPrice'', JObj [])]"
    unfolding p by code_simp
qed

theorem synced_models_billed_one_way_witness:
  "\<exists>out es. trace (snd (confirm_onOk (\<lambda>_ _. Ok JNull) price_chosen)) =
      List.map (Requested (JNum 1)) (option_puts (List.map (\<lambda>(k, v). (k, json_pretty v)) out)) @ es
    \<and> held out ''ModelPrice'' ''a'' = parseFloat (JNum 3) \<and> held out ''ModelRatio'' ''a'' = JUndef"
proof -
  have step: "(sync_step (\<lambda>_ _. Ok JNull))\<^sup>*\<^sup>* sync_example price_chosen"
    unfolding price_chosen_def by (rule r_into_rtranclp) (rule sync_step.cell)
  have none: "resolutions sync_example = []" by (simp add: sync_example_def)
  have types: "\<forall>(m, rs) \<in> set (resolutions price_chosen). fst ` set rs \<subseteq> set ratio_types"
    by (simp add: price_chosen_facts(1) ratio_types_def)
  have key: "option_key ''model_price'' = ''ModelPrice''" by (rule key_facts(1))
  obtain out es where w: "trace (snd (confirm_onOk (\<lambda>_ _. Ok JNull) price_chosen)) = trace price_chosen
      @ List.map (Requested (hdr_user (api price_chosen))) (option_puts (List.map (\<lambda>(k, v). (k, json_pretty v)) out)) @ es"
    "\<forall>(m, rs) \<in> set (resolutions price_chosen). billed_as out m rs"
    using synced_models_billed_one_way[OF step none price_chosen_facts(4) types] by blast
  then have "billed_as out ''a'' [(''model_price'', JNum 3)]" by (simp add: price_chosen_facts(1))
  then have "held out ''ModelPrice'' ''a'' = parseFloat (JNum 3) \<and> held out ''ModelRatio'' ''a'' = JUndef"
    by (simp add: billed_as_def key ratio_keys_def)
  then show ?thesis using w(1) by (simp only: price_chosen_facts append_Nil) blast
qed

theorem apply_asks_before_switching_witness:
  "trace (snd (applySync (\<lambda>_ _. Ok JNull) price_chosen)) = [] \<and> confirmVisible (snd (applySync (\<lambda>_ _. Ok JNull) price_chosen))
    \<and> resolutions (snd (applySync (\<lambda>_ _. Ok JNull) price_chosen)) = [(''a'', [(''model_price'', JNum 3)])]"
proof -
  have "readable [(''ModelRatio'', JObj [(''a'', JNum 2)]), (''CompletionRatio'', JObj []), (''CacheRatio'', JObj []), (''ModelPrice'', JObj [])]"
    by (simp add: readable_def sync_keys_def ratios_at_def)
  moreover have "list_ex (contradicts [(''ModelRatio'', JObj [(''a'', JNum 2)]), (''CompletionRatio'', JObj []), (''CacheRatio'', JObj []), (''ModelPrice'', JObj [])])
      (resolutions price_chosen)"
    by (simp add: price_chosen_facts(1) contradicts_def held_def ratios_at_def ratio_keys_def opt_get_def)
  ultimately show ?thesis using apply_asks_before_switching[OF price_chosen_facts(4), of "\<lambda>_ _. Ok JNull"] price_chosen_facts(1,2) by auto
qed

end
