(* ===== verification/Columns.thy ===== *)
theory Columns
  imports Header
begin

text \<open>
  The columns of the tables: which can be shown, which only an administrator may see, and how the choice is kept in
  \<open>localStorage\<close> under a key of the role (\<open>useMjLogsData.js\<close>, \<open>useTaskLogsData.js\<close>, \<open>useUsageLogsData.jsx\<close>,
  \<open>useChannelsData.jsx\<close>). A set of columns is described by its keys, the keys for administrators only, and the key of the
  store; \<open>visibleColumns\<close> is the object of the switches. A stored text that is an array or a string is read like an object without
  members.
\<close>

record column_set =
  COLUMN_KEYS :: "string list"
  admin_only :: "string list"
  storage_base :: string

record column_page = browser +
  visibleColumns :: jv
  showColumnSelector :: bool

type_synonym 'x column_act = "('x column_page_scheme, unit) act"

definition STORAGE_KEY :: "column_set \<Rightarrow> bool \<Rightarrow> string" where
  "STORAGE_KEY c isAdminUser = storage_base c @ (if isAdminUser then ''-admin'' else ''-user'')"

definition getDefaultColumnVisibility :: "column_set \<Rightarrow> bool \<Rightarrow> jv" where
  "getDefaultColumnVisibility c isAdminUser =
     JObj (List.map (\<lambda>k. (k, JBool (k \<in> set (admin_only c) \<longrightarrow> isAdminUser))) (COLUMN_KEYS c))"

text \<open>The effect that stores the columns whenever they have changed follows every change.\<close>

definition persist_effect :: "column_set \<Rightarrow> bool \<Rightarrow> 'x column_act" where
  "persist_effect c isAdminUser = bnd (gets visibleColumns) (\<lambda>v.
     act_when (obj_keys v \<noteq> []) (set_item (STORAGE_KEY c isAdminUser) (json_stringify v)))"

definition show_columns :: "column_set \<Rightarrow> bool \<Rightarrow> jv \<Rightarrow> 'x column_act" where
  "show_columns c isAdminUser v = sq (modify (\<lambda>s. s\<lparr>visibleColumns := v\<rparr>)) (persist_effect c isAdminUser)"

definition initDefaultColumns :: "column_set \<Rightarrow> bool \<Rightarrow> 'x column_act" where
  "initDefaultColumns c isAdminUser =
     (let defaults = getDefaultColumnVisibility c isAdminUser in
      sq (set_item (STORAGE_KEY c isAdminUser) (json_stringify defaults)) (show_columns c isAdminUser defaults))"

definition hide_admin_columns :: "column_set \<Rightarrow> bool \<Rightarrow> jv \<Rightarrow> jv" where
  "hide_admin_columns c isAdminUser v =
     (if isAdminUser then v else fold (\<lambda>k v. obj_set v k (JBool False)) (admin_only c) v)"

definition load_columns_effect :: "column_set \<Rightarrow> bool \<Rightarrow> 'x column_act" where
  "load_columns_effect c isAdminUser = bnd (gets (\<lambda>s. get_item s (STORAGE_KEY c isAdminUser))) (\<lambda>savedColumns.
     if truthy savedColumns
     then (case json_parse (to_str savedColumns) of
         Some parsed \<Rightarrow> show_columns c isAdminUser
           (hide_admin_columns c isAdminUser (obj_spread (getDefaultColumnVisibility c isAdminUser) (members parsed)))
       | None \<Rightarrow> initDefaultColumns c isAdminUser)
     else initDefaultColumns c isAdminUser)"

definition handleColumnVisibilityChange :: "column_set \<Rightarrow> bool \<Rightarrow> string \<Rightarrow> bool \<Rightarrow> 'x column_act" where
  "handleColumnVisibilityChange c isAdminUser columnKey checked = bnd (gets visibleColumns) (\<lambda>v.
     show_columns c isAdminUser (obj_set (JObj (members v)) columnKey (JBool checked)))"

definition handleSelectAll :: "column_set \<Rightarrow> bool \<Rightarrow> bool \<Rightarrow> 'x column_act" where
  "handleSelectAll c isAdminUser checked = show_columns c isAdminUser
     (JObj (List.map (\<lambda>k. (k, JBool (if k \<in> set (admin_only c) \<and> \<not> isAdminUser then False else checked))) (COLUMN_KEYS c)))"

section \<open>Lemmas\<close>

lemma opt_get_map: "opt_get (JObj (List.map (\<lambda>k. (k, f k)) ks)) j = (if j \<in> set ks then f j else JUndef)"
  by (induction ks) (auto simp: opt_get_def)

lemma hidden_columns:
  "opt_get (hide_admin_columns c b v) k = (if \<not> b \<and> k \<in> set (admin_only c) then JBool False else opt_get v k)"
proof (cases b)
  case False
  have "opt_get (fold (\<lambda>k v. obj_set v k (JBool False)) ks v) k = (if k \<in> set ks then JBool False else opt_get v k)" for ks
    by (induction ks arbitrary: v) (auto simp: opt_get_obj_set)
  then show ?thesis using False by (simp add: hide_admin_columns_def)
qed (simp add: hide_admin_columns_def)

text \<open>Whether a column is shown: what the tables ask.\<close>

definition column_shown :: "'x column_page_scheme \<Rightarrow> string \<Rightarrow> bool" where
  "column_shown s k = truthy (opt_get (visibleColumns s) k)"

lemma update_fold_ok:
  assumes "json_ok (JObj ds)" and "list_all (\<lambda>(k, x). json_ok x) kvs"
  shows "\<exists>es. fold (\<lambda>(k, x) o'. obj_set o' k x) kvs (JObj ds) = JObj es \<and> json_ok (JObj es) \<and> fst ` set ds \<subseteq> fst ` set es"
  using assms
proof (induction kvs arbitrary: ds)
  case Nil
  then show ?case by simp
next
  case (Cons p kvs)
  obtain k x where p: "p = (k, x)" by (cases p)
  have "json_ok (JObj (AList.update k x ds))" using Cons.prems p by (intro json_ok_update) simp_all
  moreover have "list_all (\<lambda>(k, x). json_ok x) kvs" using Cons.prems(2) by simp
  ultimately obtain es where es: "fold (\<lambda>(k, x) o'. obj_set o' k x) kvs (JObj (AList.update k x ds)) = JObj es" "json_ok (JObj es)"
      "fst ` set (AList.update k x ds) \<subseteq> fst ` set es"
    using Cons.IH by blast
  have "fst ` set ds \<subseteq> fst ` set es" using es(3) by (auto simp: dom_update)
  then show ?case using es(1,2) p by (auto simp: obj_set_def)
qed

lemma hide_ok:
  assumes "json_ok (JObj ds)"
  shows "\<exists>es. hide_admin_columns c b (JObj ds) = JObj es \<and> json_ok (JObj es) \<and> fst ` set ds \<subseteq> fst ` set es"
proof -
  have "fold (\<lambda>k v. obj_set v k (JBool False)) ks (JObj ds) = fold (\<lambda>(k, x) o'. obj_set o' k x) (List.map (\<lambda>k. (k, JBool False)) ks) (JObj ds)" for ks
    by (induction ks arbitrary: ds) (simp_all add: obj_set_def)
  moreover have "list_all (\<lambda>(k, x). json_ok x) (List.map (\<lambda>k. (k, JBool False)) ks)" for ks :: "string list"
    by (simp add: list_all_iff)
  ultimately show ?thesis using assms update_fold_ok[OF assms] unfolding hide_admin_columns_def by auto
qed

text \<open>The contract of a table's columns: the keys for administrators are among its keys, and no key is repeated.\<close>

locale column_table =
  fixes c :: column_set
  assumes admin_columns: "set (admin_only c) \<subseteq> set (COLUMN_KEYS c)" and columns_distinct: "distinct (COLUMN_KEYS c)"
    and columns_nonempty: "COLUMN_KEYS c \<noteq> []"
begin

definition hides :: "jv \<Rightarrow> bool" where
  "hides v = (\<forall>k \<in> set (admin_only c). opt_get v k = JBool False)"

lemma default_get:
  "opt_get (getDefaultColumnVisibility c b) k = (if k \<in> set (COLUMN_KEYS c) then JBool (k \<in> set (admin_only c) \<longrightarrow> b) else JUndef)"
  by (simp add: getDefaultColumnVisibility_def opt_get_map)

lemma show_run: "visibleColumns (snd (show_columns c b v s)) = v"
  by (simp add: show_columns_def persist_effect_def act_simps)

lemma init_run: "visibleColumns (snd (initDefaultColumns c b s)) = getDefaultColumnVisibility c b"
  by (simp add: initDefaultColumns_def sq_def set_item_def modify_def show_run Let_def)

lemma merged_hides: "hides (hide_admin_columns c False v)"
  by (simp add: hides_def hidden_columns)

lemma default_hides: "hides (getDefaultColumnVisibility c False)"
  using admin_columns by (auto simp: hides_def default_get)

lemma change_hides: "hides v \<Longrightarrow> k \<notin> set (admin_only c) \<Longrightarrow> hides (obj_set w k x) = hides w"
  by (auto simp: hides_def opt_get_obj_set)

text \<open>The columns on the page are what the store holds for the role, all of them are set, and a user sees none of the administrator's.\<close>

definition kept :: "bool \<Rightarrow> 'x column_page_scheme \<Rightarrow> bool" where
  "kept b s = (\<exists>ms. visibleColumns s = JObj ms \<and> json_ok (JObj ms) \<and> set (COLUMN_KEYS c) \<subseteq> fst ` set ms
     \<and> store s (STORAGE_KEY c b) = Some (js_text (JObj ms)) \<and> (\<not> b \<longrightarrow> hides (JObj ms)))"

lemma show_kept:
  assumes "json_ok (JObj ms)" and "set (COLUMN_KEYS c) \<subseteq> fst ` set ms" and "\<not> b \<Longrightarrow> hides (JObj ms)"
  shows "kept b (snd (show_columns c b (JObj ms) s))"
proof -
  have "fst ` set ms \<noteq> {}" using assms(2) columns_nonempty by auto
  then have "obj_keys (JObj ms) \<noteq> []" by (auto simp: obj_keys_def)
  then have "snd (show_columns c b (JObj ms) s) = s\<lparr>visibleColumns := JObj ms, store := (store s)(STORAGE_KEY c b \<mapsto> js_text (JObj ms))\<rparr>"
    by (simp add: show_columns_def persist_effect_def act_simps json_stringify_def del: js_text.simps)
  then show ?thesis using assms unfolding kept_def by (intro exI[of _ ms]) (simp del: js_text.simps json_ok.simps)
qed

lemma init_kept: "kept b (snd (initDefaultColumns c b s))"
proof -
  let ?d = "List.map (\<lambda>k. (k, JBool (k \<in> set (admin_only c) \<longrightarrow> b))) (COLUMN_KEYS c)"
  have "json_ok (JObj ?d)" using columns_distinct by (simp add: comp_def)
  moreover have "set (COLUMN_KEYS c) \<subseteq> fst ` set ?d" by force
  moreover have "\<not> b \<Longrightarrow> hides (JObj ?d)" using default_hides by (simp add: getDefaultColumnVisibility_def)
  ultimately have "kept b (snd (show_columns c b (JObj ?d) u))" for u :: "'a column_page_scheme" by (rule show_kept)
  then show ?thesis by (simp add: initDefaultColumns_def sq_def set_item_def modify_def getDefaultColumnVisibility_def Let_def)
qed

text \<open>Whatever the store holds for the role, as long as a JSON text in it is one that \<open>JSON.stringify\<close> can write again.\<close>

definition rewritable :: "bool \<Rightarrow> 'x column_page_scheme \<Rightarrow> bool" where
  "rewritable b s = (\<forall>v. json_parse (to_str (get_item s (STORAGE_KEY c b))) = Some v \<longrightarrow> list_all (\<lambda>(k, x). json_ok x) (members v))"

lemma load_kept:
  assumes "rewritable b s"
  shows "kept b (snd (load_columns_effect c b s))"
proof (cases "truthy (get_item s (STORAGE_KEY c b))")
  case True
  show ?thesis
  proof (cases "json_parse (to_str (get_item s (STORAGE_KEY c b)))")
    case None
    then show ?thesis using True by (simp add: load_columns_effect_def bnd_def gets_def init_kept)
  next
    case (Some v)
    let ?d = "List.map (\<lambda>k. (k, JBool (k \<in> set (admin_only c) \<longrightarrow> b))) (COLUMN_KEYS c)"
    have "json_ok (JObj ?d)" using columns_distinct by (simp add: comp_def)
    then obtain es where es: "obj_spread (JObj ?d) (members v) = JObj es" "json_ok (JObj es)" "fst ` set ?d \<subseteq> fst ` set es"
      using update_fold_ok[of ?d "members v"] assms Some by (auto simp: rewritable_def obj_spread_def)
    then obtain hs where hs: "hide_admin_columns c b (JObj es) = JObj hs" "json_ok (JObj hs)" "fst ` set es \<subseteq> fst ` set hs"
      using hide_ok[OF es(2)] by blast
    have "set (COLUMN_KEYS c) \<subseteq> fst ` set ?d" by force
    then have "set (COLUMN_KEYS c) \<subseteq> fst ` set hs" using es(3) hs(3) by blast
    moreover have "\<not> b \<Longrightarrow> hides (JObj hs)" using merged_hides[of "JObj es"] hs(1) by simp
    ultimately have "kept b (snd (show_columns c b (JObj hs) s))" using hs(2) by (intro show_kept)
    then show ?thesis using True Some es(1) hs(1)
      by (simp add: load_columns_effect_def bnd_def gets_def getDefaultColumnVisibility_def)
  qed
next
  case False
  then show ?thesis by (simp add: load_columns_effect_def bnd_def gets_def init_kept)
qed

lemma change_kept:
  assumes "kept b s" and "b \<or> k \<notin> set (admin_only c)"
  shows "kept b (snd (handleColumnVisibilityChange c b k x s))"
proof -
  obtain ms where ms: "visibleColumns s = JObj ms" "json_ok (JObj ms)" "set (COLUMN_KEYS c) \<subseteq> fst ` set ms" "\<not> b \<Longrightarrow> hides (JObj ms)"
    using assms(1) unfolding kept_def by blast
  have "kept b (snd (show_columns c b (JObj (AList.update k (JBool x) ms)) s))"
  proof (rule show_kept)
    show "json_ok (JObj (AList.update k (JBool x) ms))" using ms(2) by (rule json_ok_update) simp
    show "set (COLUMN_KEYS c) \<subseteq> fst ` set (AList.update k (JBool x) ms)" using ms(3) by (auto simp: dom_update)
    assume "\<not> b"
    then have "hides (obj_set (JObj ms) k (JBool x))" using ms(4) assms(2) by (auto simp: hides_def opt_get_obj_set)
    then show "hides (JObj (AList.update k (JBool x) ms))" by (simp add: obj_set_def)
  qed
  then show ?thesis using ms(1) by (simp add: handleColumnVisibilityChange_def bnd_def gets_def obj_set_def)
qed

lemma select_kept: "kept b (snd (handleSelectAll c b x s))"
proof -
  let ?d = "List.map (\<lambda>k. (k, JBool (if k \<in> set (admin_only c) \<and> \<not> b then False else x))) (COLUMN_KEYS c)"
  have "json_ok (JObj ?d)" using columns_distinct by (simp add: comp_def)
  moreover have "set (COLUMN_KEYS c) \<subseteq> fst ` set ?d" by force
  moreover have "\<not> b \<Longrightarrow> hides (JObj ?d)" using admin_columns by (auto simp: hides_def opt_get_map)
  ultimately show ?thesis unfolding handleSelectAll_def by (rule show_kept)
qed

text \<open>A page loaded later shows the same columns, whatever was shown there before.\<close>

lemma reload_same:
  assumes "kept b s" and "store u (STORAGE_KEY c b) = store s (STORAGE_KEY c b)" and "k \<in> set (COLUMN_KEYS c)"
  shows "opt_get (visibleColumns (snd (load_columns_effect c b u))) k = opt_get (visibleColumns s) k"
proof -
  obtain ms where ms: "visibleColumns s = JObj ms" "json_ok (JObj ms)" "set (COLUMN_KEYS c) \<subseteq> fst ` set ms"
      "store s (STORAGE_KEY c b) = Some (js_text (JObj ms))" "\<not> b \<Longrightarrow> hides (JObj ms)"
    using assms(1) unfolding kept_def by blast
  have p: "json_parse (js_text (JObj ms)) = Some (JObj ms)" using ms(2) by (rule json_roundtrip)
  have "js_text (JObj ms) \<noteq> []" using js_text_length[OF ms(2)] by (metis length_greater_0_conv)
  then have t: "truthy (get_item u (STORAGE_KEY c b))" "to_str (get_item u (STORAGE_KEY c b)) = js_text (JObj ms)"
    using assms(2) ms(4) by (simp_all add: get_item_def del: js_text.simps)
  obtain x where x: "(k, x) \<in> set ms" using ms(3) assms(3) by force
  have d: "distinct (List.map fst ms)" using ms(2) by simp
  have "opt_get (obj_spread (getDefaultColumnVisibility c b) ms) k = opt_get (JObj ms) k"
    using opt_get_obj_spread[OF d x] d x by (simp add: opt_get_def)
  moreover have "visibleColumns (snd (load_columns_effect c b u)) = hide_admin_columns c b (obj_spread (getDefaultColumnVisibility c b) ms)"
    using t p by (simp add: load_columns_effect_def bnd_def gets_def show_run del: js_text.simps)
  ultimately show ?thesis using ms(1,5) by (auto simp: hidden_columns hides_def)
qed

end

section \<open>What can happen to the columns of a page\<close>

inductive column_step :: "column_set \<Rightarrow> bool \<Rightarrow> 'x column_page_scheme \<Rightarrow> 'x column_page_scheme \<Rightarrow> bool" for c b where
  defaults: "column_step c b s (snd (initDefaultColumns c b s))"
| switch: "b \<or> k \<notin> set (admin_only c) \<Longrightarrow> column_step c b s (snd (handleColumnVisibilityChange c b k x s))"
| select_all: "column_step c b s (snd (handleSelectAll c b x s))"
| elsewhere: "visibleColumns t = visibleColumns s \<Longrightarrow> store t (STORAGE_KEY c b) = store s (STORAGE_KEY c b) \<Longrightarrow> column_step c b s t"

context column_table
begin

lemma step_kept: "column_step c b s t \<Longrightarrow> kept b s \<Longrightarrow> kept b t"
  by (induction rule: column_step.induct) (simp_all add: init_kept change_kept select_kept, simp add: kept_def)

lemma steps_kept:
  assumes "rewritable b s" and "(column_step c b)\<^sup>*\<^sup>* (snd (load_columns_effect c b s)) t"
  shows "kept b t"
  using assms(2) load_kept[OF assms(1)] by (induction rule: rtranclp_induct) (auto intro: step_kept)

end

text \<open>The keys of the two roles differ, so neither overwrites the other's choice.\<close>

lemma roles_apart: "STORAGE_KEY c True \<noteq> STORAGE_KEY c False"
  by (simp add: STORAGE_KEY_def)

end
