(* ===== verification/Log_Tables.thy ===== *)
theory Log_Tables
  imports Columns Account Format
begin

text \<open>
  The drawing and task logs: \<open>hooks/mj-logs/useMjLogsData.js\<close> and \<open>hooks/task-logs/useTaskLogsData.js\<close> (no page of this version
  mounts them). \<open>log_form\<close> is the value object of the search form, undefined while none is registered. \<open>now\<close> is the time of the
  render in milliseconds, \<open>tz\<close> the offset of the time zone; \<open>Date.parse\<close> is the parameter \<open>date_parse\<close>.
\<close>

definition ITEMS_PER_PAGE :: rat where
  "ITEMS_PER_PAGE = 10"

record log_page = column_page +
  logs :: "jv list"
  log_loading :: bool
  log_activePage :: jv
  logCount :: jv
  log_pageSize :: jv
  search_form :: jv

record mj_page = log_page +
  showBanner :: bool
  isModalOpen :: bool
  modalContent :: jv
  isModalOpenurl :: bool
  modalImageUrl :: jv

record task_page = log_page +
  task_isModalOpen :: bool
  task_modalContent :: jv
  isVideoModalOpen :: bool
  videoUrl :: jv

section \<open>The columns\<close>

definition mj_columns :: column_set where
  "mj_columns = \<lparr>COLUMN_KEYS = [''submit_time'', ''duration'', ''channel'', ''type'', ''task_id'', ''submit_result'', ''task_status'',
     ''progress'', ''image'', ''prompt'', ''prompt_en'', ''fail_reason''],
     admin_only = [''channel'', ''submit_result''], storage_base = ''mj-logs-table-columns''\<rparr>"

definition task_columns :: column_set where
  "task_columns = \<lparr>COLUMN_KEYS = [''submit_time'', ''finish_time'', ''duration'', ''channel'', ''platform'', ''type'', ''task_id'',
     ''task_status'', ''progress'', ''fail_reason'', ''result_url''],
     admin_only = [''channel''], storage_base = ''task-logs-table-columns''\<rparr>"

definition mj_load_columns :: "bool \<Rightarrow> 'x column_act" where
  "mj_load_columns = load_columns_effect mj_columns"
definition mj_initDefaultColumns :: "bool \<Rightarrow> 'x column_act" where
  "mj_initDefaultColumns = initDefaultColumns mj_columns"
definition mj_handleColumnVisibilityChange :: "bool \<Rightarrow> string \<Rightarrow> bool \<Rightarrow> 'x column_act" where
  "mj_handleColumnVisibilityChange = handleColumnVisibilityChange mj_columns"
definition mj_handleSelectAll :: "bool \<Rightarrow> bool \<Rightarrow> 'x column_act" where
  "mj_handleSelectAll = handleSelectAll mj_columns"

definition task_load_columns :: "bool \<Rightarrow> 'x column_act" where
  "task_load_columns = load_columns_effect task_columns"
definition task_initDefaultColumns :: "bool \<Rightarrow> 'x column_act" where
  "task_initDefaultColumns = initDefaultColumns task_columns"
definition task_handleColumnVisibilityChange :: "bool \<Rightarrow> string \<Rightarrow> bool \<Rightarrow> 'x column_act" where
  "task_handleColumnVisibilityChange = handleColumnVisibilityChange task_columns"
definition task_handleSelectAll :: "bool \<Rightarrow> bool \<Rightarrow> 'x column_act" where
  "task_handleSelectAll = handleSelectAll task_columns"

section \<open>The form\<close>

text \<open>A time that is no number prints as \<open>NaN\<close> in every field.\<close>

definition timestamp_text :: "(int \<Rightarrow> int) \<Rightarrow> jv \<Rightarrow> string" where
  "timestamp_text tz v = (case to_num v of Some x \<Rightarrow> timestamp2string tz \<lfloor>x\<rfloor> | None \<Rightarrow> ''NaN-NaN-NaN NaN:NaN:NaN'')"

definition form_field :: "jv \<Rightarrow> string \<Rightarrow> jv" where
  "form_field values k = jor (opt_get values k) (JStr [])"

text \<open>\<open>dateRange\<close> counts when it is a list of two, otherwise the default range of the page does.\<close>

definition date_range :: "string \<times> string \<Rightarrow> jv \<Rightarrow> jv \<times> jv" where
  "date_range defaults values = (case opt_get values ''dateRange'' of
       JArr [a, b] \<Rightarrow> (a, b) | _ \<Rightarrow> (JStr (fst defaults), JStr (snd defaults)))"

definition mj_default_range :: "(int \<Rightarrow> int) \<Rightarrow> int \<Rightarrow> string \<times> string" where
  "mj_default_range tz now = (timestamp2string tz (now div 1000 - 2592000), timestamp2string tz (now div 1000 + 3600))"

text \<open>The start of the local day: the offset is the one at that time, which may differ from the present one.\<close>

definition local_midnight :: "(int \<Rightarrow> int) \<Rightarrow> int \<Rightarrow> int" where
  "local_midnight tz now = (let local = now + tz now; day = local - local mod 86400000 in day - tz (day - tz now))"

definition task_default_range :: "(int \<Rightarrow> int) \<Rightarrow> int \<Rightarrow> string \<times> string" where
  "task_default_range tz now =
     (timestamp2string tz (local_midnight tz now div 1000), timestamp2string tz (now div 1000 + 3600))"

definition parsed_date :: "(string \<Rightarrow> rat option) \<Rightarrow> jv \<Rightarrow> jv" where
  "parsed_date date_parse v = (case date_parse (to_str v) of Some ms \<Rightarrow> JNum ms | None \<Rightarrow> JNaN)"

definition in_seconds :: "jv \<Rightarrow> jv" where
  "in_seconds v = (case v of JNum ms \<Rightarrow> JNum (ms / 1000) | _ \<Rightarrow> JNaN)"

section \<open>Loading\<close>

definition enrich_log :: "(int \<Rightarrow> int) \<Rightarrow> jv \<Rightarrow> jv" where
  "enrich_log tz entry = obj_spread (JObj (members entry))
     [(''timestamp2string'', JStr (timestamp_text tz (opt_get entry ''created_at''))), (''key'', JStr (to_str (opt_get entry ''id'')))]"

definition enrichLogs :: "(int \<Rightarrow> int) \<Rightarrow> jv \<Rightarrow> ('s, jv list) act" where
  "enrichLogs tz items = (case items of
       JArr ls \<Rightarrow> if list_ex nullish ls then throw type_error else ret (List.map (enrich_log tz) ls)
     | _ \<Rightarrow> throw type_error)"

text \<open>\<open>rendered\<close> is the page size of the render the handler belongs to.\<close>

definition log_syncPageData :: "(int \<Rightarrow> int) \<Rightarrow> jv \<Rightarrow> jv \<Rightarrow> ('x log_page_scheme, unit) act" where
  "log_syncPageData tz rendered payload = bnd (prop_get payload ''items'') (\<lambda>items.
     bnd (enrichLogs tz (jor items (JArr []))) (\<lambda>ls.
       modify (\<lambda>s. s\<lparr>logs := ls, logCount := jor (opt_get payload ''total'') (JNum 0), log_activePage := jor (opt_get payload ''page'') (JNum 1),
         log_pageSize := jor (opt_get payload ''page_size'') rendered\<rparr>)))"

text \<open>The URLs, from page, size, the values of the form and the two ends of the range.\<close>

definition mj_url :: "bool \<Rightarrow> jv \<Rightarrow> jv \<Rightarrow> jv \<Rightarrow> jv \<times> jv \<Rightarrow> string" where
  "mj_url isAdminUser page psize values ends =
     (let field = (\<lambda>k. to_str (form_field values k));
          span = ''&mj_id='' @ field ''mj_id'' @ ''&start_timestamp='' @ to_str (fst ends) @ ''&end_timestamp='' @ to_str (snd ends);
          paging = ''?p='' @ to_str page @ ''&page_size='' @ to_str psize in
      if isAdminUser then ''/api/mj/'' @ paging @ ''&channel_id='' @ field ''channel_id'' @ span else ''/api/mj/self/'' @ paging @ span)"

definition task_url :: "bool \<Rightarrow> jv \<Rightarrow> jv \<Rightarrow> jv \<Rightarrow> jv \<times> jv \<Rightarrow> string" where
  "task_url isAdminUser page psize values ends =
     (let field = (\<lambda>k. to_str (form_field values k));
          span = ''&task_id='' @ field ''task_id'' @ ''&start_timestamp='' @ to_str (fst ends) @ ''&end_timestamp='' @ to_str (snd ends);
          paging = ''?p='' @ to_str page @ ''&page_size='' @ to_str psize in
      if isAdminUser then ''/api/task/'' @ paging @ ''&channel_id='' @ field ''channel_id'' @ span else ''/api/task/self'' @ paging @ span)"

definition fetch_logs :: "env \<Rightarrow> (int \<Rightarrow> int) \<Rightarrow> (jv \<Rightarrow> string) \<Rightarrow> jv \<Rightarrow> ('x log_page_scheme, unit) act" where
  "fetch_logs env tz address rendered = bnd (gets search_form) (\<lambda>values.
     sq (modify (\<lambda>s. s\<lparr>log_loading := True\<rparr>))
    (sq (bnd (bnd (api_get env (address values) JUndef) destruct) (\<lambda>(success, message, data).
           if truthy success then log_syncPageData tz rendered data else showError message))
        (modify (\<lambda>s. s\<lparr>log_loading := False\<rparr>))))"

definition mj_loadLogs ::
  "env \<Rightarrow> (int \<Rightarrow> int) \<Rightarrow> (string \<Rightarrow> rat option) \<Rightarrow> int \<Rightarrow> bool \<Rightarrow> jv \<Rightarrow> jv \<Rightarrow> jv \<Rightarrow> ('x log_page_scheme, unit) act" where
  "mj_loadLogs env tz date_parse now isAdminUser rendered page psize = fetch_logs env tz (\<lambda>values.
     let (a, b) = date_range (mj_default_range tz now) values in
     mj_url isAdminUser page psize values (parsed_date date_parse a, parsed_date date_parse b)) rendered"

definition task_loadLogs ::
  "env \<Rightarrow> (int \<Rightarrow> int) \<Rightarrow> (string \<Rightarrow> rat option) \<Rightarrow> int \<Rightarrow> bool \<Rightarrow> jv \<Rightarrow> jv \<Rightarrow> jv \<Rightarrow> ('x log_page_scheme, unit) act" where
  "task_loadLogs env tz date_parse now isAdminUser rendered page psize = fetch_logs env tz (\<lambda>values.
     let (a, b) = date_range (task_default_range tz now) values; seconds = (\<lambda>v. parseInt (in_seconds (parsed_date date_parse v))) in
     task_url isAdminUser page psize values (seconds a, seconds b)) rendered"

text \<open>Paging: \<open>load\<close> is one of the two loaders, given the rendered size, the page and the size.\<close>

definition log_handlePageChange :: "(jv \<Rightarrow> jv \<Rightarrow> jv \<Rightarrow> ('x log_page_scheme, unit) act) \<Rightarrow> jv \<Rightarrow> ('x log_page_scheme, unit) act" where
  "log_handlePageChange load page = bnd (gets log_pageSize) (\<lambda>size. detach (load size page size))"

definition log_handlePageSizeChange ::
  "string \<Rightarrow> (jv \<Rightarrow> jv \<Rightarrow> jv \<Rightarrow> ('x log_page_scheme, unit) act) \<Rightarrow> jv \<Rightarrow> ('x log_page_scheme, unit) act" where
  "log_handlePageSizeChange key load psize = bnd (gets log_pageSize) (\<lambda>rendered.
     sq (set_item key (JStr (to_str psize))) (load rendered (JNum 1) psize))"

definition log_refresh :: "(jv \<Rightarrow> jv \<Rightarrow> jv \<Rightarrow> ('x log_page_scheme, unit) act) \<Rightarrow> ('x log_page_scheme, unit) act" where
  "log_refresh load = bnd (gets log_pageSize) (\<lambda>size. load size (JNum 1) size)"

definition log_mount_effect :: "string \<Rightarrow> (jv \<Rightarrow> jv \<Rightarrow> jv \<Rightarrow> ('x log_page_scheme, unit) act) \<Rightarrow> ('x log_page_scheme, unit) act" where
  "log_mount_effect key load = bnd (gets (\<lambda>s. (get_item s key, log_pageSize s))) (\<lambda>(v, rendered).
     let size = jor (parseInt v) (JNum ITEMS_PER_PAGE) in
     sq (modify (\<lambda>s. s\<lparr>log_pageSize := size\<rparr>)) (detach (load rendered (JNum 1) size)))"

definition mj_handlePageChange :: "(jv \<Rightarrow> jv \<Rightarrow> jv \<Rightarrow> ('x log_page_scheme, unit) act) \<Rightarrow> jv \<Rightarrow> ('x log_page_scheme, unit) act" where
  "mj_handlePageChange = log_handlePageChange"
definition mj_handlePageSizeChange :: "(jv \<Rightarrow> jv \<Rightarrow> jv \<Rightarrow> ('x log_page_scheme, unit) act) \<Rightarrow> jv \<Rightarrow> ('x log_page_scheme, unit) act" where
  "mj_handlePageSizeChange = log_handlePageSizeChange ''mj-page-size''"
definition mj_refresh :: "(jv \<Rightarrow> jv \<Rightarrow> jv \<Rightarrow> ('x log_page_scheme, unit) act) \<Rightarrow> ('x log_page_scheme, unit) act" where
  "mj_refresh = log_refresh"
definition mj_mount_effect :: "(jv \<Rightarrow> jv \<Rightarrow> jv \<Rightarrow> ('x log_page_scheme, unit) act) \<Rightarrow> ('x log_page_scheme, unit) act" where
  "mj_mount_effect = log_mount_effect ''mj-page-size''"

definition task_handlePageChange :: "(jv \<Rightarrow> jv \<Rightarrow> jv \<Rightarrow> ('x log_page_scheme, unit) act) \<Rightarrow> jv \<Rightarrow> ('x log_page_scheme, unit) act" where
  "task_handlePageChange = log_handlePageChange"
definition task_handlePageSizeChange :: "(jv \<Rightarrow> jv \<Rightarrow> jv \<Rightarrow> ('x log_page_scheme, unit) act) \<Rightarrow> jv \<Rightarrow> ('x log_page_scheme, unit) act" where
  "task_handlePageSizeChange = log_handlePageSizeChange ''task-page-size''"
definition task_refresh :: "(jv \<Rightarrow> jv \<Rightarrow> jv \<Rightarrow> ('x log_page_scheme, unit) act) \<Rightarrow> ('x log_page_scheme, unit) act" where
  "task_refresh = log_refresh"
definition task_mount_effect :: "(jv \<Rightarrow> jv \<Rightarrow> jv \<Rightarrow> ('x log_page_scheme, unit) act) \<Rightarrow> ('x log_page_scheme, unit) act" where
  "task_mount_effect = log_mount_effect ''task-page-size''"

section \<open>The rest of the pages\<close>

definition log_copyText :: "env \<Rightarrow> string \<Rightarrow> ('x browser_scheme, unit) act" where
  "log_copyText env txt = bnd (copy env (JStr txt)) (\<lambda>ok.
     if ok then showSuccess (JStr (''copied: '' @ txt)) else emit (Dialog ''could not copy to the clipboard, please copy by hand'' txt))"

definition task_copyText :: "env \<Rightarrow> string \<Rightarrow> ('x browser_scheme, unit) act" where
  "task_copyText = log_copyText"

definition banner_effect :: "('x mj_page_scheme, unit) act" where
  "banner_effect = modify (\<lambda>s. if get_item s ''mj_notify_enabled'' \<noteq> JStr ''true'' then s\<lparr>showBanner := True\<rparr> else s)"

definition openContentModal :: "jv \<Rightarrow> 'x mj_page_scheme \<Rightarrow> 'x mj_page_scheme" where
  "openContentModal content s = s\<lparr>modalContent := content, isModalOpen := True\<rparr>"

definition openImageModal :: "jv \<Rightarrow> 'x mj_page_scheme \<Rightarrow> 'x mj_page_scheme" where
  "openImageModal imageUrl s = s\<lparr>modalImageUrl := imageUrl, isModalOpenurl := True\<rparr>"

definition task_openContentModal :: "jv \<Rightarrow> 'x task_page_scheme \<Rightarrow> 'x task_page_scheme" where
  "task_openContentModal content s = s\<lparr>task_modalContent := content, task_isModalOpen := True\<rparr>"

definition openVideoModal :: "jv \<Rightarrow> 'x task_page_scheme \<Rightarrow> 'x task_page_scheme" where
  "openVideoModal url s = s\<lparr>videoUrl := url, isVideoModalOpen := True\<rparr>"

section \<open>Lemmas\<close>

interpretation mj_table: column_table mj_columns
  by unfold_locales (simp_all add: mj_columns_def)

interpretation task_table: column_table task_columns
  by unfold_locales (simp_all add: task_columns_def)

lemma fetch_rejected:
  assumes "env (trace s) (Http GET (address (search_form s)) JUndef) = Rejected e"
  shows "returns (fetch_logs env tz address rendered s) = False \<and> log_loading (snd (fetch_logs env tz address rendered s))"
proof -
  let ?s = "s\<lparr>log_loading := True\<rparr>"
  let ?r = "Http GET (address (search_form s)) JUndef"
  obtain e' t where run: "api_call env False ?r ?s = (Inl e', t)"
    using api_call_Rejected[of env ?s ?r e False] assms by auto
  moreover have "log_loading (snd (api_call env False ?r ?s))"
    using assms by (auto simp: api_call_eq on_rejected_def sq_def throw_def showError_def emit_def modify_def remove_item_def prop_get_def bnd_def ret_def Let_def)
  ultimately have "log_loading t" by simp
  then show ?thesis by (simp add: fetch_logs_def bnd_def gets_def sq_def modify_def api_get_def run)
qed

end
