(* ===== verification/Usage_Logs.thy ===== *)
theory Usage_Logs
  imports Log_Tables Price_Display
begin

text \<open>
  The usage logs: \<open>hooks/usage-logs/useUsageLogsData.jsx\<close> with \<open>getLogOther\<close> of \<open>helpers/log.js\<close> (no page of this version mounts
  the hook). It shares columns and form with the other logs. The details of a log are pairs of a title and a value; the prices among
  them are the paragraphs of Price_Display, \<open>None\<close> where a number of the log is missing and the text would show NaN. An answer
  whose \<open>items\<close> are no list is outside the model.
\<close>

datatype detail = Value jv | Prices "para list option"

type_synonym details = "(string \<times> detail) list"

record usage_page = log_page +
  expandData :: "(string \<times> details) list"
  showStat :: bool
  loadingStat :: bool
  stat :: jv
  showUserInfo :: bool
  userInfoData :: jv

type_synonym 'a usage_act = "(usage_page, 'a) act"

definition usage_columns :: column_set where
  "usage_columns = \<lparr>COLUMN_KEYS = [''time'', ''channel'', ''username'', ''token'', ''group'', ''type'', ''model'', ''use_time'', ''prompt'',
     ''completion'', ''cost'', ''retry'', ''ip'', ''details''],
     admin_only = [''channel'', ''username'', ''retry''], storage_base = ''logs-table-columns''\<rparr>"

definition usage_load_columns :: "bool \<Rightarrow> 'x column_act" where
  "usage_load_columns = load_columns_effect usage_columns"
definition usage_initDefaultColumns :: "bool \<Rightarrow> 'x column_act" where
  "usage_initDefaultColumns = initDefaultColumns usage_columns"
definition usage_handleColumnVisibilityChange :: "bool \<Rightarrow> string \<Rightarrow> bool \<Rightarrow> 'x column_act" where
  "usage_handleColumnVisibilityChange = handleColumnVisibilityChange usage_columns"
definition usage_handleSelectAll :: "bool \<Rightarrow> bool \<Rightarrow> 'x column_act" where
  "usage_handleSelectAll = handleSelectAll usage_columns"

section \<open>The URLs\<close>

text \<open>\<open>encodeURI\<close> on the characters of the model: everything but the reserved and unreserved ones becomes its UTF-8 bytes.\<close>

definition percent :: "nat \<Rightarrow> string" where
  "percent n = (let hex = (\<lambda>d. ''0123456789ABCDEF'' ! d) in [CHR ''%'', hex (n div 16), hex (n mod 16)])"

definition uri_kept :: "char \<Rightarrow> bool" where
  "uri_kept ch = (ch \<in> set ''ABCDEFGHIJKLMNOPQRSTUVWXYZabcdefghijklmnopqrstuvwxyz0123456789;,/?:@&=+$-_.!~*()#'' \<or> ch = CHR 0x27)"

definition encodeURI :: "string \<Rightarrow> string" where
  "encodeURI s = concat (List.map (\<lambda>ch. if uri_kept ch then [ch] else
     (let n = (of_char ch :: nat) in if n < 128 then percent n else percent (192 + n div 64) @ percent (128 + n mod 64))) s)"

definition usage_default_range :: "(int \<Rightarrow> int) \<Rightarrow> int \<Rightarrow> string \<times> string" where
  "usage_default_range tz now = (timestamp2string tz (local_midnight tz now div 1000), timestamp2string tz (now div 1000 + 3600))"

definition form_log_type :: "jv \<Rightarrow> jv" where
  "form_log_type values = (if truthy (opt_get values ''logType'') then parseInt (opt_get values ''logType'') else JNum 0)"

definition usage_span :: "(int \<Rightarrow> int) \<Rightarrow> (string \<Rightarrow> rat option) \<Rightarrow> int \<Rightarrow> jv \<Rightarrow> string" where
  "usage_span tz date_parse now values =
     (let (a, b) = date_range (usage_default_range tz now) values; seconds = (\<lambda>v. to_str (in_seconds (parsed_date date_parse v))) in
      ''&start_timestamp='' @ seconds a @ ''&end_timestamp='' @ seconds b)"

text \<open>The part of the query that loading and the statistics share; \<open>ty\<close> is the type of the logs.\<close>

definition usage_query :: "(int \<Rightarrow> int) \<Rightarrow> (string \<Rightarrow> rat option) \<Rightarrow> int \<Rightarrow> bool \<Rightarrow> jv \<Rightarrow> jv \<Rightarrow> string" where
  "usage_query tz date_parse now isAdminUser values ty =
     (let field = (\<lambda>k. to_str (form_field values k)); span = usage_span tz date_parse now values in
      ''type='' @ to_str ty @ (if isAdminUser then ''&username='' @ field ''username'' else [])
        @ ''&token_name='' @ field ''token_name'' @ ''&model_name='' @ field ''model_name'' @ span
        @ (if isAdminUser then ''&channel='' @ field ''channel'' else []) @ ''&group='' @ field ''group'')"

definition usage_url :: "(int \<Rightarrow> int) \<Rightarrow> (string \<Rightarrow> rat option) \<Rightarrow> int \<Rightarrow> bool \<Rightarrow> jv \<Rightarrow> jv \<Rightarrow> jv option \<Rightarrow> jv \<Rightarrow> string" where
  "usage_url tz date_parse now isAdminUser startIdx psize customLogType values = encodeURI
     ((if isAdminUser then ''/api/log/?p='' else ''/api/log/self/?p='') @ to_str startIdx @ ''&page_size='' @ to_str psize @ ''&''
      @ usage_query tz date_parse now isAdminUser values (case customLogType of Some ty \<Rightarrow> ty | None \<Rightarrow> form_log_type values))"

section \<open>Statistics\<close>

definition get_stat :: "env \<Rightarrow> string \<Rightarrow> unit usage_act" where
  "get_stat env url = bnd (bnd (api_get env url JUndef) destruct) (\<lambda>(success, message, data).
     if truthy success then modify (\<lambda>s. s\<lparr>stat := data\<rparr>) else showError message)"

definition getLogSelfStat :: "env \<Rightarrow> (int \<Rightarrow> int) \<Rightarrow> (string \<Rightarrow> rat option) \<Rightarrow> int \<Rightarrow> unit usage_act" where
  "getLogSelfStat env tz date_parse now = bnd (gets search_form) (\<lambda>values.
     get_stat env (encodeURI (''/api/log/self/stat?'' @ usage_query tz date_parse now False values (form_log_type values))))"

definition getLogStat :: "env \<Rightarrow> (int \<Rightarrow> int) \<Rightarrow> (string \<Rightarrow> rat option) \<Rightarrow> int \<Rightarrow> unit usage_act" where
  "getLogStat env tz date_parse now = bnd (gets search_form) (\<lambda>values.
     get_stat env (encodeURI (''/api/log/stat?'' @ usage_query tz date_parse now True values (form_log_type values))))"

definition handleEyeClick :: "env \<Rightarrow> (int \<Rightarrow> int) \<Rightarrow> (string \<Rightarrow> rat option) \<Rightarrow> int \<Rightarrow> bool \<Rightarrow> unit usage_act" where
  "handleEyeClick env tz date_parse now isAdminUser = bnd (gets loadingStat) (\<lambda>busy.
     act_when (\<not> busy)
       (sq (modify (\<lambda>s. s\<lparr>loadingStat := True\<rparr>))
       (sq (if isAdminUser then getLogStat env tz date_parse now else getLogSelfStat env tz date_parse now)
           (modify (\<lambda>s. s\<lparr>showStat := True, loadingStat := False\<rparr>)))))"

definition showUserInfoFunc :: "env \<Rightarrow> bool \<Rightarrow> jv \<Rightarrow> unit usage_act" where
  "showUserInfoFunc env isAdminUser userId = act_when isAdminUser
     (bnd (bnd (api_get env (''/api/user/'' @ to_str userId) JUndef) destruct) (\<lambda>(success, message, data).
        if truthy success then modify (\<lambda>s. s\<lparr>userInfoData := data, showUserInfo := True\<rparr>) else showError message))"

section \<open>The details of a log\<close>

definition getLogOther :: "jv \<Rightarrow> jv option" where
  "getLogOther otherStr = (if otherStr = JUndef \<or> otherStr = JStr [] then Some (JObj []) else json_parse (to_str otherStr))"

definition number :: "jv \<Rightarrow> rat option" where
  "number v = (case v of JNum x \<Rightarrow> Some x | _ \<Rightarrow> None)"

definition or_num :: "jv \<Rightarrow> string \<Rightarrow> rat \<Rightarrow> rat option" where
  "or_num other k d = number (jor (opt_get other k) (JNum d))"

definition price_or_default :: "jv \<Rightarrow> rat option" where
  "price_or_default v = (if v = JUndef then Some (-1) else number v)"

definition charge_of :: "jv \<Rightarrow> jv \<Rightarrow> jv \<Rightarrow> charge option" where
  "charge_of tokens_in tokens_out other =
     (case (number tokens_in, number tokens_out, number (opt_get other ''model_ratio''), price_or_default (opt_get other ''model_price''),
            number (opt_get other ''group_ratio''), or_num other ''cache_tokens'' 0, or_num other ''cache_ratio'' 1) of
        (Some i, Some out, Some mr, Some mp, Some gr, Some ct, Some cr) \<Rightarrow>
          Some \<lparr>inputTokens = i, completionTokens = out, modelRatio = mr, modelPrice = mp,
            completionRatio = number (opt_get other ''completion_ratio''), groupRatio = gr,
            user_group_ratio = number (opt_get other ''user_group_ratio''), cacheTokens = ct, cacheRatio = cr\<rparr>
      | _ \<Rightarrow> None)"

definition creation_ratio :: "jv \<Rightarrow> string \<Rightarrow> rat option" where
  "creation_ratio other k = number (jor (opt_get other k) (jor (opt_get other ''cache_creation_ratio'') (JNum 1)))"

definition creation_of :: "jv \<Rightarrow> creation option" where
  "creation_of other =
     (case (or_num other ''cache_creation_tokens'' 0, or_num other ''cache_creation_ratio'' 1, or_num other ''cache_creation_tokens_5m'' 0,
            creation_ratio other ''cache_creation_ratio_5m'', or_num other ''cache_creation_tokens_1h'' 0,
            creation_ratio other ''cache_creation_ratio_1h'') of
        (Some t, Some r, Some t5, Some r5, Some t1, Some r1) \<Rightarrow>
          Some \<lparr>cacheCreationTokens = t, cacheCreationRatio = r, cacheCreationTokens5m = t5, cacheCreationRatio5m = r5,
            cacheCreationTokens1h = t1, cacheCreationRatio1h = r1\<rparr>
      | _ \<Rightarrow> None)"

definition extras_of :: "jv \<Rightarrow> extras option" where
  "extras_of other = (let flag = (\<lambda>k. truthy (opt_get other k)) in
     case (or_num other ''image_ratio'' 0, or_num other ''image_output'' 0, or_num other ''web_search_call_count'' 0,
           or_num other ''web_search_price'' 0, or_num other ''file_search_call_count'' 0, or_num other ''file_search_price'' 0,
           or_num other ''audio_input_token_count'' 0, or_num other ''audio_input_price'' 0, or_num other ''image_generation_call_price'' 0) of
       (Some ir, Some io, Some wc, Some wp, Some fc, Some fp, Some ac, Some ap, Some gp) \<Rightarrow>
         Some \<lparr>has_image = flag ''image'', imageRatio = ir, imageOutputTokens = io, webSearch = flag ''web_search'', webSearchCallCount = wc,
           webSearchPrice = wp, fileSearch = flag ''file_search'', fileSearchCallCount = fc, fileSearchPrice = fp,
           audioInputSeperatePrice = flag ''audio_input_seperate_price'', audioInputTokens = ac, audioInputPrice = ap,
           imageGenerationCall = flag ''image_generation_call'', imageGenerationCallPrice = gp\<rparr>
     | _ \<Rightarrow> None)"

text \<open>\<open>renderLogContent\<close> is called without the image.\<close>

definition log_content :: "'s browser_scheme \<Rightarrow> jv \<Rightarrow> para list option" where
  "log_content s other =
     (if truthy (opt_get other ''claude'')
      then (case (charge_of (JNum 0) (JNum 0) other, creation_of other) of (Some c, Some k) \<Rightarrow> Some (renderClaudeLogContent s c k) | _ \<Rightarrow> None)
      else (case (charge_of (JNum 0) (JNum 0) other, extras_of other) of
              (Some c, Some e) \<Rightarrow> Some [renderLogContent s c (e\<lparr>has_image := False, imageRatio := 1\<rparr>)] | _ \<Rightarrow> None))"

definition audio_of :: "jv \<Rightarrow> audio_charge option" where
  "audio_of other =
     (case (charge_of (opt_get other ''text_input'') (opt_get other ''text_output'') other, number (opt_get other ''audio_input''),
            number (opt_get other ''audio_output''), number (opt_get other ''audio_completion_ratio'')) of
        (Some c, Some i, Some out, Some r) \<Rightarrow>
          Some (charge.extend c \<lparr>audioIn = i, audioCompletionTokens = out, audioRatio = opt_get other ''audio_ratio'', audioCompletionRatio = r\<rparr>)
      | _ \<Rightarrow> None)"

definition with_audio :: "jv \<Rightarrow> bool" where
  "with_audio other = (truthy (opt_get other ''ws'') \<or> truthy (opt_get other ''audio''))"

definition billing_process :: "'s browser_scheme \<Rightarrow> jv \<Rightarrow> jv \<Rightarrow> para list option" where
  "billing_process s entry other =
     (let c = charge_of (opt_get entry ''prompt_tokens'') (opt_get entry ''completion_tokens'') other in
      if with_audio other then map_option (renderAudioModelPrice s) (audio_of other)
      else if truthy (opt_get other ''claude'')
      then (case (c, creation_of other) of (Some c, Some k) \<Rightarrow> Some (renderClaudeModelPrice s c k) | _ \<Rightarrow> None)
      else (case (c, extras_of other) of (Some c, Some e) \<Rightarrow> Some (renderModelPrice s c e) | _ \<Rightarrow> None))"

definition is_type :: "jv \<Rightarrow> rat \<Rightarrow> bool" where
  "is_type entry n = (opt_get entry ''type'' = JNum n)"

definition counted :: "jv \<Rightarrow> string \<Rightarrow> bool" where
  "counted other k = num_gt (opt_get other k) 0"

text \<open>The details from title to value, in the order they are pushed.\<close>

definition log_details :: "'s browser_scheme \<Rightarrow> bool \<Rightarrow> jv \<Rightarrow> jv \<Rightarrow> details" where
  "log_details s isAdminUser entry other =
     (let member = (\<lambda>title k. (title, Value (opt_get other k))); own = (\<lambda>title k. (title, Value (opt_get entry k)));
          consumed = is_type entry 2 in
      (if isAdminUser \<and> (is_type entry 0 \<or> consumed)
       then [(''channel'', Value (JStr (to_str (opt_get entry ''channel'') @ '' - '' @ to_str (jor (opt_get entry ''channel_name'') (JStr ''[unknown]'')))))]
       else [])
      @ (if with_audio other then [member ''audio input'' ''audio_input'', member ''audio output'' ''audio_output'',
            member ''text input'' ''text_input'', member ''text output'' ''text_output''] else [])
      @ (if counted other ''cache_tokens'' then [member ''cache tokens'' ''cache_tokens''] else [])
      @ (if counted other ''cache_creation_tokens'' then [member ''cache creation tokens'' ''cache_creation_tokens''] else [])
      @ (if consumed then [(''log details'', Prices (log_content s other))] else [])
      @ (if consumed \<and> truthy (opt_get entry ''content'') then [own ''other details'' ''content''] else [])
      @ (if consumed \<and> truthy (opt_get other ''is_model_mapped'') \<and> truthy (opt_get other ''upstream_model_name'')
         then [own ''requested and billed model'' ''model_name'', member ''actual model'' ''upstream_model_name''] else [])
      @ (if consumed then [(''billing process'', Prices (billing_process s entry other))] else [])
      @ (if consumed \<and> truthy (opt_get other ''reasoning_effort'') then [member ''Reasoning Effort'' ''reasoning_effort''] else [])
      @ (if truthy (opt_get other ''request_path'') then [member ''request path'' ''request_path''] else [])
      @ (if isAdminUser
         then [(''billing mode'', Value (JStr (if truthy (opt_get (opt_get other ''admin_info'') ''local_count_tokens'') then ''counted locally'' else ''upstream'')))]
         else []))"

text \<open>\<open>other.completion_ratio\<close> on null throws for a log of type 2; elsewhere the accesses are optional.\<close>

definition format_log :: "(int \<Rightarrow> int) \<Rightarrow> bool \<Rightarrow> jv \<Rightarrow> ('x log_page_scheme, jv \<times> details) act" where
  "format_log tz isAdminUser entry =
     (if nullish entry then throw type_error else
      (case getLogOther (opt_get entry ''other'') of
         None \<Rightarrow> throw syntax_error
       | Some other \<Rightarrow>
           if is_type entry 2 \<and> nullish other then throw type_error
           else bnd (gets (\<lambda>s. log_details s isAdminUser entry other)) (\<lambda>ds.
             ret (obj_spread entry [(''timestamp2string'', JStr (timestamp_text tz (opt_get entry ''created_at''))), (''key'', opt_get entry ''id'')], ds))))"

definition setLogsFormat :: "(int \<Rightarrow> int) \<Rightarrow> bool \<Rightarrow> jv \<Rightarrow> unit usage_act" where
  "setLogsFormat tz isAdminUser items = (case items of
       JArr ls \<Rightarrow> bnd (map_each (format_log tz isAdminUser) ls) (\<lambda>rows. modify (\<lambda>s. s\<lparr>
         expandData := fold (\<lambda>(l, ds) m. AList.update (to_str (opt_get l ''key'')) ds m) rows [], logs := List.map fst rows\<rparr>))
     | _ \<Rightarrow> throw type_error)"

section \<open>Loading\<close>

definition usage_loadLogs ::
  "env \<Rightarrow> (int \<Rightarrow> int) \<Rightarrow> (string \<Rightarrow> rat option) \<Rightarrow> int \<Rightarrow> bool \<Rightarrow> jv \<Rightarrow> jv \<Rightarrow> jv option \<Rightarrow> unit usage_act" where
  "usage_loadLogs env tz date_parse now isAdminUser startIdx psize customLogType =
     sq (modify (\<lambda>s. s\<lparr>log_loading := True\<rparr>))
    (sq (bnd (gets search_form) (\<lambda>values.
         bnd (bnd (api_get env (usage_url tz date_parse now isAdminUser startIdx psize customLogType values) JUndef) destruct) (\<lambda>(success, message, data).
           if truthy success
           then bnd (prop_get data ''items'') (\<lambda>items.
             sq (modify (\<lambda>s. s\<lparr>log_activePage := opt_get data ''page'', log_pageSize := opt_get data ''page_size'', logCount := opt_get data ''total''\<rparr>))
                (setLogsFormat tz isAdminUser items))
           else showError message)))
        (modify (\<lambda>s. s\<lparr>log_loading := False\<rparr>)))"

definition usage_handlePageChange :: "env \<Rightarrow> (int \<Rightarrow> int) \<Rightarrow> (string \<Rightarrow> rat option) \<Rightarrow> int \<Rightarrow> bool \<Rightarrow> jv \<Rightarrow> unit usage_act" where
  "usage_handlePageChange env tz date_parse now isAdminUser page = bnd (gets log_pageSize) (\<lambda>psize.
     sq (modify (\<lambda>s. s\<lparr>log_activePage := page\<rparr>)) (detach (usage_loadLogs env tz date_parse now isAdminUser page psize None)))"

definition usage_handlePageSizeChange :: "env \<Rightarrow> (int \<Rightarrow> int) \<Rightarrow> (string \<Rightarrow> rat option) \<Rightarrow> int \<Rightarrow> bool \<Rightarrow> jv \<Rightarrow> unit usage_act" where
  "usage_handlePageSizeChange env tz date_parse now isAdminUser psize = bnd (gets log_activePage) (\<lambda>page.
     sq (set_item ''page-size'' (JStr (to_str psize)))
    (sq (modify (\<lambda>s. s\<lparr>log_pageSize := psize, log_activePage := JNum 1\<rparr>))
        (detach (try_catch (usage_loadLogs env tz date_parse now isAdminUser page psize None) showError))))"

definition usage_refresh :: "env \<Rightarrow> (int \<Rightarrow> int) \<Rightarrow> (string \<Rightarrow> rat option) \<Rightarrow> int \<Rightarrow> bool \<Rightarrow> unit usage_act" where
  "usage_refresh env tz date_parse now isAdminUser = bnd (gets log_pageSize) (\<lambda>psize.
     sq (modify (\<lambda>s. s\<lparr>log_activePage := JNum 1\<rparr>))
    (sq (detach (handleEyeClick env tz date_parse now isAdminUser))
        (usage_loadLogs env tz date_parse now isAdminUser (JNum 1) psize None)))"

definition usage_copyText :: "env \<Rightarrow> string \<Rightarrow> ('x browser_scheme, unit) act" where
  "usage_copyText = log_copyText"

definition usage_mount_effect :: "env \<Rightarrow> (int \<Rightarrow> int) \<Rightarrow> (string \<Rightarrow> rat option) \<Rightarrow> int \<Rightarrow> bool \<Rightarrow> unit usage_act" where
  "usage_mount_effect env tz date_parse now isAdminUser = bnd (gets (\<lambda>s. (get_item s ''page-size'', log_activePage s))) (\<lambda>(v, page).
     let psize = jor (parseInt v) (JNum ITEMS_PER_PAGE) in
     sq (modify (\<lambda>s. s\<lparr>log_pageSize := psize\<rparr>))
        (detach (try_catch (usage_loadLogs env tz date_parse now isAdminUser page psize None) showError)))"

definition form_effect :: "env \<Rightarrow> (int \<Rightarrow> int) \<Rightarrow> (string \<Rightarrow> rat option) \<Rightarrow> int \<Rightarrow> bool \<Rightarrow> unit usage_act" where
  "form_effect env tz date_parse now isAdminUser = bnd (gets search_form) (\<lambda>f.
     act_when (truthy f) (detach (handleEyeClick env tz date_parse now isAdminUser)))"

definition hasExpandableRows :: "usage_page \<Rightarrow> bool" where
  "hasExpandableRows s = list_ex (\<lambda>l. case map_of (expandData s) (to_str (opt_get l ''key'')) of Some ds \<Rightarrow> ds \<noteq> [] | None \<Rightarrow> False) (logs s)"

section \<open>Lemmas\<close>

interpretation usage_table: column_table usage_columns
  by unfold_locales (simp_all add: usage_columns_def)

lemma column_sets:
  assumes "c \<in> {mj_columns, task_columns, usage_columns}"
  shows "column_table c"
  using assms mj_table.column_table_axioms task_table.column_table_axioms usage_table.column_table_axioms by auto

lemma encodeURI_append: "encodeURI (u @ w) = encodeURI u @ encodeURI w"
  by (simp add: encodeURI_def)

text \<open>An ampersand in a search field ends the field: the rest of it is read as further parameters.\<close>

lemma field_starts_new_parameter: "encodeURI (u @ ''&type=2'' @ w) = encodeURI u @ ''&type=2'' @ encodeURI w"
  by (simp add: encodeURI_append) (simp add: encodeURI_def uri_kept_def)

lemma format_keeps_state: "snd (format_log tz b entry s) = s"
  by (simp add: format_log_def throw_def bnd_def gets_def ret_def split: option.split)

text \<open>One log whose \<open>other\<close> is no JSON keeps the whole page from being shown.\<close>

lemma one_bad_log_hides_page:
  assumes "x \<in> set ls" and "\<not> nullish x" and "getLogOther (opt_get x ''other'') = None"
  shows "\<exists>e. setLogsFormat tz b (JArr ls) s = (Inl e, s)"
proof -
  have "\<exists>e. map_each (format_log tz b) ls s = (Inl e, s)" using assms(1)
  proof (induction ls)
    case (Cons y ys)
    have k: "snd (format_log tz b y s) = s" by (rule format_keeps_state)
    show ?case
    proof (cases "x = y")
      case True
      then show ?thesis using assms(2,3) by (simp add: bnd_def format_log_def throw_def)
    next
      case False
      then obtain e where "map_each (format_log tz b) ys s = (Inl e, s)" using Cons by auto
      then show ?thesis using k by (cases "format_log tz b y s"; cases "fst (format_log tz b y s)") (auto simp: bnd_def)
    qed
  qed simp
  then show ?thesis by (auto simp: setLogsFormat_def bnd_def)
qed

lemma get_stat_rejected:
  assumes "env (trace s) (Http GET url JUndef) = Rejected e"
  shows "\<exists>e' t. get_stat env url s = (Inl e', t) \<and> loadingStat t = loadingStat s"
proof -
  let ?r = "Http GET url JUndef"
  obtain e' t where run: "api_call env False ?r s = (Inl e', t)"
    using api_call_Rejected[of env s ?r e False] assms by auto
  moreover have "loadingStat (snd (api_call env False ?r s)) = loadingStat s"
    using assms by (auto simp: api_call_eq on_rejected_def sq_def throw_def showError_def emit_def modify_def remove_item_def prop_get_def bnd_def ret_def Let_def)
  ultimately show ?thesis by (simp add: get_stat_def bnd_def api_get_def)
qed

section \<open>Properties\<close>


text \<open>When the backend fails to answer the request for the statistics, the flag that guards the button stays set: every later
  press of it, refresh included, sends nothing.\<close>

lemma failed_statistics_never_retried:
  assumes "\<And>url. env (trace s) (Http GET url JUndef) = Rejected (err url)" and "\<not> loadingStat s"
    and "t = snd (handleEyeClick env tz date_parse now isAdminUser s)"
  shows "loadingStat t \<and> handleEyeClick env' tz' date_parse' now' isAdminUser' t = (Inr (), t)"
proof -
  let ?s = "s\<lparr>loadingStat := True\<rparr>"
  have "\<exists>e' t. (if isAdminUser then getLogStat env tz date_parse now else getLogSelfStat env tz date_parse now) ?s = (Inl e', t) \<and> loadingStat t"
    using get_stat_rejected[of env ?s] assms(1) by (simp add: getLogStat_def getLogSelfStat_def bnd_def gets_def)
  then obtain e' u where run: "(if isAdminUser then getLogStat env tz date_parse now else getLogSelfStat env tz date_parse now) ?s = (Inl e', u)"
    "loadingStat u" by blast
  have "t = u" using assms(2,3) run(1) by (simp add: handleEyeClick_def bnd_def gets_def act_when_def sq_def modify_def)
  then show ?thesis using run(2) by (simp add: handleEyeClick_def bnd_def gets_def act_when_def ret_def)
qed

definition column_example :: column_page where
  "column_example = browser.extend blank_browser \<lparr>visibleColumns = JObj [], showColumnSelector = False\<rparr>"


definition usage_example :: usage_page where
  "usage_example = browser.extend blank_browser \<lparr>visibleColumns = JObj [], showColumnSelector = False, logs = [], log_loading = False,
     log_activePage = JNum 1, logCount = JNum 0, log_pageSize = JNum 10, search_form = JObj [], expandData = [], showStat = False,
     loadingStat = False, stat = JObj [], showUserInfo = False, userInfoData = JNull\<rparr>"

lemma failed_statistics_never_retried_example:
  "loadingStat (snd (handleEyeClick (\<lambda>_ _. Rejected (network_error ''down'')) (\<lambda>_. 0) (\<lambda>_. None) 0 False usage_example))"
  using failed_statistics_never_retried[of "\<lambda>_ _. Rejected (network_error ''down'')" usage_example "\<lambda>_. network_error ''down''", OF _ _ refl]
  by (simp add: usage_example_def browser.extend_def)

end
