(* ===== verification/Token_Tables.thy ===== *)
theory Token_Tables
  imports Account Passkey "HOL-Library.Multiset"
begin

text \<open>
  The table of tokens: \<open>hooks/tokens/useTokensData.jsx\<close>, with \<open>helpers/token.js\<close> and \<open>helpers/base64.js\<close>
  (no page of this version mounts the hook). A row handed to a handler is one of the
  rows shown, given by its position: the source changes its member in place. \<open>values\<close> is the value object of the search form,
  undefined while there is none. \<open>origin\<close> is \<open>window.location.origin\<close>; a replacement text with a dollar sign is outside the model.
\<close>

section \<open>Text\<close>

definition utf8 :: "string \<Rightarrow> string" where
  "utf8 s = concat (List.map (\<lambda>ch. let n = (of_char ch :: nat) in
     if n < 128 then [ch] else [char_of (192 + n div 64), char_of (128 + n mod 64)]) s)"

definition encodeToBase64 :: "jv \<Rightarrow> string" where
  "encodeToBase64 v = btoa (utf8 (if nullish v then [] else to_str v))"

definition component_kept :: "char \<Rightarrow> bool" where
  "component_kept ch = (ch \<in> set ''ABCDEFGHIJKLMNOPQRSTUVWXYZabcdefghijklmnopqrstuvwxyz0123456789-_.!~*()'' \<or> ch = CHR 0x27)"

definition hex_byte :: "char \<Rightarrow> string" where
  "hex_byte ch = (let n = (of_char ch :: nat); hex = (\<lambda>d. ''0123456789ABCDEF'' ! d) in [CHR ''%'', hex (n div 16), hex (n mod 16)])"

definition encodeURIComponent :: "string \<Rightarrow> string" where
  "encodeURIComponent s = concat (List.map (\<lambda>ch. if component_kept ch then [ch] else hex_byte ch) (utf8 s))"

function replace_all :: "string \<Rightarrow> string \<Rightarrow> string \<Rightarrow> string" where
  "replace_all pat rep s = (if pat = [] then s else case index_of pat s of
       None \<Rightarrow> s | Some i \<Rightarrow> take i s @ rep @ replace_all pat rep (drop (i + length pat) s))"
  by pat_completeness auto
termination
proof (relation "measure (\<lambda>(pat, rep, s). length s)")
  fix pat rep s :: string and i
  assume "pat \<noteq> []" "index_of pat s = Some i"
  moreover from this(2) have "i + length pat \<le> length s" by (rule index_of_bound)
  ultimately show "((pat, rep, drop (i + length pat) s), (pat, rep, s)) \<in> measure (\<lambda>(pat, rep, s). length s)"
    by (cases pat) simp_all
qed simp

declare replace_all.simps [simp del]

section \<open>helpers/token.js\<close>

definition active_key :: "jv \<Rightarrow> ('s, jv list) act" where
  "active_key token = bnd (prop_get token ''status'') (\<lambda>st. ret (if st = JNum 1 then [opt_get token ''key''] else []))"

definition fetchTokenKeys :: "env \<Rightarrow> ('x browser_scheme, jv list) act" where
  "fetchTokenKeys env = try_catch
     (bnd (api_get env ''/api/token/?p=1&size=10'' JUndef) (\<lambda>body. bnd (prop_get body ''success'') (\<lambda>success.
        if \<not> truthy success then throw (mk_error ''Error'' ''Failed to fetch token keys'')
        else (let data = opt_get body ''data'' in
          bnd (if is_array data then ret data else bnd (prop_get data ''items'') (\<lambda>items. ret (jor items (JArr [])))) (\<lambda>tokenItems.
          case tokenItems of JArr ts \<Rightarrow> bnd (map_each active_key ts) (\<lambda>kss. ret (concat kss)) | _ \<Rightarrow> throw type_error)))))
     (\<lambda>_. ret [])"

definition getServerAddress :: "string \<Rightarrow> 'x browser_scheme \<Rightarrow> jv" where
  "getServerAddress origin s =
     (let status = get_item s ''status'';
          stored = (if truthy status then (case json_parse (to_str status) of
              Some v \<Rightarrow> if nullish v then JStr [] else jor (opt_get v ''server_address'') (JStr []) | None \<Rightarrow> JStr [])
            else JStr []) in
      if truthy stored then stored else JStr origin)"

section \<open>useTokensData.jsx\<close>

record token_page = browser +
  tokens :: "jv list"
  loading :: bool
  activePage :: jv
  tokenCount :: jv
  pageSize :: jv
  searching :: bool
  selectedKeys :: "jv list"
  showEdit :: bool
  editingToken :: jv
  showKeys :: jv
  form_values :: jv

type_synonym 'a token_act = "(token_page, 'a) act"

definition tokens_getFormValues :: "token_page \<Rightarrow> jv \<times> jv" where
  "tokens_getFormValues s = (jor (opt_get (form_values s) ''searchKeyword'') (JStr []), jor (opt_get (form_values s) ''searchToken'') (JStr []))"

definition tokens_closeEdit :: "unit token_act" where
  "tokens_closeEdit = sq (modify (\<lambda>s. s\<lparr>showEdit := False\<rparr>)) (emit (Timer 500 ''forget_edited_token''))"

definition tokens_close_timer :: "token_page \<Rightarrow> token_page" where
  "tokens_close_timer s = s\<lparr>editingToken := JObj [(''id'', JUndef)]\<rparr>"

text \<open>\<open>rendered\<close> is the page size of the render.\<close>

definition tokens_syncPageData :: "jv \<Rightarrow> jv \<Rightarrow> unit token_act" where
  "tokens_syncPageData rendered payload = bnd (prop_get payload ''items'') (\<lambda>items. case jor items (JArr []) of
       JArr rows \<Rightarrow> modify (\<lambda>s. s\<lparr>tokens := rows, tokenCount := jor (opt_get payload ''total'') (JNum 0),
         activePage := jor (opt_get payload ''page'') (JNum 1), pageSize := jor (opt_get payload ''page_size'') rendered\<rparr>)
     | _ \<Rightarrow> throw type_error)"

definition tokens_url :: "jv \<Rightarrow> jv \<Rightarrow> string" where
  "tokens_url page psize = ''/api/token/?p='' @ to_str page @ ''&size='' @ to_str psize"

definition loadTokens :: "env \<Rightarrow> jv \<Rightarrow> jv \<Rightarrow> unit token_act" where
  "loadTokens env page psize = bnd (gets pageSize) (\<lambda>rendered.
     sq (modify (\<lambda>s. s\<lparr>loading := True\<rparr>))
    (sq (bnd (bnd (api_get env (tokens_url page psize) JUndef) destruct) (\<lambda>(success, message, data).
           if truthy success then tokens_syncPageData rendered data else showError message))
        (modify (\<lambda>s. s\<lparr>loading := False\<rparr>))))"

definition tokens_refresh :: "env \<Rightarrow> jv option \<Rightarrow> unit token_act" where
  "tokens_refresh env page = bnd (gets (\<lambda>s. (activePage s, pageSize s))) (\<lambda>(active, psize).
     sq (loadTokens env (case page of Some p \<Rightarrow> p | None \<Rightarrow> active) psize) (modify (\<lambda>s. s\<lparr>selectedKeys := []\<rparr>)))"

definition tokens_copyText :: "env \<Rightarrow> string \<Rightarrow> ('x browser_scheme, unit) act" where
  "tokens_copyText env txt = bnd (copy env (JStr txt)) (\<lambda>ok.
     if ok then showSuccess (JStr ''copied to the clipboard!'')
     else emit (Dialog ''could not copy to the clipboard, please copy by hand'' txt))"

text \<open>The notification for fluent is the function the hook is given; here it is the dialogue it opens.\<close>

definition server_in_status :: "string \<Rightarrow> ('x browser_scheme, jv) act" where
  "server_in_status origin = bnd (gets (\<lambda>s. get_item s ''status'')) (\<lambda>status.
     bnd (if truthy status then bnd (parse_json status) (\<lambda>v. prop_get v ''server_address'') else ret (JStr [])) (\<lambda>a.
       ret (if a = JStr [] then JStr origin else a)))"

definition cherry_config :: "jv \<Rightarrow> string \<Rightarrow> jv" where
  "cherry_config serverAddress key = JObj [(''id'', JStr ''new-api''), (''baseUrl'', serverAddress), (''apiKey'', JStr (''sk-'' @ key))]"

definition link_target :: "jv \<Rightarrow> string \<Rightarrow> string \<Rightarrow> string" where
  "link_target serverAddress key url =
     (if str_includes url ''{cherryConfig}''
      then replace_all ''{cherryConfig}'' (encodeURIComponent (encodeToBase64 (json_stringify (cherry_config serverAddress key)))) url
      else replace_all ''{key}'' (''sk-'' @ key) (replace_all ''{address}'' (encodeURIComponent (to_str serverAddress)) url))"

definition onOpenLink :: "string \<Rightarrow> jv \<Rightarrow> jv \<Rightarrow> ('x browser_scheme, unit) act" where
  "onOpenLink origin url record =
     (let key = to_str (opt_get record ''key'') in
      if truthy url \<and> starts_with ''fluent'' (to_str url) then emit (Dialog ''fluent'' key)
      else bnd (server_in_status origin) (\<lambda>serverAddress.
        if nullish url then throw type_error else emit (Opened (link_target serverAddress key (to_str url)))))"

definition manage_request :: "jv \<Rightarrow> string \<Rightarrow> request option" where
  "manage_request i action =
     (if action = ''delete'' then Some (Http DELETE (''/api/token/'' @ to_str i @ ''/'') JUndef)
      else if action = ''enable'' then Some (Http PUT ''/api/token/?status_only=true'' (JObj [(''id'', i), (''status'', JNum 1)]))
      else if action = ''disable'' then Some (Http PUT ''/api/token/?status_only=true'' (JObj [(''id'', i), (''status'', JNum 2)]))
      else None)"

definition manageToken :: "env \<Rightarrow> jv \<Rightarrow> string \<Rightarrow> nat \<Rightarrow> unit token_act" where
  "manageToken env i action row = bnd (gets tokens) (\<lambda>rows.
     sq (modify (\<lambda>s. s\<lparr>loading := True\<rparr>))
    (sq (case manage_request i action of None \<Rightarrow> throw type_error
         | Some r \<Rightarrow> bnd (bnd (api_call env False r) destruct) (\<lambda>(success, message, token).
             if truthy success then sq (showSuccess (JStr ''operation completed''))
                (if action = ''delete'' then modify (\<lambda>s. s\<lparr>tokens := rows\<rparr>)
                 else bnd (prop_get token ''status'') (\<lambda>st. modify (\<lambda>s. s\<lparr>tokens := rows[row := obj_set (rows ! row) ''status'' st]\<rparr>)))
             else showError message))
        (modify (\<lambda>s. s\<lparr>loading := False\<rparr>))))"

definition searchTokens :: "env \<Rightarrow> unit token_act" where
  "searchTokens env = bnd (gets (\<lambda>s. (tokens_getFormValues s, pageSize s))) (\<lambda>((keyword, token), psize).
     if keyword = JStr [] \<and> token = JStr [] then loadTokens env (JNum 1) psize
     else sq (modify (\<lambda>s. s\<lparr>searching := True\<rparr>))
       (sq (bnd (bnd (api_get env (''/api/token/search?keyword='' @ to_str keyword @ ''&token='' @ to_str token) JUndef) destruct) (\<lambda>(success, message, data).
              if truthy success
              then (case data of
                  JArr rows \<Rightarrow> modify (\<lambda>s. s\<lparr>tokens := rows, tokenCount := JNum (of_nat (length rows)), activePage := JNum 1\<rparr>)
                | _ \<Rightarrow> throw type_error)
              else showError message))
           (modify (\<lambda>s. s\<lparr>searching := False\<rparr>))))"

text \<open>The stable sort of \<open>Array.prototype.sort\<close> for a comparison; \<open>collate\<close> is \<open>localeCompare\<close>.\<close>

fun insert_by :: "('a \<Rightarrow> 'a \<Rightarrow> int) \<Rightarrow> 'a \<Rightarrow> 'a list \<Rightarrow> 'a list" where
  "insert_by cmp x [] = [x]"
| "insert_by cmp x (y # ys) = (if cmp x y \<le> 0 then x # y # ys else y # insert_by cmp x ys)"

definition stable_sort :: "('a \<Rightarrow> 'a \<Rightarrow> int) \<Rightarrow> 'a list \<Rightarrow> 'a list" where
  "stable_sort cmp xs = foldr (insert_by cmp) xs []"

definition by_field :: "(string \<Rightarrow> string \<Rightarrow> int) \<Rightarrow> string \<Rightarrow> jv \<Rightarrow> jv \<Rightarrow> int" where
  "by_field collate k a b = collate (to_str (opt_get a k)) (to_str (opt_get b k))"

definition sortToken :: "(string \<Rightarrow> string \<Rightarrow> int) \<Rightarrow> string \<Rightarrow> unit token_act" where
  "sortToken collate k = bnd (gets tokens) (\<lambda>rows. act_when (rows \<noteq> [])
     (sq (modify (\<lambda>s. s\<lparr>loading := True\<rparr>))
         (if list_ex nullish rows then throw type_error
          else (let sorted = stable_sort (by_field collate k) rows in
            modify (\<lambda>s. s\<lparr>tokens := (if strict_eq (opt_get (hd sorted) ''id'') (opt_get (hd rows) ''id'') then rev sorted else sorted),
              loading := False\<rparr>)))))"

definition tokens_handlePageChange :: "env \<Rightarrow> jv \<Rightarrow> unit token_act" where
  "tokens_handlePageChange env page = bnd (gets pageSize) (\<lambda>psize. detach (loadTokens env page psize))"

definition tokens_mount_effect :: "env \<Rightarrow> unit token_act" where
  "tokens_mount_effect env = bnd (gets pageSize) (\<lambda>psize. detach (try_catch (loadTokens env (JNum 1) psize) showError))"

definition tokens_handlePageSizeChange :: "env \<Rightarrow> jv \<Rightarrow> unit token_act" where
  "tokens_handlePageSizeChange env psize = sq (modify (\<lambda>s. s\<lparr>pageSize := psize\<rparr>)) (loadTokens env (JNum 1) psize)"

definition tokens_handleRow :: "jv \<Rightarrow> bool" where
  "tokens_handleRow record = (opt_get record ''status'' \<noteq> JNum 1)"

definition tokens_select :: "jv list \<Rightarrow> token_page \<Rightarrow> token_page" where
  "tokens_select selectedRows s = s\<lparr>selectedKeys := selectedRows\<rparr>"

text \<open>The timer after a deletion sees the rows and the page of the render in which the deletion started.\<close>

definition after_batch_delete :: "env \<Rightarrow> jv list \<Rightarrow> jv \<Rightarrow> unit token_act" where
  "after_batch_delete env rendered page =
     act_when (rendered = [] \<and> num_gt page 1) (detach (tokens_refresh env (Some (case to_num page of Some p \<Rightarrow> JNum (p - 1) | None \<Rightarrow> JNaN))))"

definition batchDeleteTokens :: "env \<Rightarrow> unit token_act" where
  "batchDeleteTokens env = bnd (gets selectedKeys) (\<lambda>sel.
     if sel = [] then showErr ''please select the tokens to delete first!''
     else sq (modify (\<lambda>s. s\<lparr>loading := True\<rparr>))
       (try_finally
         (try_catch
           (bnd (api_post env ''/api/token/batch'' (JObj [(''ids'', JArr (List.map (\<lambda>t. opt_get t ''id'') sel))])) (\<lambda>body.
              if truthy (opt_get body ''success'')
              then sq (showSuccess (JStr (''deleted '' @ to_str (jor (opt_get body ''data'') (JNum 0)) @ '' tokens!'')))
                  (sq (tokens_refresh env None) (emit (Timer 100 ''after_batch_delete'')))
              else showError (jor (opt_get body ''message'') (JStr ''deleting failed''))))
           (\<lambda>error. showError (opt_get error ''message'')))
         (modify (\<lambda>s. s\<lparr>loading := False\<rparr>))))"

definition newline :: string where
  "newline = [CHR 0x0A]"

text \<open>The dialogue with two buttons, which copy what was selected when it opened.\<close>

definition batchCopyTokens :: "unit token_act" where
  "batchCopyTokens = bnd (gets selectedKeys) (\<lambda>sel.
     if sel = [] then showErr ''please select at least one token!'' else emit (Dialog ''copy tokens'' ''please choose how to copy''))"

definition copied_lines :: "bool \<Rightarrow> jv list \<Rightarrow> string" where
  "copied_lines with_name sel = concat (List.map (\<lambda>t.
     (if with_name then to_str (opt_get t ''name'') @ ''    '' else []) @ ''sk-'' @ to_str (opt_get t ''key'') @ newline) sel)"

definition copy_button :: "env \<Rightarrow> bool \<Rightarrow> jv list \<Rightarrow> ('x browser_scheme, unit) act" where
  "copy_button env with_name sel = tokens_copyText env (copied_lines with_name sel)"

section \<open>Sorting: lemmas\<close>

text \<open>What is used of a comparison: it is total and transitive.\<close>

definition ordering_by :: "('a \<Rightarrow> 'a \<Rightarrow> int) \<Rightarrow> bool" where
  "ordering_by cmp = ((\<forall>a b. cmp a b \<le> 0 \<or> cmp b a \<le> 0) \<and> (\<forall>a b c. cmp a b \<le> 0 \<longrightarrow> cmp b c \<le> 0 \<longrightarrow> cmp a c \<le> 0))"

abbreviation in_order :: "('a \<Rightarrow> 'a \<Rightarrow> int) \<Rightarrow> 'a list \<Rightarrow> bool" where
  "in_order cmp \<equiv> sorted_wrt (\<lambda>a b. cmp a b \<le> 0)"

lemma mset_insert_by [simp]: "mset (insert_by cmp x xs) = add_mset x (mset xs)"
  by (induction xs) auto

lemma mset_stable_sort [simp]: "mset (stable_sort cmp xs) = mset xs"
  by (induction xs) (simp_all add: stable_sort_def)

lemma set_insert_by [simp]: "set (insert_by cmp x xs) = insert x (set xs)"
  by (induction xs) auto

lemma in_order_insert:
  assumes "ordering_by cmp"
  shows "in_order cmp xs \<Longrightarrow> in_order cmp (insert_by cmp x xs)"
proof (induction xs)
  case (Cons y ys)
  have total: "cmp y x \<le> 0" if "\<not> cmp x y \<le> 0" using assms that by (auto simp: ordering_by_def)
  have trans: "cmp x z \<le> 0" if "cmp x y \<le> 0" "cmp y z \<le> 0" for z using assms that unfolding ordering_by_def by blast
  show ?case using Cons total by (auto intro: trans)
qed simp

lemma in_order_sort: "ordering_by cmp \<Longrightarrow> in_order cmp (stable_sort cmp xs)"
  by (induction xs) (simp_all add: stable_sort_def in_order_insert)

lemma sort_sorted: "in_order cmp xs \<Longrightarrow> stable_sort cmp xs = xs"
proof (induction xs)
  case (Cons x xs)
  have "insert_by cmp x xs = x # xs" using Cons.prems by (cases xs) auto
  then show ?case using Cons by (simp add: stable_sort_def)
qed (simp add: stable_sort_def)

lemma ordering_by_field: "ordering_by collate \<Longrightarrow> ordering_by (by_field collate k)"
  unfolding ordering_by_def by_field_def by blast

section \<open>Properties of the token table\<close>

text \<open>C39: Sorting by a column keeps exactly the rows there were and leaves them in the order of the column or in the opposite one; when
  they are in that order already, it turns them round.\<close>

theorem sorting_again_reverses:
  fixes s :: token_page
  assumes "ordering_by collate" and "list_all (\<lambda>r. \<not> nullish r) (tokens s)" and "tokens s \<noteq> [] \<Longrightarrow> strict_eq (opt_get (hd (tokens s)) ''id'') (opt_get (hd (tokens s)) ''id'')"
  shows "\<exists>rows. fst (sortToken collate k s) = Inr () \<and> tokens (snd (sortToken collate k s)) = rows \<and> mset rows = mset (tokens s)
    \<and> (in_order (by_field collate k) rows \<or> in_order (by_field collate k) (rev rows))
    \<and> (in_order (by_field collate k) (tokens s) \<longrightarrow> rows = rev (tokens s))"
proof (cases "tokens s = []")
  case True
  then show ?thesis by (simp add: sortToken_def bnd_def gets_def act_when_def ret_def)
next
  case False
  let ?s = "stable_sort (by_field collate k) (tokens s)"
  have null: "\<not> list_ex nullish (tokens s)" using assms(2) by (auto simp: list_all_iff list_ex_iff)
  have ord: "in_order (by_field collate k) ?s" by (rule in_order_sort[OF ordering_by_field[OF assms(1)]])
  have run: "sortToken collate k s = (Inr (), s\<lparr>loading := False,
      tokens := (if strict_eq (opt_get (hd ?s) ''id'') (opt_get (hd (tokens s)) ''id'') then rev ?s else ?s)\<rparr>)"
    using False null by (simp add: sortToken_def bnd_def gets_def act_when_def sq_def modify_def Let_def)
  have "rev ?s = rev (tokens s) \<and> strict_eq (opt_get (hd ?s) ''id'') (opt_get (hd (tokens s)) ''id'')" if "in_order (by_field collate k) (tokens s)"
    using sort_sorted[OF that] assms(3)[OF False] by simp
  then show ?thesis unfolding run using ord assms(3)[OF False] by (cases "in_order (by_field collate k) (tokens s)") simp_all
qed

lemma batch_timer_never_turns_back: "tokens s \<noteq> [] \<Longrightarrow> after_batch_delete env (tokens s) page = ret ()"
  by (rule ext) (simp add: after_batch_delete_def act_when_def)

text \<open>A status without an address gives a link to \<open>undefined\<close>; \<open>getServerAddress\<close> falls back to the origin.\<close>

lemma address_missing_from_status:
  assumes "get_item s ''status'' = JStr ''{}''"
  shows "server_in_status origin s = (Inr JUndef, s)" and "getServerAddress origin s = JStr origin"
proof -
  have p: "json_parse ''{}'' = Some (JObj [])" by code_simp
  show "server_in_status origin s = (Inr JUndef, s)"
    using assms p by (simp add: server_in_status_def bnd_def gets_def parse_json_def prop_get_def ret_def)
  show "getServerAddress origin s = JStr origin" using assms p by (simp add: getServerAddress_def Let_def jor_def)
qed

section \<open>The link with a configuration\<close>

fun percent_decode :: "string \<Rightarrow> string" where
  "percent_decode (ch # a # b # r) = (case (hex_val a, hex_val b) of
       (Some x, Some y) \<Rightarrow> if ch = CHR ''%'' then char_of (16 * x + y) # percent_decode r else ch # percent_decode (a # b # r)
     | _ \<Rightarrow> ch # percent_decode (a # b # r))"
| "percent_decode (ch # r) = ch # percent_decode r"
| "percent_decode [] = []"

lemma decode_kept: "ch \<noteq> CHR ''%'' \<Longrightarrow> percent_decode (ch # r) = ch # percent_decode r"
proof (cases r)
  case (Cons a q)
  then show "ch \<noteq> CHR ''%'' \<Longrightarrow> percent_decode (ch # r) = ch # percent_decode r" by (cases q) (auto split: option.split)
qed simp

lemma hex_values: "n < 16 \<Longrightarrow> hex_val (''0123456789ABCDEF'' ! n) = Some n"
proof -
  have "\<forall>n \<in> set [0..<16]. hex_val (''0123456789ABCDEF'' ! n) = Some n" by code_simp
  then show "n < 16 \<Longrightarrow> hex_val (''0123456789ABCDEF'' ! n) = Some n" by simp
qed

lemma decode_hex: "percent_decode (hex_byte ch @ r) = ch # percent_decode r"
proof -
  have "(of_char ch :: nat) < 16 * 16" by simp
  from less_mult_imp_div_less[OF this] show ?thesis by (simp add: hex_byte_def Let_def hex_values)
qed

lemma decode_component: "percent_decode (encodeURIComponent s) = utf8 s"
proof -
  have "percent_decode (concat (List.map (\<lambda>ch. if component_kept ch then [ch] else hex_byte ch) t)) = t" for t
  proof (induction t)
    case (Cons ch t)
    show ?case
    proof (cases "component_kept ch")
      case True
      then have "ch \<noteq> CHR ''%''" by (auto simp: component_kept_def)
      then show ?thesis using True Cons by (simp add: decode_kept)
    next
      case False
      then show ?thesis using Cons by (simp add: decode_hex)
    qed
  qed simp
  then show ?thesis by (simp add: encodeURIComponent_def)
qed

lemma atob_btoa: "atob (btoa s) = Some s"
proof -
  let ?b = "List.map of_char s :: nat list"
  let ?x = "List.map b64_char (to_sextets ?b)"
  have bytes: "\<forall>a \<in> set ?b. a < 256" by simp
  have six: "\<forall>x \<in> set (to_sextets ?b). x < 64" by (rule to_sextets_bound[OF bytes])
  then have "list_all std_char ?x" by (auto simp: list_all_iff std_char_b64)
  moreover have "length ?x mod 4 \<noteq> 1" using to_sextets_length by simp
  ultimately have "atob (btoa s) = Some (List.map char_of (from_sextets (List.map (\<lambda>c. the (b64_val c)) ?x)))"
    using atob_std[of ?x] by (simp add: btoa_def)
  moreover have "List.map (\<lambda>c. the (b64_val c)) ?x = to_sextets ?b" using six by (simp add: map_idI b64_val_char)
  ultimately show ?thesis using from_to_sextets[OF bytes] by (simp add: comp_def)
qed

lemma utf8_ascii: "list_all (\<lambda>ch. (of_char ch :: nat) < 128) s \<Longrightarrow> utf8 s = s"
  by (induction s) (auto simp: utf8_def)

lemma b64_ascii: "n < 64 \<Longrightarrow> (of_char (b64_char n) :: nat) < 128"
  by (auto simp: b64_char_def)

lemma ascii_btoa: "list_all (\<lambda>ch. (of_char ch :: nat) < 128) (btoa s)"
proof -
  have six: "\<forall>x \<in> set (to_sextets (List.map of_char s)). x < 64" by (rule to_sextets_bound) simp
  have eq: "(of_char CHR ''='' :: nat) < 128" by simp
  show ?thesis unfolding btoa_def Let_def list_all_iff set_append ball_Un set_map ball_simps(9) set_replicate_conv_if
    using six b64_ascii eq by (cases "(4 - length (List.map b64_char (to_sextets (List.map of_char s))) mod 4) mod 4 = 0") auto
qed

text \<open>C40: The link that hands a token to the chat client carries, in place of the mark, a text from which the client gets the
  configuration back by undoing percent-encoding, base64 and UTF-8: the server's address and the key with its prefix.\<close>

theorem chat_link_carries_config:
  assumes "index_of ''{cherryConfig}'' url = Some i" and "index_of ''{cherryConfig}'' (drop (i + 14) url) = None"
    and "text = js_text (cherry_config (JStr address) key)"
  shows "\<exists>enc. link_target (JStr address) key url = take i url @ enc @ drop (i + 14) url
    \<and> atob (percent_decode enc) = Some (utf8 text) \<and> json_parse text = Some (cherry_config (JStr address) key)"
proof -
  let ?enc = "encodeURIComponent (encodeToBase64 (json_stringify (cherry_config (JStr address) key)))"
  have b: "encodeToBase64 (json_stringify (cherry_config (JStr address) key)) = btoa (utf8 text)"
    using assms(3) by (simp add: encodeToBase64_def json_stringify_def cherry_config_def del: js_text.simps)
  have len: "length ''{cherryConfig}'' = 14" by simp
  have "replace_all ''{cherryConfig}'' r (drop (i + 14) url) = drop (i + 14) url" for r
    using assms(2) by (simp add: replace_all.simps[of _ _ "drop (i + 14) url"])
  then have "link_target (JStr address) key url = take i url @ ?enc @ drop (i + 14) url"
    using assms(1) len by (simp only: link_target_def str_includes_def replace_all.simps[of _ _ url] option.simps list.simps if_True if_False simp_thms)
  moreover have "atob (percent_decode ?enc) = Some (utf8 text)"
    unfolding b decode_component utf8_ascii[OF ascii_btoa] by (rule atob_btoa)
  moreover have "json_parse text = Some (cherry_config (JStr address) key)"
    unfolding assms(3) by (rule json_roundtrip) (simp add: cherry_config_def)
  ultimately show ?thesis by blast
qed

section \<open>Applications\<close>

definition token_row :: "jv \<Rightarrow> string \<Rightarrow> jv" where
  "token_row i n = JObj [(''id'', i), (''name'', JStr n)]"

definition tokens_example :: token_page where
  "tokens_example = browser.extend blank_browser \<lparr>tokens = [token_row (JNum 7) ''a'', token_row (JNum 8) ''bc''], loading = False,
     activePage = JNum 1, tokenCount = JNum 2, pageSize = JNum 10, searching = False, selectedKeys = [], showEdit = False,
     editingToken = JNull, showKeys = JNull, form_values = JObj []\<rparr>"

definition by_length :: "string \<Rightarrow> string \<Rightarrow> int" where
  "by_length a b = int (length a) - int (length b)"

theorem sorting_again_reverses_witness:
  "tokens (snd (sortToken by_length ''name'' tokens_example)) = [token_row (JNum 8) ''bc'', token_row (JNum 7) ''a'']"
proof -
  have o: "ordering_by by_length" by (simp add: ordering_by_def by_length_def) linarith
  have n: "list_all (\<lambda>r. \<not> nullish r) (tokens tokens_example)"
    by (simp add: tokens_example_def browser.extend_def token_row_def)
  have e: "strict_eq (opt_get (hd (tokens tokens_example)) ''id'') (opt_get (hd (tokens tokens_example)) ''id'')"
    by (simp add: tokens_example_def browser.extend_def token_row_def opt_get_def strict_eq.simps)
  have i: "in_order (by_field by_length ''name'') (tokens tokens_example)"
    by (simp add: tokens_example_def browser.extend_def token_row_def by_field_def by_length_def opt_get_def)
  have r: "rev (tokens tokens_example) = [token_row (JNum 8) ''bc'', token_row (JNum 7) ''a'']"
    by (simp add: tokens_example_def browser.extend_def)
  show ?thesis using sorting_again_reverses[OF o n e, of "''name''"] i r by auto
qed

theorem chat_link_carries_config_witness:
  "\<exists>enc. link_target (JStr ''h'') ''k'' ''x?c={cherryConfig}'' = ''x?c='' @ enc
    \<and> atob (percent_decode enc) = Some (utf8 (js_text (cherry_config (JStr ''h'') ''k'')))"
proof -
  have i: "index_of ''{cherryConfig}'' ''x?c={cherryConfig}'' = Some 4" by code_simp
  have d: "index_of ''{cherryConfig}'' (drop (4 + 14) ''x?c={cherryConfig}'') = None" by code_simp
  show ?thesis using chat_link_carries_config[OF i d refl, of "''h''" "''k''"] by auto
qed

end
