(* ===== verification/Spec2Isabelle.thy ===== *)
theory Spec2Isabelle
  imports Session Api Passkey Secure_Verify Login Account Sidebar Header Messages Chat Users Format
    Json_Pretty Options System_Settings Content_Lists Module_Forms
    Other_Settings Two_Factor Setup_Wizard Personal Chats_Form Payment_Forms
    Render Price_Display Word_Spans Dashboard_Data
    Unset_Prices Ratio_Sync Usage_Logs Token_Tables
begin

text \<open>
  Verification development for the web client of Auth Gateway (\<open>src/web/src\<close>), a React application that signs
  users in against the gateway's backend and gives administrators a console.

  How the program is put together. \<open>helpers/\<close> holds what every part calls: the axios instance and the OAuth
  starters (\<open>api.js\<close>), the stored user and the toasts (\<open>utils.jsx\<close>, \<open>data.js\<close>), the route guards
  (\<open>auth.jsx\<close>), WebAuthn (\<open>passkey.js\<close>). \<open>App.jsx\<close> maps paths to pages through the guards; pages
  are forms (\<open>components/auth\<close>) and tables whose logic lives in \<open>hooks/\<close>. The parts share state only through
  \<open>localStorage\<close>, the user and status contexts, the module-level axios instance and two events (sidebar
  refresh, browser storage).

  How it is modelled. Code that changes state or can throw is a function in the type \<open>act\<close> of theory
  Client: it takes a state and returns the value, or the thrown value, with the new state. The state is a record that
  extends \<open>browser\<close> (storage, API instance, the two contexts, the trace of requests, toasts and navigation) by the
  \<open>useState\<close> fields of the component, under the source's names. JavaScript values are the type \<open>jv\<close> of
  Js_Base. The backend, the authenticator and the clipboard are the parameter \<open>env\<close>, a function of the
  whole trace, so a theorem about all \<open>env\<close> holds for every backend and every order of its answers. \<open>await\<close>
  is sequencing; promises that are not awaited run after the handler (\<open>detach\<close>), timers are effects of the trace
  and separate operations. The \<open>t\<close> of i18n is the identity, and the Chinese keys are written in English.

  Theories, in the order of their imports:
  \<^item> Js_Base: values, strings, members of objects; the interfaces \<open>codec\<close> and \<open>keyed_store\<close>.
  \<^item> Json: \<open>JSON.stringify\<close> and \<open>JSON.parse\<close> with their round trip (an instance of \<open>codec\<close>). The parser's
    fuel is the length of the text plus one, which the round trip shows to be enough.
  \<^item> Client: \<open>act\<close>, errors, storage, toasts, reducers, API calls; the interface \<open>state_rel\<close> (properties that every
    step keeps), interpreted for what a run appends to the trace and for the fields it leaves alone.
  \<^item> Session: guards, route table, start-up, logout. Api: de-duplication of GETs as a step relation with its
    invariant, OAuth starters. Passkey: base64url, WebAuthn options and results.
  \<^item> Secure_Verify: \<open>services/secureVerification.js\<close>, \<open>useSecureVerification.jsx\<close>. Login: the sign-in forms and the
    OAuth callback. Account: registration and password reset with the resend countdown.
  \<^item> Sidebar: \<open>useSidebar.js\<close>, \<open>useUserPermissions.js\<close>, \<open>SiderBar.jsx\<close>. Header: navigation, notices, compact tables
    and the other small persistent settings. Format: dates, prices and the other formatting helpers. Users: the user table, whose two loaders meet the contract \<open>page_loader\<close>.
  \<^item> Messages and Chat: the chat message helpers and the playground hooks (no page mounts these in this version).
  \<^item> Options: the pages that load the backend's options and the forms that post the changed ones. System_Settings:
    \<open>SystemSetting.jsx\<close>. Content_Lists: the four lists of the dashboard, which share the contract \<open>list_dialogue\<close>.
    Module_Forms: the switches of header and sidebar, joined with what Header and Sidebar make of them.
    Other_Settings: \<open>OtherSetting.jsx\<close>.
  \<^item> Two_Factor: \<open>TwoFASetting.jsx\<close>, whose handlers are split at their \<open>await\<close> so that answers interleave with the user.
    Setup_Wizard: the first start as a state machine. Personal: \<open>PersonalSetting.jsx\<close>.
  \<^item> Chats_Form: \<open>SettingsChats.jsx\<close> with its two editors. Payment_Forms: \<open>PaymentSetting.jsx\<close> and its four forms.
  \<^item> Render, Price_Display and Word_Spans: \<open>helpers/render.jsx\<close> - colours, texts, quotas and currencies; the price
    explanations; streamed words. A number of the source that can be infinite or NaN is the type \<open>js_num\<close>.
  \<^item> Dashboard_Data: \<open>helpers/dashboard.jsx\<close> and the hooks of \<open>hooks/dashboard\<close>; a \<open>Map\<close> of the source is an association list
    in the order of insertion.
  \<^item> Json_Pretty: \<open>JSON.stringify(v, null, 2)\<close> with its round trip, a second instance of \<open>codec\<close>.
  \<^item> Ratio_Forms: the containers and forms of the ratio, model and rate limit settings. Ratio_Editors, Unset_Prices and
    Ratio_Sync: the three editors of model prices (\<open>pages/Setting/Ratio\<close>). No page of this version mounts them.
  \<^item> Columns: the column preferences that the log tables share, as the contract \<open>column_table\<close>. Log_Tables: the drawing and task
    logs. Usage_Logs: the usage logs, whose details use Price_Display. Token_Tables: \<open>useTokensData.jsx\<close> with \<open>helpers/token.js\<close>
    and \<open>helpers/base64.js\<close>. No page of this version mounts these hooks.
  \<^item> This theory: properties that span components.

  What is shown. Safety of signing in (no request without consent, no protected call without verification, at most
  one window with a state the backend issued, the second factor cannot be skipped nor disabled by accident), what each handler leaves behind on
  success and on failure, the invariant of the request table, round trips of base64url and of the stored settings, the
  exact visibility of console modules, that no stored secret is blanked by a save, the refinement of the announcement
  dialogues to a map, the agreement of the two table loaders, the assembly of streamed messages, the equality of the
  one-pass aggregations with the grouping they stand for, that the price explanations add up, that prices and ratios of a model
  are never written together and that edits leave other models alone, and
  bounds on retries and on the countdown. Some theorems state faults of the code as it is: they are listed as findings.

  Bounds. \<open>visit\<close> follows redirects with fuel; three steps always suffice (\<open>visit_settles\<close> of Session). Recursions of the source
  (retries, tag scanning) terminate by a measure. Numbers are exact rationals; see Js_Base for what that leaves out.

  Not modelled: rendering, styling and the third-party UI components; the DOM effects of the header; the debug panel and
  the event-stream connection of the playground; the hooks of the redemption, channel, model and pricing tables, which no page
  of this version mounts; the desktop shell, which is window handling around the server's process.
\<close>

section \<open>Properties across components\<close>

lemma default_visible:
  "truthy user \<Longrightarrow> m \<noteq> [] \<Longrightarrow> m \<noteq> ''enabled'' \<Longrightarrow>
   isModuleVisible (finalConfig defaultAdminConfig user) sec m \<Longrightarrow>
   (sec, m) \<in> {(''console'', ''detail''), (''personal'', ''personal''), (''admin'', ''user''), (''admin'', ''setting'')}"
  by (auto simp: visible_lemma admin_allows_def defaultAdminConfig_def split: if_splits)

text \<open>Where the menu leads: the links of the items that the default configuration can show.\<close>

lemma menu_links_in:
  "(i, path) \<in> set (menu_links items) \<Longrightarrow> i \<in> set items \<and> path = map_of routerMap (item.itemKey i)"
  by (auto simp: menu_links_def List.map_filter_def renderNavItem_def renderWrapper_def split: if_splits)

lemma workspace_visible:
  "truthy user \<Longrightarrow> i \<in> set (workspaceItems s (finalConfig defaultAdminConfig user)) \<Longrightarrow> item.itemKey i = ''detail''"
  unfolding workspaceItems_def set_filter mem_Collect_eq
  using default_visible[of user "item.itemKey i" "''console''"] by auto

lemma finance_visible:
  "truthy user \<Longrightarrow> i \<in> set (financeItems (finalConfig defaultAdminConfig user)) \<Longrightarrow> item.itemKey i = ''personal''"
  unfolding financeItems_def set_filter mem_Collect_eq
  using default_visible[of user "item.itemKey i" "''personal''"] by auto

lemma admin_visible:
  assumes "adminItems (finalConfig defaultAdminConfig user) s = (Inr adm, t)" and "truthy user" and "i \<in> set adm"
  shows "item.itemKey i \<in> {''user'', ''setting''}"
proof -
  have "isModuleVisible (finalConfig defaultAdminConfig user) ''admin'' (item.itemKey i)
      \<and> item.itemKey i \<noteq> [] \<and> item.itemKey i \<noteq> ''enabled''"
    using assms(1,3) unfolding adminItems_def bnd_def ret_def
    by (auto simp del: filter.simps split: prod.splits sum.splits)
  then show ?thesis using default_visible[OF assms(2), of "item.itemKey i" "''admin''"] by auto
qed

lemma adminItems_run:
  assumes "json_ok u" and "store s ''user'' = Some (js_text u)" and "\<not> nullish u"
  shows "\<exists>adm. adminItems final s = (Inr adm, s)"
  by (simp add: adminItems_def bnd_def isAdmin_stored[OF assms] isRoot_stored[OF assms] ret_def)

text \<open>C19: With the configuration the client ships, the menu of a signed-in user has no dead link: every item shown
  leads to a page the guards let that user see, whatever the user's own sidebar settings are.\<close>

theorem menu_links_reach_pages:
  assumes "json_ok u" and "store s ''user'' = Some (js_text u)" and "opt_get u ''role'' = JNum r" and "truthy user"
  shows "\<exists>links. SiderBar (finalConfig defaultAdminConfig user) s = (Inr links, s)
    \<and> (\<forall>(i, path) \<in> set links. \<exists>to p. path = Some to \<and> App to s = Page p \<and> p \<notin> {NotFound, Forbidden})"
proof -
  let ?f = "finalConfig defaultAdminConfig user"
  have u: "\<not> nullish u" "truthy u" using assms(3) by (cases u; simp)+
  obtain adm where adm: "adminItems ?f s = (Inr adm, s)" using adminItems_run[OF assms(1,2) u(1)] by blast
  have run: "\<exists>links. SiderBar ?f s = (Inr links, s) \<and> set links \<subseteq>
      set (menu_links (workspaceItems s ?f)) \<union> set (menu_links (financeItems ?f)) \<union> (if 10 \<le> r then set (menu_links adm) else {})"
    using assms(3) by (auto simp: SiderBar_def bnd_def adm isAdmin_stored[OF assms(1,2) u(1)] gets_def ret_def)
  then obtain links where links: "SiderBar ?f s = (Inr links, s)"
    "\<And>x. x \<in> set links \<Longrightarrow> x \<in> set (menu_links (workspaceItems s ?f)) \<or> x \<in> set (menu_links (financeItems ?f))
       \<or> (10 \<le> r \<and> x \<in> set (menu_links adm))" by (auto split: if_splits)
  have signed: "truthy (get_item s ''user'')" using stored_parse[OF assms(1,2)] by blast
  have priv: "App ''/console'' s = Page Dashboard" "App ''/console/personal'' s = Page PersonalSetting"
    using signed by (simp_all add: App_def route_of_def routes_def guard_result_def PrivateRoute_def)
  have adm_pages: "App ''/console/user'' s = Page User" "App ''/console/setting'' s = Page Setting" if "10 \<le> r"
    using that u(2) assms(3) AdminRoute_stored[OF assms(1,2)]
    by (simp_all add: App_def route_of_def routes_def guard_result_def)
  have ok: "\<exists>to p. path = Some to \<and> App to s = Page p \<and> p \<notin> {NotFound, Forbidden}" if x: "(i, path) \<in> set links" for i path
    using links(2)[OF x]
  proof (elim disjE conjE)
    assume "(i, path) \<in> set (menu_links (workspaceItems s ?f))"
    then have "path = Some ''/console''"
      using menu_links_in workspace_visible[OF assms(4)] by (fastforce simp: routerMap_def)
    then show ?thesis using priv by simp
  next
    assume "(i, path) \<in> set (menu_links (financeItems ?f))"
    then have "path = Some ''/console/personal''"
      using menu_links_in finance_visible[OF assms(4)] by (fastforce simp: routerMap_def)
    then show ?thesis using priv by simp
  next
    assume r: "10 \<le> r" and "(i, path) \<in> set (menu_links adm)"
    then have "path \<in> {Some ''/console/user'', Some ''/console/setting''}"
      using menu_links_in admin_visible[OF adm assms(4)] by (fastforce simp: routerMap_def)
    then show ?thesis using adm_pages[OF r] by auto
  qed
  show ?thesis by (rule exI[of _ links]) (use links(1) ok in auto)
qed

text \<open>A module that an administrator can still switch on leads nowhere: with the token module enabled in the
  sidebar configuration, the menu offers a link for which the route table has no page.\<close>

lemma enabled_token_module_is_dead_link:
  "isModuleVisible (finalConfig (obj_set defaultAdminConfig ''console'' (JObj [(''enabled'', JBool True), (''token'', JBool True)])) (JObj []))
     ''console'' ''token''
   \<and> map_of routerMap ''token'' = Some ''/console/token'' \<and> App ''/console/token'' s = Page NotFound"
  by (simp add: visible_lemma admin_allows_def user_allows_def defaultAdminConfig_def routerMap_def App_def route_of_def
      routes_def guard_result_def)

theorem menu_links_reach_pages_witness:
  "\<exists>links. SiderBar (finalConfig defaultAdminConfig (JObj []))
      (blank_browser\<lparr>store := [''user'' \<mapsto> js_text (JObj [(''role'', JNum 10)])]\<rparr>) = (Inr links,
      blank_browser\<lparr>store := [''user'' \<mapsto> js_text (JObj [(''role'', JNum 10)])]\<rparr>)"
  using menu_links_reach_pages[of "JObj [(''role'', JNum 10)]" "blank_browser\<lparr>store := [''user'' \<mapsto> js_text (JObj [(''role'', JNum 10)])]\<rparr>"
      10 "JObj []"] by (auto simp del: js_text.simps)

end
